(* ===== verification/Chain_Prelude.thy ===== *)
theory Chain_Prelude
  imports Main "HOL-Library.Word"
begin

text \<open>
  Shared vocabulary of the development: the machine integers of the source, byte strings, and the
  computations the C++ code performs.  A C++ member function that may mutate its object and may
  throw is a function from the object's state to an outcome and the state left behind.  The state
  survives an exception, as it does in C++: what was written before the throw stays written.

  The second half is a small logic for such computations.  \<open>spec P R X m\<close> says that from every
  state satisfying \<open>P\<close> the computation \<open>m\<close> relates the state before and after by \<open>R\<close> and throws only
  exceptions satisfying \<open>X\<close>.  The locale \<open>effect\<close> collects what \<open>P\<close>, \<open>R\<close> and \<open>X\<close> must satisfy for
  the syntax-directed rules to hold; the kernel theories extend and interpret it.
\<close>

type_synonym u64 = "64 word"
type_synonym i64 = "64 word"
type_synonym u32 = "32 word"
type_synonym bytes = string

named_theorems monad_eval \<open>equations that run a computation on a given state\<close>
named_theorems spec_intros \<open>introduction rules for the effect logic\<close>

section \<open>Computations with state and exceptions\<close>

type_synonym ('c, 'e, 'a) comp = "'c \<Rightarrow> ('e + 'a) \<times> 'c"

definition returnE :: "'a \<Rightarrow> ('c, 'e, 'a) comp" where
  "returnE a = (\<lambda>c. (Inr a, c))"

definition throwE :: "'e \<Rightarrow> ('c, 'e, 'a) comp" where
  "throwE e = (\<lambda>c. (Inl e, c))"

definition bindE :: "('c, 'e, 'a) comp \<Rightarrow> ('a \<Rightarrow> ('c, 'e, 'b) comp) \<Rightarrow> ('c, 'e, 'b) comp" where
  "bindE m f = (\<lambda>c. case m c of (Inl e, c') \<Rightarrow> (Inl e, c') | (Inr a, c') \<Rightarrow> f a c')"

definition thenE :: "('c, 'e, 'a) comp \<Rightarrow> ('c, 'e, 'b) comp \<Rightarrow> ('c, 'e, 'b) comp" where
  "thenE m k = bindE m (\<lambda>_. k)"

text \<open>\<open>try { m } catch (e) { h e }\<close>, for the exceptions \<open>p\<close> selects.\<close>

definition catchE :: "('e \<Rightarrow> bool) \<Rightarrow> ('c, 'e, 'a) comp \<Rightarrow> ('e \<Rightarrow> ('c, 'e, 'a) comp) \<Rightarrow> ('c, 'e, 'a) comp"
  where
  "catchE p m h =
     (\<lambda>c. case m c of (Inl e, c') \<Rightarrow> (if p e then h e c' else (Inl e, c')) | (Inr a, c') \<Rightarrow> (Inr a, c'))"

text \<open>A destructor: \<open>fin\<close> runs on the way out, whatever the outcome.\<close>

definition finallyE :: "('c, 'e, 'a) comp \<Rightarrow> ('c \<Rightarrow> 'c) \<Rightarrow> ('c, 'e, 'a) comp" where
  "finallyE m fin = (\<lambda>c. case m c of (r, c') \<Rightarrow> (r, fin c'))"

text \<open>
  A block with local variables of its own: the state is extended by the locals while it runs, and a
  computation on the outer state is lifted with \<open>outerE\<close>.
\<close>

definition localE :: "'l \<Rightarrow> ('l \<times> 'c, 'e, 'a) comp \<Rightarrow> ('c, 'e, 'a) comp" where
  "localE l m = (\<lambda>c. case m (l, c) of (r, (_, c')) \<Rightarrow> (r, c'))"

definition outerE :: "('c, 'e, 'a) comp \<Rightarrow> ('l \<times> 'c, 'e, 'a) comp" where
  "outerE m = (\<lambda>(l, c). case m c of (r, c') \<Rightarrow> (r, (l, c')))"

definition setlE :: "('l \<Rightarrow> 'l) \<Rightarrow> ('l \<times> 'c, 'e, unit) comp" where
  "setlE f = (\<lambda>(l, c). (Inr (), (f l, c)))"

definition getlE :: "('l \<Rightarrow> 'a) \<Rightarrow> ('l \<times> 'c, 'e, 'a) comp" where
  "getlE f = (\<lambda>(l, c). (Inr (f l), (l, c)))"

definition getE :: "('c \<Rightarrow> 'a) \<Rightarrow> ('c, 'e, 'a) comp" where
  "getE f = (\<lambda>c. (Inr (f c), c))"

definition modifyE :: "('c \<Rightarrow> 'c) \<Rightarrow> ('c, 'e, unit) comp" where
  "modifyE f = (\<lambda>c. (Inr (), f c))"

definition assertE :: "bool \<Rightarrow> 'e \<Rightarrow> ('c, 'e, unit) comp" where
  "assertE b e = (if b then returnE () else throwE e)"

definition guardE :: "('c \<Rightarrow> bool) \<Rightarrow> 'e \<Rightarrow> ('c, 'e, unit) comp" where
  "guardE p e = (\<lambda>c. if p c then (Inr (), c) else (Inl e, c))"

definition liftE :: "'e + 'a \<Rightarrow> ('c, 'e, 'a) comp" where
  "liftE r = (\<lambda>c. (r, c))"

definition someE :: "'a option \<Rightarrow> 'e \<Rightarrow> ('c, 'e, 'a) comp" where
  "someE x e = (case x of None \<Rightarrow> throwE e | Some a \<Rightarrow> returnE a)"

text \<open>A range-based \<open>for\<close> that collects what its body yields, in order.\<close>

primrec mapE :: "('a \<Rightarrow> ('c, 'e, 'b) comp) \<Rightarrow> 'a list \<Rightarrow> ('c, 'e, 'b list) comp" where
  "mapE f [] = returnE []"
| "mapE f (x # xs) = bindE (f x) (\<lambda>y. bindE (mapE f xs) (\<lambda>ys. returnE (y # ys)))"

text \<open>A range-based \<open>for\<close> whose body only has effects.\<close>

primrec forE :: "'a list \<Rightarrow> ('a \<Rightarrow> ('c, 'e, unit) comp) \<Rightarrow> ('c, 'e, unit) comp" where
  "forE [] f = returnE ()"
| "forE (x # xs) f = thenE (f x) (forE xs f)"

text \<open>A \<open>for\<close> that sets a flag and breaks as soon as the flag is true.\<close>

primrec anyE :: "'a list \<Rightarrow> ('a \<Rightarrow> ('c, 'e, bool) comp) \<Rightarrow> ('c, 'e, bool) comp" where
  "anyE [] f = returnE False"
| "anyE (x # xs) f = bindE (f x) (\<lambda>b. if b then returnE True else anyE xs f)"

lemma run_returnE [monad_eval]: "returnE a c = (Inr a, c)"
  by (simp add: returnE_def)

lemma run_throwE [monad_eval]: "throwE e c = (Inl e, c)"
  by (simp add: throwE_def)

lemma run_bindE_Inr [monad_eval]: "m c = (Inr a, c') \<Longrightarrow> bindE m f c = f a c'"
  by (simp add: bindE_def)

lemma run_bindE_Inl [monad_eval]: "m c = (Inl e, c') \<Longrightarrow> bindE m f c = (Inl e, c')"
  by (simp add: bindE_def)

lemma run_thenE_Inr [monad_eval]: "m c = (Inr a, c') \<Longrightarrow> thenE m k c = k c'"
  by (simp add: thenE_def bindE_def)

lemma run_thenE_Inl [monad_eval]: "m c = (Inl e, c') \<Longrightarrow> thenE m k c = (Inl e, c')"
  by (simp add: thenE_def bindE_def)

lemma run_catchE_Inr [monad_eval]: "m c = (Inr a, c') \<Longrightarrow> catchE p m h c = (Inr a, c')"
  by (simp add: catchE_def)

lemma run_catchE_Inl [monad_eval]:
  "m c = (Inl e, c') \<Longrightarrow> catchE p m h c = (if p e then h e c' else (Inl e, c'))"
  by (simp add: catchE_def)

lemma run_finallyE [monad_eval]: "m c = (r, c') \<Longrightarrow> finallyE m fin c = (r, fin c')"
  by (simp add: finallyE_def)

lemma run_getE [monad_eval]: "getE f c = (Inr (f c), c)"
  by (simp add: getE_def)

lemma run_modifyE [monad_eval]: "modifyE f c = (Inr (), f c)"
  by (simp add: modifyE_def)

lemma run_guardE [monad_eval]: "guardE p e c = (if p c then (Inr (), c) else (Inl e, c))"
  by (simp add: guardE_def)

lemma run_liftE [monad_eval]: "liftE r c = (r, c)"
  by (simp add: liftE_def)

lemma run_localE [monad_eval]: "m (l, c) = (r, (l', c')) \<Longrightarrow> localE l m c = (r, c')"
  by (simp add: localE_def)

lemma run_outerE [monad_eval]: "m c = (r, c') \<Longrightarrow> outerE m (l, c) = (r, (l, c'))"
  by (simp add: outerE_def)

lemma run_setlE [monad_eval]: "setlE f (l, c) = (Inr (), (f l, c))"
  by (simp add: setlE_def)

lemma run_getlE [monad_eval]: "getlE f (l, c) = (Inr (f l), (l, c))"
  by (simp add: getlE_def)

lemma assertE_True [monad_eval]: "assertE True e = returnE ()"
  by (simp add: assertE_def)

lemma assertE_False [monad_eval]: "assertE False e = throwE e"
  by (simp add: assertE_def)

lemma someE_Some [monad_eval]: "someE (Some a) e = returnE a"
  by (simp add: someE_def)

lemma someE_None [monad_eval]: "someE None e = throwE e"
  by (simp add: someE_def)

lemma bindE_returnE [simp]: "bindE (returnE a) f = f a"
  by (simp add: bindE_def returnE_def)

lemma bindE_throwE [simp]: "bindE (throwE e) f = throwE e"
  by (simp add: bindE_def throwE_def fun_eq_iff)

lemma thenE_returnE [simp]: "thenE (returnE a) k = k"
  by (simp add: thenE_def)

lemma thenE_throwE [simp]: "thenE (throwE e) k = throwE e"
  by (simp add: thenE_def)

lemma bindE_assoc: "bindE (bindE m f) g = bindE m (\<lambda>a. bindE (f a) g)"
  by (rule ext) (simp add: bindE_def split: prod.splits sum.splits)

lemma bindE_InrD:
  "bindE m f c = (Inr b, c'') \<Longrightarrow> \<exists>a c'. m c = (Inr a, c') \<and> f a c' = (Inr b, c'')"
  by (auto simp: bindE_def split: prod.splits sum.splits)

lemma thenE_InrD:
  "thenE m k c = (Inr b, c'') \<Longrightarrow> \<exists>a c'. m c = (Inr a, c') \<and> k c' = (Inr b, c'')"
  unfolding thenE_def by (drule bindE_InrD) auto

lemma guardE_InrD: "guardE p e c = (Inr u, c') \<Longrightarrow> p c \<and> c' = c"
  by (simp add: guardE_def split: if_splits)

lemma assertE_InrD: "assertE b e c = (Inr u, c') \<Longrightarrow> b \<and> c' = c"
  by (simp add: assertE_def returnE_def throwE_def split: if_splits)

lemmas run_InrD = bindE_InrD thenE_InrD guardE_InrD assertE_InrD

section \<open>The effect logic\<close>

definition spec ::
  "('c \<Rightarrow> bool) \<Rightarrow> ('c \<Rightarrow> 'c \<Rightarrow> bool) \<Rightarrow> ('e \<Rightarrow> bool) \<Rightarrow> ('c, 'e, 'a) comp \<Rightarrow> bool" where
  "spec P R X m \<longleftrightarrow>
     (\<forall>c. P c \<longrightarrow> R c (snd (m c)) \<and> (\<forall>e. fst (m c) = Inl e \<longrightarrow> X e))"

lemma specI:
  "(\<And>c r c'. P c \<Longrightarrow> m c = (r, c') \<Longrightarrow> R c c' \<and> (\<forall>e. r = Inl e \<longrightarrow> X e)) \<Longrightarrow> spec P R X m"
  by (simp add: spec_def) (metis prod.collapse)

lemma specD: "spec P R X m \<Longrightarrow> P c \<Longrightarrow> m c = (r, c') \<Longrightarrow> R c c' \<and> (\<forall>e. r = Inl e \<longrightarrow> X e)"
  by (metis fst_conv snd_conv spec_def)

lemma spec_weaken: "spec P R X m \<Longrightarrow> (\<And>c. P' c \<Longrightarrow> P c) \<Longrightarrow> spec P' R X m"
  unfolding spec_def by blast

text \<open>A specification of the outer state, read on a state with locals.\<close>

abbreviation on_outer :: "('c \<Rightarrow> bool) \<Rightarrow> 'l \<times> 'c \<Rightarrow> bool" where
  "on_outer P \<equiv> \<lambda>lc. P (snd lc)"

abbreviation rel_outer :: "('c \<Rightarrow> 'c \<Rightarrow> bool) \<Rightarrow> 'l \<times> 'c \<Rightarrow> 'l \<times> 'c \<Rightarrow> bool" where
  "rel_outer R \<equiv> \<lambda>lc lc'. R (snd lc) (snd lc')"

lemma spec_localE: "spec (on_outer P) (rel_outer R) X m \<Longrightarrow> spec P R X (localE l m)"
  by (auto simp: spec_def localE_def split: prod.splits)
     (metis fst_conv snd_conv)+

lemma spec_outerE: "spec P R X m \<Longrightarrow> spec (on_outer P) (rel_outer R) X (outerE m)"
  by (auto simp: spec_def outerE_def split: prod.splits)

locale effect =
  fixes P :: "'c \<Rightarrow> bool" and R :: "'c \<Rightarrow> 'c \<Rightarrow> bool" and X :: "'e \<Rightarrow> bool"
  assumes R_refl: "P c \<Longrightarrow> R c c"
    and R_trans: "P c \<Longrightarrow> R c c' \<Longrightarrow> R c' c'' \<Longrightarrow> R c c''"
    and R_keeps: "P c \<Longrightarrow> R c c' \<Longrightarrow> P c'"
begin

lemma spec_returnE: "spec P R X (returnE a)"
  by (simp add: spec_def returnE_def R_refl)

lemma spec_throwE: "X e \<Longrightarrow> spec P R X (throwE e)"
  by (simp add: spec_def throwE_def R_refl)

lemma spec_getE: "spec P R X (getE f)"
  by (simp add: spec_def getE_def R_refl)

lemma spec_modifyE: "(\<And>c. P c \<Longrightarrow> R c (f c)) \<Longrightarrow> spec P R X (modifyE f)"
  by (simp add: spec_def modifyE_def)

lemma spec_liftE: "(\<And>e. r = Inl e \<Longrightarrow> X e) \<Longrightarrow> spec P R X (liftE r)"
  by (simp add: spec_def liftE_def R_refl)

lemma spec_someE: "X e \<Longrightarrow> spec P R X (someE x e)"
  by (cases x) (simp_all add: someE_def spec_returnE spec_throwE)

lemma spec_assertE: "X e \<Longrightarrow> spec P R X (assertE b e)"
  by (simp add: assertE_def spec_returnE spec_throwE)

lemma spec_guardE: "X e \<Longrightarrow> spec P R X (guardE p e)"
  by (simp add: spec_def guardE_def R_refl)

text \<open>What is known of a result is available to the rest.\<close>

lemma spec_bindE_result:
  assumes m: "spec P R X m" and Q: "\<And>c a c'. P c \<Longrightarrow> m c = (Inr a, c') \<Longrightarrow> Q a c'" and f: "\<And>a. spec (Q a) R X (f a)"
  shows "spec P R X (bindE m f)"
proof (rule specI)
  fix c r c'' assume P: "P c" and run: "bindE m f c = (r, c'')"
  obtain s c' where mc: "m c = (s, c')" by fastforce
  note 1 = specD [OF m P mc]
  show "R c c'' \<and> (\<forall>e. r = Inl e \<longrightarrow> X e)"
  proof (cases s)
    case (Inl e)
    with 1 run mc show ?thesis by (auto simp: bindE_def)
  next
    case (Inr a)
    with run mc have "f a c' = (r, c'')" by (simp add: bindE_def)
    with specD [OF f] Q [OF P] mc Inr 1 R_trans [OF P] show ?thesis by blast
  qed
qed

lemma spec_bindE:
  assumes m: "spec P R X m" and f: "\<And>a. spec P R X (f a)"
  shows "spec P R X (bindE m f)"
  by (rule spec_bindE_result [OF m _ f]) (use R_keeps specD [OF m] in blast)

lemma spec_thenE: "spec P R X m \<Longrightarrow> spec P R X k \<Longrightarrow> spec P R X (thenE m k)"
  by (simp add: thenE_def spec_bindE)

lemma spec_guardE_thenE:
  assumes "X e" and k: "spec (\<lambda>c. P c \<and> p c) R X k"
  shows "spec P R X (thenE (guardE p e) k)"
  using assms R_refl by (auto simp: spec_def thenE_def bindE_def guardE_def)

lemma spec_catchE:
  assumes m: "spec P R X m" and h: "\<And>e. X e \<Longrightarrow> p e \<Longrightarrow> spec P R X (h e)"
  shows "spec P R X (catchE p m h)"
proof (rule specI)
  fix c r c'' assume P: "P c" and run: "catchE p m h c = (r, c'')"
  obtain s c' where mc: "m c = (s, c')" by fastforce
  note 1 = specD [OF m P mc]
  then have P': "P c'" using R_keeps [OF P] by simp
  show "R c c'' \<and> (\<forall>e. r = Inl e \<longrightarrow> X e)"
  proof (cases s)
    case (Inl e)
    show ?thesis
    proof (cases "p e")
      case True
      with Inl run mc have "h e c' = (r, c'')" by (simp add: catchE_def)
      with specD [OF h P'] 1 Inl True R_trans [OF P] show ?thesis by blast
    next
      case False
      with Inl 1 run mc show ?thesis by (auto simp: catchE_def)
    qed
  next
    case (Inr a)
    with 1 run mc show ?thesis by (auto simp: catchE_def)
  qed
qed

lemma spec_finallyE:
  assumes m: "spec P R X m" and fin: "\<And>c. P c \<Longrightarrow> R c (fin c)"
  shows "spec P R X (finallyE m fin)"
proof (rule specI)
  fix c r c'' assume P: "P c" and run: "finallyE m fin c = (r, c'')"
  obtain c' where mc: "m c = (r, c')" and c'': "c'' = fin c'"
    using run by (auto simp: finallyE_def split: prod.splits)
  show "R c c'' \<and> (\<forall>e. r = Inl e \<longrightarrow> X e)"
    using specD [OF m P mc] fin R_keeps [OF P] R_trans [OF P] c'' by blast
qed

lemma spec_setlE: "spec (on_outer P) (rel_outer R) X (setlE f)"
  by (simp add: spec_def setlE_def R_refl split: prod.splits)

lemma spec_getlE: "spec (on_outer P) (rel_outer R) X (getlE f)"
  by (simp add: spec_def getlE_def R_refl split: prod.splits)

lemma effect_outer: "effect (on_outer P) (rel_outer R)"
  by unfold_locales (auto intro: R_refl R_trans R_keeps)

lemma spec_mapE: "(\<And>x. spec P R X (f x)) \<Longrightarrow> spec P R X (mapE f xs)"
  by (induction xs) (simp_all add: spec_bindE spec_returnE)

lemma spec_forE: "(\<And>x. spec P R X (f x)) \<Longrightarrow> spec P R X (forE xs f)"
  by (induction xs) (simp_all add: spec_thenE spec_returnE)

lemma spec_anyE: "(\<And>x. spec P R X (f x)) \<Longrightarrow> spec P R X (anyE xs f)"
  by (induction xs) (auto intro!: spec_bindE spec_returnE)

lemma spec_if: "spec P R X m \<Longrightarrow> spec P R X k \<Longrightarrow> spec P R X (if b then m else k)"
  by simp

lemma spec_let: "(\<And>x. spec P R X (f x)) \<Longrightarrow> spec P R X (let x = a in f x)"
  by simp

lemma spec_case_option:
  "spec P R X m \<Longrightarrow> (\<And>a. spec P R X (f a)) \<Longrightarrow> spec P R X (case x of None \<Rightarrow> m | Some a \<Rightarrow> f a)"
  by (cases x) simp_all

lemma spec_case_prod: "(\<And>a b. spec P R X (f a b)) \<Longrightarrow> spec P R X (case x of (a, b) \<Rightarrow> f a b)"
  by (cases x) simp

text \<open>A computation that reads the state and continues with what it read.\<close>

lemma spec_state: "(\<And>c. P c \<Longrightarrow> spec P R X (f c)) \<Longrightarrow> spec P R X (\<lambda>c. f c c)"
  by (simp add: spec_def)

lemmas effect_rules =
  spec_returnE spec_throwE spec_getE spec_someE spec_assertE spec_guardE
  spec_bindE spec_thenE spec_mapE spec_forE spec_anyE spec_if spec_let
  spec_case_option spec_case_prod

end

end
