(* ===== verification/Protocol.thy ===== *)
theory Protocol
  imports Chain_Prelude
begin

text \<open>
  The exceptions the chain declares, the protocol messages it passes around, and the interfaces of
  the libraries it calls.

  The message types are generated from koinos-proto, which is not part of this repository.  Each
  record has the fields that code under \<^verbatim>\<open>src/\<close> reads or writes; a field \<open>..._other\<close> stands for the
  remaining content, which reaches the serialiser and nothing else.  Serialisation, hashing,
  signatures, the state database and the WebAssembly interpreter are parameters: they are the
  fields of the record \<open>env\<close>, and every definition that needs one of them takes an \<open>env\<close>.
\<close>

section \<open>Exceptions\<close>

datatype exn_name =
    success_exception | reversion_exception | failure_exception
  | system_authorization_failure_exception | invalid_contract_exception
  | insufficient_privileges_exception | insufficient_rc_exception
  | insufficient_return_buffer_exception | unknown_thunk_exception
  | unknown_operation_exception | read_only_context_exception | internal_error_exception
  | field_not_found_exception | unknown_hash_code_exception | unknown_dsa_exception
  | unknown_system_call_exception | operation_not_found_exception
  | authorization_failure_exception | invalid_nonce_exception | invalid_signature_exception
  | malformed_block_exception | malformed_transaction_exception
  | block_resource_failure_exception
  | unknown_backend_exception | unexpected_state_exception
  | missing_required_arguments_exception | unknown_previous_block_exception
  | unexpected_height_exception | block_state_error_exception
  | state_merkle_mismatch_exception | unexpected_receipt_exception | rpc_failure_exception
  | pending_state_error_exception | timestamp_out_of_bounds_exception
  | indexer_failure_exception | network_bandwidth_limit_exceeded_exception
  | compute_bandwidth_limit_exceeded_exception | disk_storage_limit_exceeded_exception
  | pre_irreversibility_block_exception

text \<open>The exceptions of vm_manager; their root \<open>vm_exception\<close> derives from \<open>reversion_exception\<close>.\<close>

datatype vm_exn_name =
    module_parse_exception | module_instantiate_exception | module_clone_exception
  | create_context_exception | module_start_exception | wasm_trap_exception
  | wasm_memory_exception | fizzy_returned_null_exception | null_argument_exception
  | runner_state_exception | tick_meter_exception

datatype exn_base = base_success | base_reversion | base_failure

fun exn_base_of :: "exn_name \<Rightarrow> exn_base" where
  "exn_base_of success_exception = base_success"
| "exn_base_of reversion_exception = base_reversion"
| "exn_base_of system_authorization_failure_exception = base_reversion"
| "exn_base_of invalid_contract_exception = base_reversion"
| "exn_base_of insufficient_privileges_exception = base_reversion"
| "exn_base_of insufficient_rc_exception = base_reversion"
| "exn_base_of insufficient_return_buffer_exception = base_reversion"
| "exn_base_of unknown_thunk_exception = base_reversion"
| "exn_base_of unknown_operation_exception = base_reversion"
| "exn_base_of read_only_context_exception = base_reversion"
| "exn_base_of internal_error_exception = base_reversion"
| "exn_base_of _ = base_failure"

text \<open>
  A message is text taken as it is, or a template with its arguments, which the exception library
  renders.  \<open>KExn\<close> is a \<open>koinos::exception\<close>: its class, the code given to the constructor (none
  where the class's declared code applies), its message and the JSON data attached to it.  \<open>StdExn\<close>
  is any other C++ exception.  \<open>Undefined\<close> marks undefined behaviour, \<open>Terminated\<close> a call of
  \<open>std::terminate\<close> (a destructor that throws) and \<open>Out_of_fuel\<close> a model run cut short; no handler
  catches those three.
\<close>

datatype json_arg = JStr string | JNum int | JHex bytes | JBase58 bytes | JStrs "bytes list"

datatype exn_msg = Raw string | Tmpl string

datatype exn_class = Chain exn_name | Vm vm_exn_name

datatype exn =
    KExn exn_class "int option" exn_msg "(string \<times> json_arg) list"
  | StdExn string
  | Undefined string
  | Terminated
  | Out_of_fuel

definition kexn :: "exn_name \<Rightarrow> string \<Rightarrow> exn" where
  "kexn n m = KExn (Chain n) None (Tmpl m) []"

definition kexn_args :: "exn_name \<Rightarrow> string \<Rightarrow> (string \<times> json_arg) list \<Rightarrow> exn" where
  "kexn_args n m args = KExn (Chain n) None (Tmpl m) args"

definition vexn :: "vm_exn_name \<Rightarrow> string \<Rightarrow> exn" where
  "vexn n m = KExn (Vm n) None (Tmpl m) []"

text \<open>\<open>reversion_exception( code, error )\<close>, \<open>failure_exception( code, error )\<close>.\<close>

definition reversion_exn :: "int \<Rightarrow> string \<Rightarrow> exn" where
  "reversion_exn code m = KExn (Chain reversion_exception) (Some code) (Raw m) []"

definition failure_exn :: "int \<Rightarrow> string \<Rightarrow> exn" where
  "failure_exn code m = KExn (Chain failure_exception) (Some code) (Raw m) []"

definition success_exn :: "int \<Rightarrow> exn" where
  "success_exn code = KExn (Chain success_exception) (Some code) (Raw '''') []"

fun exn_base_of_class :: "exn_class \<Rightarrow> exn_base" where
  "exn_base_of_class (Chain n) = exn_base_of n"
| "exn_base_of_class (Vm n) = base_reversion"

fun is_koinos :: "exn \<Rightarrow> bool" where
  "is_koinos (KExn _ _ _ _) = True"
| "is_koinos _ = False"

fun has_base :: "exn_base \<Rightarrow> exn \<Rightarrow> bool" where
  "has_base b (KExn k _ _ _) = (exn_base_of_class k = b)"
| "has_base b _ = False"

abbreviation is_success :: "exn \<Rightarrow> bool" where "is_success \<equiv> has_base base_success"
abbreviation is_reversion :: "exn \<Rightarrow> bool" where "is_reversion \<equiv> has_base base_reversion"
abbreviation is_failure :: "exn \<Rightarrow> bool" where "is_failure \<equiv> has_base base_failure"

text \<open>What \<open>catch ( ... )\<close> catches.\<close>

fun catchable :: "exn \<Rightarrow> bool" where
  "catchable (KExn _ _ _ _) = True"
| "catchable (StdExn _) = True"
| "catchable _ = False"

fun add_json :: "string \<Rightarrow> json_arg \<Rightarrow> exn \<Rightarrow> exn" where
  "add_json k v (KExn n c m js) = KExn n c m (js @ [(k, v)])"
| "add_json k v e = e"

fun exn_json :: "exn \<Rightarrow> (string \<times> json_arg) list" where
  "exn_json (KExn _ _ _ js) = js"
| "exn_json _ = []"

lemma is_koinos_catchable [simp]: "is_koinos e \<Longrightarrow> catchable e"
  by (cases e) simp_all

lemma has_base_koinos: "has_base b e \<Longrightarrow> is_koinos e"
  by (cases e) simp_all

lemma has_base_catchable [simp]: "has_base b e \<Longrightarrow> catchable e"
  by (cases e) simp_all

lemma koinos_base_cases: "is_koinos e \<Longrightarrow> is_success e \<or> is_reversion e \<or> is_failure e"
proof -
  assume "is_koinos e"
  then obtain k c m js where e: "e = KExn k c m js" by (cases e) simp_all
  show ?thesis unfolding e by (cases "exn_base_of_class k") simp_all
qed

lemma catchable_kexn [simp]:
  "catchable (kexn n m)" "catchable (kexn_args n m a)" "catchable (vexn v m)"
  "catchable (reversion_exn i m)" "catchable (failure_exn i m)" "catchable (success_exn i)"
  by (simp_all add: kexn_def kexn_args_def vexn_def reversion_exn_def failure_exn_def success_exn_def)

lemma catchable_add_json [simp]: "catchable (add_json k v e) = catchable e"
  by (cases e) simp_all

section \<open>Messages\<close>

datatype privilege = kernel_mode | user_mode

datatype authorization_type =
    contract_call | transaction_application_auth | contract_upload | other_authorization int

datatype dsa = ecdsa_secp256k1 | other_dsa int

datatype system_space = Contract_bytecode | Contract_metadata | System_call_dispatch | Metadata | Transaction_nonce

record object_space =
  os_system :: bool
  os_zone :: bytes
  os_id :: u32

record contract_metadata_object =
  cm_hash :: bytes
  cm_system :: bool
  cm_authorizes_call_contract :: bool
  cm_authorizes_transaction_application :: bool
  cm_authorizes_upload_contract :: bool

record multihash =
  mh_code :: u64
  mh_digest :: bytes

record resource_limit_data =
  disk_storage_limit :: u64
  disk_storage_cost :: u64
  network_bandwidth_limit :: u64
  network_bandwidth_cost :: u64
  compute_bandwidth_limit :: u64
  compute_bandwidth_cost :: u64

record upload_contract_operation =
  uc_contract_id :: bytes
  uc_bytecode :: bytes
  uc_authorizes_call_contract :: bool
  uc_authorizes_transaction_application :: bool
  uc_authorizes_upload_contract :: bool
  uc_other :: bytes

record call_contract_operation =
  cc_contract_id :: bytes
  cc_entry_point :: u32
  cc_args :: bytes

datatype system_call_target =
    Target_none | Target_thunk_id u32 | Target_system_call_bundle bytes u32

record set_system_call_operation =
  ssc_call_id :: u32
  ssc_target :: system_call_target

record set_system_contract_operation =
  sct_contract_id :: bytes
  sct_system_contract :: bool

datatype operation =
    Op_none
  | Op_upload_contract upload_contract_operation
  | Op_call_contract call_contract_operation
  | Op_set_system_call set_system_call_operation
  | Op_set_system_contract set_system_contract_operation

record transaction_header =
  th_chain_id :: bytes
  th_rc_limit :: u64
  th_nonce :: bytes
  th_operation_merkle_root :: bytes
  th_payer :: bytes
  th_payee :: bytes

record transaction =
  trx_id :: bytes
  trx_has_header :: bool
  trx_header :: transaction_header
  trx_operations :: "operation list"
  trx_signatures :: "bytes list"

record block_header =
  bh_previous :: bytes
  bh_height :: u64
  bh_timestamp :: u64
  bh_previous_state_merkle_root :: bytes
  bh_transaction_merkle_root :: bytes
  bh_signer :: bytes
  bh_other :: bytes

record block =
  blk_id :: bytes
  blk_has_header :: bool
  blk_header :: block_header
  blk_transactions :: "transaction list"
  blk_signature :: bytes

record event_data =
  ev_sequence :: u32
  ev_source :: bytes
  ev_name :: bytes
  ev_data :: bytes
  ev_impacted :: "bytes list"

type_synonym delta_entry = bytes

record transaction_receipt =
  tr_id :: bytes
  tr_payer :: bytes
  tr_max_payer_rc :: u64
  tr_rc_limit :: u64
  tr_rc_used :: u64
  tr_disk_storage_used :: u64
  tr_network_bandwidth_used :: u64
  tr_compute_bandwidth_used :: u64
  tr_reverted :: bool
  tr_events :: "event_data list"
  tr_logs :: "bytes list"
  tr_state_delta_entries :: "delta_entry list"

record block_receipt =
  br_id :: bytes
  br_height :: u64
  br_disk_storage_used :: u64
  br_network_bandwidth_used :: u64
  br_compute_bandwidth_used :: u64
  br_disk_storage_charged :: u64
  br_network_bandwidth_charged :: u64
  br_compute_bandwidth_charged :: u64
  br_state_merkle_root :: bytes
  br_events :: "event_data list"
  br_logs :: "bytes list"
  br_state_delta_entries :: "delta_entry list"
  br_transaction_receipts :: "transaction_receipt list"

record block_topology =
  bt_id :: bytes
  bt_previous :: bytes
  bt_height :: u64

record head_info =
  hi_head_topology :: block_topology
  hi_last_irreversible_block :: u64
  hi_head_block_time :: u64

record database_object =
  do_exists :: bool
  do_value :: bytes
  do_key :: bytes

text \<open>
  \<open>chain::value_type\<close>, a oneof.  \<open>message_value\<close> holds a packed \<open>Any\<close>: the type name and content of
  the packed message.
\<close>

datatype value_type =
    Value_none
  | Value_int64 i64 | Value_uint64 u64 | Value_int32 u32 | Value_uint32 u32
  | Value_fixed64 u64 | Value_fixed32 u32 | Value_sfixed64 i64 | Value_sfixed32 u32
  | Value_sint64 i64 | Value_sint32 u32
  | Value_bool bool | Value_string string | Value_bytes bytes | Value_message string bytes

text \<open>\<open>chain::result\<close>, a oneof of the returned object and the error data.\<close>

datatype result = Res_none | Res_object bytes | Res_error string

fun has_object :: "result \<Rightarrow> bool" where
  "has_object (Res_object _) = True" | "has_object _ = False"

fun res_object :: "result \<Rightarrow> bytes" where
  "res_object (Res_object b) = b" | "res_object _ = []"

fun has_error :: "result \<Rightarrow> bool" where
  "has_error (Res_error _) = True" | "has_error _ = False"

fun res_error :: "result \<Rightarrow> string" where
  "res_error (Res_error m) = m" | "res_error _ = []"

record execution_result =
  er_code :: int
  er_res :: result

definition empty_block_receipt :: block_receipt where
  "empty_block_receipt =
     \<lparr>br_id = [], br_height = 0, br_disk_storage_used = 0, br_network_bandwidth_used = 0,
      br_compute_bandwidth_used = 0, br_disk_storage_charged = 0, br_network_bandwidth_charged = 0,
      br_compute_bandwidth_charged = 0, br_state_merkle_root = [], br_events = [], br_logs = [],
      br_state_delta_entries = [], br_transaction_receipts = []\<rparr>"

definition empty_transaction_receipt :: transaction_receipt where
  "empty_transaction_receipt =
     \<lparr>tr_id = [], tr_payer = [], tr_max_payer_rc = 0, tr_rc_limit = 0, tr_rc_used = 0,
      tr_disk_storage_used = 0, tr_network_bandwidth_used = 0, tr_compute_bandwidth_used = 0,
      tr_reverted = False, tr_events = [], tr_logs = [], tr_state_delta_entries = []\<rparr>"

definition empty_contract_metadata :: contract_metadata_object where
  "empty_contract_metadata =
     \<lparr>cm_hash = [], cm_system = False, cm_authorizes_call_contract = False,
      cm_authorizes_transaction_application = False, cm_authorizes_upload_contract = False\<rparr>"

definition empty_database_object :: database_object where
  "empty_database_object = \<lparr>do_exists = False, do_value = [], do_key = []\<rparr>"

definition empty_resource_limit_data :: resource_limit_data where
  "empty_resource_limit_data =
     \<lparr>disk_storage_limit = 0, disk_storage_cost = 0, network_bandwidth_limit = 0,
      network_bandwidth_cost = 0, compute_bandwidth_limit = 0, compute_bandwidth_cost = 0\<rparr>"

end
