(* ===== verification/Proto_Utils.thy ===== *)
theory Proto_Utils
  imports Protocol
begin

text \<open>
  \<^verbatim>\<open>proto_utils.cpp\<close>: reading a field of a transaction or block by a dotted name.  The names are
  resolved against the descriptor pool stored on chain, the values read through protobuf's
  reflection on the compiled message.  Reflection is protobuf's and a parameter: the record
  \<open>reflection\<close>, whose accessors fail when protobuf aborts (an accessor that does not match the
  field).  A message is represented by its type name and content; a compiled field descriptor by
  the field's number.
\<close>

datatype field_type =
    TYPE_DOUBLE | TYPE_FLOAT | TYPE_INT64 | TYPE_UINT64 | TYPE_INT32 | TYPE_FIXED64 | TYPE_FIXED32
  | TYPE_BOOL | TYPE_STRING | TYPE_GROUP | TYPE_MESSAGE | TYPE_BYTES | TYPE_UINT32 | TYPE_ENUM
  | TYPE_SFIXED32 | TYPE_SFIXED64 | TYPE_SINT32 | TYPE_SINT64

type_synonym pb_message = "string \<times> bytes"

text \<open>The pool: message type name to field name to the field's number and type.\<close>

type_synonym message_descriptor = "string \<rightharpoonup> int \<times> field_type"
type_synonym descriptor_pool = "string \<rightharpoonup> message_descriptor"

record reflection =
  has_field_number :: "pb_message \<Rightarrow> int \<Rightarrow> bool"
  is_repeated :: "pb_message \<Rightarrow> int \<Rightarrow> bool"
  GetInt64 :: "pb_message \<Rightarrow> int \<Rightarrow> exn + i64"
  GetUInt64 :: "pb_message \<Rightarrow> int \<Rightarrow> exn + u64"
  GetInt32 :: "pb_message \<Rightarrow> int \<Rightarrow> exn + u32"
  GetUInt32 :: "pb_message \<Rightarrow> int \<Rightarrow> exn + u32"
  GetBool :: "pb_message \<Rightarrow> int \<Rightarrow> exn + bool"
  GetString :: "pb_message \<Rightarrow> int \<Rightarrow> exn + string"
  GetMessage :: "pb_message \<Rightarrow> int \<Rightarrow> exn + pb_message"
  GetEnum :: "pb_message \<Rightarrow> int \<Rightarrow> exn + (int \<times> string)"
  FieldSize :: "pb_message \<Rightarrow> int \<Rightarrow> nat"
  GetRepeatedInt64 :: "pb_message \<Rightarrow> int \<Rightarrow> nat \<Rightarrow> exn + i64"
  GetRepeatedUInt64 :: "pb_message \<Rightarrow> int \<Rightarrow> nat \<Rightarrow> exn + u64"
  GetRepeatedInt32 :: "pb_message \<Rightarrow> int \<Rightarrow> nat \<Rightarrow> exn + u32"
  GetRepeatedUInt32 :: "pb_message \<Rightarrow> int \<Rightarrow> nat \<Rightarrow> exn + u32"
  GetRepeatedBool :: "pb_message \<Rightarrow> int \<Rightarrow> nat \<Rightarrow> exn + bool"
  GetRepeatedString :: "pb_message \<Rightarrow> int \<Rightarrow> nat \<Rightarrow> exn + string"
  GetRepeatedMessage :: "pb_message \<Rightarrow> int \<Rightarrow> nat \<Rightarrow> exn + pb_message"
  GetRepeatedEnum :: "pb_message \<Rightarrow> int \<Rightarrow> nat \<Rightarrow> exn + (int \<times> string)"
  pack_message :: "pb_message \<Rightarrow> string \<times> bytes"
  pack_enum :: "int \<times> string \<Rightarrow> string \<times> bytes"
  pack_list :: "value_type list \<Rightarrow> string \<times> bytes"

definition unexpected_field_type :: exn where
  "unexpected_field_type =
     kexn reversion_exception ''attempted to retrieve the value of an unexpected field type''"

definition value_message :: "string \<times> bytes \<Rightarrow> value_type" where
  "value_message p = Value_message (fst p) (snd p)"

fun get_field_value :: "reflection \<Rightarrow> pb_message \<Rightarrow> int \<Rightarrow> field_type \<Rightarrow> exn + value_type" where
  "get_field_value r m fd TYPE_INT64 = map_sum id Value_int64 (GetInt64 r m fd)"
| "get_field_value r m fd TYPE_UINT64 = map_sum id Value_uint64 (GetUInt64 r m fd)"
| "get_field_value r m fd TYPE_INT32 = map_sum id Value_int32 (GetInt32 r m fd)"
| "get_field_value r m fd TYPE_FIXED64 = map_sum id Value_fixed64 (GetUInt64 r m fd)"
| "get_field_value r m fd TYPE_FIXED32 = map_sum id Value_fixed32 (GetInt32 r m fd)"
| "get_field_value r m fd TYPE_BOOL = map_sum id Value_bool (GetBool r m fd)"
| "get_field_value r m fd TYPE_STRING = map_sum id Value_string (GetString r m fd)"
| "get_field_value r m fd TYPE_MESSAGE = map_sum id (\<lambda>x. value_message (pack_message r x)) (GetMessage r m fd)"
| "get_field_value r m fd TYPE_BYTES = map_sum id Value_bytes (GetString r m fd)"
| "get_field_value r m fd TYPE_UINT32 = map_sum id Value_uint32 (GetUInt32 r m fd)"
| "get_field_value r m fd TYPE_ENUM = map_sum id (\<lambda>x. value_message (pack_enum r x)) (GetEnum r m fd)"
| "get_field_value r m fd TYPE_SFIXED32 = map_sum id Value_sfixed32 (GetInt32 r m fd)"
| "get_field_value r m fd TYPE_SFIXED64 = map_sum id Value_sfixed64 (GetInt64 r m fd)"
| "get_field_value r m fd TYPE_SINT32 = map_sum id Value_sint32 (GetInt32 r m fd)"
| "get_field_value r m fd TYPE_SINT64 = map_sum id Value_sint64 (GetInt64 r m fd)"
| "get_field_value r m fd _ = Inl unexpected_field_type"

text \<open>One element of a repeated field, by type.\<close>

fun repeated_element :: "reflection \<Rightarrow> pb_message \<Rightarrow> int \<Rightarrow> field_type \<Rightarrow> nat \<Rightarrow> exn + value_type" where
  "repeated_element r m fd TYPE_INT64 i = map_sum id Value_int64 (GetRepeatedInt64 r m fd i)"
| "repeated_element r m fd TYPE_UINT64 i = map_sum id Value_uint64 (GetRepeatedUInt64 r m fd i)"
| "repeated_element r m fd TYPE_INT32 i = map_sum id Value_int32 (GetRepeatedInt32 r m fd i)"
| "repeated_element r m fd TYPE_FIXED64 i = map_sum id Value_fixed64 (GetRepeatedUInt64 r m fd i)"
| "repeated_element r m fd TYPE_FIXED32 i = map_sum id Value_fixed32 (GetRepeatedUInt32 r m fd i)"
| "repeated_element r m fd TYPE_BOOL i = map_sum id Value_bool (GetRepeatedBool r m fd i)"
| "repeated_element r m fd TYPE_STRING i = map_sum id Value_string (GetRepeatedString r m fd i)"
| "repeated_element r m fd TYPE_MESSAGE i = map_sum id (\<lambda>x. value_message (pack_message r x)) (GetRepeatedMessage r m fd i)"
| "repeated_element r m fd TYPE_BYTES i = map_sum id Value_bytes (GetRepeatedString r m fd i)"
| "repeated_element r m fd TYPE_UINT32 i = map_sum id Value_uint32 (GetRepeatedUInt32 r m fd i)"
| "repeated_element r m fd TYPE_ENUM i = map_sum id (\<lambda>x. value_message (pack_enum r x)) (GetRepeatedEnum r m fd i)"
| "repeated_element r m fd TYPE_SFIXED32 i = map_sum id Value_sfixed32 (GetRepeatedInt32 r m fd i)"
| "repeated_element r m fd TYPE_SFIXED64 i = map_sum id Value_sfixed64 (GetRepeatedInt64 r m fd i)"
| "repeated_element r m fd TYPE_SINT32 i = map_sum id Value_sint32 (GetRepeatedInt32 r m fd i)"
| "repeated_element r m fd TYPE_SINT64 i = map_sum id Value_sint64 (GetRepeatedInt64 r m fd i)"
| "repeated_element r m fd _ i = Inl unexpected_field_type"

fun unsupported_type :: "field_type \<Rightarrow> bool" where
  "unsupported_type TYPE_DOUBLE = True"
| "unsupported_type TYPE_FLOAT = True"
| "unsupported_type TYPE_GROUP = True"
| "unsupported_type _ = False"

primrec collect_sum :: "('a \<Rightarrow> exn + 'b) \<Rightarrow> 'a list \<Rightarrow> exn + 'b list" where
  "collect_sum f [] = Inr []"
| "collect_sum f (x # xs) =
     (case f x of Inl e \<Rightarrow> Inl e
      | Inr y \<Rightarrow> (case collect_sum f xs of Inl e \<Rightarrow> Inl e | Inr ys \<Rightarrow> Inr (y # ys)))"

definition get_repeated_field_value ::
  "reflection \<Rightarrow> pb_message \<Rightarrow> int \<Rightarrow> field_type \<Rightarrow> exn + value_type" where
  "get_repeated_field_value r m fd t =
     (if unsupported_type t then Inl unexpected_field_type
      else case collect_sum (repeated_element r m fd t) [0..<FieldSize r m fd] of
             Inl e \<Rightarrow> Inl e
           | Inr vs \<Rightarrow> Inr (value_message (pack_list r vs)))"

text \<open>\<open>boost::split( field_path, field_name, boost::is_any_of( "." ) )\<close>: empty segments are kept.\<close>

fun split_dots :: "string \<Rightarrow> string list" where
  "split_dots [] = [[]]"
| "split_dots (c # cs) =
     (if c = CHR ''.'' then [] # split_dots cs
      else (c # hd (split_dots cs)) # tl (split_dots cs))"

text \<open>
  The loop over the path: \<open>desc\<close> is \<open>pool_descriptor\<close> for the current message, a null pointer where
  the pool does not know a nested message's type.  The code tests only the first one; using a null
  one is undefined.  The result is the last message, field and type.
\<close>

fun walk_path ::
  "reflection \<Rightarrow> descriptor_pool \<Rightarrow> pb_message \<Rightarrow> message_descriptor option \<Rightarrow> string list \<Rightarrow>
   exn + pb_message \<times> int \<times> field_type" where
  "walk_path r pool m desc [] = Inl (Undefined ''null field descriptor'')"
| "walk_path r pool m desc (segment # rest) =
     (case desc of
        None \<Rightarrow> Inl (Undefined ''null pool descriptor'')
      | Some d \<Rightarrow>
        (case d segment of
           None \<Rightarrow> Inl (kexn_args field_not_found_exception ''unable to find field ${fname}'' [(''fname'', JStr segment)])
         | Some (num, t) \<Rightarrow>
             if \<not> has_field_number r m num then
               Inl (kexn_args field_not_found_exception ''unable to find field number ${fnum} on ${type} message''
                      [(''fnum'', JNum num), (''type'', JStr (fst m))])
             else if rest = [] then Inr (m, num, t)
             else if t \<noteq> TYPE_MESSAGE then
               Inl (kexn field_not_found_exception ''expected nested field to be within a message'')
             else
               (case GetMessage r m num of
                  Inl e \<Rightarrow> Inl e
                | Inr m' \<Rightarrow> walk_path r pool m' (pool (fst m')) rest)))"

definition get_nested_field_value ::
  "reflection \<Rightarrow> descriptor_pool \<Rightarrow> pb_message \<Rightarrow> string \<Rightarrow> exn + value_type" where
  "get_nested_field_value r pool parent field_name =
     (case pool (fst parent) of
        None \<Rightarrow> Inl (kexn_args internal_error_exception ''${type} descriptor was not found'' [(''type'', JStr (fst parent))])
      | Some d \<Rightarrow>
        (case walk_path r pool parent (Some d) (split_dots field_name) of
           Inl e \<Rightarrow> Inl e
         | Inr (m, fd, t) \<Rightarrow>
             if is_repeated r m fd then get_repeated_field_value r m fd t
             else get_field_value r m fd t))"

section \<open>Properties\<close>

fun join_dots :: "string list \<Rightarrow> string" where
  "join_dots [] = []"
| "join_dots [s] = s"
| "join_dots (s # t # ss) = s @ CHR ''.'' # join_dots (t # ss)"

lemma split_dots_nonempty [simp]: "split_dots s \<noteq> []"
  by (cases s) simp_all

lemma join_cons_hd: "xs \<noteq> [] \<Longrightarrow> join_dots ((c # hd xs) # tl xs) = c # join_dots xs"
  by (cases xs rule: join_dots.cases) simp_all

lemma join_dots_split_dots: "join_dots (split_dots s) = s"
proof (induction s)
  case (Cons c cs)
  obtain t ts where "split_dots cs = t # ts" by (cases "split_dots cs") simp_all
  with Cons join_cons_hd [of "split_dots cs" c] show ?case by auto
qed simp

lemma split_dots_no_dot: "seg \<in> set (split_dots s) \<Longrightarrow> CHR ''.'' \<notin> set seg"
proof (induction s arbitrary: seg)
  case (Cons c cs)
  obtain t ts where "split_dots cs = t # ts" by (cases "split_dots cs") simp_all
  with Cons show ?case by (auto split: if_splits)
qed simp

lemma split_dots_segment: "CHR ''.'' \<notin> set seg \<Longrightarrow> split_dots (seg @ CHR ''.'' # rest) = seg # split_dots rest"
  by (induction seg) auto

lemma split_dots_plain: "CHR ''.'' \<notin> set seg \<Longrightarrow> split_dots seg = [seg]"
  by (induction seg) auto

text \<open>
  A path of field names survives being written as a dotted field name: the segments are
  recovered exactly as long as none of them contains a dot, so \<open>get_nested_field_value\<close> walks the
  path its caller spelled out.
\<close>

lemma split_dots_join_dots:
  assumes "path \<noteq> []" and "\<forall>seg \<in> set path. CHR ''.'' \<notin> set seg"
  shows "split_dots (join_dots path) = path"
  using assms by (induction path rule: join_dots.induct) (simp_all add: split_dots_segment split_dots_plain)

text \<open>
  A singular \<open>fixed32\<close> field cannot be read.  Protobuf's accessors abort when they do not match
  the field's C++ type, and a \<open>fixed32\<close> field is unsigned; \<open>get_field_value\<close> reads it with the
  signed accessor, so the request fails where the same field, repeated, is read correctly.
\<close>

lemma fixed32_field_unreadable:
  assumes "\<And>m n w. GetUInt32 r m n = Inr w \<Longrightarrow> \<exists>e. GetInt32 r m n = Inl e"
    and "GetUInt32 r m fd = Inr v" and "FieldSize r m fd' = 1" and "GetRepeatedUInt32 r m fd' 0 = Inr v"
  shows "(\<exists>e. get_field_value r m fd TYPE_FIXED32 = Inl e)
       \<and> get_repeated_field_value r m fd' TYPE_FIXED32 = Inr (value_message (pack_list r [Value_fixed32 v]))"
  using assms(1) [OF assms(2)] assms(3,4) by (auto simp: get_repeated_field_value_def)

definition example_reflection :: reflection where
  "example_reflection =
     \<lparr>has_field_number = (\<lambda>_ n. 0 \<le> n \<and> n < 3), is_repeated = (\<lambda>_ n. n = 2),
      GetInt64 = (\<lambda>_ _. Inl (Undefined ''type mismatch'')), GetUInt64 = (\<lambda>_ _. Inl (Undefined ''type mismatch'')),
      GetInt32 = (\<lambda>_ _. Inl (Undefined ''type mismatch'')), GetUInt32 = (\<lambda>_ n. if n = 1 then Inr 7 else Inl (Undefined ''type mismatch'')),
      GetBool = (\<lambda>_ _. Inl (Undefined ''type mismatch'')), GetString = (\<lambda>_ n. if n = 0 then Inr ''abc'' else Inl (Undefined ''type mismatch'')),
      GetMessage = (\<lambda>_ _. Inl (Undefined ''type mismatch'')), GetEnum = (\<lambda>_ _. Inl (Undefined ''type mismatch'')),
      FieldSize = (\<lambda>_ n. if n = 2 then 1 else 0),
      GetRepeatedInt64 = (\<lambda>_ _ _. Inl (Undefined ''type mismatch'')), GetRepeatedUInt64 = (\<lambda>_ _ _. Inl (Undefined ''type mismatch'')),
      GetRepeatedInt32 = (\<lambda>_ _ _. Inl (Undefined ''type mismatch'')),
      GetRepeatedUInt32 = (\<lambda>_ n _. if n = 2 then Inr 7 else Inl (Undefined ''type mismatch'')),
      GetRepeatedBool = (\<lambda>_ _ _. Inl (Undefined ''type mismatch'')), GetRepeatedString = (\<lambda>_ _ _. Inl (Undefined ''type mismatch'')),
      GetRepeatedMessage = (\<lambda>_ _ _. Inl (Undefined ''type mismatch'')), GetRepeatedEnum = (\<lambda>_ _ _. Inl (Undefined ''type mismatch'')),
      pack_message = id, pack_enum = (\<lambda>p. (snd p, [])), pack_list = (\<lambda>_. (''list'', []))\<rparr>"

end
