(* ===== verification/World.thy ===== *)
theory World
  imports Proto_Utils
begin

text \<open>
  What surrounds the chain library.  The system call identifiers and the typed argument and result
  messages of every system call; the shape of a WebAssembly execution as the host sees it; and
  \<open>env\<close>, the record of everything the code calls that is not in this repository: protobuf
  (de)serialisation and enum numbers, crypto, the state database and the fizzy interpreter.

  The state database is one abstract value of type \<open>'d\<close> and its nodes are handles of type \<open>'h\<close>, so
  sharing between a block's node and the anonymous nodes made from it is the database's business and
  not the model's.  \<open>'w\<close> is the type of fizzy modules and instances.
\<close>

section \<open>System calls\<close>

datatype syscall =
    sc_get_head_info | sc_apply_block | sc_apply_transaction | sc_apply_upload_contract_operation
  | sc_apply_call_contract_operation | sc_apply_set_system_call_operation
  | sc_apply_set_system_contract_operation | sc_pre_block_callback | sc_post_block_callback
  | sc_pre_transaction_callback | sc_post_transaction_callback | sc_get_chain_id
  | sc_process_block_signature | sc_get_transaction | sc_get_transaction_field | sc_get_block
  | sc_get_block_field | sc_get_last_irreversible_block | sc_get_account_nonce
  | sc_verify_account_nonce | sc_set_account_nonce | sc_check_system_authority | sc_get_operation
  | sc_get_account_rc | sc_consume_account_rc | sc_get_resource_limits | sc_consume_block_resources
  | sc_put_object | sc_remove_object | sc_get_object | sc_get_next_object | sc_get_prev_object
  | sc_log | sc_event | sc_hash | sc_recover_public_key | sc_verify_merkle_root
  | sc_verify_signature | sc_verify_vrf_proof | sc_call | sc_exit | sc_get_arguments
  | sc_get_contract_id | sc_get_caller | sc_check_authority | sc_nop

text \<open>The argument message of each system call: \<open><name>_arguments\<close>.\<close>

datatype sc_args =
    A_get_head_info
  | A_apply_block block
  | A_apply_transaction transaction
  | A_apply_upload_contract_operation upload_contract_operation
  | A_apply_call_contract_operation call_contract_operation
  | A_apply_set_system_call_operation set_system_call_operation
  | A_apply_set_system_contract_operation set_system_contract_operation
  | A_pre_block_callback | A_post_block_callback
  | A_pre_transaction_callback | A_post_transaction_callback
  | A_get_chain_id
  | A_process_block_signature bytes block_header bytes
  | A_get_transaction
  | A_get_transaction_field string
  | A_get_block
  | A_get_block_field string
  | A_get_last_irreversible_block
  | A_get_account_nonce bytes
  | A_verify_account_nonce bytes bytes
  | A_set_account_nonce bytes bytes
  | A_check_system_authority
  | A_get_operation
  | A_get_account_rc bytes
  | A_consume_account_rc bytes u64
  | A_get_resource_limits
  | A_consume_block_resources u64 u64 u64
  | A_put_object object_space bytes bytes
  | A_remove_object object_space bytes
  | A_get_object object_space bytes
  | A_get_next_object object_space bytes
  | A_get_prev_object object_space bytes
  | A_log string
  | A_event string bytes "bytes list"
  | A_hash u64 bytes u64
  | A_recover_public_key dsa bytes bytes bool
  | A_verify_merkle_root bytes "bytes list"
  | A_verify_signature dsa bytes bytes bytes bool
  | A_verify_vrf_proof dsa bytes bytes bytes bytes
  | A_call bytes u32 bytes
  | A_exit int result
  | A_get_arguments
  | A_get_contract_id
  | A_get_caller
  | A_check_authority authorization_type bytes bytes
  | A_nop

fun sc_of :: "sc_args \<Rightarrow> syscall" where
  "sc_of A_get_head_info = sc_get_head_info"
| "sc_of (A_apply_block _) = sc_apply_block"
| "sc_of (A_apply_transaction _) = sc_apply_transaction"
| "sc_of (A_apply_upload_contract_operation _) = sc_apply_upload_contract_operation"
| "sc_of (A_apply_call_contract_operation _) = sc_apply_call_contract_operation"
| "sc_of (A_apply_set_system_call_operation _) = sc_apply_set_system_call_operation"
| "sc_of (A_apply_set_system_contract_operation _) = sc_apply_set_system_contract_operation"
| "sc_of A_pre_block_callback = sc_pre_block_callback"
| "sc_of A_post_block_callback = sc_post_block_callback"
| "sc_of A_pre_transaction_callback = sc_pre_transaction_callback"
| "sc_of A_post_transaction_callback = sc_post_transaction_callback"
| "sc_of A_get_chain_id = sc_get_chain_id"
| "sc_of (A_process_block_signature _ _ _) = sc_process_block_signature"
| "sc_of A_get_transaction = sc_get_transaction"
| "sc_of (A_get_transaction_field _) = sc_get_transaction_field"
| "sc_of A_get_block = sc_get_block"
| "sc_of (A_get_block_field _) = sc_get_block_field"
| "sc_of A_get_last_irreversible_block = sc_get_last_irreversible_block"
| "sc_of (A_get_account_nonce _) = sc_get_account_nonce"
| "sc_of (A_verify_account_nonce _ _) = sc_verify_account_nonce"
| "sc_of (A_set_account_nonce _ _) = sc_set_account_nonce"
| "sc_of A_check_system_authority = sc_check_system_authority"
| "sc_of A_get_operation = sc_get_operation"
| "sc_of (A_get_account_rc _) = sc_get_account_rc"
| "sc_of (A_consume_account_rc _ _) = sc_consume_account_rc"
| "sc_of A_get_resource_limits = sc_get_resource_limits"
| "sc_of (A_consume_block_resources _ _ _) = sc_consume_block_resources"
| "sc_of (A_put_object _ _ _) = sc_put_object"
| "sc_of (A_remove_object _ _) = sc_remove_object"
| "sc_of (A_get_object _ _) = sc_get_object"
| "sc_of (A_get_next_object _ _) = sc_get_next_object"
| "sc_of (A_get_prev_object _ _) = sc_get_prev_object"
| "sc_of (A_log _) = sc_log"
| "sc_of (A_event _ _ _) = sc_event"
| "sc_of (A_hash _ _ _) = sc_hash"
| "sc_of (A_recover_public_key _ _ _ _) = sc_recover_public_key"
| "sc_of (A_verify_merkle_root _ _) = sc_verify_merkle_root"
| "sc_of (A_verify_signature _ _ _ _ _) = sc_verify_signature"
| "sc_of (A_verify_vrf_proof _ _ _ _ _) = sc_verify_vrf_proof"
| "sc_of (A_call _ _ _) = sc_call"
| "sc_of (A_exit _ _) = sc_exit"
| "sc_of A_get_arguments = sc_get_arguments"
| "sc_of A_get_contract_id = sc_get_contract_id"
| "sc_of A_get_caller = sc_get_caller"
| "sc_of (A_check_authority _ _ _) = sc_check_authority"
| "sc_of A_nop = sc_nop"

text \<open>
  The \<open>value()\<close> of the result messages \<open><name>_result\<close>, by type.  The projections below return the
  protobuf default for a result of another type, which typed C++ code cannot meet.
\<close>

datatype sc_ret =
    V_void
  | V_bool bool
  | V_u64 u64
  | V_bytes bytes
  | V_head_info head_info
  | V_transaction transaction
  | V_block block
  | V_value value_type
  | V_operation operation
  | V_limits resource_limit_data
  | V_object database_object
  | V_arguments u32 bytes
  | V_caller bytes privilege

fun v_bool :: "sc_ret \<Rightarrow> bool" where
  "v_bool (V_bool b) = b" | "v_bool _ = False"

fun v_u64 :: "sc_ret \<Rightarrow> u64" where
  "v_u64 (V_u64 n) = n" | "v_u64 _ = 0"

fun v_bytes :: "sc_ret \<Rightarrow> bytes" where
  "v_bytes (V_bytes b) = b" | "v_bytes _ = []"

fun v_object :: "sc_ret \<Rightarrow> database_object" where
  "v_object (V_object d) = d" | "v_object _ = empty_database_object"

fun v_limits :: "sc_ret \<Rightarrow> resource_limit_data" where
  "v_limits (V_limits l) = l" | "v_limits _ = empty_resource_limit_data"

fun v_caller :: "sc_ret \<Rightarrow> bytes" where
  "v_caller (V_caller c _) = c" | "v_caller _ = []"

fun v_head_info :: "sc_ret \<Rightarrow> head_info" where
  "v_head_info (V_head_info h) = h"
| "v_head_info _ =
     \<lparr>hi_head_topology = \<lparr>bt_id = [], bt_previous = [], bt_height = 0\<rparr>,
      hi_last_irreversible_block = 0, hi_head_block_time = 0\<rparr>"

section \<open>WebAssembly executions\<close>

text \<open>
  A run of a module's \<open>_start\<close> function: it ends, trapped or not, with a number of ticks left, or it
  calls one of the two host functions with six 32-bit arguments and the memory as it is then (a
  module need not have one), and goes on with the host's answer.  Executions are metered and therefore finite, which is what the
  datatype says; nothing else is assumed about what a module does.
\<close>

datatype host_fn = Invoke_thunk | Invoke_system_call

record host_args =
  arg0 :: u32
  arg1 :: u32
  arg2 :: u32
  arg3 :: u32
  arg4 :: u32
  arg5 :: u32

record host_reply =
  hr_trapped :: bool
  hr_value :: "u32 option"
  hr_memory :: bytes
  hr_ticks :: i64

datatype wasm_run =
    Wasm_done bool i64
  | Wasm_host host_fn host_args "bytes option" i64 "host_reply \<Rightarrow> wasm_run"

datatype fizzy_error_code =
    FizzySuccess | FizzyErrorMalformedModule | FizzyErrorInvalidModule
  | FizzyErrorInstantiationFailed | FizzyErrorMemoryAllocationFailed | FizzyErrorOther
  | Fizzy_other_code nat

section \<open>The environment\<close>

datatype hash_alg = sha1 | sha2_256 | sha2_512 | keccak_256 | ripemd_160

record authorize_arguments =
  aa_type :: authorization_type
  aa_call :: "(bytes \<times> u32 \<times> bytes \<times> bytes) option"

text \<open>The messages the code serialises with \<open>util::converter::as< std::string >\<close> or \<open>SerializeAsString\<close>.\<close>

datatype message =
    M_block_header block_header
  | M_block block
  | M_transaction_header transaction_header
  | M_operation operation
  | M_contract_metadata contract_metadata_object
  | M_system_call_target system_call_target
  | M_value value_type
  | M_error string
  | M_multihash multihash
  | M_u32 u32
  | M_authorize_arguments authorize_arguments
  | M_set_system_call_event u32 system_call_target
  | M_set_system_contract_event bytes bool
  | M_args sc_args
  | M_ret syscall sc_ret

text \<open>What decoding one code point at an iterator yields.\<close>

datatype utf_code_point = utf_valid | utf_illegal | utf_incomplete

record ('d, 'h, 'w) env =
  \<comment> \<open>exceptions: declared codes, and rendering of message templates\<close>
  err_code :: "exn_class \<Rightarrow> int"
  reversion :: int
  failure :: int
  render :: "string \<Rightarrow> (string \<times> json_arg) list \<Rightarrow> string"
  to_int64 :: "int \<Rightarrow> i64"
  \<comment> \<open>enum numbers of koinos-proto and of the crypto library\<close>
  syscall_num :: "syscall \<Rightarrow> u32"
  syscall_name :: "u32 \<Rightarrow> string option"
  syscall_parse :: "string \<Rightarrow> u32 option"
  space_num :: "system_space \<Rightarrow> u32"
  codec_num :: "hash_alg \<Rightarrow> u64"
  \<comment> \<open>serialisation\<close>
  as_string :: "message \<Rightarrow> bytes"
  block_byte_size :: "block \<Rightarrow> u64"
  transaction_byte_size :: "transaction \<Rightarrow> u64"
  parse_args :: "syscall \<Rightarrow> bytes \<Rightarrow> sc_args"
  parse_ret :: "syscall \<Rightarrow> bytes \<Rightarrow> sc_ret"
  to_contract_metadata :: "bytes \<Rightarrow> exn + contract_metadata_object"
  to_system_call_target :: "bytes \<Rightarrow> exn + system_call_target"
  to_value :: "bytes \<Rightarrow> exn + value_type"
  to_block :: "bytes \<Rightarrow> exn + block"
  to_max_account_resources :: "bytes \<Rightarrow> exn + u64"
  to_resource_limit_data :: "bytes \<Rightarrow> exn + resource_limit_data"
  to_compute_registry :: "bytes \<Rightarrow> exn + (string \<times> u64) list"
  to_unsigned_varint :: "bytes \<Rightarrow> exn + u64"
  to_authorize_result :: "bytes \<Rightarrow> exn + bool"
  parse_descriptors :: "bytes \<Rightarrow> descriptor_pool option"
  reflect :: reflection
  pb_transaction :: "transaction \<Rightarrow> pb_message"
  pb_block :: "block \<Rightarrow> pb_message"
  utf_decode :: "string \<Rightarrow> utf_code_point \<times> string"
  \<comment> \<open>crypto\<close>
  crypto_hash :: "u64 \<Rightarrow> bytes \<Rightarrow> u64 \<Rightarrow> multihash"
  to_multihash :: "bytes \<Rightarrow> exn + multihash"
  mh_is_zero :: "multihash \<Rightarrow> bool"
  sig_is_canonical :: "bytes \<Rightarrow> bool"
  recover_key :: "bytes \<Rightarrow> multihash \<Rightarrow> exn + bytes"
  key_valid :: "bytes \<Rightarrow> bool"
  key_compressed :: "bytes \<Rightarrow> bytes"
  key_uncompressed :: "bytes \<Rightarrow> bytes"
  to_public_key :: "bytes \<Rightarrow> exn + bytes"
  key_address :: "bytes \<Rightarrow> bytes"
  merkle_root_hash :: "u64 \<Rightarrow> multihash list \<Rightarrow> multihash"
  verify_random_proof :: "bytes \<Rightarrow> bytes \<Rightarrow> bytes \<Rightarrow> exn + multihash option"
  \<comment> \<open>state nodes of the state database\<close>
  node_get :: "'d \<Rightarrow> 'h \<Rightarrow> object_space \<Rightarrow> bytes \<Rightarrow> bytes option"
  node_put :: "'d \<Rightarrow> 'h \<Rightarrow> object_space \<Rightarrow> bytes \<Rightarrow> bytes \<Rightarrow> exn + i64 \<times> 'd"
  node_remove :: "'d \<Rightarrow> 'h \<Rightarrow> object_space \<Rightarrow> bytes \<Rightarrow> exn + i64 \<times> 'd"
  node_next :: "'d \<Rightarrow> 'h \<Rightarrow> object_space \<Rightarrow> bytes \<Rightarrow> (bytes \<times> bytes) option"
  node_prev :: "'d \<Rightarrow> 'h \<Rightarrow> object_space \<Rightarrow> bytes \<Rightarrow> (bytes \<times> bytes) option"
  node_id :: "'d \<Rightarrow> 'h \<Rightarrow> multihash"
  node_parent_id :: "'d \<Rightarrow> 'h \<Rightarrow> multihash"
  node_revision :: "'d \<Rightarrow> 'h \<Rightarrow> u64"
  node_parent :: "'d \<Rightarrow> 'h \<Rightarrow> 'h option"
  node_delta_entries :: "'d \<Rightarrow> 'h \<Rightarrow> delta_entry list"
  node_merkle_root :: "'d \<Rightarrow> 'h \<Rightarrow> multihash"
  node_is_finalized :: "'d \<Rightarrow> 'h \<Rightarrow> bool"
  node_create_anonymous :: "'d \<Rightarrow> 'h \<Rightarrow> 'h \<times> 'd"
  node_commit :: "'d \<Rightarrow> 'h \<Rightarrow> exn + 'd"
  \<comment> \<open>the database as the controller uses it\<close>
  db_get_node :: "'d \<Rightarrow> multihash \<Rightarrow> 'h option"
  db_get_root :: "'d \<Rightarrow> 'h"
  db_get_head :: "'d \<Rightarrow> 'h"
  db_get_fork_heads :: "'d \<Rightarrow> 'h list"
  db_get_node_at_revision :: "'d \<Rightarrow> u64 \<Rightarrow> multihash \<Rightarrow> exn + 'h"
  db_create_writable_node :: "'d \<Rightarrow> multihash \<Rightarrow> multihash \<Rightarrow> block_header \<Rightarrow> 'h option \<times> 'd"
  db_finalize_node :: "'d \<Rightarrow> multihash \<Rightarrow> exn + 'd"
  db_commit_node :: "'d \<Rightarrow> multihash \<Rightarrow> exn + 'd"
  db_discard_node :: "'d \<Rightarrow> multihash \<Rightarrow> 'd"
  \<comment> \<open>the fizzy interpreter\<close>
  fizzy_parse :: "bytes \<Rightarrow> (fizzy_error_code \<times> string) + 'w"
  fizzy_instantiate :: "'w \<Rightarrow> u32 \<Rightarrow> (fizzy_error_code \<times> string) + 'w"
  fizzy_create_context :: "u32 \<Rightarrow> i64 \<Rightarrow> bool"
  fizzy_has_start :: "'w \<Rightarrow> bool"
  fizzy_execute :: "'w \<Rightarrow> i64 \<Rightarrow> wasm_run"

text \<open>\<open>e.get_code()\<close> and \<open>e.get_message()\<close>.\<close>

fun exn_code :: "('d, 'h, 'w) env \<Rightarrow> exn \<Rightarrow> int" where
  "exn_code E (KExn k (Some c) _ _) = c"
| "exn_code E (KExn k None _ _) = err_code E k"
| "exn_code E _ = 0"

fun exn_message :: "('d, 'h, 'w) env \<Rightarrow> exn \<Rightarrow> string" where
  "exn_message E (KExn _ _ (Raw m) _) = m"
| "exn_message E (KExn _ _ (Tmpl t) js) = render E t js"
| "exn_message E _ = []"

text \<open>
  What the error codes of koinos-proto promise: reversions are positive, failures negative, and
  every exception class has the code of its kind.
\<close>

definition codes_ok :: "('d, 'h, 'w) env \<Rightarrow> bool" where
  "codes_ok E \<longleftrightarrow>
     0 < reversion E \<and> failure E < 0
     \<and> (\<forall>k. case exn_base_of_class k of
              base_success \<Rightarrow> err_code E k = 0
            | base_reversion \<Rightarrow> reversion E \<le> err_code E k
            | base_failure \<Rightarrow> err_code E k \<le> failure E)"

text \<open>What the numbering of system calls promises: distinct identifiers have distinct numbers.\<close>

definition numbers_ok :: "('d, 'h, 'w) env \<Rightarrow> bool" where
  "numbers_ok E \<longleftrightarrow> inj (syscall_num E)"

end
