(* ===== verification/State_Space.thy ===== *)
theory State_Space
  imports World
begin

text \<open>
  The fixed object spaces and keys of \<^verbatim>\<open>state.cpp\<close> and \<^verbatim>\<open>state.hpp\<close>.
\<close>

definition zone_kernel :: bytes where
  "zone_kernel = []"

definition kernel_space :: "('d, 'h, 'w) env \<Rightarrow> system_space \<Rightarrow> object_space" where
  "kernel_space E s = \<lparr>os_system = True, os_zone = zone_kernel, os_id = space_num E s\<rparr>"

definition space_contract_bytecode :: "('d, 'h, 'w) env \<Rightarrow> object_space" where
  "space_contract_bytecode E = kernel_space E Contract_bytecode"

definition space_contract_metadata :: "('d, 'h, 'w) env \<Rightarrow> object_space" where
  "space_contract_metadata E = kernel_space E Contract_metadata"

definition space_system_call_dispatch :: "('d, 'h, 'w) env \<Rightarrow> object_space" where
  "space_system_call_dispatch E = kernel_space E System_call_dispatch"

definition space_metadata :: "('d, 'h, 'w) env \<Rightarrow> object_space" where
  "space_metadata E = kernel_space E Metadata"

definition space_transaction_nonce :: "('d, 'h, 'w) env \<Rightarrow> object_space" where
  "space_transaction_nonce E = kernel_space E Transaction_nonce"

definition state_key :: "('d, 'h, 'w) env \<Rightarrow> string \<Rightarrow> bytes" where
  "state_key E name = as_string E (M_multihash (crypto_hash E (codec_num E sha2_256) name 0))"

definition key_head_block :: "('d, 'h, 'w) env \<Rightarrow> bytes" where
  "key_head_block E = state_key E ''object_key::head_block''"

definition key_chain_id :: "('d, 'h, 'w) env \<Rightarrow> bytes" where
  "key_chain_id E = state_key E ''object_key::chain_id''"

definition key_genesis_key :: "('d, 'h, 'w) env \<Rightarrow> bytes" where
  "key_genesis_key E = state_key E ''object_key::genesis_key''"

definition key_resource_limit_data :: "('d, 'h, 'w) env \<Rightarrow> bytes" where
  "key_resource_limit_data E = state_key E ''object_key::resource_limit_data''"

definition key_max_account_resources :: "('d, 'h, 'w) env \<Rightarrow> bytes" where
  "key_max_account_resources E = state_key E ''object_key::max_account_resources''"

definition key_protocol_descriptor :: "('d, 'h, 'w) env \<Rightarrow> bytes" where
  "key_protocol_descriptor E = state_key E ''object_key::protocol_descriptor''"

definition key_compute_bandwidth_registry :: "('d, 'h, 'w) env \<Rightarrow> bytes" where
  "key_compute_bandwidth_registry E = state_key E ''object_key::compute_bandwidth_registry''"

definition key_block_hash_code :: "('d, 'h, 'w) env \<Rightarrow> bytes" where
  "key_block_hash_code E = state_key E ''object_key::block_hash_code''"

lemma kernel_spaces_system [simp]:
  "os_system (space_contract_bytecode E)" "os_system (space_contract_metadata E)"
  "os_system (space_system_call_dispatch E)" "os_system (space_metadata E)"
  "os_system (space_transaction_nonce E)"
  by (simp_all add: space_contract_bytecode_def space_contract_metadata_def kernel_space_def
      space_system_call_dispatch_def space_metadata_def space_transaction_nonce_def)

end
