(* ===== verification/Thunk_Registry.thy ===== *)
theory Thunk_Registry
  imports World
begin

text \<open>
  The registration half of \<^verbatim>\<open>thunk_dispatcher.cpp\<close> and \<open>register_thunks\<close> of
  \<^verbatim>\<open>system_calls.cpp\<close>: which native implementations exist and under which numbers.  Both maps of the
  dispatcher are filled together by \<open>insert_or_assign\<close>, so they have the same keys and a later
  registration under a number replaces an earlier one.
\<close>

definition genesis_thunks :: "syscall list" where
  "genesis_thunks =
     [sc_get_head_info, sc_apply_block, sc_apply_transaction, sc_apply_upload_contract_operation,
      sc_apply_call_contract_operation, sc_apply_set_system_call_operation,
      sc_apply_set_system_contract_operation, sc_pre_block_callback, sc_post_block_callback,
      sc_pre_transaction_callback, sc_post_transaction_callback, sc_get_chain_id,
      sc_process_block_signature, sc_get_transaction, sc_get_transaction_field, sc_get_block,
      sc_get_block_field, sc_get_last_irreversible_block, sc_get_account_nonce,
      sc_verify_account_nonce, sc_set_account_nonce, sc_check_system_authority, sc_get_operation,
      sc_get_account_rc, sc_consume_account_rc, sc_get_resource_limits, sc_consume_block_resources,
      sc_put_object, sc_remove_object, sc_get_object, sc_get_next_object, sc_get_prev_object,
      sc_log, sc_event, sc_hash, sc_recover_public_key, sc_verify_merkle_root,
      sc_verify_signature, sc_verify_vrf_proof, sc_call, sc_exit, sc_get_arguments,
      sc_get_contract_id, sc_get_caller, sc_check_authority]"

definition registered_thunks :: "syscall list" where
  "registered_thunks = genesis_thunks @ [sc_nop]"

definition thunk_lookup :: "('d, 'h, 'w) env \<Rightarrow> u32 \<Rightarrow> syscall option" where
  "thunk_lookup E tid = find (\<lambda>s. syscall_num E s = tid) (rev registered_thunks)"

definition thunk_exists :: "('d, 'h, 'w) env \<Rightarrow> u32 \<Rightarrow> bool" where
  "thunk_exists E tid \<longleftrightarrow> thunk_lookup E tid \<noteq> None"

definition thunk_is_genesis :: "('d, 'h, 'w) env \<Rightarrow> u32 \<Rightarrow> bool" where
  "thunk_is_genesis E tid \<longleftrightarrow> tid \<in> syscall_num E ` set genesis_thunks"

text \<open>
  A registered thunk is stored in a \<open>std::any\<close> together with its C++ signature; \<open>call_thunk\<close> casts it
  back to the signature of the system call it stands in for.  The return message type is different
  for every system call that returns one and the argument types differ among those that return
  nothing, except that the four callbacks and \<open>nop\<close> all have type \<open>void( execution_context& )\<close>.
\<close>

fun void_signature :: "syscall \<Rightarrow> bool" where
  "void_signature sc_pre_block_callback = True"
| "void_signature sc_post_block_callback = True"
| "void_signature sc_pre_transaction_callback = True"
| "void_signature sc_post_transaction_callback = True"
| "void_signature sc_nop = True"
| "void_signature _ = False"

definition same_signature :: "syscall \<Rightarrow> syscall \<Rightarrow> bool" where
  "same_signature s t \<longleftrightarrow> s = t \<or> (void_signature s \<and> void_signature t)"

lemma thunk_exists_iff: "thunk_exists E tid \<longleftrightarrow> tid \<in> syscall_num E ` set registered_thunks"
  by (auto simp: thunk_exists_def thunk_lookup_def find_None_iff image_iff)

lemma genesis_thunk_exists: "thunk_is_genesis E tid \<Longrightarrow> thunk_exists E tid"
  by (auto simp: thunk_is_genesis_def thunk_exists_iff registered_thunks_def)

lemma thunk_lookup_num:
  assumes "numbers_ok E"
  shows "thunk_lookup E (syscall_num E s) = Some s"
proof -
  have mem: "s \<in> set registered_thunks"
    by (cases s) (simp_all add: registered_thunks_def genesis_thunks_def)
  have "syscall_num E t = syscall_num E s \<longleftrightarrow> t = s" for t
    using assms by (auto simp: numbers_ok_def inj_def)
  then have "thunk_lookup E (syscall_num E s) = find (\<lambda>t. t = s) (rev registered_thunks)"
    by (simp add: thunk_lookup_def)
  also have "\<dots> = Some s"
  proof (cases "find (\<lambda>t. t = s) (rev registered_thunks)")
    case None
    with mem show ?thesis by (simp add: find_None_iff)
  next
    case (Some t)
    then show ?thesis by (auto simp: find_Some_iff)
  qed
  finally show ?thesis .
qed

text \<open>
  The registry is complete: with distinct system call numbers, every system call of the protocol
  resolves to its own thunk, and all but \<open>nop\<close> are enabled from genesis.
\<close>

lemma registry_complete:
  assumes "numbers_ok E"
  shows "thunk_lookup E (syscall_num E s) = Some s
       \<and> (thunk_is_genesis E (syscall_num E s) \<longleftrightarrow> s \<noteq> sc_nop)"
proof -
  have inj: "inj (syscall_num E)" using assms by (simp add: numbers_ok_def)
  have "s \<in> set genesis_thunks \<longleftrightarrow> s \<noteq> sc_nop"
    by (cases s) (simp_all add: genesis_thunks_def)
  then show ?thesis
    using thunk_lookup_num [OF assms] by (simp add: thunk_is_genesis_def inj_image_mem_iff [OF inj])
qed

end
