(* ===== verification/Machine_Words.thy ===== *)
theory Machine_Words
  imports Chain_Prelude
begin

text \<open>
  Facts about 64-bit integers that the metering code rests on: when a two's-complement operation
  agrees with the integer operation, and when signed and unsigned readings of a word agree.
\<close>

definition i64_range :: "int \<Rightarrow> bool" where
  "i64_range x \<longleftrightarrow> - (2 ^ 63) \<le> x \<and> x < 2 ^ 63"

definition i64_max :: int where
  "i64_max = 2 ^ 63 - 1"

lemma sint_range [simp]: "i64_range (sint (a :: i64))"
  using sint_ge [of a] sint_lt [of a] by (simp add: i64_range_def)

lemma signed_take_bit_i64: "i64_range x \<Longrightarrow> signed_take_bit 63 x = x"
  by (simp add: i64_range_def signed_take_bit_int_eq_self)

lemma sint_minus_i64: "i64_range (sint a - sint b) \<Longrightarrow> sint (a - b) = sint a - sint (b :: i64)"
  by (simp add: sint_word_ariths signed_take_bit_i64)

lemma sint_plus_i64: "i64_range (sint a + sint b) \<Longrightarrow> sint (a + b) = sint a + sint (b :: i64)"
  by (simp add: sint_word_ariths signed_take_bit_i64)

lemma sint_word_of_int_i64: "i64_range x \<Longrightarrow> sint (word_of_int x :: i64) = x"
  by (simp add: sint_sbintrunc' signed_take_bit_i64)

lemma uint_sint_i64: "uint (a :: i64) = (if 0 \<le> sint a then sint a else sint a + 2 ^ 64)"
proof -
  have u: "uint a = sint a mod 2 ^ 64" by (simp add: uint_sint take_bit_eq_mod)
  have r: "- (2 ^ 63) \<le> sint a" "sint a < 2 ^ 63"
    using sint_range [of a] by (simp_all add: i64_range_def)
  show ?thesis
  proof (cases "0 \<le> sint a")
    case True
    with u r show ?thesis by (simp add: mod_pos_pos_trivial)
  next
    case False
    have "sint a mod 2 ^ 64 = (sint a + 2 ^ 64) mod 2 ^ 64" by simp
    also have "\<dots> = sint a + 2 ^ 64" using False r by (intro mod_pos_pos_trivial) simp_all
    finally show ?thesis using u False by simp
  qed
qed

lemma sint_nonneg_uint: "0 \<le> sint (a :: i64) \<Longrightarrow> sint a = uint a"
  by (simp add: uint_sint_i64)

lemma uint_small_sint: "uint (a :: i64) < 2 ^ 63 \<Longrightarrow> sint a = uint a"
  using sint_range [of a] by (simp add: uint_sint_i64 i64_range_def split: if_splits)

lemma le_div_iff_mult_le_int:
  assumes "0 < (b :: int)"
  shows "t \<le> a div b \<longleftrightarrow> t * b \<le> a"
proof -
  have split: "a = b * (a div b) + a mod b" and r: "0 \<le> a mod b" "a mod b < b"
    using assms by simp_all
  show ?thesis
  proof
    assume "t \<le> a div b"
    then have "t * b \<le> (a div b) * b" using assms by simp
    also have "\<dots> \<le> a" using r(1) by (metis add_le_cancel_left add.right_neutral mult.commute split)
    finally show "t * b \<le> a" .
  next
    assume *: "t * b \<le> a"
    show "t \<le> a div b"
    proof (rule ccontr)
      assume "\<not> t \<le> a div b"
      then have "(a div b + 1) * b \<le> t * b" using assms by (intro mult_right_mono) simp_all
      then show False using * split r by (simp add: algebra_simps)
    qed
  qed
qed

lemma uint_minus_le: "b \<le> a \<Longrightarrow> uint (a - b) = uint a - uint (b :: u64)"
  by (simp add: uint_minus_simple_alt word_le_def)

lemma uint_u64_max: "uint (a :: u64) < 2 ^ 64"
  using uint_lt2p [of a] by simp

end
