(* ===== verification/Session.thy ===== *)
theory Session
  imports Protocol Machine_Words
begin

text \<open>
  \<^verbatim>\<open>session.cpp\<close>: the account a transaction charges its resource credits (rc) to, and the place its
  events and logs collect.  The class implements two abstract interfaces of the source,
  \<open>abstract_rc_session\<close> (\<^verbatim>\<open>resource_meter.hpp\<close>) and \<open>abstract_chronicler_session\<close>
  (\<^verbatim>\<open>chronicler.hpp\<close>).  Each is a locale here: the operations and the laws their clients rely on,
  with what follows for any sequence of charges proved once.  Both are interpreted by \<open>session\<close>.
\<close>

section \<open>The interface of the resource meter\<close>

text \<open>A sequence of charges through an operation \<open>use\<close>, up to the first that is refused.\<close>

primrec charge_all :: "(i64 \<Rightarrow> 's \<Rightarrow> exn + 's) \<Rightarrow> i64 list \<Rightarrow> 's \<Rightarrow> exn + 's" where
  "charge_all use [] s = Inr s"
| "charge_all use (rc # rcs) s =
     (case use rc s of Inl e \<Rightarrow> Inl e | Inr s' \<Rightarrow> charge_all use rcs s')"

lemma charge_all_keeps:
  "(\<And>rc s s'. use rc s = Inr s' \<Longrightarrow> I s \<Longrightarrow> I s') \<Longrightarrow> charge_all use rcs s = Inr s' \<Longrightarrow> I s \<Longrightarrow> I s'"
  by (induction rcs arbitrary: s) (auto split: sum.splits)

text \<open>
  \<open>balance\<close> is the signed credit left, \<open>grant\<close> what the session started with.  \<open>ok\<close> is the state the
  meter sees: neither is negative.
\<close>

locale rc_session =
  fixes use :: "i64 \<Rightarrow> 's \<Rightarrow> exn + 's"
    and remaining used :: "'s \<Rightarrow> u64"
    and balance grant :: "'s \<Rightarrow> int"
    and ok :: "'s \<Rightarrow> bool"
  assumes use_enough: "ok s \<Longrightarrow> 0 \<le> sint rc \<Longrightarrow> sint rc \<le> balance s \<Longrightarrow>
        \<exists>s'. use rc s = Inr s' \<and> balance s' = balance s - sint rc \<and> grant s' = grant s \<and> ok s'"
    and use_short: "ok s \<Longrightarrow> balance s < sint rc \<Longrightarrow>
        use rc s = Inl (kexn insufficient_rc_exception ''insufficient rc'')"
    and balance_nonneg: "ok s \<Longrightarrow> 0 \<le> balance s"
    and uint_used: "ok s \<Longrightarrow> uint (used s) = max 0 (grant s - balance s)"
    and uint_remaining: "ok s \<Longrightarrow> uint (remaining s) = min (grant s) (balance s)"
begin

lemma use_InrD:
  assumes "ok s" "0 \<le> sint rc" "use rc s = Inr s'"
  shows "balance s' = balance s - sint rc \<and> grant s' = grant s \<and> ok s' \<and> sint rc \<le> balance s"
proof (cases "sint rc \<le> balance s")
  case True
  with use_enough [OF assms(1,2)] assms(3) show ?thesis by auto
next
  case False
  with use_short [OF assms(1), of rc] assms(3) show ?thesis by simp
qed

lemma charge_all_balance:
  assumes "ok s" "\<forall>rc \<in> set rcs. 0 \<le> sint rc" "charge_all use rcs s = Inr s'"
  shows "ok s' \<and> grant s' = grant s \<and> balance s' = balance s - (\<Sum>rc\<leftarrow>rcs. sint rc)"
  using assms
proof (induction rcs arbitrary: s)
  case Nil
  then show ?case by simp
next
  case (Cons rc rcs)
  then obtain t where t: "use rc s = Inr t" and rest: "charge_all use rcs t = Inr s'"
    by (auto split: sum.splits)
  have "balance t = balance s - sint rc \<and> grant t = grant s \<and> ok t"
    using use_InrD [OF Cons.prems(1) _ t] Cons.prems(2) by simp
  with Cons.IH [of t] Cons.prems(2) rest show ?case by simp
qed

text \<open>Charges never spend more than the balance, and they succeed exactly when they do not.\<close>

lemma charge_all_iff:
  assumes "ok s" "\<forall>rc \<in> set rcs. 0 \<le> sint rc"
  shows "(\<exists>s'. charge_all use rcs s = Inr s') \<longleftrightarrow> (\<Sum>rc\<leftarrow>rcs. sint rc) \<le> balance s"
  using assms
proof (induction rcs arbitrary: s)
  case Nil
  then show ?case by (simp add: balance_nonneg)
next
  case (Cons rc rcs)
  have nn: "0 \<le> (\<Sum>rc\<leftarrow>rcs. sint rc)"
    using Cons.prems(2) by (intro sum_list_nonneg) auto
  show ?case
  proof (cases "sint rc \<le> balance s")
    case True
    with use_enough [OF Cons.prems(1)] Cons.prems(2) obtain t
      where t: "use rc s = Inr t" "balance t = balance s - sint rc" "ok t" by auto
    with Cons.IH [of t] Cons.prems(2) show ?thesis by (simp add: algebra_simps)
  next
    case False
    with use_short [OF Cons.prems(1)] nn show ?thesis by simp
  qed
qed

lemma used_plus_remaining: "ok s \<Longrightarrow> uint (used s) + uint (remaining s) = grant s"
  by (simp add: uint_used uint_remaining)

end

section \<open>The interface of the chronicler\<close>

locale chronicler_session =
  fixes push_event :: "event_data \<Rightarrow> 's \<Rightarrow> 's"
    and events :: "'s \<Rightarrow> event_data list"
    and push_log :: "bytes \<Rightarrow> 's \<Rightarrow> 's"
    and logs :: "'s \<Rightarrow> bytes list"
  assumes events_push_event: "events (push_event ev s) = events s @ [ev]"
    and logs_push_event: "logs (push_event ev s) = logs s"
    and logs_push_log: "logs (push_log l s) = logs s @ [l]"
    and events_push_log: "events (push_log l s) = events s"
begin

lemma events_fold_push: "events (fold push_event evs s) = events s @ evs"
  by (induction evs arbitrary: s) (simp_all add: events_push_event)

lemma logs_fold_push: "logs (fold push_log ls s) = logs s @ ls"
  by (induction ls arbitrary: s) (simp_all add: logs_push_log)

end

section \<open>The class \<open>session\<close>\<close>

record session =
  s_begin_rc :: i64
  s_end_rc :: i64
  s_events :: "event_data list"
  s_logs :: "bytes list"

definition session_new :: "i64 \<Rightarrow> session" where
  "session_new begin_rc = \<lparr>s_begin_rc = begin_rc, s_end_rc = begin_rc, s_events = [], s_logs = []\<rparr>"

definition use_rc :: "i64 \<Rightarrow> session \<Rightarrow> exn + session" where
  "use_rc rc s =
     (if sint rc \<le> sint (s_end_rc s) then Inr (s\<lparr>s_end_rc := s_end_rc s - rc\<rparr>)
      else Inl (kexn insufficient_rc_exception ''insufficient rc''))"

definition remaining_rc :: "session \<Rightarrow> u64" where
  "remaining_rc s =
     (if sint (s_end_rc s) < sint (s_begin_rc s) then s_end_rc s else s_begin_rc s)"

definition used_rc :: "session \<Rightarrow> u64" where
  "used_rc s =
     (if sint (s_begin_rc s) < sint (s_end_rc s) then 0 else s_begin_rc s - s_end_rc s)"

definition session_push_event :: "event_data \<Rightarrow> session \<Rightarrow> session" where
  "session_push_event ev s = s\<lparr>s_events := s_events s @ [ev]\<rparr>"

definition session_push_log :: "bytes \<Rightarrow> session \<Rightarrow> session" where
  "session_push_log l s = s\<lparr>s_logs := s_logs s @ [l]\<rparr>"

definition rc_balance :: "session \<Rightarrow> int" where
  "rc_balance s = sint (s_end_rc s)"

definition rc_grant :: "session \<Rightarrow> int" where
  "rc_grant s = sint (s_begin_rc s)"

definition session_ok :: "session \<Rightarrow> bool" where
  "session_ok s \<longleftrightarrow> 0 \<le> sint (s_begin_rc s) \<and> 0 \<le> sint (s_end_rc s)"

lemmas session_defs = use_rc_def remaining_rc_def used_rc_def rc_balance_def rc_grant_def session_ok_def

lemma sint_end_minus:
  "session_ok s \<Longrightarrow> 0 \<le> sint rc \<Longrightarrow> sint (s_end_rc s - rc) = sint (s_end_rc s) - sint rc"
  using sint_range [of "s_end_rc s"] sint_range [of rc]
  by (intro sint_minus_i64) (simp add: session_ok_def i64_range_def)

lemma uint_used_rc: "session_ok s \<Longrightarrow> uint (used_rc s) = max 0 (rc_grant s - rc_balance s)"
proof (cases "sint (s_begin_rc s) < sint (s_end_rc s)")
  case False
  assume ok: "session_ok s"
  have "sint (s_begin_rc s - s_end_rc s) = sint (s_begin_rc s) - sint (s_end_rc s)"
    using ok sint_range [of "s_begin_rc s"] sint_range [of "s_end_rc s"]
    by (intro sint_minus_i64) (simp add: session_ok_def i64_range_def)
  with False show ?thesis
    using sint_nonneg_uint [of "s_begin_rc s - s_end_rc s"] by (simp add: session_defs)
qed (simp add: session_defs)

interpretation rcs: rc_session use_rc remaining_rc used_rc rc_balance rc_grant session_ok
proof unfold_locales
  fix s :: session and rc :: i64
  assume ok: "session_ok s" and nn: "0 \<le> sint rc" and le: "sint rc \<le> rc_balance s"
  show "\<exists>s'. use_rc rc s = Inr s' \<and> rc_balance s' = rc_balance s - sint rc \<and>
             rc_grant s' = rc_grant s \<and> session_ok s'"
    using ok le sint_end_minus [OF ok nn] by (simp add: session_defs)
next
  fix s :: session
  assume "session_ok s"
  then show "uint (remaining_rc s) = min (rc_grant s) (rc_balance s)"
    by (simp add: session_defs sint_nonneg_uint min_def)
qed (simp_all add: session_defs uint_used_rc [unfolded session_defs])

interpretation chs: chronicler_session session_push_event s_events session_push_log s_logs
  by unfold_locales (simp_all add: session_push_event_def session_push_log_def)

text \<open>
  C25.  A transaction's session is a budget.  For any sequence of non-negative charges against a
  fresh session of \<open>limit\<close> credits: all of them are accepted exactly when their sum is within the
  limit, and then the session reports the sum as used and the rest as remaining.
\<close>

theorem session_is_a_budget:
  assumes "0 \<le> sint limit" and "\<forall>rc \<in> set rcs. 0 \<le> sint rc"
  shows "(case charge_all use_rc rcs (session_new limit) of
            Inl e \<Rightarrow> sint limit < (\<Sum>rc\<leftarrow>rcs. sint rc)
          | Inr s \<Rightarrow> (\<Sum>rc\<leftarrow>rcs. sint rc) \<le> sint limit
                   \<and> uint (used_rc s) = (\<Sum>rc\<leftarrow>rcs. sint rc)
                   \<and> uint (remaining_rc s) = sint limit - (\<Sum>rc\<leftarrow>rcs. sint rc))"
proof -
  let ?t = "\<Sum>rc\<leftarrow>rcs. sint rc"
  have ok: "session_ok (session_new limit)"
    and bal: "rc_balance (session_new limit) = sint limit" "rc_grant (session_new limit) = sint limit"
    using assms(1) by (simp_all add: session_defs session_new_def)
  have nn: "0 \<le> ?t" using assms(2) by (intro sum_list_nonneg) auto
  note iff = rcs.charge_all_iff [OF ok assms(2), unfolded bal]
  show ?thesis
  proof (cases "charge_all use_rc rcs (session_new limit)")
    case (Inl e)
    with iff show ?thesis by simp
  next
    case (Inr s)
    with rcs.charge_all_balance [OF ok assms(2)] bal
    have "session_ok s" "rc_grant s = sint limit" "rc_balance s = sint limit - ?t" by simp_all
    with Inr iff nn show ?thesis by (simp add: rcs.uint_used rcs.uint_remaining)
  qed
qed

theorem session_is_a_budget_witness:
  "charge_all use_rc [30, 50] (session_new 100) =
     Inr \<lparr>s_begin_rc = 100, s_end_rc = 20, s_events = [], s_logs = []\<rparr>
   \<and> uint (used_rc \<lparr>s_begin_rc = 100, s_end_rc = 20, s_events = [], s_logs = []\<rparr>) = 80"
proof -
  have run: "charge_all use_rc [30, 50] (session_new 100) =
      Inr \<lparr>s_begin_rc = 100, s_end_rc = 20, s_events = [], s_logs = []\<rparr>"
    by (simp add: use_rc_def session_new_def)
  show ?thesis
    using session_is_a_budget [of 100 "[30, 50]"] run by simp
qed

end
