(* ===== verification/Resource_Meter.thy ===== *)
theory Resource_Meter
  imports Session
begin

text \<open>
  \<^verbatim>\<open>resource_meter.cpp\<close>: the per-context meter of disk storage, network bandwidth and compute
  bandwidth.  Each operation works on the meter together with the session its weak pointer locks
  to: \<open>Some s\<close> while a payer session is alive, \<open>None\<close> otherwise.  Comparisons are the ones C++
  performs on the operands' types: \<open>sint\<close> where both are \<open>int64_t\<close>, \<open>\<le>\<close> on words where the usual
  arithmetic conversions make both \<open>uint64_t\<close>.  The conversion of a 128-bit product to \<open>int64_t\<close> is
  Boost.Multiprecision's and a parameter, \<open>cvt\<close>.
\<close>

record resource_meter =
  rm_disk_storage_remaining :: u64
  rm_system_disk_storage_used :: i64
  rm_network_bandwidth_remaining :: u64
  rm_system_network_bandwidth_used :: i64
  rm_compute_bandwidth_remaining :: u64
  rm_system_compute_bandwidth_used :: i64
  rm_resource_limit_data :: resource_limit_data
  rm_session :: "nat option"

type_synonym metered = "session option \<times> resource_meter"

section \<open>Operations\<close>

definition set_resource_limit_data :: "resource_limit_data \<Rightarrow> resource_meter \<Rightarrow> resource_meter" where
  "set_resource_limit_data rld m = m
     \<lparr>rm_resource_limit_data := rld,
      rm_disk_storage_remaining := disk_storage_limit rld,
      rm_system_disk_storage_used := 0,
      rm_network_bandwidth_remaining := network_bandwidth_limit rld,
      rm_system_network_bandwidth_used := 0,
      rm_compute_bandwidth_remaining := compute_bandwidth_limit rld,
      rm_system_compute_bandwidth_used := 0\<rparr>"

definition resource_meter_new :: resource_meter where
  "resource_meter_new =
     set_resource_limit_data
       (empty_resource_limit_data
          \<lparr>disk_storage_limit := - 1, network_bandwidth_limit := - 1, compute_bandwidth_limit := - 1\<rparr>)
       \<lparr>rm_disk_storage_remaining = 0, rm_system_disk_storage_used = 0,
        rm_network_bandwidth_remaining = 0, rm_system_network_bandwidth_used = 0,
        rm_compute_bandwidth_remaining = 0, rm_system_compute_bandwidth_used = 0,
        rm_resource_limit_data = empty_resource_limit_data, rm_session = None\<rparr>"

definition meter_set_session :: "nat option \<Rightarrow> resource_meter \<Rightarrow> resource_meter" where
  "meter_set_session s m = m\<lparr>rm_session := s\<rparr>"

text \<open>
  The part the three \<open>use_\<close> functions share: the amount times its unit cost, computed in 128 bits,
  must fit an \<open>int64_t\<close> and is charged to the session.
\<close>

definition charge_rc :: "(int \<Rightarrow> i64) \<Rightarrow> i64 \<Rightarrow> u64 \<Rightarrow> session \<Rightarrow> exn + session" where
  "charge_rc cvt amount cost s =
     (let rc_cost = sint amount * uint cost in
      if rc_cost \<le> i64_max then use_rc (cvt rc_cost) s
      else Inl (kexn reversion_exception ''rc overflow''))"

fun use_disk_storage :: "(int \<Rightarrow> i64) \<Rightarrow> i64 \<Rightarrow> metered \<Rightarrow> exn + metered" where
  "use_disk_storage cvt bytes (ses, m) =
     (if \<not> sint bytes \<le> sint (rm_disk_storage_remaining m) then
        Inl (kexn disk_storage_limit_exceeded_exception ''disk storage limit exceeded'')
      else
        let m' = m\<lparr>rm_disk_storage_remaining :=
                     (if 0 \<le> sint bytes then rm_disk_storage_remaining m - bytes
                      else rm_disk_storage_remaining m + (- 1 * bytes))\<rparr> in
        case ses of
          Some s \<Rightarrow>
            (case charge_rc cvt bytes (disk_storage_cost (rm_resource_limit_data m)) s of
               Inl e \<Rightarrow> Inl e
             | Inr s' \<Rightarrow> Inr (Some s', m'))
        | None \<Rightarrow>
            Inr (None, m'\<lparr>rm_system_disk_storage_used := rm_system_disk_storage_used m + bytes\<rparr>))"

definition disk_storage_used :: "resource_meter \<Rightarrow> u64" where
  "disk_storage_used m =
     (if disk_storage_limit (rm_resource_limit_data m) < rm_disk_storage_remaining m then 0
      else disk_storage_limit (rm_resource_limit_data m) - rm_disk_storage_remaining m)"

fun disk_storage_remaining :: "metered \<Rightarrow> u64" where
  "disk_storage_remaining (ses, m) =
     (case ses of
        Some s \<Rightarrow>
          (let cost = disk_storage_cost (rm_resource_limit_data m) in
           if 0 < cost then min (remaining_rc s div cost) (rm_disk_storage_remaining m)
           else rm_disk_storage_remaining m)
      | None \<Rightarrow> rm_disk_storage_remaining m)"

definition system_disk_storage_used :: "resource_meter \<Rightarrow> u64" where
  "system_disk_storage_used m =
     (if 0 < sint (rm_system_disk_storage_used m) then rm_system_disk_storage_used m else 0)"

fun use_network_bandwidth :: "(int \<Rightarrow> i64) \<Rightarrow> i64 \<Rightarrow> metered \<Rightarrow> exn + metered" where
  "use_network_bandwidth cvt bytes (ses, m) =
     (if \<not> bytes \<le> rm_network_bandwidth_remaining m then
        Inl (kexn network_bandwidth_limit_exceeded_exception ''network bandwidth limit exceeded'')
      else if \<not> 0 \<le> sint bytes then
        Inl (kexn network_bandwidth_limit_exceeded_exception ''cannot consume negative network bandwidth'')
      else
        let m' = m\<lparr>rm_network_bandwidth_remaining := rm_network_bandwidth_remaining m - bytes\<rparr> in
        case ses of
          Some s \<Rightarrow>
            (case charge_rc cvt bytes (network_bandwidth_cost (rm_resource_limit_data m)) s of
               Inl e \<Rightarrow> Inl e
             | Inr s' \<Rightarrow> Inr (Some s', m'))
        | None \<Rightarrow>
            Inr (None, m'\<lparr>rm_system_network_bandwidth_used := rm_system_network_bandwidth_used m + bytes\<rparr>))"

definition network_bandwidth_used :: "resource_meter \<Rightarrow> u64" where
  "network_bandwidth_used m =
     network_bandwidth_limit (rm_resource_limit_data m) - rm_network_bandwidth_remaining m"

fun network_bandwidth_remaining :: "metered \<Rightarrow> u64" where
  "network_bandwidth_remaining (ses, m) =
     (case ses of
        Some s \<Rightarrow>
          (let cost = network_bandwidth_cost (rm_resource_limit_data m) in
           if 0 < cost then min (remaining_rc s div cost) (rm_network_bandwidth_remaining m)
           else rm_network_bandwidth_remaining m)
      | None \<Rightarrow> rm_network_bandwidth_remaining m)"

definition system_network_bandwidth_used :: "resource_meter \<Rightarrow> u64" where
  "system_network_bandwidth_used m =
     (if 0 < sint (rm_system_network_bandwidth_used m) then rm_system_network_bandwidth_used m else 0)"

fun use_compute_bandwidth :: "(int \<Rightarrow> i64) \<Rightarrow> i64 \<Rightarrow> metered \<Rightarrow> exn + metered" where
  "use_compute_bandwidth cvt ticks (ses, m) =
     (if \<not> ticks \<le> rm_compute_bandwidth_remaining m then
        Inl (kexn compute_bandwidth_limit_exceeded_exception ''compute bandwidth limit exceeded'')
      else if \<not> 0 \<le> sint ticks then
        Inl (kexn compute_bandwidth_limit_exceeded_exception ''cannot consume compute bandwidth bandwidth'')
      else
        let m' = m\<lparr>rm_compute_bandwidth_remaining := rm_compute_bandwidth_remaining m - ticks\<rparr> in
        case ses of
          Some s \<Rightarrow>
            (case charge_rc cvt ticks (compute_bandwidth_cost (rm_resource_limit_data m)) s of
               Inl e \<Rightarrow> Inl e
             | Inr s' \<Rightarrow> Inr (Some s', m'))
        | None \<Rightarrow>
            Inr (None, m'\<lparr>rm_system_compute_bandwidth_used := rm_system_compute_bandwidth_used m + ticks\<rparr>))"

definition compute_bandwidth_used :: "resource_meter \<Rightarrow> u64" where
  "compute_bandwidth_used m =
     compute_bandwidth_limit (rm_resource_limit_data m) - rm_compute_bandwidth_remaining m"

fun compute_bandwidth_remaining :: "metered \<Rightarrow> u64" where
  "compute_bandwidth_remaining (ses, m) =
     (case ses of
        Some s \<Rightarrow>
          (let cost = compute_bandwidth_cost (rm_resource_limit_data m) in
           if 0 < cost then min (remaining_rc s div cost) (rm_compute_bandwidth_remaining m)
           else rm_compute_bandwidth_remaining m)
      | None \<Rightarrow> rm_compute_bandwidth_remaining m)"

definition system_compute_bandwidth_used :: "resource_meter \<Rightarrow> u64" where
  "system_compute_bandwidth_used m =
     (if 0 < sint (rm_system_compute_bandwidth_used m) then rm_system_compute_bandwidth_used m else 0)"

section \<open>Charging the session\<close>

text \<open>What the code relies on: the conversion is exact on values an \<open>int64_t\<close> can hold.\<close>

definition cvt_ok :: "(int \<Rightarrow> i64) \<Rightarrow> bool" where
  "cvt_ok cvt \<longleftrightarrow> (\<forall>x. i64_range x \<longrightarrow> sint (cvt x) = x)"

lemma cvt_ok_word_of_int: "cvt_ok word_of_int"
  by (simp add: cvt_ok_def sint_word_of_int_i64)

lemma i64_rangeI: "0 \<le> x \<Longrightarrow> x \<le> i64_max \<Longrightarrow> i64_range x"
  by (simp add: i64_max_def i64_range_def)

lemma balance_le_max: "rc_balance s \<le> i64_max"
  using sint_range [of "s_end_rc s"] by (simp add: rc_balance_def i64_max_def i64_range_def)

lemma charge_rc_iff:
  assumes "cvt_ok cvt" "session_ok s" "0 \<le> sint amount"
  shows "(\<exists>s'. charge_rc cvt amount cost s = Inr s') \<longleftrightarrow> sint amount * uint cost \<le> rc_balance s"
proof (cases "sint amount * uint cost \<le> i64_max")
  case True
  with assms have "sint (cvt (sint amount * uint cost)) = sint amount * uint cost"
    by (simp add: cvt_ok_def i64_rangeI)
  with True show ?thesis by (simp add: charge_rc_def use_rc_def rc_balance_def Let_def)
next
  case False
  with balance_le_max [of s] show ?thesis by (simp add: charge_rc_def)
qed

lemma charge_rc_result:
  assumes "cvt_ok cvt" "session_ok s" "0 \<le> sint amount" "charge_rc cvt amount cost s = Inr s'"
  shows "session_ok s' \<and> rc_grant s' = rc_grant s \<and> rc_balance s' = rc_balance s - sint amount * uint cost"
proof -
  let ?x = "sint amount * uint cost"
  have max: "?x \<le> i64_max" and use: "use_rc (cvt ?x) s = Inr s'"
    using assms(4) by (simp_all add: charge_rc_def Let_def split: if_splits)
  have x: "sint (cvt ?x) = ?x" using assms(1,3) max by (simp add: cvt_ok_def i64_rangeI)
  have "0 \<le> sint (cvt ?x)" using x assms(3) by simp
  from rcs.use_InrD [OF assms(2) this use] x show ?thesis by simp
qed

section \<open>One contract for the two bandwidths\<close>

text \<open>
  Network and compute bandwidth are metered by the same scheme: an amount left, which only
  shrinks, and a unit cost in rc.  The locale states the scheme; that a whole sequence of charges
  is accepted exactly when both budgets cover it is proved once.
\<close>

locale metered_bandwidth =
  fixes charge :: "(int \<Rightarrow> i64) \<Rightarrow> i64 \<Rightarrow> metered \<Rightarrow> exn + metered"
    and left cost :: "resource_meter \<Rightarrow> u64"
  assumes charge_iff: "cvt_ok cvt \<Longrightarrow> session_ok s \<Longrightarrow> 0 \<le> sint t \<Longrightarrow>
        (\<exists>r. charge cvt t (Some s, m) = Inr r) \<longleftrightarrow>
        sint t \<le> uint (left m) \<and> sint t * uint (cost m) \<le> rc_balance s"
    and charge_result: "cvt_ok cvt \<Longrightarrow> session_ok s \<Longrightarrow> 0 \<le> sint t \<Longrightarrow>
        charge cvt t (Some s, m) = Inr (ses', m') \<Longrightarrow>
        \<exists>s'. ses' = Some s' \<and> session_ok s' \<and> rc_grant s' = rc_grant s
           \<and> rc_balance s' = rc_balance s - sint t * uint (cost m)
           \<and> uint (left m') = uint (left m) - sint t \<and> cost m' = cost m"
begin

lemma charges_result:
  assumes "cvt_ok cvt" "session_ok s" "\<forall>t \<in> set ts. 0 \<le> sint t"
    and "charge_all (charge cvt) ts (Some s, m) = Inr (ses', m')"
  shows "\<exists>s'. ses' = Some s' \<and> session_ok s' \<and> rc_grant s' = rc_grant s
           \<and> rc_balance s' = rc_balance s - (\<Sum>t\<leftarrow>ts. sint t) * uint (cost m)
           \<and> uint (left m') = uint (left m) - (\<Sum>t\<leftarrow>ts. sint t) \<and> cost m' = cost m"
  using assms(2-)
proof (induction ts arbitrary: s m)
  case Nil
  then show ?case by auto
next
  case (Cons t ts)
  from Cons.prems(3) obtain ses1 m1 where
    1: "charge cvt t (Some s, m) = Inr (ses1, m1)"
    and rest: "charge_all (charge cvt) ts (ses1, m1) = Inr (ses', m')"
    by (auto split: sum.splits)
  from charge_result [OF assms(1) Cons.prems(1) _ 1] Cons.prems(2) obtain s1 where
    s1: "ses1 = Some s1" "session_ok s1" "rc_grant s1 = rc_grant s"
      "rc_balance s1 = rc_balance s - sint t * uint (cost m)"
      "uint (left m1) = uint (left m) - sint t" "cost m1 = cost m" by auto
  with Cons.IH [OF s1(2), of m1] Cons.prems(2) rest obtain s2 where
    "ses' = Some s2" "session_ok s2" "rc_grant s2 = rc_grant s1"
    "rc_balance s2 = rc_balance s1 - (\<Sum>t\<leftarrow>ts. sint t) * uint (cost m1)"
    "uint (left m') = uint (left m1) - (\<Sum>t\<leftarrow>ts. sint t)" "cost m' = cost m1" by auto
  with s1 show ?case by (simp add: algebra_simps)
qed

lemma charges_iff:
  assumes "cvt_ok cvt" "session_ok s" "\<forall>t \<in> set ts. 0 \<le> sint t"
  shows "(\<exists>r. charge_all (charge cvt) ts (Some s, m) = Inr r) \<longleftrightarrow>
         (\<Sum>t\<leftarrow>ts. sint t) \<le> uint (left m) \<and> (\<Sum>t\<leftarrow>ts. sint t) * uint (cost m) \<le> rc_balance s"
  using assms(2-)
proof (induction ts arbitrary: s m)
  case Nil
  then show ?case by (simp add: rcs.balance_nonneg)
next
  case (Cons t ts)
  let ?T = "\<Sum>t\<leftarrow>ts. sint t"
  have nn: "0 \<le> ?T" using Cons.prems(2) by (intro sum_list_nonneg) auto
  have t0: "0 \<le> sint t" using Cons.prems(2) by simp
  show ?case
  proof (cases "charge cvt t (Some s, m)")
    case (Inl e)
    with charge_iff [OF assms(1) Cons.prems(1) t0, of m]
    have "\<not> (sint t \<le> uint (left m) \<and> sint t * uint (cost m) \<le> rc_balance s)" by auto
    moreover have "sint t * uint (cost m) \<le> (sint t + ?T) * uint (cost m)"
      using nn by (simp add: mult_right_mono)
    ultimately show ?thesis using Inl nn by auto
  next
    case (Inr r)
    obtain ses1 m1 where r: "r = (ses1, m1)" by fastforce
    from charge_result [OF assms(1) Cons.prems(1) t0 Inr [unfolded r]] obtain s1 where
      s1: "ses1 = Some s1" "session_ok s1" "rc_balance s1 = rc_balance s - sint t * uint (cost m)"
        "uint (left m1) = uint (left m) - sint t" "cost m1 = cost m" by auto
    have "(\<exists>r. charge_all (charge cvt) ts (Some s1, m1) = Inr r) \<longleftrightarrow>
          ?T \<le> uint (left m) - sint t \<and> ?T * uint (cost m) \<le> rc_balance s - sint t * uint (cost m)"
      using Cons.IH [OF s1(2)] Cons.prems(2) s1 by simp
    then show ?thesis using Inr r s1(1) by (simp add: algebra_simps)
  qed
qed

end

lemma le_uint_sint: "0 \<le> sint t \<Longrightarrow> t \<le> (left :: u64) \<longleftrightarrow> sint t \<le> uint left"
  by (simp add: sint_nonneg_uint word_le_def)

lemma uint_left_minus: "0 \<le> sint t \<Longrightarrow> t \<le> (left :: u64) \<Longrightarrow> uint (left - t) = uint left - sint t"
  by (simp add: uint_minus_le sint_nonneg_uint)

interpretation compute: metered_bandwidth use_compute_bandwidth rm_compute_bandwidth_remaining
  "\<lambda>m. compute_bandwidth_cost (rm_resource_limit_data m)"
proof unfold_locales
  fix cvt s and t :: i64 and m
  assume "cvt_ok cvt" "session_ok s" "0 \<le> sint t"
  then show "(\<exists>r. use_compute_bandwidth cvt t (Some s, m) = Inr r) \<longleftrightarrow>
      sint t \<le> uint (rm_compute_bandwidth_remaining m) \<and>
      sint t * uint (compute_bandwidth_cost (rm_resource_limit_data m)) \<le> rc_balance s"
    by (auto simp: Let_def le_uint_sint charge_rc_iff [symmetric] split: sum.splits)
next
  fix cvt s and t :: i64 and m ses' m'
  assume *: "cvt_ok cvt" "session_ok s" "0 \<le> sint t"
    and "use_compute_bandwidth cvt t (Some s, m) = Inr (ses', m')"
  then show "\<exists>s'. ses' = Some s' \<and> session_ok s' \<and> rc_grant s' = rc_grant s \<and>
       rc_balance s' = rc_balance s - sint t * uint (compute_bandwidth_cost (rm_resource_limit_data m)) \<and>
       uint (rm_compute_bandwidth_remaining m') = uint (rm_compute_bandwidth_remaining m) - sint t \<and>
       compute_bandwidth_cost (rm_resource_limit_data m') = compute_bandwidth_cost (rm_resource_limit_data m)"
    by (auto simp: Let_def uint_left_minus dest: charge_rc_result [OF *] split: if_splits sum.splits)
qed

interpretation network: metered_bandwidth use_network_bandwidth rm_network_bandwidth_remaining
  "\<lambda>m. network_bandwidth_cost (rm_resource_limit_data m)"
proof unfold_locales
  fix cvt s and t :: i64 and m
  assume "cvt_ok cvt" "session_ok s" "0 \<le> sint t"
  then show "(\<exists>r. use_network_bandwidth cvt t (Some s, m) = Inr r) \<longleftrightarrow>
      sint t \<le> uint (rm_network_bandwidth_remaining m) \<and>
      sint t * uint (network_bandwidth_cost (rm_resource_limit_data m)) \<le> rc_balance s"
    by (auto simp: Let_def le_uint_sint charge_rc_iff [symmetric] split: sum.splits)
next
  fix cvt s and t :: i64 and m ses' m'
  assume *: "cvt_ok cvt" "session_ok s" "0 \<le> sint t"
    and "use_network_bandwidth cvt t (Some s, m) = Inr (ses', m')"
  then show "\<exists>s'. ses' = Some s' \<and> session_ok s' \<and> rc_grant s' = rc_grant s \<and>
       rc_balance s' = rc_balance s - sint t * uint (network_bandwidth_cost (rm_resource_limit_data m)) \<and>
       uint (rm_network_bandwidth_remaining m') = uint (rm_network_bandwidth_remaining m) - sint t \<and>
       network_bandwidth_cost (rm_resource_limit_data m') = network_bandwidth_cost (rm_resource_limit_data m)"
    by (auto simp: Let_def uint_left_minus dest: charge_rc_result [OF *] split: if_splits sum.splits)
qed

section \<open>Properties\<close>

text \<open>
  The invariant of the meter: what is left of either bandwidth never exceeds its limit, so the
  subtraction that computes the used amount does not wrap.
\<close>

definition meter_ok :: "resource_meter \<Rightarrow> bool" where
  "meter_ok m \<longleftrightarrow>
     rm_network_bandwidth_remaining m \<le> network_bandwidth_limit (rm_resource_limit_data m) \<and>
     rm_compute_bandwidth_remaining m \<le> compute_bandwidth_limit (rm_resource_limit_data m)"

lemma meter_ok_set [simp]: "meter_ok (set_resource_limit_data rld m)"
  by (simp add: meter_ok_def set_resource_limit_data_def)

lemma meter_ok_new [simp]: "meter_ok resource_meter_new"
  by (simp add: resource_meter_new_def)

lemma minus_le_left: "t \<le> left \<Longrightarrow> left \<le> lim \<Longrightarrow> left - t \<le> (lim :: u64)"
  by (meson order.trans word_sub_le)

lemma meter_ok_use_compute:
  "use_compute_bandwidth cvt t (ses, m) = Inr (ses', m') \<Longrightarrow> meter_ok m \<Longrightarrow> meter_ok m'"
  by (auto simp: meter_ok_def Let_def minus_le_left split: if_splits option.splits sum.splits)

lemma meter_ok_use_network:
  "use_network_bandwidth cvt t (ses, m) = Inr (ses', m') \<Longrightarrow> meter_ok m \<Longrightarrow> meter_ok m'"
  by (auto simp: meter_ok_def Let_def minus_le_left split: if_splits option.splits sum.splits)

lemma meter_ok_use_disk:
  "use_disk_storage cvt t (ses, m) = Inr (ses', m') \<Longrightarrow> meter_ok m \<Longrightarrow> meter_ok m'"
  by (auto simp: meter_ok_def Let_def split: if_splits option.splits sum.splits)

lemma meter_ok_session [simp]: "meter_ok (m\<lparr>rm_session := s\<rparr>) = meter_ok m"
  by (simp add: meter_ok_def)

lemma meter_ok_set_session [simp]: "meter_ok (meter_set_session s m) = meter_ok m"
  by (simp add: meter_set_session_def)

lemma use_compute_limits:
  "use_compute_bandwidth cvt t x = Inr y \<Longrightarrow> rm_resource_limit_data (snd y) = rm_resource_limit_data (snd x)"
  by (cases x) (auto simp: Let_def split: if_splits option.splits sum.splits)

lemma charge_all_compute_keeps:
  assumes "charge_all (use_compute_bandwidth cvt) ts (ses, m) = Inr (ses', m')" "meter_ok m"
  shows "meter_ok m' \<and> rm_resource_limit_data m' = rm_resource_limit_data m"
proof -
  let ?I = "\<lambda>x. meter_ok (snd x) \<and> rm_resource_limit_data (snd x) = rm_resource_limit_data m"
  have "?I y" if "use_compute_bandwidth cvt t x = Inr y" "?I x" for t x y
    using that use_compute_limits [OF that(1)] meter_ok_use_compute [of cvt t "fst x" "snd x" "fst y" "snd y"]
    by simp
  from charge_all_keeps [of "use_compute_bandwidth cvt" ?I, OF this assms(1)] assms(2)
  show ?thesis by simp
qed

lemma uint_compute_used:
  "meter_ok m \<Longrightarrow> uint (compute_bandwidth_used m) =
     uint (compute_bandwidth_limit (rm_resource_limit_data m)) - uint (rm_compute_bandwidth_remaining m)"
  by (simp add: compute_bandwidth_used_def meter_ok_def uint_minus_le)

text \<open>
  C26.  Compute metering is exact under a payer session.  Charging a sequence of non-negative tick
  counts succeeds exactly when their sum is within the compute bandwidth left and the rc it costs
  is within the session's balance; afterwards the meter's used compute has grown by exactly that
  sum and the session has paid exactly sum times unit cost.
\<close>

theorem compute_metering_exact:
  assumes "cvt_ok cvt" and "meter_ok m" and "session_ok s" and "\<forall>t \<in> set ts. 0 \<le> sint t"
  shows "let ticks = (\<Sum>t\<leftarrow>ts. sint t);
             rc = ticks * uint (compute_bandwidth_cost (rm_resource_limit_data m));
             left = uint (rm_compute_bandwidth_remaining m)
         in case charge_all (use_compute_bandwidth cvt) ts (Some s, m) of
              Inl e \<Rightarrow> left < ticks \<or> rc_balance s < rc
            | Inr (ses', m') \<Rightarrow>
                ticks \<le> left \<and> rc \<le> rc_balance s
                \<and> uint (compute_bandwidth_used m') = uint (compute_bandwidth_used m) + ticks
                \<and> (\<exists>s'. ses' = Some s' \<and> rc_balance s' = rc_balance s - rc)"
proof (cases "charge_all (use_compute_bandwidth cvt) ts (Some s, m)")
  case (Inl e)
  with compute.charges_iff [OF assms(1,3,4), of m] show ?thesis
    by (auto simp: Let_def)
next
  case (Inr r)
  obtain ses' m' where r: "r = (ses', m')" by fastforce
  from compute.charges_iff [OF assms(1,3,4), of m] Inr
    compute.charges_result [OF assms(1,3,4) Inr [unfolded r]]
    charge_all_compute_keeps [OF Inr [unfolded r] assms(2)] assms(2)
  show ?thesis by (auto simp: Let_def r uint_compute_used)
qed

lemma remaining_affordable:
  assumes "cvt_ok cvt" "session_ok s" "0 \<le> sint t"
    and "t \<le> compute_bandwidth_remaining (Some s, m)"
  shows "\<exists>r. use_compute_bandwidth cvt t (Some s, m) = Inr r"
proof -
  let ?cost = "compute_bandwidth_cost (rm_resource_limit_data m)"
  have le: "sint t \<le> uint (rm_compute_bandwidth_remaining m)"
    using assms(3,4) by (auto simp: Let_def word_le_def sint_nonneg_uint min_def split: if_splits)
  have "sint t * uint ?cost \<le> rc_balance s"
  proof (cases "0 < ?cost")
    case True
    with assms(3,4) have "sint t \<le> uint (remaining_rc s) div uint ?cost"
      by (auto simp: Let_def word_le_def sint_nonneg_uint min_def uint_div split: if_splits)
    with True have "sint t * uint ?cost \<le> uint (remaining_rc s)"
      by (simp add: le_div_iff_mult_le_int word_less_def)
    also have "\<dots> \<le> rc_balance s" using assms(2) by (simp add: rcs.uint_remaining)
    finally show ?thesis .
  next
    case False
    then have "?cost = 0" by (simp add: word_gt_0)
    then show ?thesis using assms(2) by (simp add: rcs.balance_nonneg)
  qed
  with le compute.charge_iff [OF assms(1-3), of m] show ?thesis by simp
qed

lemma beyond_remaining_refused:
  assumes "cvt_ok cvt" "session_ok s" "0 \<le> sint t" "rc_balance s \<le> rc_grant s"
    and "compute_bandwidth_remaining (Some s, m) < t"
  shows "\<exists>e. use_compute_bandwidth cvt t (Some s, m) = Inl e"
proof -
  let ?cost = "compute_bandwidth_cost (rm_resource_limit_data m)"
  have "uint (rm_compute_bandwidth_remaining m) < sint t \<or> rc_balance s < sint t * uint ?cost"
  proof (cases "uint (rm_compute_bandwidth_remaining m) < sint t")
    case False
    with assms(3,5) have pos: "0 < ?cost" and less: "uint (remaining_rc s) div uint ?cost < sint t"
      by (auto simp: Let_def word_less_def sint_nonneg_uint min_def uint_div split: if_splits)
    then have "uint (remaining_rc s) < sint t * uint ?cost"
      using le_div_iff_mult_le_int [of "uint ?cost" "sint t" "uint (remaining_rc s)"]
      by (simp add: word_less_def)
    then show ?thesis using assms(2,4) by (simp add: rcs.uint_remaining)
  qed simp
  with compute.charge_iff [OF assms(1-3), of m] show ?thesis
    by (cases "use_compute_bandwidth cvt t (Some s, m)") auto
qed

text \<open>
  The compute budget the meter reports is exactly what a caller can spend: the reported amount
  can be charged, and one tick more cannot, as long as the session has not been credited beyond its
  starting grant.
\<close>

lemma reported_compute_is_spendable:
  assumes "cvt_ok cvt" and "session_ok s" and "rc_balance s \<le> rc_grant s" and "0 \<le> sint t"
  shows "(\<exists>r. use_compute_bandwidth cvt t (Some s, m) = Inr r) \<longleftrightarrow>
         t \<le> compute_bandwidth_remaining (Some s, m)"
  using remaining_affordable [OF assms(1,2,4)] beyond_remaining_refused [OF assms(1,2,4,3)]
  by (metis Inr_Inl_False linorder_not_le)

text \<open>
  A meter in its default state refuses every non-negative disk charge: its limit of
  \<open>2^64 - 1\<close> bytes, meant as unlimited, reads as \<open>-1\<close> when \<open>use_disk_storage\<close> converts it to
  \<open>int64_t\<close>.
\<close>

lemma default_meter_refuses_disk:
  assumes "0 \<le> sint bytes"
  shows "use_disk_storage cvt bytes (ses, resource_meter_new) =
           Inl (kexn disk_storage_limit_exceeded_exception ''disk storage limit exceeded'')"
  using assms by (simp add: resource_meter_new_def set_resource_limit_data_def)

definition example_limits :: resource_limit_data where
  "example_limits =
     \<lparr>disk_storage_limit = 1000, disk_storage_cost = 10, network_bandwidth_limit = 1000,
      network_bandwidth_cost = 5, compute_bandwidth_limit = 500, compute_bandwidth_cost = 2\<rparr>"

definition example_meter :: resource_meter where
  "example_meter = set_resource_limit_data example_limits resource_meter_new"

lemma example_meter_simps [simp]:
  "meter_ok example_meter"
  "rm_compute_bandwidth_remaining example_meter = 500"
  "compute_bandwidth_cost (rm_resource_limit_data example_meter) = 2"
  by (simp_all add: example_meter_def) (simp_all add: set_resource_limit_data_def example_limits_def)

theorem compute_metering_exact_witness:
  "\<exists>s' m'. charge_all (use_compute_bandwidth word_of_int) [10, 20] (Some (session_new 100), example_meter)
             = Inr (Some s', m')
         \<and> rc_balance s' = 40 \<and> uint (compute_bandwidth_used m') = 30"
proof -
  have s: "session_ok (session_new 100)" and b: "rc_balance (session_new 100) = 100"
    by (simp_all add: session_defs session_new_def)
  have "\<forall>t \<in> set [10, 20 :: i64]. 0 \<le> sint t" by simp
  from compute_metering_exact [OF cvt_ok_word_of_int _ s this, of example_meter]
  moreover have "compute_bandwidth_used example_meter = 0"
    by (simp add: compute_bandwidth_used_def example_meter_def set_resource_limit_data_def)
  ultimately show ?thesis by (auto simp: b split: sum.splits)
qed

end
