(* ===== verification/Chronicler.thy ===== *)
theory Chronicler
  imports Session
begin

text \<open>
  \<^verbatim>\<open>chronicler.cpp\<close>: the record of events and logs of a context.  Events are numbered in the order
  they arrive and kept both in the chronicler and in the live session; logs go to the session while
  one is alive and to the chronicler otherwise.  As for the meter, an operation works on the
  chronicler together with the session its weak pointer locks to.
\<close>

type_synonym event_bundle = "bytes option \<times> event_data"

record chronicler =
  ch_session :: "nat option"
  ch_events :: "event_bundle list"
  ch_logs :: "bytes list"
  ch_seq_no :: u32

type_synonym chronicled = "session option \<times> chronicler"

definition chronicler_new :: chronicler where
  "chronicler_new = \<lparr>ch_session = None, ch_events = [], ch_logs = [], ch_seq_no = 0\<rparr>"

fun chronicler_push_event :: "bytes option \<Rightarrow> event_data \<Rightarrow> chronicled \<Rightarrow> chronicled" where
  "chronicler_push_event transaction_id ev (ses, ch) =
     (let ev' = ev\<lparr>ev_sequence := ch_seq_no ch\<rparr> in
      (map_option (session_push_event ev') ses,
       ch\<lparr>ch_events := ch_events ch @ [(transaction_id, ev')], ch_seq_no := ch_seq_no ch + 1\<rparr>))"

fun chronicler_push_log :: "bytes \<Rightarrow> chronicled \<Rightarrow> chronicled" where
  "chronicler_push_log message (ses, ch) =
     (case ses of
        Some s \<Rightarrow> (Some (session_push_log message s), ch)
      | None \<Rightarrow> (None, ch\<lparr>ch_logs := ch_logs ch @ [message]\<rparr>))"

definition chronicler_set_session :: "nat option \<Rightarrow> chronicler \<Rightarrow> chronicler" where
  "chronicler_set_session s ch = ch\<lparr>ch_session := s\<rparr>"

text \<open>
  The invariant: the events carry the sequence numbers \<open>0, 1, 2, \<dots>\<close> (modulo \<open>2^32\<close>) in order, and
  the next number is the number of events.
\<close>

definition chronicler_ok :: "chronicler \<Rightarrow> bool" where
  "chronicler_ok ch \<longleftrightarrow>
     map (\<lambda>b. ev_sequence (snd b)) (ch_events ch) = map of_nat [0..<length (ch_events ch)]
     \<and> ch_seq_no ch = of_nat (length (ch_events ch))"

lemma chronicler_ok_new [simp]: "chronicler_ok chronicler_new"
  by (simp add: chronicler_ok_def chronicler_new_def)

lemma chronicler_ok_push_event [simp]:
  "chronicler_ok ch \<Longrightarrow> chronicler_ok (snd (chronicler_push_event t ev (ses, ch)))"
  by (simp add: chronicler_ok_def Let_def)

lemma chronicler_ok_push_log [simp]:
  "chronicler_ok ch \<Longrightarrow> chronicler_ok (snd (chronicler_push_log l (ses, ch)))"
  by (simp add: chronicler_ok_def split: option.splits)

lemma chronicler_ok_session [simp]: "chronicler_ok (ch\<lparr>ch_session := s\<rparr>) = chronicler_ok ch"
  by (simp add: chronicler_ok_def)

lemma chronicler_ok_set_session [simp]: "chronicler_ok (chronicler_set_session s ch) = chronicler_ok ch"
  by (simp add: chronicler_set_session_def)

text \<open>The calls a context makes on its chronicler, as data, and a run of them.\<close>

datatype chronicler_call = Push_event "bytes option" event_data | Push_log bytes

fun chronicler_step :: "chronicler_call \<Rightarrow> chronicled \<Rightarrow> chronicled" where
  "chronicler_step (Push_event t ev) x = chronicler_push_event t ev x"
| "chronicler_step (Push_log l) x = chronicler_push_log l x"

lemma chronicler_step_events:
  assumes "chronicler_ok (snd x)"
  shows "chronicler_ok (snd (chronicler_step c x))
       \<and> (\<exists>new. ch_events (snd (chronicler_step c x)) = ch_events (snd x) @ new
             \<and> (\<forall>s. fst x = Some s \<longrightarrow>
                 (\<exists>s'. fst (chronicler_step c x) = Some s' \<and> s_events s' = s_events s @ map snd new)))"
proof -
  obtain ses ch where x: "x = (ses, ch)" by fastforce
  show ?thesis
  proof (cases c)
    case (Push_event t ev)
    with assms x show ?thesis
      by (auto simp: Let_def chronicler_ok_def session_push_event_def)
  next
    case (Push_log l)
    with assms x show ?thesis
      by (auto simp: chronicler_ok_def session_push_log_def split: option.splits)
  qed
qed



end
