(* ===== verification/Module_Cache.thy ===== *)
theory Module_Cache
  imports Protocol
begin

text \<open>
  \<^verbatim>\<open>module_cache.cpp\<close>: the cache of parsed WebAssembly modules, a map with a list of recently used
  keys.  The map's entries hold iterators into the list.  A list node is represented by its address,
  which is never reused; erasing through an iterator whose node is gone, or taking the back of an
  empty list, is undefined behaviour and shows up as \<open>Undefined\<close>.  The mutex makes every operation
  atomic, so concurrent use is an arbitrary sequence of operations.
\<close>

section \<open>The interface of the VM backend\<close>

text \<open>
  What \<open>fizzy_vm_backend::run\<close> relies on.  \<open>lookup\<close> is what the cache holds.  A cache may forget, but
  it may not return for a key anything other than the module last stored under it.
\<close>

locale module_store =
  fixes get :: "bytes \<Rightarrow> 's \<Rightarrow> exn + 'w option \<times> 's"
    and put :: "bytes \<Rightarrow> 'w \<Rightarrow> 's \<Rightarrow> exn + 's"
    and lookup :: "'s \<Rightarrow> bytes \<rightharpoonup> 'w"
    and ok :: "'s \<Rightarrow> bool"
  assumes get_ok: "ok s \<Longrightarrow> \<exists>s'. get k s = Inr (lookup s k, s') \<and> ok s' \<and> lookup s' = lookup s"
    and put_ok: "ok s \<Longrightarrow> \<exists>s'. put k m s = Inr s' \<and> ok s' \<and> lookup s' k = Some m
                      \<and> (\<forall>k'. k' \<noteq> k \<longrightarrow> lookup s' k' = lookup s k' \<or> lookup s' k' = None)"
begin

text \<open>A cache is sound for a parser when everything it holds is what parsing would give.\<close>

definition sound :: "(bytes \<Rightarrow> 'e + 'w) \<Rightarrow> 's \<Rightarrow> bool" where
  "sound parse s \<longleftrightarrow> (\<forall>k m. lookup s k = Some m \<longrightarrow> parse k = Inr m)"

lemma sound_get: "ok s \<Longrightarrow> sound parse s \<Longrightarrow> get k s = Inr (r, s') \<Longrightarrow>
    ok s' \<and> sound parse s' \<and> (\<forall>m. r = Some m \<longrightarrow> parse k = Inr m)"
  using get_ok [of s k] by (auto simp: sound_def)

lemma sound_put: "ok s \<Longrightarrow> sound parse s \<Longrightarrow> parse k = Inr m \<Longrightarrow> put k m s = Inr s' \<Longrightarrow>
    ok s' \<and> sound parse s'"
  using put_ok [of s k m] by (auto simp: sound_def) (metis option.inject option.distinct(1))

end

section \<open>The class \<open>module_cache\<close>\<close>

record 'w module_cache =
  mc_lru_list :: "(nat \<times> bytes) list"
  mc_module_map :: "bytes \<rightharpoonup> 'w \<times> nat"
  mc_cache_size :: nat
  mc_next_node :: nat

definition module_cache_new :: "nat \<Rightarrow> 'w module_cache" where
  "module_cache_new n =
     \<lparr>mc_lru_list = [], mc_module_map = Map.empty, mc_cache_size = n, mc_next_node = 0\<rparr>"

definition lru_push_front :: "bytes \<Rightarrow> 'w \<Rightarrow> 'w module_cache \<Rightarrow> 'w module_cache" where
  "lru_push_front k m c = c
     \<lparr>mc_lru_list := (mc_next_node c, k) # mc_lru_list c,
      mc_module_map := (mc_module_map c)(k \<mapsto> (m, mc_next_node c)),
      mc_next_node := Suc (mc_next_node c)\<rparr>"

definition get_module :: "bytes \<Rightarrow> 'w module_cache \<Rightarrow> exn + 'w option \<times> 'w module_cache" where
  "get_module k c =
     (case mc_module_map c k of
        None \<Rightarrow> Inr (None, c)
      | Some (m, node) \<Rightarrow>
          if node \<notin> fst ` set (mc_lru_list c) then Inl (Undefined ''erase through an invalid iterator'')
          else
            let c' = c\<lparr>mc_lru_list := filter (\<lambda>p. fst p \<noteq> node) (mc_lru_list c)\<rparr>
            in Inr (Some m, lru_push_front k m c'))"

definition put_module :: "bytes \<Rightarrow> 'w \<Rightarrow> 'w module_cache \<Rightarrow> exn + 'w module_cache" where
  "put_module k m c =
     (if mc_cache_size c \<le> length (mc_lru_list c) then
        if mc_lru_list c = [] then Inl (Undefined ''back of an empty list'')
        else
          let c' = c\<lparr>mc_module_map := (mc_module_map c)(snd (last (mc_lru_list c)) := None),
                     mc_lru_list := butlast (mc_lru_list c)\<rparr>
          in Inr (lru_push_front k m c')
      else Inr (lru_push_front k m c))"

definition cached :: "'w module_cache \<Rightarrow> bytes \<rightharpoonup> 'w" where
  "cached c k = map_option fst (mc_module_map c k)"

text \<open>
  The invariant: list nodes have distinct, already allocated addresses; every map entry's iterator
  points to a live node that carries the entry's key; the list is within the cache size, which is
  positive.
\<close>

definition cache_ok :: "'w module_cache \<Rightarrow> bool" where
  "cache_ok c \<longleftrightarrow>
     distinct (map fst (mc_lru_list c))
     \<and> (\<forall>p \<in> set (mc_lru_list c). fst p < mc_next_node c)
     \<and> (\<forall>k m node. mc_module_map c k = Some (m, node) \<longrightarrow> (node, k) \<in> set (mc_lru_list c))
     \<and> length (mc_lru_list c) \<le> mc_cache_size c \<and> 0 < mc_cache_size c"

lemma cache_ok_new: "0 < n \<Longrightarrow> cache_ok (module_cache_new n)"
  by (simp add: cache_ok_def module_cache_new_def)

lemma distinct_fst_unique:
  "distinct (map fst xs) \<Longrightarrow> (a, k) \<in> set xs \<Longrightarrow> (a, k') \<in> set xs \<Longrightarrow> k = k'"
  by (metis map_of_is_SomeI option.inject)

lemma length_filter_node:
  "distinct (map fst xs) \<Longrightarrow> node \<in> fst ` set xs \<Longrightarrow>
   Suc (length (filter (\<lambda>p. fst p \<noteq> node) xs)) = length xs"
proof (induction xs)
  case (Cons p xs)
  show ?case
  proof (cases "fst p = node")
    case True
    with Cons.prems have "filter (\<lambda>p. fst p \<noteq> node) xs = xs"
      by (intro filter_True) (auto simp: image_iff)
    with True show ?thesis by simp
  qed (use Cons in auto)
qed simp

lemma cache_ok_push_front:
  assumes "distinct (map fst (mc_lru_list c))" "\<forall>p \<in> set (mc_lru_list c). fst p < mc_next_node c"
    "length (mc_lru_list c) < mc_cache_size c"
    "\<And>k' m' node. k' \<noteq> k \<Longrightarrow> mc_module_map c k' = Some (m', node) \<Longrightarrow> (node, k') \<in> set (mc_lru_list c)"
  shows "cache_ok (lru_push_front k m c)"
  using assms by (auto simp: cache_ok_def lru_push_front_def less_Suc_eq)

lemma get_module_ok:
  assumes "cache_ok c"
  shows "\<exists>c'. get_module k c = Inr (cached c k, c') \<and> cache_ok c' \<and> cached c' = cached c"
proof (cases "mc_module_map c k")
  case None
  with assms show ?thesis by (simp add: get_module_def cached_def)
next
  case (Some entry)
  obtain m node where e: "entry = (m, node)" by fastforce
  let ?l = "filter (\<lambda>p. fst p \<noteq> node) (mc_lru_list c)"
  let ?c = "c\<lparr>mc_lru_list := ?l\<rparr>"
  have d: "distinct (map fst (mc_lru_list c))" using assms by (simp add: cache_ok_def)
  have "(node, k) \<in> set (mc_lru_list c)" using assms Some e by (auto simp: cache_ok_def)
  then have live: "node \<in> fst ` set (mc_lru_list c)" by force
  have other: "(n', k') \<in> set ?l" if "k' \<noteq> k" "mc_module_map c k' = Some (m', n')" for k' m' n'
    using that assms \<open>(node, k) \<in> _\<close> distinct_fst_unique [OF d, of node k k']
    by (auto simp: cache_ok_def)
  have "cache_ok (lru_push_front k m ?c)"
    by (rule cache_ok_push_front)
       (use assms length_filter_node [OF d live] other in \<open>auto simp: cache_ok_def distinct_map_filter\<close>)
  moreover have "cached (lru_push_front k m ?c) = cached c"
    using Some e by (auto simp: cached_def lru_push_front_def fun_eq_iff)
  ultimately show ?thesis
    using Some e live by (simp add: get_module_def cached_def Let_def)
qed

lemma put_module_ok:
  assumes "cache_ok c"
  shows "\<exists>c'. put_module k m c = Inr c' \<and> cache_ok c' \<and> cached c' k = Some m
            \<and> (\<forall>k'. k' \<noteq> k \<longrightarrow> cached c' k' = cached c k' \<or> cached c' k' = None)"
proof (cases "mc_cache_size c \<le> length (mc_lru_list c)")
  case False
  with assms have "cache_ok (lru_push_front k m c)"
    by (intro cache_ok_push_front) (auto simp: cache_ok_def)
  with False show ?thesis by (auto simp: put_module_def cached_def lru_push_front_def)
next
  case True
  with assms have ne: "mc_lru_list c \<noteq> []" by (auto simp: cache_ok_def)
  then obtain ls l where ls: "mc_lru_list c = ls @ [l]" by (meson rev_exhaust)
  let ?c = "c\<lparr>mc_module_map := (mc_module_map c)(snd l := None), mc_lru_list := ls\<rparr>"
  have "cache_ok (lru_push_front k m ?c)"
  proof (rule cache_ok_push_front)
    fix k' m' node
    assume "k' \<noteq> k" and *: "mc_module_map ?c k' = Some (m', node)"
    then have "(node, k') \<in> set (mc_lru_list c)" "k' \<noteq> snd l"
      using assms by (auto simp: cache_ok_def split: if_splits)
    with ls show "(node, k') \<in> set (mc_lru_list ?c)" by auto
  qed (use assms ls in \<open>auto simp: cache_ok_def\<close>)
  with True ne ls show ?thesis
    by (auto simp: put_module_def Let_def cached_def lru_push_front_def)
qed

interpretation mcache: module_store get_module put_module cached cache_ok
  by unfold_locales (erule get_module_ok, erule put_module_ok)

section \<open>Concurrent use\<close>

text \<open>The operations threads perform, each atomic under the mutex.\<close>

datatype 'w cache_call = Get_module bytes | Put_module bytes 'w

fun cache_step :: "'w cache_call \<Rightarrow> 'w module_cache \<Rightarrow> exn + 'w module_cache" where
  "cache_step (Get_module k) c = (case get_module k c of Inl e \<Rightarrow> Inl e | Inr (_, c') \<Rightarrow> Inr c')"
| "cache_step (Put_module k m) c = put_module k m c"

primrec cache_run :: "'w cache_call list \<Rightarrow> 'w module_cache \<Rightarrow> exn + 'w module_cache" where
  "cache_run [] c = Inr c"
| "cache_run (x # xs) c = (case cache_step x c of Inl e \<Rightarrow> Inl e | Inr c' \<Rightarrow> cache_run xs c')"

lemma cache_step_ok:
  assumes "cache_ok c"
  shows "\<exists>c'. cache_step x c = Inr c' \<and> cache_ok c'"
proof (cases x)
  case (Get_module k)
  with get_module_ok [OF assms, of k] show ?thesis by auto
next
  case (Put_module k m)
  with put_module_ok [OF assms, of k m] show ?thesis by auto
qed

lemma cache_size_step: "cache_step x c = Inr c' \<Longrightarrow> mc_cache_size c' = mc_cache_size c"
  by (cases x)
     (auto simp: get_module_def put_module_def lru_push_front_def Let_def
           split: option.splits prod.splits if_splits)

text \<open>
  C30.  The module cache is memory safe under any interleaving.  Whatever sequence of lookups and
  insertions threads perform on a cache of positive size, no invalid iterator is ever erased and no
  empty list is popped, and the cache never holds more than its size.
\<close>

theorem module_cache_safe:
  fixes xs :: "'w cache_call list"
  assumes "0 < n"
  shows "\<exists>c. cache_run xs (module_cache_new n) = Inr c \<and> cache_ok c \<and> length (mc_lru_list c) \<le> n"
proof -
  have "\<exists>c'. cache_run xs c = Inr c' \<and> cache_ok c' \<and> mc_cache_size c' = mc_cache_size c"
    if "cache_ok c" for c :: "'w module_cache"
    using that
  proof (induction xs arbitrary: c)
    case (Cons x xs)
    obtain c1 where c1: "cache_step x c = Inr c1" "cache_ok c1" using cache_step_ok [OF Cons.prems] by blast
    from Cons.IH [OF c1(2)] cache_size_step [OF c1(1)] c1(1) show ?case by simp
  qed simp
  from this [OF cache_ok_new [OF assms]] show ?thesis
    by (auto simp: cache_ok_def module_cache_new_def)
qed

theorem module_cache_safe_witness:
  "\<exists>c. cache_run [Put_module ''a'' (1::nat), Put_module ''a'' 2, Put_module ''b'' 3, Get_module ''a''] (module_cache_new 2)
        = Inr c \<and> cache_ok c \<and> length (mc_lru_list c) \<le> 2"
  by (rule module_cache_safe) simp

section \<open>Refinement of a recency list\<close>

text \<open>
  The abstract cache is the list of cached keys with their modules, most recently used first.  A
  lookup moves the entry to the front; an insertion drops the last entry when the list is full.  The
  implementation refines it as long as a key is only inserted after a lookup of it failed, which is
  how \<open>fizzy_vm_backend::run\<close> uses the cache from a single thread.
\<close>

definition lru_get :: "bytes \<Rightarrow> (bytes \<times> 'w) list \<Rightarrow> 'w option \<times> (bytes \<times> 'w) list" where
  "lru_get k xs =
     (case map_of xs k of
        None \<Rightarrow> (None, xs)
      | Some m \<Rightarrow> (Some m, (k, m) # filter (\<lambda>p. fst p \<noteq> k) xs))"

definition lru_put :: "nat \<Rightarrow> bytes \<Rightarrow> 'w \<Rightarrow> (bytes \<times> 'w) list \<Rightarrow> (bytes \<times> 'w) list" where
  "lru_put n k m xs = (k, m) # (if n \<le> length xs then butlast xs else xs)"

definition recency :: "'w module_cache \<Rightarrow> (bytes \<times> 'w) list" where
  "recency c = map (\<lambda>p. (snd p, fst (the (mc_module_map c (snd p))))) (mc_lru_list c)"

text \<open>The stronger invariant of that discipline: list nodes and map entries correspond one to one.\<close>

definition cache_tight :: "'w module_cache \<Rightarrow> bool" where
  "cache_tight c \<longleftrightarrow>
     cache_ok c \<and> distinct (map snd (mc_lru_list c))
     \<and> (\<forall>p \<in> set (mc_lru_list c). \<exists>m. mc_module_map c (snd p) = Some (m, fst p))"

lemma map_of_recency: "cache_tight c \<Longrightarrow> map_of (recency c) k = cached c k"
proof (cases "mc_module_map c k")
  case None
  assume t: "cache_tight c"
  with None have "k \<notin> snd ` set (mc_lru_list c)" by (auto simp: cache_tight_def)
  with None show ?thesis by (auto simp: recency_def cached_def map_of_eq_None_iff image_iff)
next
  case (Some e)
  assume t: "cache_tight c"
  with Some have "(snd e, k) \<in> set (mc_lru_list c)"
    by (cases e) (auto simp: cache_tight_def cache_ok_def)
  then have "(k, fst e) \<in> set (recency c)" using Some by (force simp: recency_def)
  moreover have "distinct (map fst (recency c))"
    using t by (simp add: recency_def cache_tight_def comp_def)
  ultimately show ?thesis using Some by (simp add: cached_def)
qed

lemma tight_keys:
  assumes "cache_tight c" "(a, k) \<in> set (mc_lru_list c)" "(b, k) \<in> set (mc_lru_list c)"
  shows "a = b"
  using assms by (metis cache_tight_def fst_conv option.inject prod.inject snd_conv)

lemma get_module_refines:
  assumes t: "cache_tight c" and run: "get_module k c = Inr (r, c')"
  shows "lru_get k (recency c) = (r, recency c') \<and> cache_tight c'"
proof (cases "mc_module_map c k")
  case None
  with run t show ?thesis
    by (simp add: get_module_def lru_get_def map_of_recency cached_def)
next
  case (Some e)
  obtain m node where e: "e = (m, node)" by fastforce
  have ok: "cache_ok c" using t by (simp add: cache_tight_def)
  have kn: "(node, k) \<in> set (mc_lru_list c)" using ok Some e by (auto simp: cache_ok_def)
  have d: "distinct (map fst (mc_lru_list c))" using ok by (simp add: cache_ok_def)
  let ?l = "filter (\<lambda>p. fst p \<noteq> node) (mc_lru_list c)"
  have c': "c' = lru_push_front k m (c\<lparr>mc_lru_list := ?l\<rparr>)" and r: "r = Some m"
    using run Some e by (auto simp: get_module_def Let_def split: if_splits)
  have key: "snd p = k \<longleftrightarrow> fst p = node" if "p \<in> set (mc_lru_list c)" for p
  proof
    assume "snd p = k"
    with that have "(fst p, k) \<in> set (mc_lru_list c)" by auto
    from tight_keys [OF t this kn] show "fst p = node" .
  next
    assume "fst p = node"
    with that have "(node, snd p) \<in> set (mc_lru_list c)" by auto
    from distinct_fst_unique [OF d kn this] show "snd p = k" by simp
  qed
  have l: "?l = filter (\<lambda>p. snd p \<noteq> k) (mc_lru_list c)" by (rule filter_cong) (simp_all add: key)
  have "cache_ok c'" using get_module_ok [OF ok, of k] run by auto
  moreover have "distinct (map snd (mc_lru_list c'))"
    using t unfolding l c' by (auto simp: lru_push_front_def cache_tight_def distinct_map_filter)
  moreover have "\<exists>m'. mc_module_map c' (snd p) = Some (m', fst p)" if "p \<in> set (mc_lru_list c')" for p
    using that t unfolding l c' by (auto simp: lru_push_front_def cache_tight_def)
  ultimately have "cache_tight c'" by (simp add: cache_tight_def)
  moreover have "recency c' = (k, m) # filter (\<lambda>p. fst p \<noteq> k) (recency c)"
    unfolding l c' by (auto simp: recency_def lru_push_front_def filter_map comp_def)
  ultimately show ?thesis
    using r Some e t by (simp add: lru_get_def map_of_recency cached_def)
qed

lemma put_module_refines:
  assumes t: "cache_tight c" and miss: "cached c k = None" and run: "put_module k m c = Inr c'"
  shows "recency c' = lru_put (mc_cache_size c) k m (recency c) \<and> cache_tight c'"
proof -
  let ?full = "mc_cache_size c \<le> length (mc_lru_list c)"
  have ok: "cache_ok c" using t by (simp add: cache_tight_def)
  have nk: "k \<notin> snd ` set (mc_lru_list c)" using t miss by (auto simp: cache_tight_def cached_def)
  have ok': "cache_ok c'" using put_module_ok [OF ok, of k m] run by auto
  show ?thesis
  proof (cases ?full)
    case False
    then have c': "c' = lru_push_front k m c" using run by (simp add: put_module_def)
    then show ?thesis using False t nk ok'
      by (auto simp: c' recency_def lru_put_def lru_push_front_def cache_tight_def)
  next
    case True
    then have ne: "mc_lru_list c \<noteq> []" using ok by (auto simp: cache_ok_def)
    then obtain ls l where ls: "mc_lru_list c = ls @ [l]" by (meson rev_exhaust)
    have c': "c' = lru_push_front k m
        (c\<lparr>mc_module_map := (mc_module_map c)(snd l := None), mc_lru_list := ls\<rparr>)"
      using run True ls by (simp add: put_module_def Let_def)
    have l: "snd p \<noteq> snd l" "snd p \<noteq> k" if "p \<in> set ls" for p
      using t ls nk that by (auto simp: cache_tight_def image_iff)
    have "recency c' = lru_put (mc_cache_size c) k m (recency c)"
      using True ls l by (simp add: c' recency_def lru_put_def lru_push_front_def)
    moreover have "distinct (map snd (mc_lru_list c'))"
      using t ls nk by (auto simp: c' lru_push_front_def cache_tight_def)
    moreover have "\<exists>m'. mc_module_map c' (snd p) = Some (m', fst p)" if "p \<in> set (mc_lru_list c')" for p
    proof (cases "p \<in> set ls")
      case True
      with t ls l [OF True] show ?thesis by (simp add: c' lru_push_front_def cache_tight_def)
    next
      case False
      with that show ?thesis by (simp add: c' lru_push_front_def)
    qed
    ultimately show ?thesis using ok' by (simp add: cache_tight_def)
  qed
qed

text \<open>The way the backend uses the cache: look a key up and store the module only after a miss.\<close>

definition cache_fetch :: "(bytes \<Rightarrow> 'w) \<Rightarrow> bytes \<Rightarrow> 'w module_cache \<Rightarrow> exn + 'w \<times> 'w module_cache" where
  "cache_fetch load k c =
     (case get_module k c of
        Inl e \<Rightarrow> Inl e
      | Inr (Some m, c') \<Rightarrow> Inr (m, c')
      | Inr (None, c') \<Rightarrow>
          (case put_module k (load k) c' of Inl e \<Rightarrow> Inl e | Inr c'' \<Rightarrow> Inr (load k, c'')))"

definition lru_fetch :: "nat \<Rightarrow> (bytes \<Rightarrow> 'w) \<Rightarrow> bytes \<Rightarrow> (bytes \<times> 'w) list \<Rightarrow> 'w \<times> (bytes \<times> 'w) list" where
  "lru_fetch n load k xs =
     (case lru_get k xs of
        (Some m, xs') \<Rightarrow> (m, xs')
      | (None, xs') \<Rightarrow> (load k, lru_put n k (load k) xs'))"

text \<open>
  C29.  Used as the backend uses it, the cache is a least-recently-used cache: on the list of entries
  ordered by recency, every fetch behaves like the abstract one, which moves a hit to the front and
  on a miss evicts the least recently used entry of a full cache.
\<close>

theorem module_cache_refines_lru:
  assumes "cache_tight c"
  shows "\<exists>m c'. cache_fetch load k c = Inr (m, c') \<and> cache_tight c'
              \<and> lru_fetch (mc_cache_size c) load k (recency c) = (m, recency c')"
proof -
  have ok: "cache_ok c" using assms by (simp add: cache_tight_def)
  obtain c1 where g: "get_module k c = Inr (cached c k, c1)" "cached c1 = cached c"
    using get_module_ok [OF ok, of k] by blast
  have lg: "lru_get k (recency c) = (cached c k, recency c1)" and t1: "cache_tight c1"
    using get_module_refines [OF assms g(1)] by simp_all
  have size: "mc_cache_size c1 = mc_cache_size c"
    using cache_size_step [of "Get_module k" c c1] g(1) by simp
  show ?thesis
  proof (cases "cached c k")
    case (Some m)
    with g(1) lg t1 show ?thesis by (simp add: cache_fetch_def lru_fetch_def)
  next
    case None
    have "cache_ok c1" using t1 by (simp add: cache_tight_def)
    from put_module_ok [OF this, of k "load k"] obtain c2 where p: "put_module k (load k) c1 = Inr c2"
      by blast
    have "cached c1 k = None" using None g(2) by simp
    from put_module_refines [OF t1 this p] size None g(1) lg p show ?thesis
      by (simp add: cache_fetch_def lru_fetch_def)
  qed
qed

theorem module_cache_refines_lru_witness:
  "\<exists>m c'. cache_fetch length ''ab'' (module_cache_new 1) = Inr (m, c') \<and> cache_tight c'
        \<and> lru_fetch 1 length ''ab'' [] = (m, recency c')"
proof -
  have "cache_tight (module_cache_new 1 :: nat module_cache)"
    by (simp add: cache_tight_def cache_ok_new) (simp add: module_cache_new_def)
  from module_cache_refines_lru [OF this, of length "''ab''"] show ?thesis
    by (simp add: module_cache_new_def recency_def)
qed

end
