(* ===== verification/Execution_Context.thy ===== *)
theory Execution_Context
  imports State_Space Thunk_Registry Resource_Meter Chronicler Module_Cache
begin

text \<open>
  \<^verbatim>\<open>execution_context.cpp\<close>: the object every system call works on.  It holds the call stack, the
  state nodes, the block, transaction and operation being applied, the meter and the chronicler, the
  receipt under construction and the caches.

  Two parts of the record are not members of the C++ class but what its pointers reach: \<open>ec_db\<close> is
  the state database behind the state nodes, \<open>ec_vm\<close> the module cache of the VM backend.  Payer
  sessions live on the heap and are shared: \<open>ec_sessions\<close> is that heap, an address is an index, and
  \<open>None\<close> a session whose last owner has let go of it.  A weak pointer locks to what is there.
\<close>

record stack_frame =
  fr_contract_id :: bytes
  fr_sid :: u32
  fr_call_privilege :: privilege
  fr_call_args :: bytes
  fr_entry_point :: u32

datatype intent = Read_only | Block_application | Transaction_application

datatype receipt =
    No_receipt | Block_receipt block_receipt | Transaction_receipt transaction_receipt

record system_call_cache_bundle =
  cb_contract_id :: bytes
  cb_contract_bytecode :: bytes
  cb_entry_point :: u32
  cb_contract_metadata :: contract_metadata_object

record thunk_cache_bundle =
  tb_thunk_id :: u32
  tb_is_override :: bool

datatype system_call_entry =
    Contract_entry system_call_cache_bundle | Thunk_entry thunk_cache_bundle

record execution_context_cache =
  cache_compute_bandwidth :: "(string \<rightharpoonup> u64) option"
  cache_descriptor_pool :: "descriptor_pool option"
  cache_system_call_table :: "u32 \<rightharpoonup> system_call_entry"
  cache_block_hash_code :: "u64 option"

text \<open>The stack is a list with the top of the stack first.\<close>

record ('d, 'h, 'w) ctx =
  ec_vm :: "'w module_cache"
  ec_db :: 'd
  ec_sessions :: "session option list"
  ec_stack :: "stack_frame list"
  ec_current_state_node :: "'h option"
  ec_parent_state_node :: "'h option"
  ec_block :: "block option"
  ec_trx :: "transaction option"
  ec_op :: "operation option"
  ec_resource_meter :: resource_meter
  ec_chronicler :: chronicler
  ec_intent :: intent
  ec_receipt :: receipt
  ec_cache :: execution_context_cache
  ec_result :: execution_result

type_synonym ('d, 'h, 'w, 'a) run = "(('d, 'h, 'w) ctx, exn, 'a) comp"

definition empty_cache :: execution_context_cache where
  "empty_cache =
     \<lparr>cache_compute_bandwidth = None, cache_descriptor_pool = None,
      cache_system_call_table = Map.empty, cache_block_hash_code = None\<rparr>"

definition execution_context_new :: "'w module_cache \<Rightarrow> 'd \<Rightarrow> intent \<Rightarrow> ('d, 'h, 'w) ctx" where
  "execution_context_new vm db i =
     \<lparr>ec_vm = vm, ec_db = db, ec_sessions = [], ec_stack = [], ec_current_state_node = None,
      ec_parent_state_node = None, ec_block = None, ec_trx = None, ec_op = None,
      ec_resource_meter = resource_meter_new, ec_chronicler = chronicler_new, ec_intent = i,
      ec_receipt = No_receipt, ec_cache = empty_cache,
      ec_result = \<lparr>er_code = 0, er_res = Res_none\<rparr>\<rparr>"

section \<open>The block, transaction and operation being applied\<close>

definition set_block :: "block \<Rightarrow> ('d, 'h, 'w) ctx \<Rightarrow> ('d, 'h, 'w) ctx" where
  "set_block b = (\<lambda>c. c\<lparr>ec_block := Some b\<rparr>)"

definition clear_block :: "('d, 'h, 'w) ctx \<Rightarrow> ('d, 'h, 'w) ctx" where
  "clear_block = (\<lambda>c. c\<lparr>ec_block := None\<rparr>)"

definition set_transaction :: "transaction \<Rightarrow> ('d, 'h, 'w) ctx \<Rightarrow> ('d, 'h, 'w) ctx" where
  "set_transaction trx = (\<lambda>c. c\<lparr>ec_trx := Some trx\<rparr>)"

definition clear_transaction :: "('d, 'h, 'w) ctx \<Rightarrow> ('d, 'h, 'w) ctx" where
  "clear_transaction = (\<lambda>c. c\<lparr>ec_trx := None\<rparr>)"

definition set_operation :: "operation \<Rightarrow> ('d, 'h, 'w) ctx \<Rightarrow> ('d, 'h, 'w) ctx" where
  "set_operation op = (\<lambda>c. c\<lparr>ec_op := Some op\<rparr>)"

definition clear_operation :: "('d, 'h, 'w) ctx \<Rightarrow> ('d, 'h, 'w) ctx" where
  "clear_operation = (\<lambda>c. c\<lparr>ec_op := None\<rparr>)"

lemmas context_setters =
  set_block_def clear_block_def set_transaction_def clear_transaction_def set_operation_def clear_operation_def

section \<open>State nodes\<close>

definition set_state_node ::
  "('d, 'h, 'w) env \<Rightarrow> 'h option \<Rightarrow> 'h option \<Rightarrow> ('d, 'h, 'w) ctx \<Rightarrow> ('d, 'h, 'w) ctx" where
  "set_state_node E node parent c = c
     \<lparr>ec_current_state_node := node,
      ec_parent_state_node :=
        (case parent of
           Some p \<Rightarrow> Some p
         | None \<Rightarrow> (case node of Some n \<Rightarrow> node_parent E (ec_db c) n | None \<Rightarrow> None))\<rparr>"

definition get_parent_node :: "('d, 'h, 'w) ctx \<Rightarrow> 'h option" where
  "get_parent_node c =
     (case ec_parent_state_node c of Some p \<Rightarrow> Some p | None \<Rightarrow> ec_current_state_node c)"

definition clear_state_node :: "('d, 'h, 'w) ctx \<Rightarrow> ('d, 'h, 'w) ctx" where
  "clear_state_node c = c\<lparr>ec_current_state_node := None, ec_parent_state_node := None\<rparr>"

section \<open>The call stack\<close>

definition stack_limit :: nat where
  "stack_limit = 256"

definition get_contract_call_args :: "('d, 'h, 'w, bytes) run" where
  "get_contract_call_args =
     thenE (guardE (\<lambda>c. 1 < length (ec_stack c)) (kexn internal_error_exception ''stack is empty''))
       (getE (\<lambda>c. fr_call_args (ec_stack c ! 1)))"

definition get_contract_entry_point :: "('d, 'h, 'w, u32) run" where
  "get_contract_entry_point =
     thenE (guardE (\<lambda>c. 1 < length (ec_stack c)) (kexn internal_error_exception ''stack is empty''))
       (getE (\<lambda>c. fr_entry_point (ec_stack c ! 1)))"

definition push_frame :: "stack_frame \<Rightarrow> ('d, 'h, 'w, unit) run" where
  "push_frame f =
     thenE (guardE (\<lambda>c. length (ec_stack c) < stack_limit)
              (kexn reversion_exception ''apply context stack overflow''))
       (modifyE (\<lambda>c. c\<lparr>ec_stack := f # ec_stack c\<rparr>))"

definition pop_frame :: "('d, 'h, 'w, stack_frame) run" where
  "pop_frame =
     thenE (guardE (\<lambda>c. ec_stack c \<noteq> []) (kexn internal_error_exception ''stack is empty''))
       (bindE (getE (\<lambda>c. hd (ec_stack c)))
          (\<lambda>f. thenE (modifyE (\<lambda>c. c\<lparr>ec_stack := tl (ec_stack c)\<rparr>)) (returnE f)))"

definition get_caller :: "('d, 'h, 'w) ctx \<Rightarrow> bytes" where
  "get_caller c = (if 1 < length (ec_stack c) then fr_contract_id (ec_stack c ! 1) else [])"

definition get_caller_privilege :: "('d, 'h, 'w) ctx \<Rightarrow> privilege" where
  "get_caller_privilege c =
     (if 1 < length (ec_stack c) then fr_call_privilege (ec_stack c ! 1) else kernel_mode)"

definition get_caller_entry_point :: "('d, 'h, 'w) ctx \<Rightarrow> u32" where
  "get_caller_entry_point c =
     (if 1 < length (ec_stack c) then fr_entry_point (ec_stack c ! 1) else 0)"

definition set_privilege :: "privilege \<Rightarrow> ('d, 'h, 'w, unit) run" where
  "set_privilege p =
     thenE (guardE (\<lambda>c. ec_stack c \<noteq> []) (kexn internal_error_exception ''stack empty''))
       (modifyE (\<lambda>c. c\<lparr>ec_stack := (hd (ec_stack c))\<lparr>fr_call_privilege := p\<rparr> # tl (ec_stack c)\<rparr>))"

definition get_privilege :: "('d, 'h, 'w, privilege) run" where
  "get_privilege =
     thenE (guardE (\<lambda>c. ec_stack c \<noteq> []) (kexn internal_error_exception ''stack empty''))
       (getE (\<lambda>c. fr_call_privilege (hd (ec_stack c))))"

definition get_contract_id :: "('d, 'h, 'w) ctx \<Rightarrow> bytes" where
  "get_contract_id c =
     (case find (\<lambda>f. fr_contract_id f \<noteq> []) (ec_stack c) of
        Some f \<Rightarrow> fr_contract_id f
      | None \<Rightarrow> [])"

definition is_read_only :: "('d, 'h, 'w) ctx \<Rightarrow> bool" where
  "is_read_only c \<longleftrightarrow> ec_intent c = Read_only"

text \<open>
  The two guards.  \<open>raii\<close> runs a body and then a destructor, whatever the body's outcome; a
  destructor that throws calls \<open>std::terminate\<close>.
\<close>

definition raii :: "('c, exn, 'a) comp \<Rightarrow> ('c, exn, 'b) comp \<Rightarrow> ('c, exn, 'a) comp" where
  "raii l destructor =
     (\<lambda>c. case l c of (r, c') \<Rightarrow>
        (case destructor c' of (Inl _, c'') \<Rightarrow> (Inl Terminated, c'') | (Inr _, c'') \<Rightarrow> (r, c'')))"

definition with_stack_frame :: "stack_frame \<Rightarrow> ('d, 'h, 'w, 'a) run \<Rightarrow> ('d, 'h, 'w, 'a) run" where
  "with_stack_frame f l = thenE (push_frame f) (raii l pop_frame)"

definition with_privilege :: "privilege \<Rightarrow> ('d, 'h, 'w, 'a) run \<Rightarrow> ('d, 'h, 'w, 'a) run" where
  "with_privilege p l =
     bindE get_privilege (\<lambda>old. thenE (set_privilege p) (raii l (set_privilege old)))"

section \<open>Sessions, meter and chronicler\<close>

definition lock :: "nat option \<Rightarrow> ('d, 'h, 'w) ctx \<Rightarrow> session option" where
  "lock w c =
     (case w of
        Some a \<Rightarrow> if a < length (ec_sessions c) then ec_sessions c ! a else None
      | None \<Rightarrow> None)"

text \<open>Writing through a locked pointer; a pointer that did not lock leaves the heap alone.\<close>

definition store_session :: "nat option \<Rightarrow> session option \<Rightarrow> ('d, 'h, 'w) ctx \<Rightarrow> ('d, 'h, 'w) ctx" where
  "store_session w s c =
     (case (w, s) of
        (Some a, Some _) \<Rightarrow> c\<lparr>ec_sessions := (ec_sessions c)[a := s]\<rparr>
      | _ \<Rightarrow> c)"

definition make_session :: "u64 \<Rightarrow> ('d, 'h, 'w, nat) run" where
  "make_session rc =
     (\<lambda>c. let a = length (ec_sessions c) in
        (Inr a, c\<lparr>ec_sessions := ec_sessions c @ [Some (session_new rc)],
                  ec_resource_meter := meter_set_session (Some a) (ec_resource_meter c),
                  ec_chronicler := chronicler_set_session (Some a) (ec_chronicler c)\<rparr>))"

text \<open>\<open>session.reset()\<close> on the only owner.\<close>

definition reset_session :: "nat \<Rightarrow> ('d, 'h, 'w) ctx \<Rightarrow> ('d, 'h, 'w) ctx" where
  "reset_session a c = c\<lparr>ec_sessions := (ec_sessions c)[a := None]\<rparr>"

definition meter_op :: "(metered \<Rightarrow> exn + metered) \<Rightarrow> ('d, 'h, 'w, unit) run" where
  "meter_op f =
     (\<lambda>c. let w = rm_session (ec_resource_meter c) in
        case f (lock w c, ec_resource_meter c) of
          Inl e \<Rightarrow> (Inl e, c)
        | Inr (s, m) \<Rightarrow> (Inr (), (store_session w s c)\<lparr>ec_resource_meter := m\<rparr>))"

definition charge_compute :: "('d, 'h, 'w) env \<Rightarrow> i64 \<Rightarrow> ('d, 'h, 'w, unit) run" where
  "charge_compute E t = meter_op (use_compute_bandwidth (to_int64 E) t)"

definition charge_network :: "('d, 'h, 'w) env \<Rightarrow> i64 \<Rightarrow> ('d, 'h, 'w, unit) run" where
  "charge_network E t = meter_op (use_network_bandwidth (to_int64 E) t)"

definition charge_disk :: "('d, 'h, 'w) env \<Rightarrow> i64 \<Rightarrow> ('d, 'h, 'w, unit) run" where
  "charge_disk E t = meter_op (use_disk_storage (to_int64 E) t)"

definition compute_left :: "('d, 'h, 'w) ctx \<Rightarrow> u64" where
  "compute_left c =
     compute_bandwidth_remaining (lock (rm_session (ec_resource_meter c)) c, ec_resource_meter c)"

definition chron_op :: "(chronicled \<Rightarrow> chronicled) \<Rightarrow> ('d, 'h, 'w, unit) run" where
  "chron_op f =
     modifyE (\<lambda>c. let w = ch_session (ec_chronicler c) in
        case f (lock w c, ec_chronicler c) of
          (s, ch) \<Rightarrow> (store_session w s c)\<lparr>ec_chronicler := ch\<rparr>)"

definition push_event :: "bytes option \<Rightarrow> event_data \<Rightarrow> ('d, 'h, 'w, unit) run" where
  "push_event t ev = chron_op (chronicler_push_event t ev)"

definition push_log :: "bytes \<Rightarrow> ('d, 'h, 'w, unit) run" where
  "push_log l = chron_op (chronicler_push_log l)"

section \<open>The caches\<close>

definition need_parent_node :: "('d, 'h, 'w, 'h) run" where
  "need_parent_node =
     bindE (getE get_parent_node)
       (\<lambda>p. someE p (kexn reversion_exception ''cannot build execution context cache without a state node''))"

definition build_compute_registry_cache :: "('d, 'h, 'w) env \<Rightarrow> ('d, 'h, 'w, unit) run" where
  "build_compute_registry_cache E =
     bindE need_parent_node (\<lambda>p.
     bindE (getE (\<lambda>c. node_get E (ec_db c) p (space_metadata E) (key_compute_bandwidth_registry E))) (\<lambda>obj.
     bindE (someE obj (kexn reversion_exception ''compute bandwidth registry does not exist'')) (\<lambda>bytes.
     bindE (liftE (to_compute_registry E bytes)) (\<lambda>entries.
     modifyE (\<lambda>c. c\<lparr>ec_cache := (ec_cache c)\<lparr>cache_compute_bandwidth := Some (map_of (rev entries))\<rparr>\<rparr>)))))"

definition build_descriptor_pool :: "('d, 'h, 'w) env \<Rightarrow> ('d, 'h, 'w, unit) run" where
  "build_descriptor_pool E =
     bindE need_parent_node (\<lambda>p.
     bindE (getE (\<lambda>c. node_get E (ec_db c) p (space_metadata E) (key_protocol_descriptor E))) (\<lambda>obj.
     bindE (someE obj (kexn reversion_exception ''file descriptor set does not exist'')) (\<lambda>bytes.
     bindE (someE (parse_descriptors E bytes)
              (kexn reversion_exception ''file descriptor set is malformed'')) (\<lambda>pool.
     modifyE (\<lambda>c. c\<lparr>ec_cache := (ec_cache c)\<lparr>cache_descriptor_pool := Some pool\<rparr>\<rparr>)))))"

definition cache_entry :: "u32 \<Rightarrow> system_call_entry \<Rightarrow> ('d, 'h, 'w, unit) run" where
  "cache_entry sid e =
     modifyE (\<lambda>c. c\<lparr>ec_cache := (ec_cache c)
       \<lparr>cache_system_call_table := (cache_system_call_table (ec_cache c))(sid \<mapsto> e)\<rparr>\<rparr>)"

definition cache_contract_call :: "('d, 'h, 'w) env \<Rightarrow> 'h \<Rightarrow> u32 \<Rightarrow> bytes \<Rightarrow> u32 \<Rightarrow> ('d, 'h, 'w, unit) run" where
  "cache_contract_call E p sid contract_id entry_point =
     bindE (getE (\<lambda>c. node_get E (ec_db c) p (space_contract_metadata E) contract_id)) (\<lambda>contract_meta.
     bindE (getE (\<lambda>c. node_get E (ec_db c) p (space_contract_bytecode E) contract_id)) (\<lambda>contract_bytecode.
     bindE (someE contract_meta
              (kexn_args invalid_contract_exception ''contract metadata for call id ${id} not found''
                 [(''id'', JNum (uint sid))])) (\<lambda>meta.
     bindE (someE contract_bytecode
              (kexn_args invalid_contract_exception ''contract bytecode for call id ${id} not found''
                 [(''id'', JNum (uint sid))])) (\<lambda>bytecode.
     bindE (liftE (to_contract_metadata E meta)) (\<lambda>m.
     cache_entry sid (Contract_entry
       \<lparr>cb_contract_id = contract_id, cb_contract_bytecode = bytecode, cb_entry_point = entry_point,
        cb_contract_metadata = m\<rparr>))))))"

definition cache_system_call :: "('d, 'h, 'w) env \<Rightarrow> u32 \<Rightarrow> ('d, 'h, 'w, unit) run" where
  "cache_system_call E sid =
     bindE need_parent_node (\<lambda>p.
     bindE (getE (\<lambda>c. cache_system_call_table (ec_cache c) sid)) (\<lambda>cached.
       if cached \<noteq> None then returnE ()
       else
         bindE (getE (\<lambda>c. node_get E (ec_db c) p (space_system_call_dispatch E) (as_string E (M_u32 sid)))) (\<lambda>obj.
           case obj of
             None \<Rightarrow> cache_entry sid (Thunk_entry \<lparr>tb_thunk_id = sid, tb_is_override = False\<rparr>)
           | Some bytes \<Rightarrow>
               bindE (liftE (to_system_call_target E bytes)) (\<lambda>target.
                 case target of
                   Target_system_call_bundle contract_id entry_point \<Rightarrow>
                     cache_contract_call E p sid contract_id entry_point
                 | Target_thunk_id t \<Rightarrow>
                     cache_entry sid (Thunk_entry \<lparr>tb_thunk_id = t, tb_is_override = True\<rparr>)
                 | Target_none \<Rightarrow>
                     cache_entry sid (Thunk_entry \<lparr>tb_thunk_id = 0, tb_is_override = True\<rparr>)))))"

definition build_block_hash_code_cache :: "('d, 'h, 'w) env \<Rightarrow> ('d, 'h, 'w, unit) run" where
  "build_block_hash_code_cache E =
     bindE need_parent_node (\<lambda>p.
     bindE (getE (\<lambda>c. node_get E (ec_db c) p (space_metadata E) (key_block_hash_code E))) (\<lambda>obj.
     bindE (someE obj (kexn invalid_contract_exception ''block hash code does not exist'')) (\<lambda>bytes.
     bindE (liftE (to_unsigned_varint E bytes)) (\<lambda>code.
     modifyE (\<lambda>c. c\<lparr>ec_cache := (ec_cache c)\<lparr>cache_block_hash_code := Some code\<rparr>\<rparr>)))))"

definition reset_cache :: "('d, 'h, 'w) ctx \<Rightarrow> ('d, 'h, 'w) ctx" where
  "reset_cache c = c\<lparr>ec_cache := empty_cache\<rparr>"

definition get_compute_bandwidth :: "('d, 'h, 'w) env \<Rightarrow> string \<Rightarrow> ('d, 'h, 'w, u64) run" where
  "get_compute_bandwidth E name =
     bindE (getE (\<lambda>c. cache_compute_bandwidth (ec_cache c))) (\<lambda>cached.
     thenE (if cached = None then build_compute_registry_cache E else returnE ()) (
     bindE (getE (\<lambda>c. the (cache_compute_bandwidth (ec_cache c)) name)) (\<lambda>entry.
     someE entry
       (kexn_args reversion_exception ''unable to find compute bandwidth for ${t}'' [(''t'', JStr name)]))))"

definition get_descriptor_pool :: "('d, 'h, 'w) env \<Rightarrow> ('d, 'h, 'w, descriptor_pool) run" where
  "get_descriptor_pool E =
     bindE (getE (\<lambda>c. cache_descriptor_pool (ec_cache c))) (\<lambda>cached.
     thenE (if cached = None then build_descriptor_pool E else returnE ())
       (getE (\<lambda>c. the (cache_descriptor_pool (ec_cache c)))))"

definition block_hash_code :: "('d, 'h, 'w) env \<Rightarrow> ('d, 'h, 'w, u64) run" where
  "block_hash_code E =
     bindE (getE (\<lambda>c. cache_block_hash_code (ec_cache c))) (\<lambda>cached.
     thenE (if cached = None then build_block_hash_code_cache E else returnE ())
       (getE (\<lambda>c. the (cache_block_hash_code (ec_cache c)))))"

section \<open>System call dispatch\<close>

text \<open>
  \<open>run\<close> stands for \<open>get_backend()->run( hapi, bytecode, id )\<close> on this context.
\<close>

definition context_system_call ::
  "('d, 'h, 'w) env \<Rightarrow> (bytes \<Rightarrow> bytes \<Rightarrow> ('d, 'h, 'w, unit) run) \<Rightarrow> u32 \<Rightarrow> bytes
     \<Rightarrow> ('d, 'h, 'w, execution_result) run" where
  "context_system_call E run sid args =
     thenE
       (catchE is_success
          (thenE (cache_system_call E sid)
            (bindE (getE (\<lambda>c. cache_system_call_table (ec_cache c) sid)) (\<lambda>entry.
              case entry of
                None \<Rightarrow>
                  throwE (kexn_args reversion_exception ''unable to find call id ${id} in system call cache''
                    [(''id'', JNum (uint sid))])
              | Some (Thunk_entry _) \<Rightarrow>
                  throwE (kexn_args reversion_exception ''system call ${id} is implemented via thunk''
                    [(''id'', JNum (uint sid))])
              | Some (Contract_entry b) \<Rightarrow>
                  with_stack_frame
                    \<lparr>fr_contract_id = cb_contract_id b, fr_sid = 0,
                     fr_call_privilege =
                       (if cm_system (cb_contract_metadata b) then kernel_mode else user_mode),
                     fr_call_args = args, fr_entry_point = cb_entry_point b\<rparr>
                    (run (cb_contract_bytecode b) (cm_hash (cb_contract_metadata b))))))
          (\<lambda>_. returnE ()))
       (getE ec_result)"

definition system_call_exists :: "('d, 'h, 'w) env \<Rightarrow> u32 \<Rightarrow> ('d, 'h, 'w, bool) run" where
  "system_call_exists E sid =
     thenE (cache_system_call E sid)
       (getE (\<lambda>c. case cache_system_call_table (ec_cache c) sid of
                    Some (Contract_entry _) \<Rightarrow> True
                  | _ \<Rightarrow> False))"

definition thunk_translation :: "('d, 'h, 'w) env \<Rightarrow> u32 \<Rightarrow> ('d, 'h, 'w, u32) run" where
  "thunk_translation E sid =
     thenE (cache_system_call E sid)
       (bindE (getE (\<lambda>c. cache_system_call_table (ec_cache c) sid)) (\<lambda>entry.
          case entry of
            None \<Rightarrow>
              throwE (kexn_args reversion_exception ''unable to find call id ${id} in system call cache''
                [(''id'', JNum (uint sid))])
          | Some (Contract_entry _) \<Rightarrow>
              throwE (kexn_args reversion_exception ''system call ${id} is implemented via contract override''
                [(''id'', JNum (uint sid))])
          | Some (Thunk_entry b) \<Rightarrow>
              if tb_is_override b then returnE (tb_thunk_id b)
              else
                thenE (assertE (tb_thunk_id b = sid)
                  (kexn_args internal_error_exception
                     ''non-override cached thunk id ${cached} does not match id ${id}''
                     [(''cached'', JNum (uint (tb_thunk_id b))), (''id'', JNum (uint sid))]))
                (thenE (assertE (thunk_is_genesis E sid)
                  (kexn_args unknown_thunk_exception ''thunk ${id} is not enabled'' [(''id'', JNum (uint sid))]))
                (returnE sid))))"

definition set_result :: "execution_result \<Rightarrow> ('d, 'h, 'w) ctx \<Rightarrow> ('d, 'h, 'w) ctx" where
  "set_result r c = c\<lparr>ec_result := r\<rparr>"

end
