(* ===== verification/Thunks.thy ===== *)
theory Thunks
  imports Execution_Context
begin

text \<open>
  \<^verbatim>\<open>system_calls.cpp\<close>, the native implementations (thunks) of the system calls, less the four that apply
  blocks, transactions and operations, which are in \<open>Apply\<close>.  A thunk calls other system calls
  through their overridable wrappers: the parameter \<open>sc\<close> is that wrapper, and \<open>run\<close> is the VM
  backend.  \<open>Kernel\<close> ties the knot.

  Operands of one C++ expression are evaluated left to right.  \<open>assert\<close> is a no-op, as in the
  release builds the Dockerfile makes.
\<close>

type_synonym ('d, 'h, 'w) sys = "sc_args \<Rightarrow> ('d, 'h, 'w, sc_ret) run"
type_synonym ('d, 'h, 'w) vm = "bytes \<Rightarrow> bytes \<Rightarrow> ('d, 'h, 'w, unit) run"

section \<open>Helpers\<close>

definition blen :: "'a list \<Rightarrow> u64" where
  "blen xs = of_nat (length xs)"

definition assert_permissions :: "object_space \<Rightarrow> ('d, 'h, 'w, unit) run" where
  "assert_permissions sp =
     bindE (getE get_caller_privilege) (\<lambda>p.
       if p = kernel_mode then
         assertE (os_system sp) (kexn reversion_exception ''privileged code can only access system space'')
       else
         thenE (assertE (\<not> os_system sp)
                  (kexn insufficient_privileges_exception ''user code cannot access system space''))
           (guardE (\<lambda>c. os_zone sp = get_caller c)
              (kexn reversion_exception ''user code cannot access other contract space'')))"

text \<open>\<open>hash_alg_of\<close> recognises the multicodec numbers the code accepts.\<close>

definition hash_alg_of :: "('d, 'h, 'w) env \<Rightarrow> u64 \<Rightarrow> hash_alg option" where
  "hash_alg_of E code = find (\<lambda>a. codec_num E a = code) [sha1, sha2_256, sha2_512, keccak_256, ripemd_160]"

definition validate_hash_code :: "('d, 'h, 'w) env \<Rightarrow> u64 \<Rightarrow> ('d, 'h, 'w, unit) run" where
  "validate_hash_code E code =
     assertE (hash_alg_of E code \<noteq> None) (kexn unknown_hash_code_exception ''unknown hash code'')"

definition hash_compute_keys :: "('d, 'h, 'w) env \<Rightarrow> u64 \<Rightarrow> ('d, 'h, 'w, string \<times> string) run" where
  "hash_compute_keys E code =
     (case hash_alg_of E code of
        Some sha1 \<Rightarrow> returnE (''sha1_base'', ''sha1_per_byte'')
      | Some sha2_256 \<Rightarrow> returnE (''sha2_256_base'', ''sha2_256_per_byte'')
      | Some sha2_512 \<Rightarrow> returnE (''sha2_512_base'', ''sha2_512_per_byte'')
      | Some keccak_256 \<Rightarrow> returnE (''keccak_256_base'', ''keccak_256_per_byte'')
      | Some ripemd_160 \<Rightarrow> returnE (''ripemd_160_base'', ''ripemd_160_per_byte'')
      | None \<Rightarrow> throwE (kexn unknown_hash_code_exception ''unknown hash code''))"

lemma unat_half: "unat (w div 2) = unat w div 2" for w :: u64
  by (simp add: unat_div)

lemma unat_double_half: "unat (w div 2 * 2) = unat w div 2 * 2" for w :: u64
proof -
  have "unat w div 2 * 2 < 2 ^ 64" using unsigned_less [of w, where ?'a = nat] by simp
  then show ?thesis by (simp add: unat_word_ariths unat_half)
qed

lemma even_leaves_half: "unat ((w div 2 * 2) div 2) = unat w div 2" for w :: u64
  by (simp add: unat_half unat_double_half)

lemma unat_succ_u64: "w + 1 \<noteq> 0 \<Longrightarrow> unat (w + 1) = Suc (unat w)" for w :: u64
  by (metis add.commute unatSuc)

function hashes_per_leaves :: "u64 \<Rightarrow> u64" where
  "hashes_per_leaves leaves =
     (if leaves \<le> 2 then 1
      else
        let even_leaves = ((leaves + 1) div 2) * 2 in
        if and even_leaves (even_leaves - 1) = 0 then even_leaves - 1
        else even_leaves div 2 + hashes_per_leaves (even_leaves div 2))"
  by pat_completeness auto
termination
proof (relation "measure unat", goal_cases)
  case (2 leaves even_leaves)
  have nz: "leaves + 1 \<noteq> 0"
    using 2 by auto
  have "2 < unat leaves" using 2(1) by (simp add: word_le_nat_alt)
  then show ?case
    using 2(2) unat_succ_u64 [OF nz] by (simp add: even_leaves_half)
qed simp

text \<open>
  \<open>None\<close> would be a loop that makes no progress; Boost's decoder consumes at least one byte at every
  position before the end.
\<close>

function validate_utf :: "('d, 'h, 'w) env \<Rightarrow> string \<Rightarrow> bool option" where
  "validate_utf E s =
     (if s = [] then Some True
      else
        case utf_decode E s of (cp, rest) \<Rightarrow>
          if cp = utf_illegal then Some False
          else if cp = utf_incomplete then Some False
          else if length rest < length s then validate_utf E rest
          else None)"
  by pat_completeness auto
termination by (relation "measure (\<lambda>(E, s). length s)") auto

declare hashes_per_leaves.simps [simp del] validate_utf.simps [simp del]

definition assert_utf :: "('d, 'h, 'w) env \<Rightarrow> string \<Rightarrow> exn \<Rightarrow> ('d, 'h, 'w, unit) run" where
  "assert_utf E s e = bindE (someE (validate_utf E s) Out_of_fuel) (\<lambda>b. assertE b e)"

definition need_kernel_mode :: "('d, 'h, 'w, unit) run" where
  "need_kernel_mode =
     guardE (\<lambda>c. get_caller_privilege c = kernel_mode)
       (kexn insufficient_privileges_exception ''calling privileged thunk from non-privileged code'')"

definition need_writable :: "string \<Rightarrow> ('d, 'h, 'w, unit) run" where
  "need_writable msg = guardE (\<lambda>c. \<not> is_read_only c) (kexn read_only_context_exception msg)"

text \<open>\<open>context.get_state_node()\<close> where the code checks it, and where it dereferences it unchecked.\<close>

definition checked_state_node :: "('d, 'h, 'w, 'h) run" where
  "checked_state_node =
     bindE (getE ec_current_state_node)
       (\<lambda>n. someE n (kexn internal_error_exception ''current state node does not exist''))"

definition deref_state_node :: "('d, 'h, 'w, 'h) run" where
  "deref_state_node = bindE (getE ec_current_state_node) (\<lambda>n. someE n (Undefined ''null state node''))"

definition sc_get :: "('d, 'h, 'w) sys \<Rightarrow> object_space \<Rightarrow> bytes \<Rightarrow> ('d, 'h, 'w, database_object) run" where
  "sc_get sc sp key = bindE (sc (A_get_object sp key)) (\<lambda>r. returnE (v_object r))"

definition sc_hash_of :: "('d, 'h, 'w) env \<Rightarrow> ('d, 'h, 'w) sys \<Rightarrow> bytes \<Rightarrow> ('d, 'h, 'w, bytes) run" where
  "sc_hash_of E sc obj =
     bindE (block_hash_code E) (\<lambda>code. bindE (sc (A_hash code obj 0)) (\<lambda>r. returnE (v_bytes r)))"

text \<open>\<open>util::converter::to< crypto::public_key >( recover_public_key( \<dots> ) ).to_address_bytes()\<close>\<close>

definition recover_address ::
  "('d, 'h, 'w) env \<Rightarrow> ('d, 'h, 'w) sys \<Rightarrow> bytes \<Rightarrow> bytes \<Rightarrow> ('d, 'h, 'w, bytes) run" where
  "recover_address E sc sig digest =
     bindE (sc (A_recover_public_key ecdsa_secp256k1 sig digest True)) (\<lambda>r.
     bindE (liftE (to_public_key E (v_bytes r))) (\<lambda>k.
     returnE (key_address E k)))"

section \<open>General blockchain management\<close>

definition thunk_nop :: "('d, 'h, 'w, sc_ret) run" where
  "thunk_nop = returnE V_void"

definition thunk_get_head_info :: "('d, 'h, 'w) env \<Rightarrow> ('d, 'h, 'w) sys \<Rightarrow> ('d, 'h, 'w, sc_ret) run" where
  "thunk_get_head_info E sc =
     bindE deref_state_node (\<lambda>head.
     bindE (getE (\<lambda>c. \<lparr>bt_id = as_string E (M_multihash (node_id E (ec_db c) head)),
                       bt_previous = as_string E (M_multihash (node_parent_id E (ec_db c) head)),
                       bt_height = node_revision E (ec_db c) head\<rparr>)) (\<lambda>topology.
     bindE (sc A_get_last_irreversible_block) (\<lambda>lib.
     bindE (getE ec_block) (\<lambda>blk.
     bindE (case blk of
              Some b \<Rightarrow> returnE (bh_timestamp (blk_header b))
            | None \<Rightarrow>
                bindE (sc_get sc (space_metadata E) (key_head_block E)) (\<lambda>obj.
                  if do_exists obj then
                    bindE (liftE (to_block E (do_value obj))) (\<lambda>b. returnE (bh_timestamp (blk_header b)))
                  else returnE 0)) (\<lambda>time.
     returnE (V_head_info
       \<lparr>hi_head_topology = topology, hi_last_irreversible_block = v_u64 lib,
        hi_head_block_time = time\<rparr>))))))"

definition thunk_get_chain_id :: "('d, 'h, 'w) env \<Rightarrow> ('d, 'h, 'w) sys \<Rightarrow> ('d, 'h, 'w, sc_ret) run" where
  "thunk_get_chain_id E sc =
     bindE (sc_get sc (space_metadata E) (key_chain_id E)) (\<lambda>obj. returnE (V_bytes (do_value obj)))"

section \<open>System helpers\<close>

definition thunk_process_block_signature ::
  "('d, 'h, 'w) env \<Rightarrow> ('d, 'h, 'w) sys \<Rightarrow> bytes \<Rightarrow> block_header \<Rightarrow> bytes \<Rightarrow> ('d, 'h, 'w, sc_ret) run" where
  "thunk_process_block_signature E sc digest header signature_data =
     bindE (sc_get sc (space_metadata E) (key_genesis_key E)) (\<lambda>genesis.
     bindE (recover_address E sc signature_data digest) (\<lambda>addr.
     returnE (V_bool (do_value genesis = addr))))"

definition thunk_get_transaction :: "('d, 'h, 'w, sc_ret) run" where
  "thunk_get_transaction =
     bindE (getE ec_trx) (\<lambda>t.
     bindE (someE t (kexn internal_error_exception ''transaction does not exist'')) (\<lambda>trx.
     returnE (V_transaction trx)))"

definition thunk_get_transaction_field :: "('d, 'h, 'w) env \<Rightarrow> string \<Rightarrow> ('d, 'h, 'w, sc_ret) run" where
  "thunk_get_transaction_field E field =
     bindE (getE ec_trx) (\<lambda>t.
     bindE (someE t (kexn internal_error_exception ''transaction does not exist'')) (\<lambda>trx.
     bindE (get_descriptor_pool E) (\<lambda>pool.
     bindE (liftE (get_nested_field_value (reflect E) pool (pb_transaction E trx) field)) (\<lambda>v.
     returnE (V_value v)))))"

definition thunk_get_block :: "('d, 'h, 'w, sc_ret) run" where
  "thunk_get_block =
     bindE (getE ec_block) (\<lambda>b.
     bindE (someE b (kexn internal_error_exception ''block does not exist'')) (\<lambda>blk.
     returnE (V_block blk)))"

definition thunk_get_block_field :: "('d, 'h, 'w) env \<Rightarrow> string \<Rightarrow> ('d, 'h, 'w, sc_ret) run" where
  "thunk_get_block_field E field =
     bindE (getE ec_block) (\<lambda>b.
     bindE (someE b (kexn internal_error_exception ''block does not exist'')) (\<lambda>blk.
     bindE (get_descriptor_pool E) (\<lambda>pool.
     bindE (liftE (get_nested_field_value (reflect E) pool (pb_block E blk) field)) (\<lambda>v.
     returnE (V_value v)))))"

definition default_irreversible_threshold :: u64 where
  "default_irreversible_threshold = 60"

definition thunk_get_last_irreversible_block :: "('d, 'h, 'w) env \<Rightarrow> ('d, 'h, 'w, sc_ret) run" where
  "thunk_get_last_irreversible_block E =
     bindE deref_state_node (\<lambda>head.
     bindE (getE (\<lambda>c. node_revision E (ec_db c) head)) (\<lambda>rev.
     returnE (V_u64 (if default_irreversible_threshold < rev
                     then rev - default_irreversible_threshold else 0))))"

definition thunk_get_account_nonce ::
  "('d, 'h, 'w) env \<Rightarrow> ('d, 'h, 'w) sys \<Rightarrow> bytes \<Rightarrow> ('d, 'h, 'w, sc_ret) run" where
  "thunk_get_account_nonce E sc account =
     bindE (sc_get sc (space_transaction_nonce E) account) (\<lambda>obj.
     returnE (V_bytes (if do_exists obj then do_value obj else as_string E (M_value (Value_uint64 0)))))"

fun uint64_value :: "value_type \<Rightarrow> u64 option" where
  "uint64_value (Value_uint64 n) = Some n"
| "uint64_value _ = None"

definition thunk_verify_account_nonce ::
  "('d, 'h, 'w) env \<Rightarrow> ('d, 'h, 'w) sys \<Rightarrow> bytes \<Rightarrow> bytes \<Rightarrow> ('d, 'h, 'w, sc_ret) run" where
  "thunk_verify_account_nonce E sc account nonce =
     bindE (liftE (to_value E nonce)) (\<lambda>nonce_value.
     bindE (someE (uint64_value nonce_value)
              (kexn_args invalid_nonce_exception
                 ''nonce did not contain uint64 value - nonce: ${n}, account: ${a}''
                 [(''n'', JHex nonce), (''a'', JBase58 account)])) (\<lambda>new.
     bindE (sc (A_get_account_nonce account)) (\<lambda>r.
     bindE (liftE (to_value E (v_bytes r))) (\<lambda>current_nonce_value.
     bindE (someE (uint64_value current_nonce_value)
              (kexn_args invalid_nonce_exception
                 ''current nonce did not contain uint64 value - nonce: ${n}, account: ${a}''
                 [(''n'', JHex (as_string E (M_value current_nonce_value))), (''a'', JBase58 account)])) (\<lambda>current.
     returnE (V_bool (new = current + 1)))))))"

definition thunk_set_account_nonce ::
  "('d, 'h, 'w) env \<Rightarrow> ('d, 'h, 'w) sys \<Rightarrow> bytes \<Rightarrow> bytes \<Rightarrow> ('d, 'h, 'w, sc_ret) run" where
  "thunk_set_account_nonce E sc account nonce =
     thenE need_kernel_mode (
     bindE (liftE (to_value E nonce)) (\<lambda>nonce_value.
     thenE (assertE (uint64_value nonce_value \<noteq> None)
              (kexn_args invalid_nonce_exception
                 ''set nonce did not contain uint64 value - nonce: ${n}, account: ${a}''
                 [(''n'', JHex nonce), (''a'', JBase58 account)])) (
     thenE (sc (A_put_object (space_transaction_nonce E) account nonce))
     (returnE V_void))))"

definition any_signature_by ::
  "('d, 'h, 'w) env \<Rightarrow> ('d, 'h, 'w) sys \<Rightarrow> transaction \<Rightarrow> bytes \<Rightarrow> ('d, 'h, 'w, bool) run" where
  "any_signature_by E sc trx account =
     anyE (trx_signatures trx) (\<lambda>sig.
       bindE (recover_address E sc sig (trx_id trx)) (\<lambda>addr. returnE (addr = account)))"

definition thunk_check_system_authority :: "('d, 'h, 'w) env \<Rightarrow> ('d, 'h, 'w) sys \<Rightarrow> ('d, 'h, 'w, sc_ret) run" where
  "thunk_check_system_authority E sc =
     bindE (sc_get sc (space_metadata E) (key_genesis_key E)) (\<lambda>genesis.
     bindE (getE ec_trx) (\<lambda>t.
     bindE (someE t (kexn internal_error_exception ''transaction does not exist'')) (\<lambda>trx.
     bindE (any_signature_by E sc trx (do_value genesis)) (\<lambda>authorized.
     returnE (V_bool authorized)))))"

definition thunk_get_operation :: "('d, 'h, 'w, sc_ret) run" where
  "thunk_get_operation =
     bindE (getE ec_op) (\<lambda>o'.
     bindE (someE o' (kexn operation_not_found_exception ''outside an operational context'')) (\<lambda>op.
     returnE (V_operation op)))"

section \<open>Resource subsystem\<close>

definition thunk_get_account_rc ::
  "('d, 'h, 'w) env \<Rightarrow> ('d, 'h, 'w) sys \<Rightarrow> bytes \<Rightarrow> ('d, 'h, 'w, sc_ret) run" where
  "thunk_get_account_rc E sc account =
     bindE (sc_get sc (space_metadata E) (key_max_account_resources E)) (\<lambda>obj.
     thenE (assertE (do_exists obj) (kexn internal_error_exception ''max_account_resources does not exist'')) (
     bindE (liftE (to_max_account_resources E (do_value obj))) (\<lambda>v.
     returnE (V_u64 v))))"

definition thunk_consume_account_rc :: "bytes \<Rightarrow> u64 \<Rightarrow> ('d, 'h, 'w, sc_ret) run" where
  "thunk_consume_account_rc account rc = returnE (V_bool True)"

definition thunk_get_resource_limits :: "('d, 'h, 'w) env \<Rightarrow> ('d, 'h, 'w) sys \<Rightarrow> ('d, 'h, 'w, sc_ret) run" where
  "thunk_get_resource_limits E sc =
     bindE (sc_get sc (space_metadata E) (key_resource_limit_data E)) (\<lambda>obj.
     thenE (assertE (do_exists obj) (kexn internal_error_exception ''resource_limit_data does not exist'')) (
     bindE (liftE (to_resource_limit_data E (do_value obj))) (\<lambda>v.
     returnE (V_limits v))))"

definition thunk_consume_block_resources :: "u64 \<Rightarrow> u64 \<Rightarrow> u64 \<Rightarrow> ('d, 'h, 'w, sc_ret) run" where
  "thunk_consume_block_resources disk network compute = returnE (V_bool True)"

section \<open>Database\<close>

definition charge_serialization :: "('d, 'h, 'w) env \<Rightarrow> bytes \<Rightarrow> ('d, 'h, 'w, unit) run" where
  "charge_serialization E obj =
     bindE (get_compute_bandwidth E ''object_serialization_per_byte'') (\<lambda>cost.
     charge_compute E (cost * blen obj))"

text \<open>\<open>state->put_object\<close> and \<open>state->remove_object\<close>: the change of size, and the database written.\<close>

definition node_write :: "('d \<Rightarrow> exn + i64 \<times> 'd) \<Rightarrow> ('d, 'h, 'w, i64) run" where
  "node_write f = (\<lambda>c. case f (ec_db c) of Inl e \<Rightarrow> (Inl e, c) | Inr (n, d) \<Rightarrow> (Inr n, c\<lparr>ec_db := d\<rparr>))"

definition thunk_put_object ::
  "('d, 'h, 'w) env \<Rightarrow> object_space \<Rightarrow> bytes \<Rightarrow> bytes \<Rightarrow> ('d, 'h, 'w, sc_ret) run" where
  "thunk_put_object E sp key obj =
     thenE (need_writable ''cannot put object during read only call'') (
     thenE (charge_serialization E obj) (
     thenE (assert_permissions sp) (
     bindE checked_state_node (\<lambda>node.
     bindE (node_write (\<lambda>d. node_put E d node sp key obj)) (\<lambda>bytes.
     thenE (charge_disk E bytes)
     (returnE V_void))))))"

definition thunk_remove_object ::
  "('d, 'h, 'w) env \<Rightarrow> object_space \<Rightarrow> bytes \<Rightarrow> ('d, 'h, 'w, sc_ret) run" where
  "thunk_remove_object E sp key =
     thenE (need_writable ''cannot remove object during read only call'') (
     thenE (assert_permissions sp) (
     bindE checked_state_node (\<lambda>node.
     bindE (node_write (\<lambda>d. node_remove E d node sp key)) (\<lambda>bytes.
     thenE (charge_disk E bytes)
     (returnE V_void)))))"

definition thunk_get_object ::
  "('d, 'h, 'w) env \<Rightarrow> object_space \<Rightarrow> bytes \<Rightarrow> ('d, 'h, 'w, sc_ret) run" where
  "thunk_get_object E sp key =
     thenE (assert_permissions sp) (
     bindE checked_state_node (\<lambda>node.
     bindE (getE (\<lambda>c. node_get E (ec_db c) node sp key)) (\<lambda>res.
       case res of
         None \<Rightarrow> returnE (V_object empty_database_object)
       | Some v \<Rightarrow>
           thenE (charge_serialization E v)
           (returnE (V_object \<lparr>do_exists = True, do_value = v, do_key = []\<rparr>)))))"

definition get_neighbour ::
  "('d, 'h, 'w) env \<Rightarrow> ('d \<Rightarrow> 'h \<Rightarrow> object_space \<Rightarrow> bytes \<Rightarrow> (bytes \<times> bytes) option)
     \<Rightarrow> object_space \<Rightarrow> bytes \<Rightarrow> ('d, 'h, 'w, sc_ret) run" where
  "get_neighbour E find_object sp key =
     thenE (assert_permissions sp) (
     bindE checked_state_node (\<lambda>node.
     bindE (getE (\<lambda>c. find_object (ec_db c) node sp key)) (\<lambda>res.
       case res of
         None \<Rightarrow> returnE (V_object empty_database_object)
       | Some (v, k) \<Rightarrow>
           thenE (charge_serialization E v)
           (returnE (V_object \<lparr>do_exists = True, do_value = v, do_key = k\<rparr>)))))"

definition thunk_get_next_object ::
  "('d, 'h, 'w) env \<Rightarrow> object_space \<Rightarrow> bytes \<Rightarrow> ('d, 'h, 'w, sc_ret) run" where
  "thunk_get_next_object E sp key = get_neighbour E (node_next E) sp key"

definition thunk_get_prev_object ::
  "('d, 'h, 'w) env \<Rightarrow> object_space \<Rightarrow> bytes \<Rightarrow> ('d, 'h, 'w, sc_ret) run" where
  "thunk_get_prev_object E sp key = get_neighbour E (node_prev E) sp key"

section \<open>Logging\<close>

definition thunk_log :: "('d, 'h, 'w) env \<Rightarrow> string \<Rightarrow> ('d, 'h, 'w, sc_ret) run" where
  "thunk_log E msg =
     thenE (assert_utf E msg (kexn reversion_exception ''log entry contains invalid utf-8'')) (
     thenE (push_log msg)
     (returnE V_void))"

definition thunk_event ::
  "('d, 'h, 'w) env \<Rightarrow> string \<Rightarrow> bytes \<Rightarrow> bytes list \<Rightarrow> ('d, 'h, 'w, sc_ret) run" where
  "thunk_event E name data impacted =
     thenE (assertE (name \<noteq> []) (kexn reversion_exception ''event name cannot be empty'')) (
     thenE (assertE (length name \<le> 128) (kexn reversion_exception ''event name cannot be larger than 128 bytes'')) (
     thenE (assert_utf E name (kexn reversion_exception ''event name contains invalid utf-8'')) (
     bindE (get_compute_bandwidth E ''event_per_impacted'') (\<lambda>cost.
     thenE (charge_compute E (cost * blen impacted)) (
     bindE (getE get_caller) (\<lambda>caller.
     bindE (getE (\<lambda>c. map_option trx_id (ec_trx c))) (\<lambda>transaction_id.
     thenE (push_event transaction_id
              \<lparr>ev_sequence = 0, ev_source = caller, ev_name = name, ev_data = data, ev_impacted = impacted\<rparr>)
     (returnE V_void))))))))"

section \<open>Cryptography\<close>

definition thunk_hash :: "('d, 'h, 'w) env \<Rightarrow> u64 \<Rightarrow> bytes \<Rightarrow> u64 \<Rightarrow> ('d, 'h, 'w, sc_ret) run" where
  "thunk_hash E code obj sz =
     thenE (validate_hash_code E code) (
     bindE (hash_compute_keys E code) (\<lambda>(hash_base, hash_per_byte).
     bindE (get_compute_bandwidth E hash_base) (\<lambda>base.
     bindE (get_compute_bandwidth E hash_per_byte) (\<lambda>per_byte.
     thenE (charge_compute E (base + per_byte * blen obj))
     (returnE (V_bytes (as_string E (M_multihash (crypto_hash E code obj sz)))))))))"

definition thunk_recover_public_key ::
  "('d, 'h, 'w) env \<Rightarrow> dsa \<Rightarrow> bytes \<Rightarrow> bytes \<Rightarrow> bool \<Rightarrow> ('d, 'h, 'w, sc_ret) run" where
  "thunk_recover_public_key E ty signature_data digest compressed =
     thenE (assertE (ty = ecdsa_secp256k1) (kexn unknown_dsa_exception ''unexpected dsa'')) (
     thenE (assertE (length signature_data = 65) (kexn invalid_signature_exception ''unexpected signature length'')) (
     thenE (assertE (sig_is_canonical E signature_data) (kexn invalid_signature_exception ''signature must be canonical'')) (
     bindE (liftE (to_multihash E digest)) (\<lambda>mh.
     bindE (liftE (recover_key E signature_data mh)) (\<lambda>pub_key.
     thenE (assertE (key_valid E pub_key) (kexn invalid_signature_exception ''public key is invalid''))
     (returnE (V_bytes (if compressed then key_compressed E pub_key else key_uncompressed E pub_key))))))))"

definition thunk_verify_merkle_root ::
  "('d, 'h, 'w) env \<Rightarrow> bytes \<Rightarrow> bytes list \<Rightarrow> ('d, 'h, 'w, sc_ret) run" where
  "thunk_verify_merkle_root E root hashes =
     bindE (get_compute_bandwidth E ''deserialize_multihash_base'') (\<lambda>deserialize_base.
     bindE (get_compute_bandwidth E ''deserialize_multihash_per_byte'') (\<lambda>deserialize_per_byte.
     thenE (charge_compute E ((blen hashes + 1) * (deserialize_base + blen root * deserialize_per_byte))) (
     bindE (liftE (to_multihash E root)) (\<lambda>root_hash.
     bindE (hash_compute_keys E (mh_code root_hash)) (\<lambda>(hash_base_key, hash_per_byte_key).
     bindE (get_compute_bandwidth E hash_base_key) (\<lambda>hash_base.
     bindE (get_compute_bandwidth E hash_per_byte_key) (\<lambda>hash_per_byte.
     thenE (charge_compute E (hashes_per_leaves (blen hashes)
              * (hash_base + 2 * blen (mh_digest root_hash) * hash_per_byte))) (
     thenE (validate_hash_code E (mh_code root_hash)) (
     bindE (mapE (\<lambda>s.
              bindE (liftE (to_multihash E s)) (\<lambda>mh.
              thenE (assertE (mh_code mh = mh_code root_hash)
                       (kexn unknown_hash_code_exception ''leaf and merkle root hash codes do not match'')) (
              thenE (assertE (length (mh_digest mh) = length (mh_digest root_hash))
                       (kexn unknown_hash_code_exception ''leaf and merkle root hash sizes do not match''))
              (returnE mh)))) hashes) (\<lambda>leaves.
     returnE (V_bool (merkle_root_hash E (mh_code root_hash) leaves = root_hash))))))))))))"

definition thunk_verify_signature ::
  "('d, 'h, 'w) sys \<Rightarrow> dsa \<Rightarrow> bytes \<Rightarrow> bytes \<Rightarrow> bytes \<Rightarrow> bool \<Rightarrow> ('d, 'h, 'w, sc_ret) run" where
  "thunk_verify_signature sc ty public_key signature digest compressed =
     thenE (assertE (ty = ecdsa_secp256k1) (kexn unknown_dsa_exception ''unexpected dsa'')) (
     bindE (sc (A_recover_public_key ty signature digest compressed)) (\<lambda>r.
     returnE (V_bool (v_bytes r = public_key))))"

definition thunk_verify_vrf_proof ::
  "('d, 'h, 'w) env \<Rightarrow> dsa \<Rightarrow> bytes \<Rightarrow> bytes \<Rightarrow> bytes \<Rightarrow> bytes \<Rightarrow> ('d, 'h, 'w, sc_ret) run" where
  "thunk_verify_vrf_proof E ty public_key proof hsh message =
     thenE (assertE (ty = ecdsa_secp256k1) (kexn unknown_dsa_exception ''unexpected dsa'')) (
     bindE (liftE (to_public_key E public_key)) (\<lambda>pub_key.
     bindE (liftE (to_multihash E hsh)) (\<lambda>expected_hash.
     bindE (liftE (verify_random_proof E pub_key message proof)) (\<lambda>proof_hash.
     returnE (V_bool (proof_hash = Some expected_hash))))))"

section \<open>Contract management\<close>

definition authorize_entrypoint :: u32 where
  "authorize_entrypoint = 0x4a2dbd90"

text \<open>What the callers of a contract make of the result it left: nothing, a reversion or a failure.\<close>

definition raise_result_error :: "('d, 'h, 'w) env \<Rightarrow> execution_result \<Rightarrow> ('d, 'h, 'w, unit) run" where
  "raise_result_error E res =
     (if er_code res = 0 then returnE ()
      else if reversion E \<le> er_code res then throwE (reversion_exn (er_code res) (res_error (er_res res)))
      else if er_code res \<le> failure E then throwE (failure_exn (er_code res) (res_error (er_res res)))
      else returnE ())"

definition thunk_call ::
  "('d, 'h, 'w) env \<Rightarrow> ('d, 'h, 'w) sys \<Rightarrow> ('d, 'h, 'w) vm \<Rightarrow> bytes \<Rightarrow> u32 \<Rightarrow> bytes
     \<Rightarrow> ('d, 'h, 'w, sc_ret) run" where
  "thunk_call E sc run contract_id entry_point args =
     bindE (sc_get sc (space_contract_bytecode E) contract_id) (\<lambda>contract_object.
     thenE (assertE (do_exists contract_object) (kexn invalid_contract_exception ''contract does not exist'')) (
     bindE (sc_get sc (space_contract_metadata E) contract_id) (\<lambda>contract_meta_object.
     thenE (assertE (do_exists contract_meta_object)
              (kexn invalid_contract_exception ''contract metadata does not exist'')) (
     bindE (liftE (to_contract_metadata E (do_value contract_meta_object))) (\<lambda>contract_meta.
     thenE (assertE (cm_hash contract_meta \<noteq> [])
              (kexn invalid_contract_exception ''contract hash does not exist'')) (
     thenE (guardE (\<lambda>c. entry_point \<noteq> authorize_entrypoint \<or> get_caller_privilege c = kernel_mode)
              (kexn insufficient_privileges_exception
                 ''calling privileged thunk from non-privileged code'')) (
     thenE (catchE is_success
              (with_stack_frame
                 \<lparr>fr_contract_id = contract_id, fr_sid = 0,
                  fr_call_privilege = (if cm_system contract_meta then kernel_mode else user_mode),
                  fr_call_args = args, fr_entry_point = entry_point\<rparr>
                 (run (do_value contract_object) (cm_hash contract_meta)))
              (\<lambda>_. returnE ())) (
     bindE (getE ec_result) (\<lambda>res.
     thenE (raise_result_error E res)
     (returnE (V_bytes (res_object (er_res res))))))))))))) "

definition thunk_exit :: "('d, 'h, 'w) env \<Rightarrow> int \<Rightarrow> result \<Rightarrow> ('d, 'h, 'w, sc_ret) run" where
  "thunk_exit E code res =
     thenE (modifyE (set_result \<lparr>er_code = code, er_res = res\<rparr>)) (
     if code = 0 then throwE (success_exn code)
     else
       thenE (assertE (has_error res) (kexn reversion_exception ''exit error did not contain error data'')) (
       bindE (someE (validate_utf E (res_error res)) Out_of_fuel) (\<lambda>valid.
         if \<not> valid then throwE (reversion_exn (reversion E) ''error message contains invalid utf-8'')
         else if reversion E \<le> code then throwE (reversion_exn code (res_error res))
         else throwE (failure_exn code (res_error res)))))"

definition thunk_get_arguments :: "('d, 'h, 'w, sc_ret) run" where
  "thunk_get_arguments =
     bindE get_contract_entry_point (\<lambda>e. bindE get_contract_call_args (\<lambda>a. returnE (V_arguments e a)))"

definition thunk_get_contract_id :: "('d, 'h, 'w, sc_ret) run" where
  "thunk_get_contract_id = bindE (getE get_contract_id) (\<lambda>i. returnE (V_bytes i))"

definition thunk_get_caller :: "('d, 'h, 'w, sc_ret) run" where
  "thunk_get_caller =
     bindE pop_frame (\<lambda>frame0.
     bindE pop_frame (\<lambda>frame1.
     bindE (getE (\<lambda>c. V_caller (get_caller c) (get_caller_privilege c))) (\<lambda>ret.
     thenE (push_frame frame1) (
     thenE (push_frame frame0)
     (returnE ret)))))"

definition authorizes :: "authorization_type \<Rightarrow> contract_metadata_object \<Rightarrow> bool" where
  "authorizes ty m =
     (case ty of
        contract_call \<Rightarrow> cm_authorizes_call_contract m
      | transaction_application_auth \<Rightarrow> cm_authorizes_transaction_application m
      | contract_upload \<Rightarrow> cm_authorizes_upload_contract m
      | other_authorization _ \<Rightarrow> False)"

definition authorize_call_arguments ::
  "authorization_type \<Rightarrow> bytes \<Rightarrow> ('d, 'h, 'w, authorize_arguments) run" where
  "authorize_call_arguments ty data =
     (if ty = contract_call then
        bindE (getE (\<lambda>c. (get_caller c, get_caller_entry_point c))) (\<lambda>(contract_id, entry_point).
        bindE thunk_get_caller (\<lambda>caller.
        returnE \<lparr>aa_type = ty, aa_call = Some (contract_id, entry_point, v_caller caller, data)\<rparr>))
      else returnE \<lparr>aa_type = ty, aa_call = None\<rparr>)"

definition thunk_check_authority ::
  "('d, 'h, 'w) env \<Rightarrow> ('d, 'h, 'w) sys \<Rightarrow> authorization_type \<Rightarrow> bytes \<Rightarrow> bytes
     \<Rightarrow> ('d, 'h, 'w, sc_ret) run" where
  "thunk_check_authority E sc ty account data =
     thenE (need_writable ''unable to perform action while context is read only'') (
     bindE (sc_get sc (space_contract_metadata E) account) (\<lambda>meta_object.
     bindE (if do_exists meta_object then
              bindE (liftE (to_contract_metadata E (do_value meta_object))) (\<lambda>m. returnE (authorizes ty m))
            else returnE False) (\<lambda>authorize_override.
     bindE (if authorize_override then
              bindE (authorize_call_arguments ty data) (\<lambda>args.
              bindE (sc (A_call account authorize_entrypoint (as_string E (M_authorize_arguments args)))) (\<lambda>r.
              liftE (to_authorize_result E (v_bytes r))))
            else
              bindE (getE ec_trx) (\<lambda>t.
              bindE (someE t (kexn internal_error_exception ''transaction does not exist'')) (\<lambda>trx.
              any_signature_by E sc trx account))) (\<lambda>authorized.
     returnE (V_bool authorized)))))"

end
