(* ===== verification/Apply.thy ===== *)
theory Apply
  imports Thunks
begin

text \<open>
  \<^verbatim>\<open>system_calls.cpp\<close>, the thunks that apply blocks, transactions and operations, with their receipts.
  Local variables that an exception handler reads are kept in the record \<open>trx_locals\<close>, so that a
  handler sees the values they had when the exception was thrown.
\<close>

section \<open>Receipts\<close>

definition generate_block_receipt ::
  "('d, 'h, 'w) env \<Rightarrow> block \<Rightarrow> u64 \<Rightarrow> u64 \<Rightarrow> u64 \<Rightarrow> ('d, 'h, 'w, unit) run" where
  "generate_block_receipt E blk disk_charged network_charged compute_charged =
     bindE (getE ec_receipt) (\<lambda>rcpt.
       case rcpt of
         Block_receipt r \<Rightarrow>
           bindE deref_state_node (\<lambda>node.
           modifyE (\<lambda>c. c\<lparr>ec_receipt := Block_receipt (r
             \<lparr>br_id := blk_id blk,
              br_height := bh_height (blk_header blk),
              br_disk_storage_used := disk_storage_used (ec_resource_meter c),
              br_network_bandwidth_used := network_bandwidth_used (ec_resource_meter c),
              br_compute_bandwidth_used := compute_bandwidth_used (ec_resource_meter c),
              br_disk_storage_charged := disk_charged,
              br_network_bandwidth_charged := network_charged,
              br_compute_bandwidth_charged := compute_charged,
              br_events := br_events r @ map snd (filter (\<lambda>b. fst b = None) (ch_events (ec_chronicler c))),
              br_logs := br_logs r @ ch_logs (ec_chronicler c),
              br_state_delta_entries :=
                br_state_delta_entries r @ node_delta_entries E (ec_db c) node\<rparr>)\<rparr>))
       | _ \<Rightarrow> throwE (StdExn ''std::bad_variant_access''))"

text \<open>
  The variables \<open>apply_transaction\<close> declares before its \<open>try\<close>, with the exception it remembers.
\<close>

record trx_locals =
  l_reverted :: bool
  l_reverted_exception :: "exn option"
  l_used_rc :: u64
  l_disk_storage_used :: u64
  l_compute_bandwidth_used :: u64
  l_network_bandwidth_used :: u64
  l_payer_rc :: u64
  l_events :: "event_data list"
  l_logs :: "bytes list"

definition trx_locals_init :: trx_locals where
  "trx_locals_init =
     \<lparr>l_reverted = False, l_reverted_exception = None, l_used_rc = 0, l_disk_storage_used = 0,
      l_compute_bandwidth_used = 0, l_network_bandwidth_used = 0, l_payer_rc = 0, l_events = [],
      l_logs = []\<rparr>"

definition transaction_receipt_of ::
  "('d, 'h, 'w) env \<Rightarrow> transaction \<Rightarrow> trx_locals \<Rightarrow> ('d, 'h, 'w, transaction_receipt) run" where
  "transaction_receipt_of E trx l =
     bindE deref_state_node (\<lambda>node.
     getE (\<lambda>c.
       \<lparr>tr_id = trx_id trx, tr_payer = th_payer (trx_header trx), tr_max_payer_rc = l_payer_rc l,
        tr_rc_limit = th_rc_limit (trx_header trx), tr_rc_used = l_used_rc l,
        tr_disk_storage_used = l_disk_storage_used l,
        tr_network_bandwidth_used = l_network_bandwidth_used l,
        tr_compute_bandwidth_used = l_compute_bandwidth_used l,
        tr_reverted = l_reverted l, tr_events = l_events l, tr_logs = l_logs l,
        tr_state_delta_entries = node_delta_entries E (ec_db c) node\<rparr>))"

text \<open>The \<open>switch\<close> on the intent that files a transaction receipt.\<close>

definition file_transaction_receipt :: "transaction_receipt \<Rightarrow> ('d, 'h, 'w, unit) run" where
  "file_transaction_receipt tr =
     bindE (getE (\<lambda>c. (ec_intent c, ec_receipt c))) (\<lambda>(i, rcpt).
       case i of
         Block_application \<Rightarrow>
           (case rcpt of
              Block_receipt r \<Rightarrow>
                modifyE (\<lambda>c. c\<lparr>ec_receipt :=
                  Block_receipt (r\<lparr>br_transaction_receipts := br_transaction_receipts r @ [tr]\<rparr>)\<rparr>)
            | _ \<Rightarrow> throwE (kexn failure_exception ''expected block receipt with block application intent''))
       | Transaction_application \<Rightarrow> modifyE (\<lambda>c. c\<lparr>ec_receipt := Transaction_receipt tr\<rparr>)
       | Read_only \<Rightarrow> returnE ())"

section \<open>Operations\<close>

definition thunk_apply_upload_contract_operation ::
  "('d, 'h, 'w) env \<Rightarrow> ('d, 'h, 'w) sys \<Rightarrow> upload_contract_operation \<Rightarrow> ('d, 'h, 'w, sc_ret) run" where
  "thunk_apply_upload_contract_operation E sc op =
     thenE need_kernel_mode (
     thenE (need_writable ''unable to perform action while context is read only'') (
     bindE (sc (A_check_authority contract_upload (uc_contract_id op) [])) (\<lambda>authorized.
     thenE (assertE (v_bool authorized)
              (kexn_args authorization_failure_exception ''account ${account} has not authorized action''
                 [(''account'', JBase58 (uc_contract_id op))])) (
     bindE (sc_get sc (space_contract_metadata E) (uc_contract_id op)) (\<lambda>obj.
     bindE (if do_exists obj then liftE (to_contract_metadata E (do_value obj))
            else returnE empty_contract_metadata) (\<lambda>contract_meta.
     bindE (sc_hash_of E sc (uc_bytecode op)) (\<lambda>h.
     let meta = contract_meta
           \<lparr>cm_hash := h,
            cm_authorizes_call_contract := uc_authorizes_call_contract op,
            cm_authorizes_transaction_application := uc_authorizes_transaction_application op,
            cm_authorizes_upload_contract := uc_authorizes_upload_contract op\<rparr> in
     thenE (sc (A_put_object (space_contract_bytecode E) (uc_contract_id op) (uc_bytecode op))) (
     thenE (sc (A_put_object (space_contract_metadata E) (uc_contract_id op)
                  (as_string E (M_contract_metadata meta))))
     (returnE V_void)))))))))"

definition thunk_apply_call_contract_operation ::
  "('d, 'h, 'w) env \<Rightarrow> ('d, 'h, 'w) sys \<Rightarrow> call_contract_operation \<Rightarrow> ('d, 'h, 'w, sc_ret) run" where
  "thunk_apply_call_contract_operation E sc op =
     thenE need_kernel_mode (
     thenE (need_writable ''unable to perform action while context is read only'') (
     thenE (with_privilege user_mode
              (catchE is_failure
                 (sc (A_call (cc_contract_id op) (cc_entry_point op) (cc_args op)))
                 (\<lambda>e. throwE (KExn (Chain reversion_exception) None (Raw (exn_message E e)) (exn_json e)))))
     (returnE V_void)))"

fun target_thunk_id :: "system_call_target \<Rightarrow> u32" where
  "target_thunk_id (Target_thunk_id t) = t"
| "target_thunk_id _ = 0"

definition need_system_authority :: "('d, 'h, 'w) sys \<Rightarrow> ('d, 'h, 'w, unit) run" where
  "need_system_authority sc =
     bindE (sc A_check_system_authority) (\<lambda>r.
     assertE (v_bool r) (kexn system_authorization_failure_exception ''system authority required''))"

definition thunk_apply_set_system_call_operation ::
  "('d, 'h, 'w) env \<Rightarrow> ('d, 'h, 'w) sys \<Rightarrow> set_system_call_operation \<Rightarrow> ('d, 'h, 'w, sc_ret) run" where
  "thunk_apply_set_system_call_operation E sc op =
     thenE need_kernel_mode (
     thenE (need_writable ''unable to perform action while context is read only'') (
     thenE (need_system_authority sc) (
     thenE (case ssc_target op of
              Target_system_call_bundle contract_id entry_point \<Rightarrow>
                bindE (sc_get sc (space_contract_bytecode E) contract_id) (\<lambda>contract_object.
                thenE (assertE (do_exists contract_object)
                         (kexn invalid_contract_exception ''contract does not exist'')) (
                bindE (sc_get sc (space_contract_metadata E) contract_id) (\<lambda>contract_meta_object.
                thenE (assertE (do_exists contract_meta_object)
                         (kexn invalid_contract_exception ''contract metadata does not exist'')) (
                bindE (liftE (to_contract_metadata E (do_value contract_meta_object))) (\<lambda>contract_meta.
                thenE (assertE (cm_system contract_meta)
                         (kexn invalid_contract_exception ''contract is not a system contract''))
                (assertE (ssc_call_id op \<noteq> syscall_num E sc_call)
                   (kexn reversion_exception ''cannot override call_contract'')))))))
            | target \<Rightarrow>
                assertE (thunk_exists E (target_thunk_id target))
                  (kexn_args unknown_thunk_exception ''thunk ${tid} does not exist''
                     [(''tid'', JNum (uint (target_thunk_id target)))])) (
     thenE (sc (A_put_object (space_system_call_dispatch E) (as_string E (M_u32 (ssc_call_id op)))
                  (as_string E (M_system_call_target (ssc_target op))))) (
     thenE (sc (A_event ''koinos.chain.set_system_call_event''
                  (as_string E (M_set_system_call_event (ssc_call_id op) (ssc_target op))) []))
     (returnE V_void))))))"

definition thunk_apply_set_system_contract_operation ::
  "('d, 'h, 'w) env \<Rightarrow> ('d, 'h, 'w) sys \<Rightarrow> set_system_contract_operation \<Rightarrow> ('d, 'h, 'w, sc_ret) run" where
  "thunk_apply_set_system_contract_operation E sc op =
     thenE need_kernel_mode (
     thenE (need_writable ''unable to perform action while context is read only'') (
     thenE (need_system_authority sc) (
     bindE (sc_get sc (space_contract_bytecode E) (sct_contract_id op)) (\<lambda>contract_object.
     thenE (assertE (do_exists contract_object) (kexn invalid_contract_exception ''contract does not exist'')) (
     bindE (sc_get sc (space_contract_metadata E) (sct_contract_id op)) (\<lambda>contract_meta_object.
     thenE (assertE (do_exists contract_meta_object) (kexn invalid_contract_exception ''contract does not exist'')) (
     bindE (liftE (to_contract_metadata E (do_value contract_meta_object))) (\<lambda>contract_meta.
     thenE (assertE (cm_hash contract_meta \<noteq> []) (kexn invalid_contract_exception ''contract hash does not exist'')) (
     thenE (sc (A_put_object (space_contract_metadata E) (sct_contract_id op)
                  (as_string E (M_contract_metadata (contract_meta\<lparr>cm_system := sct_system_contract op\<rparr>))))) (
     thenE (sc (A_event ''koinos.chain.set_system_contract_event''
                  (as_string E (M_set_system_contract_event (sct_contract_id op) (sct_system_contract op))) []))
     (returnE V_void)))))))))))"

section \<open>Transactions\<close>

definition nonce_account_of :: "transaction \<Rightarrow> bytes" where
  "nonce_account_of trx =
     (let payer = th_payer (trx_header trx); payee = th_payee (trx_header trx) in
      if payee \<noteq> [] \<and> payee \<noteq> payer then payee else payer)"

definition uses_payee_nonce :: "transaction \<Rightarrow> bool" where
  "uses_payee_nonce trx \<longleftrightarrow>
     th_payee (trx_header trx) \<noteq> [] \<and> th_payee (trx_header trx) \<noteq> th_payer (trx_header trx)"

definition require_transaction_authority :: "('d, 'h, 'w) sys \<Rightarrow> bytes \<Rightarrow> ('d, 'h, 'w, unit) run" where
  "require_transaction_authority sc account =
     bindE (sc (A_check_authority transaction_application_auth account [])) (\<lambda>authorized.
     assertE (v_bool authorized)
       (kexn_args authorization_failure_exception ''account ${account} has not authorized transaction''
          [(''account'', JBase58 account)]))"

text \<open>The checks before the transaction's own effects: the first inner \<open>try\<close>, after \<open>payer_rc\<close> is read.\<close>

definition transaction_checks ::
  "('d, 'h, 'w) env \<Rightarrow> ('d, 'h, 'w) sys \<Rightarrow> transaction \<Rightarrow> u64 \<Rightarrow> ('d, 'h, 'w, unit) run" where
  "transaction_checks E sc trx payer_rc =
     thenE (assertE (th_rc_limit (trx_header trx) \<le> payer_rc)
              (kexn failure_exception ''payer does not have the rc to cover transaction rc limit'')) (
     bindE (sc_get sc (space_metadata E) (key_chain_id E)) (\<lambda>chain_id.
     thenE (assertE (do_exists chain_id) (kexn failure_exception ''chain id does not exist'')) (
     thenE (assertE (th_chain_id (trx_header trx) = do_value chain_id)
              (kexn failure_exception ''chain id mismatch'')) (
     bindE (sc_hash_of E sc (as_string E (M_transaction_header (trx_header trx)))) (\<lambda>h.
     thenE (assertE (h = trx_id trx)
              (kexn failure_exception ''transaction contains an invalid transaction id'')) (
     bindE (liftE (to_multihash E (th_operation_merkle_root (trx_header trx)))) (\<lambda>op_root.
     bindE (block_hash_code E) (\<lambda>code.
     thenE (assertE (mh_code op_root = code)
              (kexn_args failure_exception
                 ''unexpected operation merkle root hash code - was: ${o}, expected: ${e}''
                 [(''o'', JNum (uint (mh_code op_root))), (''e'', JNum (uint code))])) (
     bindE (mapE (\<lambda>op. sc_hash_of E sc (as_string E (M_operation op))) (trx_operations trx)) (\<lambda>hashes.
     bindE (sc (A_verify_merkle_root (th_operation_merkle_root (trx_header trx)) hashes)) (\<lambda>ok.
     thenE (assertE (v_bool ok) (kexn failure_exception ''operation merkle root does not match'')) (
     thenE (require_transaction_authority sc (th_payer (trx_header trx))) (
     thenE (if uses_payee_nonce trx then require_transaction_authority sc (th_payee (trx_header trx))
            else returnE ()) (
     bindE (sc (A_verify_account_nonce (nonce_account_of trx) (th_nonce (trx_header trx)))) (\<lambda>ok.
     thenE (if v_bool ok then returnE ()
            else
              bindE (sc (A_get_account_nonce (nonce_account_of trx))) (\<lambda>current.
              throwE (kexn_args invalid_nonce_exception
                ''invalid transaction nonce - account: ${a}, nonce: ${n}, current nonce: ${c}''
                [(''a'', JBase58 (nonce_account_of trx)), (''n'', JHex (th_nonce (trx_header trx))),
                 (''c'', JHex (v_bytes current))]))) (
     thenE (sc (A_set_account_nonce (nonce_account_of trx) (th_nonce (trx_header trx))))
     (returnE ())))))))))))))))))"

text \<open>
  The guard classes: a constructor that sets what is being applied, and a destructor that clears it however the
  scope is left.
\<close>

definition operation_guard :: "operation \<Rightarrow> ('d, 'h, 'w, 'a) run \<Rightarrow> ('d, 'h, 'w, 'a) run" where
  "operation_guard op scope = thenE (modifyE (set_operation op)) (finallyE scope clear_operation)"

definition transaction_guard ::
  "transaction \<Rightarrow> (trx_locals \<times> ('d, 'h, 'w) ctx, exn, 'a) comp \<Rightarrow> (trx_locals \<times> ('d, 'h, 'w) ctx, exn, 'a) comp" where
  "transaction_guard trx scope =
     thenE (outerE (modifyE (set_transaction trx))) (finallyE scope (\<lambda>(l, c). (l, clear_transaction c)))"

definition block_guard :: "block \<Rightarrow> ('d, 'h, 'w, 'a) run \<Rightarrow> ('d, 'h, 'w, 'a) run" where
  "block_guard blk scope = thenE (modifyE (set_block blk)) (finallyE scope clear_block)"

lemmas guard_defs = operation_guard_def transaction_guard_def block_guard_def context_setters

definition apply_operation :: "('d, 'h, 'w) sys \<Rightarrow> operation \<Rightarrow> ('d, 'h, 'w, unit) run" where
  "apply_operation sc op =
     operation_guard op
          (case op of
             Op_upload_contract o' \<Rightarrow> thenE (sc (A_apply_upload_contract_operation o')) (returnE ())
           | Op_call_contract o' \<Rightarrow> thenE (sc (A_apply_call_contract_operation o')) (returnE ())
           | Op_set_system_call o' \<Rightarrow> thenE (sc (A_apply_set_system_call_operation o')) (returnE ())
           | Op_set_system_contract o' \<Rightarrow> thenE (sc (A_apply_set_system_contract_operation o')) (returnE ())
           | Op_none \<Rightarrow> throwE (kexn unknown_operation_exception ''unknown operation''))"

definition commit_node :: "('d, 'h, 'w) env \<Rightarrow> 'h \<Rightarrow> ('d, 'h, 'w, unit) run" where
  "commit_node E node =
     (\<lambda>c. case node_commit E (ec_db c) node of Inl e \<Rightarrow> (Inl e, c) | Inr d \<Rightarrow> (Inr (), c\<lparr>ec_db := d\<rparr>))"

text \<open>The body of the second inner \<open>try\<close>: the transaction's effects, on the anonymous node.\<close>

definition transaction_effects ::
  "('d, 'h, 'w) env \<Rightarrow> ('d, 'h, 'w) sys \<Rightarrow> transaction \<Rightarrow> 'h \<Rightarrow> ('d, 'h, 'w, unit) run" where
  "transaction_effects E sc trx trx_node =
     thenE (sc A_pre_transaction_callback) (
     thenE (charge_network E (transaction_byte_size E trx)) (
     thenE (forE (trx_operations trx) (apply_operation sc)) (
     thenE (sc A_post_transaction_callback)
     (commit_node E trx_node))))"

definition enter_anonymous_node :: "('d, 'h, 'w) env \<Rightarrow> 'h \<Rightarrow> ('d, 'h, 'w, 'h) run" where
  "enter_anonymous_node E block_node =
     (\<lambda>c. case node_create_anonymous E (ec_db c) block_node of (trx_node, d) \<Rightarrow>
        (Inr trx_node,
         set_state_node E (Some trx_node) (node_parent E d block_node) (c\<lparr>ec_db := d\<rparr>)))"

definition payer_session :: "nat \<Rightarrow> ('d, 'h, 'w) ctx \<Rightarrow> session" where
  "payer_session a c = (case ec_sessions c ! a of Some s \<Rightarrow> s | None \<Rightarrow> session_new 0)"

text \<open>The section marked \<open>No throw\<close>: back to the block's node, the locals filled in, the session dropped.\<close>

definition settle_transaction ::
  "('d, 'h, 'w) env \<Rightarrow> 'h \<Rightarrow> nat \<Rightarrow> u64 \<Rightarrow> u64 \<Rightarrow> u64 \<Rightarrow> (trx_locals \<times> ('d, 'h, 'w) ctx, exn, unit) comp" where
  "settle_transaction E block_node a start_disk start_network start_compute =
     thenE (outerE (modifyE (set_state_node E (Some block_node) None))) (
     bindE (outerE (getE (\<lambda>c. (payer_session a c, ec_resource_meter c)))) (\<lambda>(s, m).
     thenE (setlE (\<lambda>l. l
       \<lparr>l_used_rc := used_rc s,
        l_logs := s_logs s,
        l_events := (if l_reverted l then l_events l else s_events s),
        l_disk_storage_used := disk_storage_used m - start_disk,
        l_network_bandwidth_used := network_bandwidth_used m - start_network,
        l_compute_bandwidth_used := compute_bandwidth_used m - start_compute\<rparr>))
     (outerE (modifyE (reset_session a)))))"

definition transaction_phases ::
  "('d, 'h, 'w) env \<Rightarrow> ('d, 'h, 'w) sys \<Rightarrow> transaction \<Rightarrow> nat \<Rightarrow> u64 \<Rightarrow> u64 \<Rightarrow> u64
     \<Rightarrow> (trx_locals \<times> ('d, 'h, 'w) ctx, exn, unit) comp" where
  "transaction_phases E sc trx a start_disk start_network start_compute =
     thenE (catchE is_reversion
              (bindE (outerE (sc (A_get_account_rc (th_payer (trx_header trx))))) (\<lambda>rc.
               thenE (setlE (\<lambda>l. l\<lparr>l_payer_rc := v_u64 rc\<rparr>))
               (outerE (transaction_checks E sc trx (v_u64 rc)))))
              (\<lambda>e. throwE (kexn failure_exception (exn_message E e)))) (
     bindE (outerE deref_state_node) (\<lambda>block_node.
     bindE (outerE (enter_anonymous_node E block_node)) (\<lambda>trx_node.
     thenE (catchE is_reversion
              (outerE (transaction_effects E sc trx trx_node))
              (\<lambda>e. thenE (setlE (\<lambda>l. l\<lparr>l_reverted := True\<rparr>)) (
                    thenE (outerE (thunk_log E (''transaction reverted: '' @ exn_message E e)))
                    (setlE (\<lambda>l. l\<lparr>l_reverted_exception := Some e\<rparr>))))) (
     thenE (settle_transaction E block_node a start_disk start_network start_compute) (
     bindE (getlE l_used_rc) (\<lambda>used.
     bindE (outerE (sc (A_consume_account_rc (th_payer (trx_header trx)) used))) (\<lambda>ok.
     thenE (assertE (v_bool ok)
              (kexn_args failure_exception ''unable to consume rc for payer: ${p}''
                 [(''p'', JBase58 (th_payer (trx_header trx)))])) (
     bindE (getlE (\<lambda>l. l)) (\<lambda>l.
     outerE (bindE (transaction_receipt_of E trx l) file_transaction_receipt))))))))))"

definition thunk_apply_transaction ::
  "('d, 'h, 'w) env \<Rightarrow> ('d, 'h, 'w) sys \<Rightarrow> transaction \<Rightarrow> ('d, 'h, 'w, sc_ret) run" where
  "thunk_apply_transaction E sc trx =
     localE trx_locals_init (
     thenE (catchE is_koinos
              (thenE (outerE need_kernel_mode) (
               thenE (outerE (need_writable ''unable to perform action while context is read only'')) (
               transaction_guard trx
                  (bindE (outerE (getE ec_resource_meter)) (\<lambda>m.
                   bindE (outerE (make_session (th_rc_limit (trx_header trx)))) (\<lambda>a.
                   finallyE
                     (transaction_phases E sc trx a (disk_storage_used m) (network_bandwidth_used m)
                        (compute_bandwidth_used m))
                     (\<lambda>(l, c). (l, reset_session a c))))))))
              (\<lambda>e. bindE (getlE (\<lambda>l. l)) (\<lambda>l.
                   thenE (outerE (bindE (transaction_receipt_of E trx l) file_transaction_receipt))
                   (throwE e)))) (
     bindE (getlE l_reverted_exception) (\<lambda>reverted.
       case reverted of Some e \<Rightarrow> throwE e | None \<Rightarrow> returnE V_void)))"

section \<open>Blocks\<close>

definition block_transaction_hashes ::
  "('d, 'h, 'w) env \<Rightarrow> ('d, 'h, 'w) sys \<Rightarrow> transaction list \<Rightarrow> ('d, 'h, 'w, bytes list) run" where
  "block_transaction_hashes E sc trxs =
     bindE (mapE (\<lambda>trx.
       bindE (sc_hash_of E sc (as_string E (M_transaction_header (trx_header trx)))) (\<lambda>h.
       bindE (sc_hash_of E sc (concat (trx_signatures trx))) (\<lambda>s.
       returnE [h, s]))) trxs) (\<lambda>hs. returnE (concat hs))"

definition block_checks ::
  "('d, 'h, 'w) env \<Rightarrow> ('d, 'h, 'w) sys \<Rightarrow> block \<Rightarrow> ('d, 'h, 'w, unit) run" where
  "block_checks E sc blk =
     bindE (sc A_get_resource_limits) (\<lambda>rl.
     thenE (modifyE (\<lambda>c. c\<lparr>ec_resource_meter := set_resource_limit_data (v_limits rl) (ec_resource_meter c)\<rparr>)) (
     bindE (sc_hash_of E sc (as_string E (M_block_header (blk_header blk)))) (\<lambda>h.
     thenE (assertE (h = blk_id blk) (kexn malformed_block_exception ''block contains an invalid block id'')) (
     bindE (liftE (to_multihash E (bh_transaction_merkle_root (blk_header blk)))) (\<lambda>tx_root.
     bindE (block_hash_code E) (\<lambda>code.
     thenE (assertE (mh_code tx_root = code)
              (kexn_args malformed_block_exception
                 ''unexpected transaction merkle root hash code - was: ${t}, expected: ${e}''
                 [(''t'', JNum (uint (mh_code tx_root))), (''e'', JNum (uint code))])) (
     bindE (block_transaction_hashes E sc (blk_transactions blk)) (\<lambda>hashes.
     thenE (charge_network E
              (block_byte_size E blk - (\<Sum>trx\<leftarrow>blk_transactions blk. transaction_byte_size E trx))) (
     bindE (sc (A_verify_merkle_root (bh_transaction_merkle_root (blk_header blk)) hashes)) (\<lambda>ok.
     thenE (assertE (v_bool ok) (kexn malformed_block_exception ''transaction merkle root does not match'')) (
     bindE (sc_hash_of E sc (as_string E (M_block_header (blk_header blk)))) (\<lambda>bh.
     bindE (liftE (to_multihash E bh)) (\<lambda>block_hash.
     bindE (sc (A_process_block_signature (as_string E (M_multihash block_hash)) (blk_header blk)
                  (blk_signature blk))) (\<lambda>ok.
     assertE (v_bool ok) (kexn invalid_signature_exception ''failed to process block signature'')))))))))))))))"

definition apply_block_transaction :: "('d, 'h, 'w) sys \<Rightarrow> transaction \<Rightarrow> ('d, 'h, 'w, unit) run" where
  "apply_block_transaction sc trx =
     catchE is_koinos (thenE (sc (A_apply_transaction trx)) (returnE ()))
       (\<lambda>e. if is_reversion e then returnE ()
             else throwE (add_json ''transaction_id'' (JHex (trx_id trx)) e))"

definition system_rc_cost :: "resource_meter \<Rightarrow> u64" where
  "system_rc_cost m =
     (let rld = rm_resource_limit_data m in
      system_disk_storage_used m * disk_storage_cost rld
      + system_network_bandwidth_used m * network_bandwidth_cost rld
      + system_compute_bandwidth_used m * compute_bandwidth_cost rld)"

definition block_effects ::
  "('d, 'h, 'w) env \<Rightarrow> ('d, 'h, 'w) sys \<Rightarrow> block \<Rightarrow> ('d, 'h, 'w, unit) run" where
  "block_effects E sc blk =
     thenE (sc A_pre_block_callback) (
     bindE deref_state_node (\<lambda>node.
     thenE (node_write (\<lambda>d. node_put E d node (space_metadata E) (key_head_block E) (as_string E (M_block blk)))) (
     thenE (forE (blk_transactions blk) (apply_block_transaction sc)) (
     thenE (sc A_post_block_callback) (
     bindE (getE ec_resource_meter) (\<lambda>m.
     bindE (sc (A_consume_account_rc (bh_signer (blk_header blk)) (system_rc_cost m))) (\<lambda>ok.
     thenE (assertE (v_bool ok)
              (kexn_args insufficient_rc_exception ''unable to consume system rc for block producer: ${p}''
                 [(''p'', JBase58 (bh_signer (blk_header blk)))])) (
     bindE (getE ec_resource_meter) (\<lambda>m.
     bindE (sc (A_consume_block_resources (disk_storage_used m) (network_bandwidth_used m)
                  (compute_bandwidth_used m))) (\<lambda>ok.
     thenE (assertE (v_bool ok) (kexn failure_exception ''unable to consume block resources''))
     (generate_block_receipt E blk (disk_storage_used m) (network_bandwidth_used m)
        (compute_bandwidth_used m))))))))))))"

definition thunk_apply_block ::
  "('d, 'h, 'w) env \<Rightarrow> ('d, 'h, 'w) sys \<Rightarrow> block \<Rightarrow> ('d, 'h, 'w, sc_ret) run" where
  "thunk_apply_block E sc blk =
     thenE (modifyE (\<lambda>c. c\<lparr>ec_receipt := Block_receipt empty_block_receipt\<rparr>)) (
     thenE (catchE catchable
              (thenE need_kernel_mode (
               thenE (guardE (\<lambda>c. ec_intent c = Block_application)
                        (kexn insufficient_privileges_exception
                           ''expected block application intent while applying block'')) (
               block_guard blk (thenE (block_checks E sc blk) (block_effects E sc blk)))))
              (\<lambda>e. bindE (getE ec_resource_meter) (\<lambda>m.
                   thenE (generate_block_receipt E blk (disk_storage_used m) (network_bandwidth_used m)
                            (compute_bandwidth_used m))
                   (throwE e))))
     (returnE V_void))"

end
