(* ===== verification/Dispatch.thy ===== *)
theory Dispatch
  imports Apply
begin

text \<open>
  The calling half of \<^verbatim>\<open>thunk_dispatcher.hpp\<close>, and the body the macro \<open>_THUNK_DETAIL_DEFINE\<close> of
  \<^verbatim>\<open>thunk_utils.hpp\<close> generates for every system call: the wrapper that pushes a kernel frame and runs
  either the contract that overrides the call or the native thunk.

  A buffer call works on the linear memory of the calling module.  The memory is threaded next to the
  context, so writes done before an exception stay.  A pointer is an offset; an access outside the
  memory is undefined behaviour.
\<close>

section \<open>Native thunks by argument message\<close>

fun thunk :: "('d, 'h, 'w) env \<Rightarrow> ('d, 'h, 'w) sys \<Rightarrow> ('d, 'h, 'w) vm \<Rightarrow> sc_args \<Rightarrow> ('d, 'h, 'w, sc_ret) run" where
  "thunk E sc run A_get_head_info = thunk_get_head_info E sc"
| "thunk E sc run (A_apply_block b) = thunk_apply_block E sc b"
| "thunk E sc run (A_apply_transaction t) = thunk_apply_transaction E sc t"
| "thunk E sc run (A_apply_upload_contract_operation op) = thunk_apply_upload_contract_operation E sc op"
| "thunk E sc run (A_apply_call_contract_operation op) = thunk_apply_call_contract_operation E sc op"
| "thunk E sc run (A_apply_set_system_call_operation op) = thunk_apply_set_system_call_operation E sc op"
| "thunk E sc run (A_apply_set_system_contract_operation op) = thunk_apply_set_system_contract_operation E sc op"
| "thunk E sc run A_pre_block_callback = returnE V_void"
| "thunk E sc run A_post_block_callback = returnE V_void"
| "thunk E sc run A_pre_transaction_callback = returnE V_void"
| "thunk E sc run A_post_transaction_callback = returnE V_void"
| "thunk E sc run A_get_chain_id = thunk_get_chain_id E sc"
| "thunk E sc run (A_process_block_signature d h s) = thunk_process_block_signature E sc d h s"
| "thunk E sc run A_get_transaction = thunk_get_transaction"
| "thunk E sc run (A_get_transaction_field f) = thunk_get_transaction_field E f"
| "thunk E sc run A_get_block = thunk_get_block"
| "thunk E sc run (A_get_block_field f) = thunk_get_block_field E f"
| "thunk E sc run A_get_last_irreversible_block = thunk_get_last_irreversible_block E"
| "thunk E sc run (A_get_account_nonce a) = thunk_get_account_nonce E sc a"
| "thunk E sc run (A_verify_account_nonce a n) = thunk_verify_account_nonce E sc a n"
| "thunk E sc run (A_set_account_nonce a n) = thunk_set_account_nonce E sc a n"
| "thunk E sc run A_check_system_authority = thunk_check_system_authority E sc"
| "thunk E sc run A_get_operation = thunk_get_operation"
| "thunk E sc run (A_get_account_rc a) = thunk_get_account_rc E sc a"
| "thunk E sc run (A_consume_account_rc a rc) = thunk_consume_account_rc a rc"
| "thunk E sc run A_get_resource_limits = thunk_get_resource_limits E sc"
| "thunk E sc run (A_consume_block_resources d n c) = thunk_consume_block_resources d n c"
| "thunk E sc run (A_put_object s k v) = thunk_put_object E s k v"
| "thunk E sc run (A_remove_object s k) = thunk_remove_object E s k"
| "thunk E sc run (A_get_object s k) = thunk_get_object E s k"
| "thunk E sc run (A_get_next_object s k) = thunk_get_next_object E s k"
| "thunk E sc run (A_get_prev_object s k) = thunk_get_prev_object E s k"
| "thunk E sc run (A_log m) = thunk_log E m"
| "thunk E sc run (A_event n d i) = thunk_event E n d i"
| "thunk E sc run (A_hash code obj sz) = thunk_hash E code obj sz"
| "thunk E sc run (A_recover_public_key ty s d c) = thunk_recover_public_key E ty s d c"
| "thunk E sc run (A_verify_merkle_root r hs) = thunk_verify_merkle_root E r hs"
| "thunk E sc run (A_verify_signature ty k s d c) = thunk_verify_signature sc ty k s d c"
| "thunk E sc run (A_verify_vrf_proof ty k p h m) = thunk_verify_vrf_proof E ty k p h m"
| "thunk E sc run (A_call i e a) = thunk_call E sc run i e a"
| "thunk E sc run (A_exit code res) = thunk_exit E code res"
| "thunk E sc run A_get_arguments = thunk_get_arguments"
| "thunk E sc run A_get_contract_id = thunk_get_contract_id"
| "thunk E sc run A_get_caller = thunk_get_caller"
| "thunk E sc run (A_check_authority ty a d) = thunk_check_authority E sc ty a d"
| "thunk E sc run A_nop = thunk_nop"

fun returns_void :: "syscall \<Rightarrow> bool" where
  "returns_void sc_apply_block = True"
| "returns_void sc_apply_transaction = True"
| "returns_void sc_apply_upload_contract_operation = True"
| "returns_void sc_apply_call_contract_operation = True"
| "returns_void sc_apply_set_system_call_operation = True"
| "returns_void sc_apply_set_system_contract_operation = True"
| "returns_void sc_pre_block_callback = True"
| "returns_void sc_post_block_callback = True"
| "returns_void sc_pre_transaction_callback = True"
| "returns_void sc_post_transaction_callback = True"
| "returns_void sc_set_account_nonce = True"
| "returns_void sc_put_object = True"
| "returns_void sc_remove_object = True"
| "returns_void sc_log = True"
| "returns_void sc_event = True"
| "returns_void sc_exit = True"
| "returns_void sc_nop = True"
| "returns_void _ = False"

section \<open>The typed call\<close>

text \<open>
  \<open>call_thunk< ThunkReturn, ThunkArgs... >\<close>: the arguments of the system call are passed to whatever
  thunk is registered under the number.  Thunks of type \<open>void( execution_context& )\<close> have no arguments
  and empty bodies, so standing in for one another they do nothing.
\<close>

definition call_thunk_typed ::
  "('d, 'h, 'w) env \<Rightarrow> ('d, 'h, 'w) sys \<Rightarrow> ('d, 'h, 'w) vm \<Rightarrow> u32 \<Rightarrow> sc_args \<Rightarrow> ('d, 'h, 'w, sc_ret) run" where
  "call_thunk_typed E sc run tid args =
     (case thunk_lookup E tid of
        None \<Rightarrow> throwE (kexn_args unknown_thunk_exception ''thunk ${id} not found'' [(''id'', JNum (uint tid))])
      | Some s \<Rightarrow>
          if s = sc_of args then thunk E sc run args
          else if same_signature s (sc_of args) then returnE V_void
          else throwE (StdExn ''std::bad_any_cast''))"

section \<open>The system call wrapper\<close>

definition system_frame :: "u32 \<Rightarrow> stack_frame" where
  "system_frame sid =
     \<lparr>fr_contract_id = [], fr_sid = sid, fr_call_privilege = kernel_mode, fr_call_args = [],
      fr_entry_point = 0\<rparr>"

text \<open>The call of a native thunk on behalf of a system call: translate the number, charge, call.\<close>

definition charge_thunk :: "('d, 'h, 'w) env \<Rightarrow> u32 \<Rightarrow> ('d, 'h, 'w, unit) run" where
  "charge_thunk E tid =
     bindE (someE (syscall_name E tid)
              (kexn_args unknown_thunk_exception ''unrecognized thunk id ${id}'' [(''id'', JNum (uint tid))])) (\<lambda>name.
     bindE (get_compute_bandwidth E name) (\<lambda>compute.
     charge_compute E compute))"

definition invoke_override ::
  "('d, 'h, 'w) env \<Rightarrow> ('d, 'h, 'w) vm \<Rightarrow> sc_args \<Rightarrow> ('d, 'h, 'w, sc_ret) run" where
  "invoke_override E run args =
     (let sid = syscall_num E (sc_of args) in
      bindE (context_system_call E run sid (as_string E (M_args args))) (\<lambda>res.
      thenE (raise_result_error E res) (
      thenE (if er_code res = 0 \<and> sid = syscall_num E sc_exit then throwE (success_exn 0) else returnE ())
      (returnE (if returns_void (sc_of args) then V_void
                else parse_ret E (sc_of args) (res_object (er_res res)))))))"

definition invoke_native ::
  "('d, 'h, 'w) env \<Rightarrow> ('d, 'h, 'w) sys \<Rightarrow> ('d, 'h, 'w) vm \<Rightarrow> sc_args \<Rightarrow> ('d, 'h, 'w, sc_ret) run" where
  "invoke_native E sc run args =
     bindE (thunk_translation E (syscall_num E (sc_of args))) (\<lambda>tid.
     thenE (charge_thunk E tid)
     (call_thunk_typed E sc run tid args))"

definition system_call ::
  "('d, 'h, 'w) env \<Rightarrow> ('d, 'h, 'w) sys \<Rightarrow> ('d, 'h, 'w) vm \<Rightarrow> sc_args \<Rightarrow> ('d, 'h, 'w, sc_ret) run" where
  "system_call E sc run args =
     with_stack_frame (system_frame (syscall_num E (sc_of args)))
       (bindE (system_call_exists E (syscall_num E (sc_of args))) (\<lambda>overridden.
          if overridden then invoke_override E run args
          else invoke_native E sc run args))"

section \<open>The buffer call\<close>

type_synonym ('d, 'h, 'w, 'a) mrun = "(bytes \<times> ('d, 'h, 'w) ctx, exn, 'a) comp"

definition mem_write :: "nat \<Rightarrow> bytes \<Rightarrow> ('d, 'h, 'w, unit) mrun" where
  "mem_write p bs = (\<lambda>(mem, c).
     if p + length bs \<le> length mem
     then (Inr (), (take p mem @ bs @ drop (p + length bs) mem, c))
     else (Inl (Undefined ''write outside the linear memory''), (mem, c)))"

definition mem_read :: "nat \<Rightarrow> nat \<Rightarrow> ('d, 'h, 'w, bytes) mrun" where
  "mem_read p n = (\<lambda>(mem, c).
     if p + n \<le> length mem then (Inr (take n (drop p mem)), (mem, c))
     else (Inl (Undefined ''read outside the linear memory''), (mem, c)))"

definition le_bytes :: "u32 \<Rightarrow> bytes" where
  "le_bytes w = map (\<lambda>i. char_of (unat (drop_bit (8 * i) w) mod 256)) [0..<4]"

text \<open>The pointers and lengths of a host call, resolved.\<close>

record host_buffers =
  hb_ret_ptr :: nat
  hb_ret_len :: u32
  hb_arg_ptr :: nat
  hb_arg_len :: u32
  hb_bytes_written :: nat

definition write_return :: "host_buffers \<Rightarrow> bytes \<Rightarrow> ('d, 'h, 'w, unit) mrun" where
  "write_return b bs =
     thenE (mem_write (hb_ret_ptr b) bs)
       (mem_write (hb_bytes_written b) (le_bytes (of_nat (length bs))))"

definition call_thunk_buffer ::
  "('d, 'h, 'w) env \<Rightarrow> ('d, 'h, 'w) sys \<Rightarrow> ('d, 'h, 'w) vm \<Rightarrow> u32 \<Rightarrow> host_buffers \<Rightarrow> ('d, 'h, 'w, unit) mrun" where
  "call_thunk_buffer E sc run tid b =
     (case thunk_lookup E tid of
        None \<Rightarrow> throwE (kexn_args unknown_thunk_exception ''thunk ${id} not found'' [(''id'', JNum (uint tid))])
      | Some s \<Rightarrow>
          bindE (outerE (get_compute_bandwidth E ''deserialize_message_per_byte'')) (\<lambda>cost.
          thenE (outerE (charge_compute E (cost * ucast (hb_arg_len b)))) (
          bindE (mem_read (hb_arg_ptr b) (unat (hb_arg_len b))) (\<lambda>bs.
          if returns_void s then
            thenE (mem_write (hb_bytes_written b) (le_bytes 0))
            (thenE (outerE (thunk E sc run (parse_args E s bs))) (returnE ()))
          else
            bindE (outerE (thunk E sc run (parse_args E s bs))) (\<lambda>ret.
            let out = as_string E (M_ret s ret) in
            thenE (assertE (length out \<le> unat (hb_ret_len b))
                     (kexn insufficient_return_buffer_exception
                        ''return buffer is not large enough for the return value''))
            (write_return b out))))))"

end
