(* ===== verification/Host_Api.thy ===== *)
theory Host_Api
  imports Dispatch
begin

text \<open>
  \<^verbatim>\<open>host_api.cpp\<close>: the two functions a WebAssembly module can call, and the tick accounting between
  the interpreter and the resource meter.
\<close>

section \<open>Ticks\<close>

definition get_meter_ticks :: "('d, 'h, 'w) ctx \<Rightarrow> i64" where
  "get_meter_ticks c =
     (if word_of_int i64_max < compute_left c then word_of_int i64_max else compute_left c)"

definition use_meter_ticks :: "('d, 'h, 'w) env \<Rightarrow> u64 \<Rightarrow> ('d, 'h, 'w, unit) run" where
  "use_meter_ticks E ticks =
     bindE (getE compute_left) (\<lambda>left.
       if left < ticks then
         bindE (getE compute_left) (\<lambda>rest.
         thenE (charge_compute E rest)
         (charge_compute E 1))
       else charge_compute E ticks)"

section \<open>Host functions\<close>

text \<open>
  The end shared by both host functions: a nonzero code is reported to the module, with the
  serialised error in its return buffer where it fits.
\<close>

definition report_code ::
  "('d, 'h, 'w) env \<Rightarrow> host_buffers \<Rightarrow> int \<Rightarrow> string \<Rightarrow> ('d, 'h, 'w, int) mrun" where
  "report_code E b code err =
     (if code = 0 then returnE code
      else
        let error_bytes = as_string E (M_error err) in
        if length error_bytes \<le> unat (hb_ret_len b) then thenE (write_return b error_bytes) (returnE code)
        else
          thenE (mem_write (hb_bytes_written b) (le_bytes 0))
          (returnE (err_code E (Chain insufficient_return_buffer_exception))))"

definition raise_code :: "('d, 'h, 'w) env \<Rightarrow> int \<Rightarrow> string \<Rightarrow> int \<Rightarrow> ('d, 'h, 'w, int) mrun" where
  "raise_code E code err success_code =
     (if reversion E \<le> code then throwE (reversion_exn code err)
      else if code \<le> failure E then throwE (failure_exn code err)
      else throwE (success_exn success_code))"

text \<open>\<open>try { m } catch ( koinos::exception& e ) { code = e.get_code(); error = e.get_data(); }\<close>\<close>

definition code_of :: "('d, 'h, 'w) env \<Rightarrow> ('d, 'h, 'w, unit) mrun \<Rightarrow> ('d, 'h, 'w, int \<times> string) mrun" where
  "code_of E m =
     catchE is_koinos (thenE m (returnE (0, []))) (\<lambda>e. returnE (exn_code E e, exn_message E e))"

definition invoke_thunk ::
  "('d, 'h, 'w) env \<Rightarrow> ('d, 'h, 'w) sys \<Rightarrow> ('d, 'h, 'w) vm \<Rightarrow> u32 \<Rightarrow> host_buffers \<Rightarrow> ('d, 'h, 'w, int) mrun" where
  "invoke_thunk E sc run tid b =
     bindE (outerE get_privilege) (\<lambda>p.
     thenE (assertE (p = kernel_mode)
              (kexn insufficient_privileges_exception '''invoke_thunk' must be called from a system context'')) (
     bindE (code_of E (call_thunk_buffer E sc run tid b)) (\<lambda>(code, err).
       if tid = syscall_num E sc_exit then raise_code E code err code
       else report_code E b code err)))"

text \<open>\<open>call\<close>: push a kernel frame, then run the override or the native thunk on the buffers.\<close>

definition host_native ::
  "('d, 'h, 'w) env \<Rightarrow> ('d, 'h, 'w) sys \<Rightarrow> ('d, 'h, 'w) vm \<Rightarrow> u32 \<Rightarrow> host_buffers \<Rightarrow> ('d, 'h, 'w, unit) mrun" where
  "host_native E sc run sid b =
     bindE (outerE (thunk_translation E sid)) (\<lambda>tid.
     thenE (assertE (thunk_exists E tid)
              (kexn_args unknown_thunk_exception ''thunk ${tid} does not exist'' [(''tid'', JNum (uint tid))])) (
     thenE (outerE (charge_thunk E tid))
     (call_thunk_buffer E sc run tid b)))"

definition host_override ::
  "('d, 'h, 'w) env \<Rightarrow> ('d, 'h, 'w) vm \<Rightarrow> u32 \<Rightarrow> host_buffers \<Rightarrow> ('d, 'h, 'w, unit) mrun" where
  "host_override E run sid b =
     bindE (mem_read (hb_arg_ptr b) (unat (hb_arg_len b))) (\<lambda>args.
     bindE (outerE (context_system_call E run sid args)) (\<lambda>res.
       if has_object (er_res res) then
         thenE (assertE (length (res_object (er_res res)) \<le> unat (hb_ret_len b))
                  (kexn insufficient_return_buffer_exception
                     ''return buffer is not large enough for the return value''))
         (write_return b (res_object (er_res res)))
       else returnE ()))"

definition with_host_frame :: "stack_frame \<Rightarrow> ('d, 'h, 'w, 'a) mrun \<Rightarrow> ('d, 'h, 'w, 'a) mrun" where
  "with_host_frame f m = thenE (outerE (push_frame f)) (raii m (outerE pop_frame))"

definition host_call ::
  "('d, 'h, 'w) env \<Rightarrow> ('d, 'h, 'w) sys \<Rightarrow> ('d, 'h, 'w) vm \<Rightarrow> u32 \<Rightarrow> host_buffers \<Rightarrow> ('d, 'h, 'w, unit) mrun" where
  "host_call E sc run sid b =
     thenE (mem_write (hb_bytes_written b) (le_bytes 0))
       (with_host_frame (system_frame sid)
          (bindE (outerE (system_call_exists E sid)) (\<lambda>overridden.
             if overridden then host_override E run sid b else host_native E sc run sid b)))"

definition invoke_system_call ::
  "('d, 'h, 'w) env \<Rightarrow> ('d, 'h, 'w) sys \<Rightarrow> ('d, 'h, 'w) vm \<Rightarrow> u32 \<Rightarrow> host_buffers \<Rightarrow> ('d, 'h, 'w, int) mrun" where
  "invoke_system_call E sc run sid b =
     bindE (code_of E (host_call E sc run sid b)) (\<lambda>(code, err).
     bindE (outerE get_privilege) (\<lambda>p.
       if p = user_mode \<and> reversion E \<le> code then throwE (reversion_exn code err)
       else if sid = syscall_num E sc_exit then raise_code E code err 0
       else report_code E b code err))"

end
