(* ===== verification/Fizzy_Backend.thy ===== *)
theory Fizzy_Backend
  imports Host_Api
begin

text \<open>
  \<^verbatim>\<open>fizzy_vm_backend.cpp\<close>: running a contract's module under the fizzy interpreter.  The interpreter
  itself is a parameter that produces the tree of host calls a module makes (\<open>wasm_run\<close>).  The
  runner's members \<open>_previous_ticks\<close> and \<open>_exception\<close> are threaded through that tree.
\<close>

definition fizzy_max_call_depth :: u32 where
  "fizzy_max_call_depth = 251"

definition module_cache_size :: nat where
  "module_cache_size = 32"

definition memory_pages_limit :: u32 where
  "memory_pages_limit = 512"

text \<open>
  \<open>resolve_ptr\<close>, given the size of the instance's memory if it has one; the result is the offset into
  it, or \<open>None\<close> for a null pointer.
\<close>

definition resolve_ptr :: "nat option \<Rightarrow> u32 \<Rightarrow> u32 \<Rightarrow> exn + nat option" where
  "resolve_ptr mem ptr sz =
     (case mem of
        None \<Rightarrow> Inl (vexn fizzy_returned_null_exception
                       ''fizzy_get_instance_memory_data() unexpectedly returned null pointer'')
      | Some mem_size \<Rightarrow>
          if unat ptr = mem_size \<and> sz = 0 then Inr (Some mem_size)
          else if mem_size < unat ptr then Inr None
          else if mem_size - unat ptr < unat sz then Inr None
          else Inr (Some (unat ptr)))"

fun fizzy_error_code_name :: "fizzy_error_code \<Rightarrow> string" where
  "fizzy_error_code_name FizzySuccess = ''FizzySuccess''"
| "fizzy_error_code_name FizzyErrorMalformedModule = ''FizzyErrorMalformedModule''"
| "fizzy_error_code_name FizzyErrorInvalidModule = ''FizzyErrorInvalidModule''"
| "fizzy_error_code_name FizzyErrorInstantiationFailed = ''FizzyErrorInstantiationFailed''"
| "fizzy_error_code_name FizzyErrorMemoryAllocationFailed = ''FizzyErrorMemoryAllocationFailed''"
| "fizzy_error_code_name FizzyErrorOther = ''FizzyErrorOther''"
| "fizzy_error_code_name (Fizzy_other_code _) = ''UnknownFizzyError''"

definition parse_bytecode :: "('d, 'h, 'w) env \<Rightarrow> bytes \<Rightarrow> exn + 'w" where
  "parse_bytecode E bytecode =
     (case fizzy_parse E bytecode of
        Inl (code, msg) \<Rightarrow>
          Inl (KExn (Vm module_parse_exception) None (Tmpl ''could not parse fizzy module - ${code}: ${msg}'')
                 [(''code'', JStr (fizzy_error_code_name code)), (''msg'', JStr msg)])
      | Inr m \<Rightarrow> Inr m)"

definition instantiate_module :: "('d, 'h, 'w) env \<Rightarrow> 'w \<Rightarrow> exn + 'w" where
  "instantiate_module E m =
     (case fizzy_instantiate E m memory_pages_limit of
        Inl (code, msg) \<Rightarrow>
          Inl (KExn (Vm module_instantiate_exception) None (Tmpl ''could not instantiate module - ${code}: ${msg}'')
                 [(''code'', JStr (fizzy_error_code_name code)), (''msg'', JStr msg)])
      | Inr i \<Rightarrow> Inr i)"

section \<open>Host calls from a module\<close>

fun host_fn_name :: "host_fn \<Rightarrow> string" where
  "host_fn_name Invoke_thunk = ''invoke_thunk''"
| "host_fn_name Invoke_system_call = ''invoke_system_call''"

fun invoke_host ::
  "('d, 'h, 'w) env \<Rightarrow> ('d, 'h, 'w) sys \<Rightarrow> ('d, 'h, 'w) vm \<Rightarrow> host_fn \<Rightarrow> u32 \<Rightarrow> host_buffers \<Rightarrow> ('d, 'h, 'w, int) mrun" where
  "invoke_host E sc run Invoke_thunk = invoke_thunk E sc run"
| "invoke_host E sc run Invoke_system_call = invoke_system_call E sc run"

text \<open>The three pointers of a host call, checked in the order of the code.\<close>

definition resolve_buffers :: "host_fn \<Rightarrow> host_args \<Rightarrow> nat option \<Rightarrow> exn + host_buffers" where
  "resolve_buffers fn a mem =
     (case (resolve_ptr mem (arg1 a) (arg2 a), resolve_ptr mem (arg3 a) (arg4 a), resolve_ptr mem (arg5 a) 4) of
        (Inl e, _) \<Rightarrow> Inl e
      | (_, Inl e, _) \<Rightarrow> Inl e
      | (_, _, Inl e) \<Rightarrow> Inl e
      | (Inr None, _) \<Rightarrow> Inl (vexn wasm_memory_exception (''invalid ret_ptr in '' @ host_fn_name fn @ ''()''))
      | (_, Inr None, _) \<Rightarrow> Inl (vexn wasm_memory_exception (''invalid arg_ptr in '' @ host_fn_name fn @ ''()''))
      | (_, _, Inr None) \<Rightarrow>
          Inl (vexn wasm_memory_exception (''invalid bytes_written in '' @ host_fn_name fn @ ''()''))
      | (Inr (Some r), Inr (Some p), Inr (Some w)) \<Rightarrow>
          Inr \<lparr>hb_ret_ptr = r, hb_ret_len = arg2 a, hb_arg_ptr = p, hb_arg_len = arg4 a,
               hb_bytes_written = w\<rparr>)"

text \<open>
  What a host call changes in the runner: \<open>_previous_ticks\<close>, the interpreter's ticks, \<open>_exception\<close> and
  the returned value.
\<close>

record runner =
  ru_previous_ticks :: i64
  ru_ticks :: i64
  ru_exception :: "exn option"
  ru_value :: "u32 option"

text \<open>
  The try block of \<open>_invoke_thunk\<close> and \<open>_invoke_system_call\<close>.  The inner \<open>catch ( ... )\<close> turns an
  exception of the host function into a value; what the outer one catches is returned as an exception.
\<close>

definition host_body ::
  "('d, 'h, 'w) env \<Rightarrow> ('d, 'h, 'w) sys \<Rightarrow> ('d, 'h, 'w) vm \<Rightarrow> bool \<Rightarrow> host_fn \<Rightarrow> host_args \<Rightarrow> runner
     \<Rightarrow> ('d, 'h, 'w, runner) mrun" where
  "host_body E sc run has_memory fn a ru =
     bindE (getlE length) (\<lambda>mem_size.
     bindE (liftE (resolve_buffers fn a (if has_memory then Some mem_size else None))) (\<lambda>b.
     thenE (outerE (use_meter_ticks E (ru_previous_ticks ru - ru_ticks ru))) (
     bindE (catchE catchable
              (bindE (invoke_host E sc run fn (arg0 a) b) (\<lambda>code. returnE (Inr code)))
              (\<lambda>e. returnE (Inl e))) (\<lambda>res.
     bindE (outerE (getE get_meter_ticks)) (\<lambda>ticks.
     returnE
       \<lparr>ru_previous_ticks = ticks, ru_ticks = ticks,
        ru_exception = (case res of Inl e \<Rightarrow> Some e | Inr _ \<Rightarrow> None),
        ru_value = (case res of Inl _ \<Rightarrow> None | Inr code \<Rightarrow> Some (word_of_int code))\<rparr>)))))"

definition runner_host_call ::
  "('d, 'h, 'w) env \<Rightarrow> ('d, 'h, 'w) sys \<Rightarrow> ('d, 'h, 'w) vm \<Rightarrow> bool \<Rightarrow> host_fn \<Rightarrow> host_args \<Rightarrow> runner
     \<Rightarrow> ('d, 'h, 'w, runner) mrun" where
  "runner_host_call E sc run has_memory fn a ru =
     catchE catchable (host_body E sc run has_memory fn a ru)
       (\<lambda>e. returnE (ru\<lparr>ru_exception := Some e, ru_value := None\<rparr>))"

section \<open>Running a module\<close>

text \<open>
  \<open>fizzy_execute\<close> on the tree of host calls: every host call gets the module's memory as it is and
  hands back the memory it leaves (nothing, for a module without one); a host call that set \<open>_exception\<close> reports a trap.
\<close>

definition with_memory :: "bytes option \<Rightarrow> ('d, 'h, 'w, 'a) mrun \<Rightarrow> ('d, 'h, 'w, 'a \<times> bytes) run" where
  "with_memory mem m = (\<lambda>c. case m (case mem of Some bs \<Rightarrow> bs | None \<Rightarrow> [], c) of
     (Inl e, (mem', c')) \<Rightarrow> (Inl e, c')
   | (Inr a, (mem', c')) \<Rightarrow> (Inr (a, mem'), c'))"

primrec execute ::
  "wasm_run \<Rightarrow> ('d, 'h, 'w) env \<Rightarrow> ('d, 'h, 'w) sys \<Rightarrow> ('d, 'h, 'w) vm \<Rightarrow> runner
     \<Rightarrow> ('d, 'h, 'w, bool \<times> runner) run" where
  "execute (Wasm_done trapped ticks) E sc run ru = returnE (trapped, ru\<lparr>ru_ticks := ticks\<rparr>)"
| "execute (Wasm_host fn a mem ticks k) E sc run ru =
     bindE (with_memory mem (runner_host_call E sc run (mem \<noteq> None) fn a (ru\<lparr>ru_ticks := ticks, ru_exception := None\<rparr>)))
       (\<lambda>(ru', mem').
         execute (k \<lparr>hr_trapped = ru_exception ru' \<noteq> None, hr_value = ru_value ru', hr_memory = mem',
                     hr_ticks = ru_ticks ru'\<rparr>) E sc run ru')"

definition call_start ::
  "('d, 'h, 'w) env \<Rightarrow> ('d, 'h, 'w) sys \<Rightarrow> ('d, 'h, 'w) vm \<Rightarrow> 'w \<Rightarrow> 'w \<Rightarrow> ('d, 'h, 'w, unit) run" where
  "call_start E sc run m inst =
     bindE (getE get_meter_ticks) (\<lambda>ticks.
     thenE (assertE (fizzy_create_context E fizzy_max_call_depth ticks)
              (vexn create_context_exception ''could not create execution context'')) (
     thenE (assertE (fizzy_has_start E m) (vexn module_start_exception ''module does not have _start function'')) (
     bindE (execute (fizzy_execute E inst ticks) E sc run
              \<lparr>ru_previous_ticks = ticks, ru_ticks = ticks, ru_exception = None, ru_value = None\<rparr>) (\<lambda>(trapped, ru).
     thenE (use_meter_ticks E (ru_previous_ticks ru - ru_ticks ru)) (
       case ru_exception ru of
         Some e \<Rightarrow> throwE e
       | None \<Rightarrow> assertE (\<not> trapped) (vexn wasm_trap_exception ''module exited due to trap''))))))"

text \<open>The cache operations as steps of the context.\<close>

definition cache_get :: "bytes \<Rightarrow> ('d, 'h, 'w, 'w option) run" where
  "cache_get k = (\<lambda>c. case get_module k (ec_vm c) of
     Inl e \<Rightarrow> (Inl e, c) | Inr (m, vm) \<Rightarrow> (Inr m, c\<lparr>ec_vm := vm\<rparr>))"

definition cache_put :: "bytes \<Rightarrow> 'w \<Rightarrow> ('d, 'h, 'w, unit) run" where
  "cache_put k m = (\<lambda>c. case put_module k m (ec_vm c) of
     Inl e \<Rightarrow> (Inl e, c) | Inr vm \<Rightarrow> (Inr (), c\<lparr>ec_vm := vm\<rparr>))"

definition load_module :: "('d, 'h, 'w) env \<Rightarrow> bytes \<Rightarrow> bytes \<Rightarrow> ('d, 'h, 'w, 'w) run" where
  "load_module E bytecode key =
     (if key \<noteq> [] then
        bindE (cache_get key) (\<lambda>cached.
          case cached of
            Some m \<Rightarrow> returnE m
          | None \<Rightarrow>
              bindE (liftE (parse_bytecode E bytecode)) (\<lambda>m.
              thenE (cache_put key m) (returnE m)))
      else liftE (parse_bytecode E bytecode))"

definition backend_run ::
  "('d, 'h, 'w) env \<Rightarrow> ('d, 'h, 'w) sys \<Rightarrow> ('d, 'h, 'w) vm \<Rightarrow> ('d, 'h, 'w) vm" where
  "backend_run E sc run bytecode key =
     bindE (load_module E bytecode key) (\<lambda>m.
     bindE (liftE (instantiate_module E m)) (\<lambda>inst.
     call_start E sc run m inst))"

end
