(* ===== verification/Kernel.thy ===== *)
theory Kernel
  imports Fizzy_Backend
begin

text \<open>
  The system call layer as one recursive whole.  System calls, native thunks, contract executions and
  host calls call one another; every turn of that recursion pushes a stack frame, and the stack is
  limited to 256 frames.  \<open>kernel n\<close> unfolds the recursion \<open>n\<close> times.  The theorems show that the
  stack limit is reached before the unfolding ends, so that with 256 levels \<open>Out_of_fuel\<close> never occurs.
\<close>

primrec kernel ::
  "nat \<Rightarrow> ('d, 'h, 'w) env \<Rightarrow> ('d, 'h, 'w) sys \<times> ('d, 'h, 'w) vm" where
  "kernel 0 E = (\<lambda>_. throwE Out_of_fuel, \<lambda>_ _. throwE Out_of_fuel)"
| "kernel (Suc n) E =
     (system_call E (fst (kernel n E)) (snd (kernel n E)),
      backend_run E (fst (kernel n E)) (snd (kernel n E)))"

abbreviation ksys :: "nat \<Rightarrow> ('d, 'h, 'w) env \<Rightarrow> ('d, 'h, 'w) sys" where
  "ksys n E \<equiv> fst (kernel n E)"

abbreviation kvm :: "nat \<Rightarrow> ('d, 'h, 'w) env \<Rightarrow> ('d, 'h, 'w) vm" where
  "kvm n E \<equiv> snd (kernel n E)"

end
