(* ===== verification/Thunk_Effects.thy ===== *)
theory Thunk_Effects
  imports Kernel
begin

text \<open>
  The contract every native thunk keeps, proved once for any effect.  The locale \<open>thunk_effect\<close> lists
  what an effect \<open>(P, R, X)\<close> has to tolerate: changes of caches, receipts and other bookkeeping,
  metering, chronicling, database writes outside read-only contexts, and nested system calls and
  contract runs that keep the effect.  Its parameters \<open>N\<close> and \<open>C\<close> say which nodes are written: the
  effect only has to tolerate writes to nodes in \<open>N\<close> and commits of nodes in \<open>C\<close>, and the thunks write no others,
  for their handles come from the context and from nodes made on it.  It follows that all 46 thunks, the body of the system call
  wrapper and the buffer call keep it too.
\<close>

section \<open>Steps of a context\<close>

text \<open>Housekeeping: everything but the stack, the intent, the database and the ledgers may change.\<close>

definition housekeeping :: "('d, 'h, 'w) ctx \<Rightarrow> ('d, 'h, 'w) ctx \<Rightarrow> bool" where
  "housekeeping c c' \<longleftrightarrow>
     ec_stack c' = ec_stack c \<and> ec_intent c' = ec_intent c \<and> ec_db c' = ec_db c
     \<and> ec_sessions c' = ec_sessions c \<and> ec_resource_meter c' = ec_resource_meter c
     \<and> ec_chronicler c' = ec_chronicler c"

text \<open>Bookkeeping: housekeeping that stays on the current node.\<close>

definition bookkeeping :: "('d, 'h, 'w) ctx \<Rightarrow> ('d, 'h, 'w) ctx \<Rightarrow> bool" where
  "bookkeeping c c' \<longleftrightarrow> housekeeping c c' \<and> ec_current_state_node c' = ec_current_state_node c"

lemmas bookkeeping_simps = bookkeeping_def housekeeping_def

text \<open>
  A step of the ledgers: sessions, meter and chronicler change, the meter and chronicler invariants
  are kept and no event is lost.
\<close>

definition ledger_step :: "('d, 'h, 'w) ctx \<Rightarrow> ('d, 'h, 'w) ctx \<Rightarrow> bool" where
  "ledger_step c c' \<longleftrightarrow>
     (\<exists>ss m ch new.
        c' = c\<lparr>ec_sessions := ss, ec_resource_meter := m, ec_chronicler := ch\<rparr>
      \<and> (meter_ok (ec_resource_meter c) \<longrightarrow> meter_ok m)
      \<and> (chronicler_ok (ec_chronicler c) \<longrightarrow> chronicler_ok ch)
      \<and> ch_events ch = ch_events (ec_chronicler c) @ new)"

lemma ledger_stepI:
  assumes "c' = c\<lparr>ec_sessions := ss, ec_resource_meter := m, ec_chronicler := ch\<rparr>"
    and "meter_ok (ec_resource_meter c) \<Longrightarrow> meter_ok m"
    and "chronicler_ok (ec_chronicler c) \<Longrightarrow> chronicler_ok ch"
    and "ch_events ch = ch_events (ec_chronicler c) @ new"
  shows "ledger_step c c'"
  unfolding ledger_step_def using assms by blast

lemma store_session_eq: "\<exists>ss. store_session w s c = c\<lparr>ec_sessions := ss\<rparr>"
  by (auto simp: store_session_def split: option.splits) (metis ctx.surjective ctx.update_convs(3))+

lemma ledger_step_meter_op:
  assumes f: "\<And>s m s' m'. f (s, m) = Inr (s', m') \<Longrightarrow> meter_ok m \<Longrightarrow> meter_ok m'"
    and run: "meter_op f c = (Inr u, c')"
  shows "ledger_step c c'"
proof -
  obtain s m where fm: "f (lock (rm_session (ec_resource_meter c)) c, ec_resource_meter c) = Inr (s, m)"
    and c': "c' = (store_session (rm_session (ec_resource_meter c)) s c)\<lparr>ec_resource_meter := m\<rparr>"
    using run by (auto simp: meter_op_def Let_def split: sum.splits prod.splits)
  obtain ss where "store_session (rm_session (ec_resource_meter c)) s c = c\<lparr>ec_sessions := ss\<rparr>"
    using store_session_eq by blast
  with c' have "c' = c\<lparr>ec_sessions := ss, ec_resource_meter := m, ec_chronicler := ec_chronicler c\<rparr>" by simp
  then show ?thesis by (rule ledger_stepI [where new = "[]"]) (use f [OF fm] in simp_all)
qed

lemma meter_op_InlD: "meter_op f c = (Inl e, c') \<Longrightarrow> c' = c \<and> (\<exists>x. f x = Inl e)"
  by (auto simp: meter_op_def Let_def split: sum.splits prod.splits)

lemma ledger_step_chron_op:
  assumes f: "\<And>s ch. chronicler_ok ch \<Longrightarrow> chronicler_ok (snd (f (s, ch)))"
    and ev: "\<And>s ch. \<exists>new. ch_events (snd (f (s, ch))) = ch_events ch @ new"
  shows "ledger_step c (snd (chron_op f c))"
proof -
  let ?w = "ch_session (ec_chronicler c)"
  obtain s ch where fc: "f (lock ?w c, ec_chronicler c) = (s, ch)" by fastforce
  obtain ss where ss: "store_session ?w s c = c\<lparr>ec_sessions := ss\<rparr>" using store_session_eq by blast
  obtain new where new: "ch_events ch = ch_events (ec_chronicler c) @ new"
    using ev [of "lock ?w c" "ec_chronicler c"] fc by auto
  have "snd (chron_op f c) = c\<lparr>ec_sessions := ss, ec_resource_meter := ec_resource_meter c, ec_chronicler := ch\<rparr>"
    using fc ss by (simp add: chron_op_def modifyE_def Let_def)
  then show ?thesis
    by (rule ledger_stepI [where new = new]) (use f [of "ec_chronicler c" "lock ?w c"] fc new in simp_all)
qed

lemma ledger_step_make_session: "ledger_step c (snd (make_session rc c))"
  by (rule ledger_stepI [where new = "[]" and ss = "ec_sessions c @ [Some (session_new rc)]"
        and m = "meter_set_session (Some (length (ec_sessions c))) (ec_resource_meter c)"
        and ch = "chronicler_set_session (Some (length (ec_sessions c))) (ec_chronicler c)"])
     (simp_all add: make_session_def Let_def, simp add: chronicler_set_session_def)

lemma ledger_step_reset_session: "ledger_step c (reset_session a c)"
  by (rule ledger_stepI [where new = "[]" and m = "ec_resource_meter c" and ch = "ec_chronicler c"])
     (simp_all add: reset_session_def)

lemma ledger_step_limits:
  "ledger_step c (c\<lparr>ec_resource_meter := set_resource_limit_data rld (ec_resource_meter c)\<rparr>)"
  by (rule ledger_stepI [where new = "[]" and ss = "ec_sessions c" and ch = "ec_chronicler c"
        and m = "set_resource_limit_data rld (ec_resource_meter c)"])
     simp_all

text \<open>
  A step of the database: an object is put or removed in some node, an anonymous node is created, or
  one is committed to its parent.
\<close>

definition db_step :: "('d, 'h, 'w) env \<Rightarrow> 'd \<Rightarrow> 'd \<Rightarrow> bool" where
  "db_step E d d' \<longleftrightarrow>
     (\<exists>h sp k v n. node_put E d h sp k v = Inr (n, d')) \<or> (\<exists>h sp k n. node_remove E d h sp k = Inr (n, d'))
     \<or> (\<exists>h h'. node_create_anonymous E d h = (h', d')) \<or> (\<exists>h. node_commit E d h = Inr d')"

lemma db_step_intros:
  "node_put E d h sp k v = Inr (n, d') \<Longrightarrow> db_step E d d'"
  "node_remove E d h sp k = Inr (n, d') \<Longrightarrow> db_step E d d'"
  "node_create_anonymous E d h = (h', d') \<Longrightarrow> db_step E d d'"
  "node_commit E d h = Inr d' \<Longrightarrow> db_step E d d'"
  unfolding db_step_def by blast+

text \<open>The same on chosen nodes: objects change in the nodes of \<open>N\<close> only, and the nodes of \<open>C\<close> only are committed.\<close>

definition write_step :: "('d, 'h, 'w) env \<Rightarrow> ('d \<Rightarrow> 'h \<Rightarrow> bool) \<Rightarrow> ('d \<Rightarrow> 'h \<Rightarrow> bool) \<Rightarrow> 'd \<Rightarrow> 'd \<Rightarrow> bool" where
  "write_step E N C d d' \<longleftrightarrow>
     (\<exists>h sp k v n. N d h \<and> node_put E d h sp k v = Inr (n, d'))
     \<or> (\<exists>h sp k n. N d h \<and> node_remove E d h sp k = Inr (n, d'))
     \<or> (\<exists>h h'. N d h \<and> node_create_anonymous E d h = (h', d')) \<or> (\<exists>h. C d h \<and> node_commit E d h = Inr d')"

lemma write_step_intros:
  "N d h \<Longrightarrow> node_put E d h sp k v = Inr (n, d') \<Longrightarrow> write_step E N C d d'"
  "N d h \<Longrightarrow> node_remove E d h sp k = Inr (n, d') \<Longrightarrow> write_step E N C d d'"
  "N d h \<Longrightarrow> node_create_anonymous E d h = (h', d') \<Longrightarrow> write_step E N C d d'"
  "C d h \<Longrightarrow> node_commit E d h = Inr d' \<Longrightarrow> write_step E N C d d'"
  unfolding write_step_def by blast+

lemma write_step_db_step: "write_step E N C d d' \<Longrightarrow> db_step E d d'"
  unfolding write_step_def db_step_def by blast

abbreviation any_node :: "'d \<Rightarrow> 'h \<Rightarrow> bool" where
  "any_node \<equiv> \<lambda>_ _. True"

section \<open>Exceptions of the libraries\<close>

text \<open>The markers of a model run that left the behaviour of the program, and those of wrong memory accesses.\<close>

definition memory_fault :: "exn \<Rightarrow> bool" where
  "memory_fault e \<longleftrightarrow>
     e = Undefined ''write outside the linear memory'' \<or> e = Undefined ''read outside the linear memory''"

definition fatal :: "exn \<Rightarrow> bool" where
  "fatal e \<longleftrightarrow> e = Out_of_fuel \<or> e = Terminated \<or> memory_fault e"

lemma fatal_simps [simp]:
  "\<not> fatal (KExn k c m js)" "\<not> fatal (StdExn s)" "fatal Out_of_fuel" "fatal Terminated"
  "fatal (Undefined s) = memory_fault (Undefined s)" "\<not> memory_fault (KExn k c m js)" "\<not> memory_fault (StdExn s)"
  by (simp_all add: fatal_def memory_fault_def)

lemma catchable_not_fatal: "catchable e \<Longrightarrow> \<not> fatal e"
  by (cases e) simp_all

text \<open>An exception some library function of the environment can throw.\<close>

definition library_error :: "('d, 'h, 'w) env \<Rightarrow> exn \<Rightarrow> bool" where
  "library_error E e \<longleftrightarrow>
     (\<exists>b. to_contract_metadata E b = Inl e) \<or> (\<exists>b. to_system_call_target E b = Inl e)
   \<or> (\<exists>b. to_value E b = Inl e) \<or> (\<exists>b. to_block E b = Inl e)
   \<or> (\<exists>b. to_max_account_resources E b = Inl e) \<or> (\<exists>b. to_resource_limit_data E b = Inl e)
   \<or> (\<exists>b. to_compute_registry E b = Inl e) \<or> (\<exists>b. to_unsigned_varint E b = Inl e)
   \<or> (\<exists>b. to_authorize_result E b = Inl e) \<or> (\<exists>b. to_multihash E b = Inl e)
   \<or> (\<exists>s m. recover_key E s m = Inl e) \<or> (\<exists>b. to_public_key E b = Inl e)
   \<or> (\<exists>k m p. verify_random_proof E k m p = Inl e)
   \<or> (\<exists>d h s k v. node_put E d h s k v = Inl e) \<or> (\<exists>d h s k. node_remove E d h s k = Inl e)
   \<or> (\<exists>d h. node_commit E d h = Inl e)
   \<or> (\<exists>p m f. get_nested_field_value (reflect E) p m f = Inl e)"

text \<open>
  What the code relies on: library functions throw exceptions, they do not abort or touch a module's
  memory; and the UTF-8 decoder consumes input.
\<close>

definition libraries_ok :: "('d, 'h, 'w) env \<Rightarrow> bool" where
  "libraries_ok E \<longleftrightarrow>
     (\<forall>e. library_error E e \<longrightarrow> \<not> fatal e)
     \<and> (\<forall>s. s \<noteq> [] \<longrightarrow> fst (utf_decode E s) = utf_valid \<longrightarrow> length (snd (utf_decode E s)) < length s)"

lemma validate_utf_total: "libraries_ok E \<Longrightarrow> validate_utf E s \<noteq> None"
proof (induction "length s" arbitrary: s rule: less_induct)
  case less
  obtain cp rest where d: "utf_decode E s = (cp, rest)" by fastforce
  show ?case
  proof (cases "s \<noteq> [] \<and> cp = utf_valid")
    case True
    with less.prems d have "length rest < length s" by (force simp: libraries_ok_def)
    with less.hyps less.prems True d show ?thesis by (subst validate_utf.simps) simp
  next
    case False
    with d show ?thesis by (subst validate_utf.simps) (cases cp, auto)
  qed
qed

section \<open>The locale\<close>

text \<open>
  A context that may write, while handles are held: the nodes of \<open>H\<close> may be written and those of \<open>K\<close> committed.
\<close>

definition holding ::
  "(('d, 'h, 'w) ctx \<Rightarrow> bool) \<Rightarrow> ('d \<Rightarrow> 'h \<Rightarrow> bool) \<Rightarrow> ('d \<Rightarrow> 'h \<Rightarrow> bool) \<Rightarrow> 'h set \<Rightarrow> 'h set
     \<Rightarrow> ('d, 'h, 'w) ctx \<Rightarrow> bool" where
  "holding P N C H K c \<longleftrightarrow>
     P c \<and> \<not> is_read_only c \<and> (\<forall>h\<in>H. N (ec_db c) h) \<and> (\<forall>h\<in>K. C (ec_db c) h)"

locale thunk_effect = effect P R X
  for P :: "('d, 'h, 'w) ctx \<Rightarrow> bool"
    and R :: "('d, 'h, 'w) ctx \<Rightarrow> ('d, 'h, 'w) ctx \<Rightarrow> bool"
    and X :: "exn \<Rightarrow> bool" +
  fixes E :: "('d, 'h, 'w) env" and sc :: "('d, 'h, 'w) sys" and run :: "('d, 'h, 'w) vm"
    and N C :: "'d \<Rightarrow> 'h \<Rightarrow> bool"
  assumes R_bookkeeping: "P c \<Longrightarrow> bookkeeping c c' \<Longrightarrow> R c c'"
    and R_ledger: "P c \<Longrightarrow> ledger_step c c' \<Longrightarrow> R c c'"
    and R_db: "P c \<Longrightarrow> \<not> is_read_only c \<Longrightarrow> write_step E N C (ec_db c) d \<Longrightarrow> R c (c\<lparr>ec_db := d\<rparr>)"
    and R_node: "P c \<Longrightarrow> N (ec_db c) h \<Longrightarrow> R c (set_state_node E (Some h) q c)"
    and R_N: "P c \<Longrightarrow> R c c' \<Longrightarrow> N (ec_db c) h \<Longrightarrow> N (ec_db c') h"
    and R_C: "P c \<Longrightarrow> R c c' \<Longrightarrow> C (ec_db c) h \<Longrightarrow> C (ec_db c') h"
    and P_N: "P c \<Longrightarrow> ec_current_state_node c = Some h \<Longrightarrow> N (ec_db c) h"
    and N_anonymous: "N d h \<Longrightarrow> node_create_anonymous E d h = (h', d') \<Longrightarrow> N d' h' \<and> C d' h'"
    and R_intent: "P c \<Longrightarrow> R c c' \<Longrightarrow> ec_intent c' = ec_intent c"
    and X_thrown: "\<not> fatal e \<Longrightarrow> X e"
    and X_library: "library_error E e \<Longrightarrow> X e"
    and X_utf: "validate_utf E s = None \<Longrightarrow> X Out_of_fuel"
    and sc_spec: "spec P R X (sc a)"
    and run_spec: "spec P R X (with_stack_frame f (run b k))"
    and get_caller_spec: "spec P R X thunk_get_caller"
    and privilege_spec: "spec P R X (m :: ('d, 'h, 'w, sc_ret) run) \<Longrightarrow> spec P R X (with_privilege p m)"
begin

subsection \<open>Leaves\<close>

lemma X_kexn: "X (kexn n m)" "X (kexn_args n m a)" "X (vexn v m)" "X (reversion_exn i m)"
  "X (failure_exn i m)" "X (success_exn i)" "X (StdExn s)" "X (KExn k co ms js)"
  "X (Undefined ''null state node'')" "X (Undefined ''erase through an invalid iterator'')"
  "X (Undefined ''back of an empty list'')"
  by (auto intro!: X_thrown
        simp: kexn_def kexn_args_def vexn_def reversion_exn_def failure_exn_def success_exn_def memory_fault_def)

lemma spec_bookkeeping: "(\<And>c. bookkeeping c (f c)) \<Longrightarrow> spec P R X (modifyE f)"
  by (rule spec_modifyE) (erule R_bookkeeping, assumption)

lemma spec_meter_op:
  assumes "\<And>s m s' m'. f (s, m) = Inr (s', m') \<Longrightarrow> meter_ok m \<Longrightarrow> meter_ok m'"
    and "\<And>x e. f x = Inl e \<Longrightarrow> X e"
  shows "spec P R X (meter_op f)"
proof (rule specI)
  fix c r c' assume P: "P c" and run: "meter_op f c = (r, c')"
  show "R c c' \<and> (\<forall>e. r = Inl e \<longrightarrow> X e)"
  proof (cases r)
    case (Inl e)
    with meter_op_InlD [of f c e c'] run assms(2) P show ?thesis by (auto intro: R_refl)
  next
    case (Inr u)
    have "ledger_step c c'" by (rule ledger_step_meter_op [OF assms(1)]) (use run Inr in auto)
    with P Inr show ?thesis by (simp add: R_ledger)
  qed
qed

lemma X_charge_rc: "charge_rc cvt a c s = Inl e \<Longrightarrow> X e"
  by (auto simp: charge_rc_def use_rc_def Let_def X_kexn split: if_splits)

lemma spec_charge_compute: "spec P R X (charge_compute E t)"
  unfolding charge_compute_def
  by (rule spec_meter_op, erule (1) meter_ok_use_compute)
     (auto simp: Let_def X_kexn X_charge_rc split: if_splits option.splits sum.splits)

lemma spec_charge_network: "spec P R X (charge_network E t)"
  unfolding charge_network_def
  by (rule spec_meter_op, erule (1) meter_ok_use_network)
     (auto simp: Let_def X_kexn X_charge_rc split: if_splits option.splits sum.splits)

lemma spec_charge_disk: "spec P R X (charge_disk E t)"
  unfolding charge_disk_def
  by (rule spec_meter_op, erule (1) meter_ok_use_disk)
     (auto simp: Let_def X_kexn X_charge_rc split: if_splits option.splits sum.splits)

lemma spec_chron_op:
  assumes "\<And>s ch. chronicler_ok ch \<Longrightarrow> chronicler_ok (snd (f (s, ch)))"
    and "\<And>s ch. \<exists>new. ch_events (snd (f (s, ch))) = ch_events ch @ new"
  shows "spec P R X (chron_op f)"
proof (rule specI)
  fix c r c' assume "P c" and run: "chron_op f c = (r, c')"
  moreover have "fst (chron_op f c) = Inr ()" by (simp add: chron_op_def modifyE_def)
  ultimately show "R c c' \<and> (\<forall>e. r = Inl e \<longrightarrow> X e)"
    using ledger_step_chron_op [of f c, OF assms] by (auto intro: R_ledger)
qed

lemma spec_push_event: "spec P R X (push_event t ev)"
  unfolding push_event_def by (rule spec_chron_op) (simp_all add: Let_def chronicler_ok_def)

lemma spec_push_log: "spec P R X (push_log l)"
  unfolding push_log_def
  by (rule spec_chron_op) (simp_all add: chronicler_ok_def split: option.splits)

lemma spec_make_session: "spec P R X (make_session rc)"
  unfolding spec_def using R_ledger [OF _ ledger_step_make_session] by (simp add: make_session_def Let_def)

lemma spec_library: "(\<And>e. r = Inl e \<Longrightarrow> library_error E e) \<Longrightarrow> spec P R X (liftE r)"
  by (rule spec_liftE) (rule X_library)

lemma spec_libraries:
  "spec P R X (liftE (to_contract_metadata E b))" "spec P R X (liftE (to_system_call_target E b))"
  "spec P R X (liftE (to_value E b))" "spec P R X (liftE (to_block E b))"
  "spec P R X (liftE (to_max_account_resources E b))" "spec P R X (liftE (to_resource_limit_data E b))"
  "spec P R X (liftE (to_compute_registry E b))" "spec P R X (liftE (to_unsigned_varint E b))"
  "spec P R X (liftE (to_authorize_result E b))" "spec P R X (liftE (to_multihash E b))"
  "spec P R X (liftE (recover_key E s m))" "spec P R X (liftE (to_public_key E b))"
  "spec P R X (liftE (verify_random_proof E k msg p))"
  by (auto intro!: spec_library simp: library_error_def)

lemma spec_nested_field: "spec P R X (liftE (get_nested_field_value (reflect E) pool pm fld))"
  by (rule spec_library, unfold library_error_def) blast

lemmas leaf_rules =
  effect_rules X_kexn sc_spec spec_charge_compute spec_charge_network spec_charge_disk
  spec_push_event spec_push_log spec_libraries spec_nested_field get_caller_spec

lemma spec_utf: "spec P R X (someE (validate_utf E s) Out_of_fuel)"
  by (cases "validate_utf E s") (simp_all add: someE_def spec_returnE spec_throwE X_utf)

lemma spec_assert_utf: "X e \<Longrightarrow> spec P R X (assert_utf E s e)"
  unfolding assert_utf_def by (intro leaf_rules spec_utf)

subsection \<open>Context operations\<close>

lemma spec_need_parent_node: "spec P R X need_parent_node"
  unfolding need_parent_node_def by (intro leaf_rules)

lemma spec_cache_entry: "spec P R X (cache_entry i e)"
  unfolding cache_entry_def by (rule spec_bookkeeping) (simp add: bookkeeping_simps)

lemma spec_cache_system_call: "spec P R X (cache_system_call E i)"
  unfolding cache_system_call_def cache_contract_call_def
  by (intro leaf_rules spec_need_parent_node spec_cache_entry)
     (auto split: system_call_target.split intro!: leaf_rules spec_cache_entry)

lemma spec_get_compute_bandwidth: "spec P R X (get_compute_bandwidth E name)"
  unfolding get_compute_bandwidth_def build_compute_registry_cache_def
  by (intro leaf_rules spec_need_parent_node spec_bookkeeping) (simp add: bookkeeping_simps)

lemma spec_get_descriptor_pool: "spec P R X (get_descriptor_pool E)"
  unfolding get_descriptor_pool_def build_descriptor_pool_def
  by (intro leaf_rules spec_need_parent_node spec_bookkeeping) (simp add: bookkeeping_simps)

lemma spec_block_hash_code: "spec P R X (block_hash_code E)"
  unfolding block_hash_code_def build_block_hash_code_cache_def
  by (intro leaf_rules spec_need_parent_node spec_bookkeeping) (simp add: bookkeeping_simps)

lemma spec_system_call_exists: "spec P R X (system_call_exists E i)"
  unfolding system_call_exists_def by (intro leaf_rules spec_cache_system_call)

lemma spec_thunk_translation: "spec P R X (thunk_translation E i)"
  unfolding thunk_translation_def
  by (intro leaf_rules spec_cache_system_call)
     (auto split: system_call_entry.split intro!: leaf_rules)

lemma spec_context_system_call: "spec P R X (context_system_call E run i args)"
  unfolding context_system_call_def
  by (intro leaf_rules spec_catchE spec_cache_system_call)
     (auto split: system_call_entry.split intro!: leaf_rules run_spec)

lemmas context_rules =
  leaf_rules spec_need_parent_node spec_cache_system_call spec_get_compute_bandwidth
  spec_get_descriptor_pool spec_block_hash_code spec_system_call_exists spec_thunk_translation
  spec_context_system_call

subsection \<open>Thunks\<close>

lemma spec_sc_get: "spec P R X (sc_get sc sp key)"
  unfolding sc_get_def by (intro leaf_rules)

lemma spec_sc_hash_of: "spec P R X (sc_hash_of E sc obj)"
  unfolding sc_hash_of_def by (intro context_rules)

lemma spec_recover_address: "spec P R X (recover_address E sc s d)"
  unfolding recover_address_def by (intro leaf_rules)

lemma spec_any_signature_by: "spec P R X (any_signature_by E sc trx a)"
  unfolding any_signature_by_def by (intro leaf_rules spec_recover_address)

lemma spec_state_node: "spec P R X checked_state_node" "spec P R X deref_state_node"
  unfolding checked_state_node_def deref_state_node_def by (intro leaf_rules)+

lemma spec_assert_permissions: "spec P R X (assert_permissions sp)"
  unfolding assert_permissions_def by (intro leaf_rules)

lemma spec_need_kernel_mode: "spec P R X need_kernel_mode"
  unfolding need_kernel_mode_def by (intro leaf_rules)

lemma spec_charge_serialization: "spec P R X (charge_serialization E obj)"
  unfolding charge_serialization_def by (intro context_rules)

lemma spec_hash_code: "spec P R X (validate_hash_code E code)" "spec P R X (hash_compute_keys E code)"
  unfolding validate_hash_code_def hash_compute_keys_def
  by (auto split: option.split hash_alg.split intro!: leaf_rules)

lemma spec_raise_result_error: "spec P R X (raise_result_error E res)"
  unfolding raise_result_error_def by (intro leaf_rules)

lemmas helper_rules =
  context_rules spec_sc_get spec_sc_hash_of spec_recover_address spec_any_signature_by spec_state_node
  spec_assert_permissions spec_need_kernel_mode spec_charge_serialization spec_hash_code
  spec_raise_result_error spec_assert_utf spec_utf

lemma spec_thunk_queries:
  "spec P R X (thunk_get_head_info E sc)" "spec P R X (thunk_get_chain_id E sc)"
  "spec P R X (thunk_process_block_signature E sc d h s)" "spec P R X thunk_get_transaction"
  "spec P R X (thunk_get_transaction_field E fld)" "spec P R X thunk_get_block"
  "spec P R X (thunk_get_block_field E fld)" "spec P R X (thunk_get_last_irreversible_block E)"
  "spec P R X (thunk_get_account_nonce E sc a)" "spec P R X (thunk_verify_account_nonce E sc a n)"
  "spec P R X (thunk_set_account_nonce E sc a n)" "spec P R X (thunk_check_system_authority E sc)"
  "spec P R X thunk_get_operation" "spec P R X (thunk_get_account_rc E sc a)"
  "spec P R X (thunk_consume_account_rc a rc)" "spec P R X (thunk_get_resource_limits E sc)"
  "spec P R X (thunk_consume_block_resources x y z)" "spec P R X thunk_nop"
  unfolding thunk_get_head_info_def thunk_get_chain_id_def thunk_process_block_signature_def
    thunk_get_transaction_def thunk_get_transaction_field_def thunk_get_block_def
    thunk_get_block_field_def thunk_get_last_irreversible_block_def thunk_get_account_nonce_def
    thunk_verify_account_nonce_def thunk_set_account_nonce_def thunk_check_system_authority_def
    thunk_get_operation_def thunk_get_account_rc_def thunk_consume_account_rc_def
    thunk_get_resource_limits_def thunk_consume_block_resources_def thunk_nop_def
  by (intro helper_rules)+

lemma spec_thunk_reads:
  "spec P R X (thunk_get_object E sp key)" "spec P R X (thunk_get_next_object E sp key)"
  "spec P R X (thunk_get_prev_object E sp key)" "spec P R X (thunk_log E msg)"
  "spec P R X (thunk_event E name data impacted)"
  unfolding thunk_get_object_def thunk_get_next_object_def thunk_get_prev_object_def get_neighbour_def
    thunk_log_def thunk_event_def
  by (intro helper_rules)+

lemma spec_thunk_crypto:
  "spec P R X (thunk_hash E code obj sz)" "spec P R X (thunk_recover_public_key E ty s d cmp)"
  "spec P R X (thunk_verify_merkle_root E root hashes)" "spec P R X (thunk_verify_signature sc ty k s d cmp)"
  "spec P R X (thunk_verify_vrf_proof E ty k p h m)"
  unfolding thunk_hash_def thunk_recover_public_key_def thunk_verify_merkle_root_def
    thunk_verify_signature_def thunk_verify_vrf_proof_def
  by (intro helper_rules)+

lemma spec_frames: "spec P R X get_contract_entry_point" "spec P R X get_contract_call_args"
  unfolding get_contract_entry_point_def get_contract_call_args_def by (intro leaf_rules)+

lemma spec_thunk_contract:
  "spec P R X (thunk_call E sc run i e a)" "spec P R X (thunk_exit E code res)"
  "spec P R X thunk_get_arguments" "spec P R X thunk_get_contract_id"
  unfolding thunk_call_def thunk_exit_def thunk_get_arguments_def thunk_get_contract_id_def
  by (intro helper_rules spec_frames run_spec spec_catchE spec_bookkeeping; simp add: bookkeeping_simps set_result_def)+

subsection \<open>Thunks that write\<close>

text \<open>Past the read-only check the effect also tolerates database writes.\<close>

lemma spec_need_writable:
  assumes "spec (holding P N C {} {}) R X k"
  shows "spec P R X (thenE (need_writable msg) k)"
  unfolding need_writable_def
  by (intro spec_guardE_thenE X_kexn spec_weaken [OF assms]) (simp add: holding_def)

lemma rwI: "spec P R X m \<Longrightarrow> spec (holding P N C H K) R X m"
  by (erule spec_weaken) (simp add: holding_def)

end

sublocale thunk_effect \<subseteq> rw: effect "holding P N C H K" R X for H K
  by unfold_locales
     (auto simp: holding_def is_read_only_def dest: R_intent R_keeps intro: R_refl R_trans R_N R_C)

context thunk_effect
begin

lemma state_node_held:
  assumes "holding P N C H K c" and "checked_state_node c = (Inr h, c') \<or> deref_state_node c = (Inr h, c')"
  shows "holding P N C (insert h H) K c'"
proof -
  have "ec_current_state_node c = Some h" "c' = c"
    using assms(2)
    by (auto simp: checked_state_node_def deref_state_node_def getE_def bindE_def someE_def returnE_def throwE_def
        split: option.splits)
  with assms(1) P_N [of c h] show ?thesis by (simp add: holding_def)
qed

lemma spec_bind_node:
  assumes "\<And>h. spec (holding P N C (insert h H) K) R X (f h)"
  shows "spec (holding P N C H K) R X (bindE checked_state_node f)"
    and "spec (holding P N C H K) R X (bindE deref_state_node f)"
  by (rule rw.spec_bindE_result [OF rwI [OF spec_state_node(1)] _ assms], erule state_node_held, simp)
     (rule rw.spec_bindE_result [OF rwI [OF spec_state_node(2)] _ assms], erule state_node_held, simp)

lemma spec_node_write:
  assumes "\<And>d e. f d = Inl e \<Longrightarrow> library_error E e"
    and "\<And>c n d'. holding P N C H K c \<Longrightarrow> f (ec_db c) = Inr (n, d') \<Longrightarrow> write_step E N C (ec_db c) d'"
  shows "spec (holding P N C H K) R X (node_write f)"
proof (rule specI)
  fix c r c' assume c: "holding P N C H K c" and run: "node_write f c = (r, c')"
  show "R c c' \<and> (\<forall>e. r = Inl e \<longrightarrow> X e)"
  proof (cases "f (ec_db c)")
    case (Inl e)
    with run c show ?thesis by (auto simp: node_write_def intro: rw.R_refl X_library [OF assms(1)])
  next
    case (Inr a)
    with assms(2) [OF c] run c show ?thesis
      by (cases a) (auto simp: node_write_def holding_def intro: R_db)
  qed
qed

lemma spec_objects:
  "h \<in> H \<Longrightarrow> spec (holding P N C H K) R X (node_write (\<lambda>d. node_put E d h sp key obj))"
  "h \<in> H \<Longrightarrow> spec (holding P N C H K) R X (node_write (\<lambda>d. node_remove E d h sp key))"
  by (rule spec_node_write, unfold library_error_def, blast,
      rule write_step_intros(1) [where N = N and h = h], simp add: holding_def, assumption)
     (rule spec_node_write, unfold library_error_def, blast,
      rule write_step_intros(2) [where N = N and h = h], simp add: holding_def, assumption)

lemma spec_thunk_put_object: "spec P R X (thunk_put_object E sp key obj)"
  unfolding thunk_put_object_def
  by (intro spec_need_writable rw.spec_thenE rw.spec_returnE rwI [OF spec_charge_serialization] rwI [OF spec_charge_disk]
        rwI [OF spec_assert_permissions] spec_bind_node rw.spec_bindE [OF spec_objects(1)]) simp

lemma spec_thunk_remove_object: "spec P R X (thunk_remove_object E sp key)"
  unfolding thunk_remove_object_def
  by (intro spec_need_writable rw.spec_thenE rw.spec_returnE rwI [OF spec_charge_disk]
        rwI [OF spec_assert_permissions] spec_bind_node rw.spec_bindE [OF spec_objects(2)]) simp

text \<open>A read-only check in front of a body that is harmless anyway.\<close>

lemma spec_writable: "spec P R X (need_writable msg)"
  unfolding need_writable_def by (intro leaf_rules)

lemma spec_thunk_check_authority: "spec P R X (thunk_check_authority E sc ty a d)"
  unfolding thunk_check_authority_def authorize_call_arguments_def
  by (intro helper_rules spec_writable)

lemma spec_thunk_operations:
  "spec P R X (thunk_apply_upload_contract_operation E sc up)"
  "spec P R X (thunk_apply_set_system_contract_operation E sc ct)"
  unfolding thunk_apply_upload_contract_operation_def thunk_apply_set_system_contract_operation_def
    need_system_authority_def
  by (intro helper_rules spec_writable)+

lemma spec_thunk_set_system_call: "spec P R X (thunk_apply_set_system_call_operation E sc op)"
  unfolding thunk_apply_set_system_call_operation_def need_system_authority_def
  by (cases "ssc_target op") (simp_all, (intro helper_rules spec_writable)+)

lemma spec_thunk_call_contract: "spec P R X (thunk_apply_call_contract_operation E sc op)"
  unfolding thunk_apply_call_contract_operation_def
  by (intro helper_rules spec_writable privilege_spec spec_catchE)

subsection \<open>Applying transactions\<close>

lemma spec_node_commit:
  assumes "node \<in> K"
  shows "spec (holding P N C H K) R X (commit_node E node)"
proof (rule specI)
  fix c r c' assume c: "holding P N C H K c" and run: "commit_node E node c = (r, c')"
  show "R c c' \<and> (\<forall>e. r = Inl e \<longrightarrow> X e)"
  proof (cases "node_commit E (ec_db c) node")
    case (Inl e)
    then have "X e" by (intro X_library) (unfold library_error_def, blast)
    with run c Inl show ?thesis by (auto simp: commit_node_def intro: rw.R_refl)
  next
    case (Inr a)
    with run c assms show ?thesis by (auto simp: commit_node_def holding_def intro!: R_db write_step_intros(4) [where C = C])
  qed
qed

lemma enter_anonymous_node_step:
  assumes c: "holding P N C H K c" and h: "node \<in> H" and run: "enter_anonymous_node E node c = (r, c')"
  shows "R c c' \<and> (\<exists>h. r = Inr h \<and> holding P N C (insert h H) (insert h K) c')"
proof -
  obtain h d where hd: "node_create_anonymous E (ec_db c) node = (h, d)" by fastforce
  have node: "N (ec_db c) node" and P: "P c" using c h by (simp_all add: holding_def)
  have "write_step E N C (ec_db c) d" unfolding write_step_def using node hd by blast
  then have 1: "R c (c\<lparr>ec_db := d\<rparr>)" using c by (auto simp: holding_def intro: R_db)
  have c': "c' = set_state_node E (Some h) (node_parent E d node) (c\<lparr>ec_db := d\<rparr>)" and r: "r = Inr h"
    using run hd by (auto simp: enter_anonymous_node_def)
  have new: "N d h" "C d h" using N_anonymous [OF node hd] by simp_all
  have "R (c\<lparr>ec_db := d\<rparr>) c'" using R_keeps [OF P 1] new(1) unfolding c' by (intro R_node) simp_all
  with 1 P have "R c c'" by (blast intro: R_trans)
  moreover from rw.R_keeps [OF c this] have "holding P N C H K c'" .
  moreover have "ec_db c' = d" by (simp add: c' set_state_node_def)
  ultimately show ?thesis using r new by (simp add: holding_def)
qed

lemma spec_set_state_node: "h \<in> H \<Longrightarrow> spec (holding P N C H K) R X (modifyE (set_state_node E (Some h) p))"
  by (rule rw.spec_modifyE) (auto simp: holding_def intro: R_node)

lemma spec_reset_session: "spec P R X (modifyE (reset_session a))"
  by (rule spec_modifyE) (simp add: R_ledger ledger_step_reset_session)

lemma spec_receipts:
  "spec P R X (transaction_receipt_of E trx l)" "spec P R X (file_transaction_receipt tr)"
  "spec P R X (generate_block_receipt E blk x y z)"
  unfolding transaction_receipt_of_def file_transaction_receipt_def generate_block_receipt_def
  by (auto split: intent.split receipt.split intro!: helper_rules spec_bookkeeping simp: bookkeeping_simps)

lemma spec_apply_operation: "spec P R X (apply_operation sc op)"
  unfolding apply_operation_def guard_defs
  by (intro spec_thenE spec_finallyE spec_bookkeeping R_bookkeeping)
     (auto split: operation.split intro!: leaf_rules simp: bookkeeping_simps)

lemma spec_transaction_checks: "spec P R X (transaction_checks E sc trx rc)"
  unfolding transaction_checks_def require_transaction_authority_def by (intro helper_rules)

lemma spec_transaction_effects:
  "node \<in> K \<Longrightarrow> spec (holding P N C H K) R X (transaction_effects E sc trx node)"
  unfolding transaction_effects_def
  by (intro rw.effect_rules rwI [OF sc_spec] rwI [OF spec_charge_network] rwI [OF spec_apply_operation]
        spec_node_commit)

end

text \<open>
  The same effect while \<open>apply_transaction\<close> has its local variables in scope; the exception it
  remembers is one the effect allows.
\<close>

definition with_locals ::
  "(exn \<Rightarrow> bool) \<Rightarrow> ('c \<Rightarrow> bool) \<Rightarrow> trx_locals \<times> 'c \<Rightarrow> bool" where
  "with_locals X P lc \<longleftrightarrow> P (snd lc) \<and> (\<forall>e. l_reverted_exception (fst lc) = Some e \<longrightarrow> X e)"

definition rel_locals ::
  "(exn \<Rightarrow> bool) \<Rightarrow> ('c \<Rightarrow> 'c \<Rightarrow> bool) \<Rightarrow> trx_locals \<times> 'c \<Rightarrow> trx_locals \<times> 'c \<Rightarrow> bool" where
  "rel_locals X R lc lc' \<longleftrightarrow>
     R (snd lc) (snd lc') \<and> (\<forall>e. l_reverted_exception (fst lc') = Some e \<longrightarrow> X e)"

lemma effect_locals: "effect P R \<Longrightarrow> effect (with_locals X P) (rel_locals X R)"
  unfolding effect_def with_locals_def rel_locals_def by blast

lemma spec_locals_outer: "spec P R X m \<Longrightarrow> spec (with_locals X P) (rel_locals X R) X (outerE m)"
  by (auto simp: spec_def outerE_def with_locals_def rel_locals_def split: prod.splits)

lemma spec_locals_set:
  "effect P R \<Longrightarrow> (\<And>l e. l_reverted_exception (f l) = Some e \<Longrightarrow> l_reverted_exception l = Some e \<or> X e) \<Longrightarrow>
   spec (with_locals X P) (rel_locals X R) X (setlE f)"
  by (rule specI) (fastforce simp: setlE_def with_locals_def rel_locals_def effect.R_refl)

lemma spec_locals_get: "effect P R \<Longrightarrow> spec (with_locals X P) (rel_locals X R) X (getlE f)"
  by (rule specI) (auto simp: getlE_def with_locals_def rel_locals_def effect.R_refl)

lemma spec_locals_rethrow:
  "effect P R \<Longrightarrow>
   spec (with_locals X P) (rel_locals X R) X
     (bindE (getlE l_reverted_exception) (\<lambda>r. case r of Some e \<Rightarrow> throwE e | None \<Rightarrow> returnE a))"
  by (rule specI)
     (auto simp: getlE_def bindE_def throwE_def returnE_def with_locals_def rel_locals_def effect.R_refl
           split: option.splits)

lemma spec_locals_local:
  assumes "spec (with_locals X P) (rel_locals X R) X m"
  shows "spec P R X (localE trx_locals_init m)"
proof (rule specI)
  fix c r c' assume "P c" and run: "localE trx_locals_init m c = (r, c')"
  then obtain l' where "m (trx_locals_init, c) = (r, (l', c'))"
    by (auto simp: localE_def split: prod.splits)
  with specD [OF assms, of "(trx_locals_init, c)"] \<open>P c\<close>
  show "R c c' \<and> (\<forall>e. r = Inl e \<longrightarrow> X e)"
    by (simp add: with_locals_def rel_locals_def trx_locals_init_def)
qed

sublocale thunk_effect \<subseteq> lp: effect "with_locals X P" "rel_locals X R" X
  by (rule effect_locals) unfold_locales

sublocale thunk_effect \<subseteq> lrw: effect "with_locals X (holding P N C H K)" "rel_locals X R" X for H K
  by (rule effect_locals) unfold_locales

context thunk_effect
begin

lemmas orw = spec_locals_outer [OF rwI]
lemmas lset = spec_locals_set [OF rw.effect_axioms]
lemmas lget = spec_locals_get [OF rw.effect_axioms]

lemma spec_settle_transaction:
  "node \<in> H \<Longrightarrow> spec (with_locals X (holding P N C H K)) (rel_locals X R) X (settle_transaction E node a x y z)"
  unfolding settle_transaction_def
  by (intro lrw.effect_rules lset spec_locals_outer [OF spec_set_state_node] orw [OF spec_reset_session]
        orw [OF spec_getE]) simp_all

lemma spec_locals_nodes:
  assumes "\<And>node trx_node.
    spec (with_locals X (holding P N C (insert trx_node (insert node H)) (insert trx_node K))) (rel_locals X R) X (f node trx_node)"
  shows "spec (with_locals X (holding P N C H K)) (rel_locals X R) X
     (bindE (outerE deref_state_node) (\<lambda>node. bindE (outerE (enter_anonymous_node E node)) (f node)))"
proof -
  have enter: "spec (holding P N C (insert node H) K) R X (enter_anonymous_node E node)" for node
    by (rule specI) (use enter_anonymous_node_step [of "insert node H" K _ node] in auto)
  have "spec (with_locals X (holding P N C (insert node H) K)) (rel_locals X R) X
      (bindE (outerE (enter_anonymous_node E node)) (f node))" for node
    by (rule lrw.spec_bindE_result [OF spec_locals_outer [OF enter] _ assms])
       (auto simp: outerE_def with_locals_def split: prod.splits dest: enter_anonymous_node_step [of "insert node H" K _ node])
  then show ?thesis
    by (rule lrw.spec_bindE_result [OF orw [OF spec_state_node(2)], rotated])
       (auto simp: outerE_def with_locals_def split: prod.splits intro: state_node_held)
qed

lemma spec_transaction_phases:
  "spec (with_locals X (holding P N C H K)) (rel_locals X R) X (transaction_phases E sc trx a x y z)"
proof -
  have checks: "spec (with_locals X (holding P N C H K)) (rel_locals X R) X
      (catchE is_reversion
         (bindE (outerE (sc p)) (\<lambda>rc. thenE (setlE (\<lambda>l. l\<lparr>l_payer_rc := v_u64 rc\<rparr>)) (outerE (transaction_checks E sc trx (v_u64 rc)))))
         (\<lambda>e. throwE (kexn failure_exception (exn_message E e))))" for p
    by (intro lrw.effect_rules lrw.spec_catchE lset orw [OF sc_spec] X_kexn orw [OF spec_transaction_checks]) simp
  show ?thesis
    unfolding transaction_phases_def
    by (intro lrw.spec_thenE [OF checks] spec_locals_nodes lrw.effect_rules lrw.spec_catchE lset lget orw [OF sc_spec] X_kexn
          spec_locals_outer [OF spec_transaction_effects] orw [OF spec_thunk_reads(4)] spec_settle_transaction
          orw [OF spec_bindE [OF spec_receipts(1) spec_receipts(2)]]) simp_all
qed

lemma spec_lp_need_writable:
  assumes "spec (with_locals X (holding P N C {} {})) (rel_locals X R) X k"
  shows "spec (with_locals X P) (rel_locals X R) X (thenE (outerE (need_writable msg)) k)"
proof (rule specI)
  fix lc r lc' assume P: "with_locals X P lc"
    and run: "thenE (outerE (need_writable msg)) k lc = (r, lc')"
  obtain l c where lc: "lc = (l, c)" by fastforce
  show "rel_locals X R lc lc' \<and> (\<forall>e. r = Inl e \<longrightarrow> X e)"
  proof (cases "is_read_only c")
    case True
    with run lc have "r = Inl (kexn read_only_context_exception msg)" "lc' = lc"
      by (simp_all add: thenE_def bindE_def outerE_def need_writable_def guardE_def)
    with lp.R_refl [OF P] X_kexn(1) show ?thesis by simp
  next
    case False
    with run lc have k: "k lc = (r, lc')"
      by (simp add: thenE_def bindE_def outerE_def need_writable_def guardE_def)
    have "with_locals X (holding P N C {} {}) lc"
      using P lc False by (simp add: with_locals_def holding_def)
    from specD [OF assms this k] show ?thesis .
  qed
qed

lemma spec_thunk_apply_transaction: "spec P R X (thunk_apply_transaction E sc trx)"
proof -
  have fin1: "rel_locals X R lc (case lc of (l, c) \<Rightarrow> (l, reset_session a c))"
    if "with_locals X (holding P N C H K) lc" for lc a H K
    using that by (cases lc) (simp add: with_locals_def holding_def rel_locals_def R_ledger ledger_step_reset_session)
  have fin2: "rel_locals X R lc (case lc of (l, c) \<Rightarrow> (l, c\<lparr>ec_trx := None\<rparr>))"
    if "with_locals X (holding P N C H K) lc" for lc H K
    using that by (cases lc) (simp add: with_locals_def holding_def rel_locals_def R_bookkeeping bookkeeping_simps)
  have trx: "spec P R X (modifyE (\<lambda>c. c\<lparr>ec_trx := Some trx\<rparr>))"
    by (rule spec_bookkeeping) (simp add: bookkeeping_simps)
  note receipt = spec_locals_outer [OF spec_bindE [OF spec_receipts(1) spec_receipts(2)]]
  show ?thesis
    unfolding thunk_apply_transaction_def guard_defs
    by (intro spec_locals_local lp.spec_thenE [OF lp.spec_catchE]
          lp.spec_thenE [OF spec_locals_outer [OF spec_need_kernel_mode]] spec_lp_need_writable
          lrw.spec_thenE lrw.spec_bindE lrw.spec_finallyE orw [OF trx] orw [OF spec_getE]
          orw [OF spec_make_session] spec_transaction_phases fin1 fin2
          lp.spec_bindE [OF spec_locals_get [OF effect_axioms]] lp.spec_thenE [OF receipt]
          lp.spec_throwE spec_locals_rethrow [OF effect_axioms])
qed

subsection \<open>Applying blocks\<close>

lemma spec_block_checks: "spec P R X (block_checks E sc blk)"
  unfolding block_checks_def block_transaction_hashes_def
  by (intro helper_rules spec_modifyE) (simp add: R_ledger ledger_step_limits)

lemma spec_apply_block_transaction: "spec P R X (apply_block_transaction sc trx)"
  unfolding apply_block_transaction_def
  by (intro leaf_rules spec_catchE) (simp add: X_thrown catchable_not_fatal)

lemma spec_block_effects: "spec (holding P N C H K) R X (block_effects E sc blk)"
proof -
  note rest = rw.spec_thenE rw.spec_bindE [OF rwI [OF sc_spec]] rw.spec_bindE [OF rw.spec_getE]
  show ?thesis
    unfolding block_effects_def
    by (intro rw.spec_thenE [OF rwI [OF sc_spec]] spec_bind_node(2) rw.spec_thenE [OF spec_objects(1)] rest rw.spec_forE
          rw.spec_assertE rwI [OF sc_spec] rwI [OF spec_apply_block_transaction] X_kexn rwI [OF spec_receipts(3)]) simp
qed

lemma spec_thunk_apply_block: "spec P R X (thunk_apply_block E sc blk)"
proof -
  have set_block: "spec P R X (modifyE (\<lambda>c. c\<lparr>ec_block := b\<rparr>))" for b
    by (rule spec_bookkeeping) (simp add: bookkeeping_simps)
  have set_receipt: "spec P R X (modifyE (\<lambda>c. c\<lparr>ec_receipt := b\<rparr>))" for b
    by (rule spec_bookkeeping) (simp add: bookkeeping_simps)
  have body: "spec (\<lambda>c. P c \<and> ec_intent c = Block_application) R X
      (thenE (modifyE (\<lambda>c. c\<lparr>ec_block := Some blk\<rparr>))
        (finallyE (thenE (block_checks E sc blk) (block_effects E sc blk)) (\<lambda>c. c\<lparr>ec_block := None\<rparr>)))"
    by (rule spec_weaken [where P = "holding P N C {} {}"],
        intro rw.spec_thenE rw.spec_finallyE rwI [OF set_block] rwI [OF spec_block_checks] spec_block_effects)
       (auto simp: holding_def is_read_only_def bookkeeping_simps intro!: R_bookkeeping)
  show ?thesis
    unfolding thunk_apply_block_def guard_defs
    by (intro spec_thenE [OF set_receipt] spec_thenE [OF spec_catchE] spec_thenE [OF spec_need_kernel_mode]
          spec_guardE_thenE X_kexn body helper_rules spec_receipts)
qed

subsection \<open>All thunks, the wrapper and the buffer call\<close>

lemma spec_thunk: "spec P R X (thunk E sc run a)"
  by (cases a)
     (simp_all add: spec_thunk_queries spec_thunk_reads spec_thunk_crypto spec_thunk_contract
        spec_thunk_put_object spec_thunk_remove_object spec_thunk_check_authority spec_thunk_operations
        spec_thunk_set_system_call spec_thunk_call_contract spec_thunk_apply_transaction
        spec_thunk_apply_block get_caller_spec spec_returnE)

lemma spec_charge_thunk: "spec P R X (charge_thunk E t)"
  unfolding charge_thunk_def by (intro context_rules)

lemma spec_system_call_body:
  "spec P R X
     (bindE (system_call_exists E i) (\<lambda>overridden.
        if overridden then invoke_override E run a else invoke_native E sc run a))"
  unfolding invoke_override_def invoke_native_def call_thunk_typed_def
  by (intro helper_rules spec_charge_thunk spec_thunk)

end

end
