(* ===== verification/Kernel_Effects.thy ===== *)
theory Kernel_Effects
  imports Thunk_Effects
begin

text \<open>
  From thunks to the whole kernel.  \<open>vm_effect\<close> extends the contract of the thunks to contract runs:
  host calls, tick accounting and the tree of calls a module makes.  \<open>kernel_effect\<close> ties both
  together by induction on the unfolding of the kernel.  It is used three times: for the call stack
  and the absence of fuel exhaustion, for read-only contexts, and for the ledgers.
\<close>

section \<open>Contract runs\<close>

definition runner_ok :: "runner \<Rightarrow> bool" where
  "runner_ok ru \<longleftrightarrow> (\<forall>e. ru_exception ru = Some e \<longrightarrow> catchable e)"

lemma catch_value_catchable:
  "catchE catchable (bindE m (\<lambda>a. returnE (Inr a))) (\<lambda>e. returnE (Inl e)) s = (Inr (Inl e), s') \<Longrightarrow> catchable e"
  by (auto simp: catchE_def bindE_def returnE_def split: prod.splits sum.splits if_splits)

lemma host_body_ok: "host_body E sc run hm fn a ru s = (Inr ru', s') \<Longrightarrow> runner_ok ru'"
  unfolding host_body_def runner_ok_def
  by (auto dest!: run_InrD split: sum.splits dest!: catch_value_catchable simp: run_returnE)

lemma runner_host_call_ok: "runner_host_call E sc run hm fn a ru s = (Inr ru', s') \<Longrightarrow> runner_ok ru'"
  unfolding runner_host_call_def catchE_def
  by (auto simp: returnE_def runner_ok_def split: prod.splits sum.splits if_splits
           dest: host_body_ok [unfolded runner_ok_def])

lemma execute_ok: "runner_ok ru \<Longrightarrow> execute w E sc run ru c = (Inr (t, ru'), c') \<Longrightarrow> runner_ok ru'"
proof (induction w arbitrary: ru c)
  case (Wasm_done tr ticks)
  then show ?case by (auto simp: returnE_def runner_ok_def)
next
  case (Wasm_host fn a mem ticks k)
  let ?ru = "ru\<lparr>ru_ticks := ticks, ru_exception := None\<rparr>"
  obtain ru1 mem1 c1 where host: "with_memory mem (runner_host_call E sc run (mem \<noteq> None) fn a ?ru) c = (Inr (ru1, mem1), c1)"
    and rest: "execute (k \<lparr>hr_trapped = ru_exception ru1 \<noteq> None, hr_value = ru_value ru1, hr_memory = mem1,
        hr_ticks = ru_ticks ru1\<rparr>) E sc run ru1 c1 = (Inr (t, ru'), c')"
    using Wasm_host.prems(2) by (auto dest!: bindE_InrD)
  from host obtain s where "runner_host_call E sc run (mem \<noteq> None) fn a ?ru (case mem of Some bs \<Rightarrow> bs | None \<Rightarrow> [], c) = (Inr ru1, s)"
    by (auto simp: with_memory_def split: prod.splits sum.splits)
  then have "runner_ok ru1" by (rule runner_host_call_ok)
  from Wasm_host.IH [OF rangeI this rest] show ?case .
qed

lemma resolve_buffers_error: "resolve_buffers fn a mem = Inl e \<Longrightarrow> \<exists>n m. e = vexn n m"
  by (cases mem; cases "resolve_ptr mem (arg1 a) (arg2 a)"; cases "resolve_ptr mem (arg3 a) (arg4 a)";
      cases "resolve_ptr mem (arg5 a) 4")
     (auto simp: resolve_buffers_def resolve_ptr_def split: option.splits if_splits)

text \<open>
  The memory of a host call.  The resolved buffers lie inside the memory; the host keeps its size and
  writes only to the return buffer and to \<open>bytes_written\<close>.
\<close>

definition in_bounds :: "host_buffers \<Rightarrow> nat \<Rightarrow> bool" where
  "in_bounds b n \<longleftrightarrow>
     hb_ret_ptr b + unat (hb_ret_len b) \<le> n \<and> hb_arg_ptr b + unat (hb_arg_len b) \<le> n
     \<and> hb_bytes_written b + 4 \<le> n"

definition writable_at :: "host_buffers \<Rightarrow> nat \<Rightarrow> bool" where
  "writable_at b i \<longleftrightarrow>
     hb_ret_ptr b \<le> i \<and> i < hb_ret_ptr b + unat (hb_ret_len b)
     \<or> hb_bytes_written b \<le> i \<and> i < hb_bytes_written b + 4"

definition confined :: "host_buffers \<Rightarrow> bytes \<Rightarrow> bytes \<Rightarrow> bool" where
  "confined b mem mem' \<longleftrightarrow>
     length mem' = length mem \<and> (\<forall>i < length mem. writable_at b i \<or> mem' ! i = mem ! i)"

definition at_host :: "host_buffers \<Rightarrow> ('c \<Rightarrow> bool) \<Rightarrow> bytes \<times> 'c \<Rightarrow> bool" where
  "at_host b P mc \<longleftrightarrow> in_bounds b (length (fst mc)) \<and> P (snd mc)"

definition rel_host :: "host_buffers \<Rightarrow> ('c \<Rightarrow> 'c \<Rightarrow> bool) \<Rightarrow> bytes \<times> 'c \<Rightarrow> bytes \<times> 'c \<Rightarrow> bool" where
  "rel_host b R mc mc' \<longleftrightarrow> confined b (fst mc) (fst mc') \<and> R (snd mc) (snd mc')"

lemma confined_refl: "confined b mem mem"
  by (simp add: confined_def)

lemma confined_trans: "confined b m m' \<Longrightarrow> confined b m' m'' \<Longrightarrow> confined b m m''"
  unfolding confined_def by metis

lemma confined_length: "confined b m m' \<Longrightarrow> length m' = length m"
  by (simp add: confined_def)

lemma effect_host:
  assumes "effect P R"
  shows "effect (at_host b P) (rel_host b R)"
proof (rule effect.intro)
  fix c c' c'' :: "bytes \<times> 'a"
  assume P: "at_host b P c"
  show "rel_host b R c c" using P effect.R_refl [OF assms] by (simp add: at_host_def rel_host_def confined_refl)
  show "at_host b P c'" if "rel_host b R c c'"
    using P that effect.R_keeps [OF assms] by (auto simp: at_host_def rel_host_def dest!: confined_length)
  show "rel_host b R c c''" if "rel_host b R c c'" "rel_host b R c' c''"
    using P that effect.R_trans [OF assms] confined_trans unfolding at_host_def rel_host_def by blast
qed

lemma spec_host_outer: "spec P R X m \<Longrightarrow> spec (at_host b P) (rel_host b R) X (outerE m)"
  by (auto simp: spec_def outerE_def at_host_def rel_host_def confined_refl split: prod.splits)

lemma confined_write:
  assumes "p + length bs \<le> length mem" and "\<And>i. p \<le> i \<Longrightarrow> i < p + length bs \<Longrightarrow> writable_at b i"
  shows "confined b mem (take p mem @ bs @ drop (p + length bs) mem)"
  unfolding confined_def
proof (intro conjI allI impI)
  show "length (take p mem @ bs @ drop (p + length bs) mem) = length mem" using assms(1) by simp
next
  fix i assume i: "i < length mem"
  show "writable_at b i \<or> (take p mem @ bs @ drop (p + length bs) mem) ! i = mem ! i"
    using assms i by (cases "i < p"; cases "i < p + length bs") (auto simp: nth_append min_def)
qed

lemma spec_host_write:
  assumes "effect P R"
    and "\<And>n. in_bounds b n \<Longrightarrow> p + length bs \<le> n"
    and "\<And>i. p \<le> i \<Longrightarrow> i < p + length bs \<Longrightarrow> writable_at b i"
  shows "spec (at_host b P) (rel_host b R) X (mem_write p bs)"
  by (rule specI)
     (use assms(2) confined_write [OF _ assms(3)] in
       \<open>auto simp: mem_write_def at_host_def rel_host_def effect.R_refl [OF assms(1)] split: if_splits\<close>)

lemma spec_host_read:
  assumes "effect P R"
  shows "spec (at_host b P) (rel_host b R) X (mem_read (hb_arg_ptr b) (unat (hb_arg_len b)))"
  by (rule specI)
     (auto simp: mem_read_def at_host_def rel_host_def in_bounds_def confined_refl effect.R_refl [OF assms]
           split: if_splits)

lemma length_le_bytes [simp]: "length (le_bytes w) = 4"
  by (simp add: le_bytes_def)

lemma spec_host_written:
  "effect P R \<Longrightarrow> spec (at_host b P) (rel_host b R) X (mem_write (hb_bytes_written b) (le_bytes w))"
  by (erule spec_host_write) (auto simp: in_bounds_def writable_at_def)

lemma spec_host_return:
  assumes "effect P R" and "length bs \<le> unat (hb_ret_len b)"
  shows "spec (at_host b P) (rel_host b R) X (write_return b bs)"
  unfolding write_return_def
  by (rule effect.spec_thenE [OF effect_host [OF assms(1)] spec_host_write [OF assms(1)] spec_host_written [OF assms(1)]])
     (use assms(2) in \<open>auto simp: in_bounds_def writable_at_def\<close>)

lemma resolve_buffers_in_bounds: "resolve_buffers fn a (Some n) = Inr b \<Longrightarrow> in_bounds b n"
  by (auto simp: resolve_buffers_def resolve_ptr_def in_bounds_def split: if_splits)

lemma resolve_buffers_no_memory: "resolve_buffers fn a None \<noteq> Inr b"
  by (simp add: resolve_buffers_def resolve_ptr_def)

lemma spec_asserted:
  "effect P R \<Longrightarrow> X e \<Longrightarrow> (b \<Longrightarrow> spec P R X k) \<Longrightarrow> spec P R X (thenE (assertE b e) k)"
  by (cases b) (simp_all add: assertE_def effect.spec_throwE)

section \<open>The contract of host calls and contract runs\<close>

locale vm_effect = thunk_effect P R X E sc run N C
  for P :: "('d, 'h, 'w) ctx \<Rightarrow> bool"
    and R :: "('d, 'h, 'w) ctx \<Rightarrow> ('d, 'h, 'w) ctx \<Rightarrow> bool"
    and X :: "exn \<Rightarrow> bool"
    and E :: "('d, 'h, 'w) env" and sc :: "('d, 'h, 'w) sys" and run :: "('d, 'h, 'w) vm"
    and N C :: "'d \<Rightarrow> 'h \<Rightarrow> bool" +
  fixes Q :: "('d, 'h, 'w) ctx \<Rightarrow> bool"
  assumes Q_P: "Q c \<Longrightarrow> P c"
    and Q_keeps: "Q c \<Longrightarrow> R c c' \<Longrightarrow> Q c'"
    and host_frame: "spec (at_host b P) (rel_host b R) X (m :: ('d, 'h, 'w, unit) mrun) \<Longrightarrow>
        spec (at_host b Q) (rel_host b R) X (with_host_frame f m)"

sublocale vm_effect \<subseteq> q: effect Q R X
  by unfold_locales (auto intro: R_refl R_trans Q_keeps dest: Q_P)

sublocale vm_effect \<subseteq> mp: effect "at_host b P" "rel_host b R" X for b
  by (rule effect_host) (rule effect_axioms)

sublocale vm_effect \<subseteq> mq: effect "at_host b Q" "rel_host b R" X for b
  by (rule effect_host) (rule q.effect_axioms)

context vm_effect
begin

lemma spec_q: "spec P R X m \<Longrightarrow> spec Q R X m"
  by (erule spec_weaken) (rule Q_P)

lemma spec_mq: "spec (at_host b P) (rel_host b R) X m \<Longrightarrow> spec (at_host b Q) (rel_host b R) X m"
  by (erule spec_weaken) (simp add: at_host_def Q_P)

lemmas host_memory = spec_host_read [OF effect_axioms] spec_host_written [OF effect_axioms]
lemmas q_memory = spec_host_written [OF q.effect_axioms] spec_host_return [OF q.effect_axioms]

lemma spec_return_checked:
  "X e \<Longrightarrow> spec (at_host b P) (rel_host b R) X
     (thenE (assertE (length bs \<le> unat (hb_ret_len b)) e) (write_return b bs))"
  by (rule spec_asserted [OF mp.effect_axioms]) (simp_all add: spec_host_return [OF effect_axioms])

lemma spec_call_thunk_buffer: "spec (at_host b P) (rel_host b R) X (call_thunk_buffer E sc run t b)"
  unfolding call_thunk_buffer_def Let_def
  by (intro spec_return_checked mp.effect_rules host_memory spec_host_outer spec_thunk spec_get_compute_bandwidth
        spec_charge_compute X_kexn)

lemma spec_get_privilege: "spec P R X get_privilege"
  unfolding get_privilege_def by (intro leaf_rules)

lemma spec_code_of:
  "spec (at_host b Q) (rel_host b R) X m \<Longrightarrow> spec (at_host b Q) (rel_host b R) X (code_of E m)"
  unfolding code_of_def by (intro mq.spec_catchE mq.spec_thenE mq.spec_returnE)

lemma spec_report_code: "spec (at_host b Q) (rel_host b R) X (report_code E b code err)"
  unfolding report_code_def Let_def
  by (auto intro!: mq.spec_returnE mq.spec_thenE q_memory)

lemma spec_raise_code: "spec (at_host b Q) (rel_host b R) X (raise_code E code err s)"
  unfolding raise_code_def by (intro mq.effect_rules X_kexn)

lemma spec_invoke_thunk: "spec (at_host b Q) (rel_host b R) X (invoke_thunk E sc run t b)"
  unfolding invoke_thunk_def
  by (intro mq.effect_rules spec_host_outer spec_q spec_get_privilege X_kexn spec_code_of
        spec_mq [OF spec_call_thunk_buffer] spec_raise_code spec_report_code)

lemma spec_host_body_call:
  "spec (at_host b P) (rel_host b R) X
     (bindE (outerE (system_call_exists E i)) (\<lambda>overridden.
        if overridden then host_override E run i b else host_native E sc run i b))"
  unfolding host_override_def host_native_def
  by (intro spec_return_checked mp.effect_rules spec_host_outer spec_system_call_exists host_memory
        spec_context_system_call X_kexn spec_thunk_translation spec_charge_thunk spec_call_thunk_buffer)

lemma spec_invoke_system_call: "spec (at_host b Q) (rel_host b R) X (invoke_system_call E sc run i b)"
  unfolding invoke_system_call_def host_call_def
  by (intro mq.effect_rules spec_code_of q_memory host_frame spec_host_body_call
        spec_host_outer spec_q spec_get_privilege X_kexn spec_raise_code spec_report_code)

lemma spec_invoke_host: "spec (at_host b Q) (rel_host b R) X (invoke_host E sc run fn i b)"
  by (cases fn) (simp_all add: spec_invoke_thunk spec_invoke_system_call)

lemma spec_use_meter_ticks: "spec P R X (use_meter_ticks E t)"
  unfolding use_meter_ticks_def by (intro leaf_rules)

lemma spec_host_resolved:
  "spec (at_host b Q) (rel_host b R) X
     (thenE (outerE (use_meter_ticks E t)) (
      bindE (catchE catchable (bindE (invoke_host E sc run fn i b) (\<lambda>code. returnE (Inr code))) (\<lambda>e. returnE (Inl e))) (\<lambda>res.
      bindE (outerE (getE get_meter_ticks)) (\<lambda>ticks. returnE (g res ticks)))))"
  by (intro mq.effect_rules mq.spec_catchE spec_host_outer spec_q spec_use_meter_ticks spec_invoke_host spec_getE)

lemma spec_host_body: "spec (on_outer Q) (rel_outer R) X (host_body E sc run hm fn a ru)"
proof (rule specI)
  fix mc r mc' assume Q: "on_outer Q mc" and run: "host_body E sc run hm fn a ru mc = (r, mc')"
  obtain mem c where mc: "mc = (mem, c)" by fastforce
  let ?m = "if hm then Some (length mem) else None"
  show "rel_outer R mc mc' \<and> (\<forall>e. r = Inl e \<longrightarrow> X e)"
  proof (cases "resolve_buffers fn a ?m")
    case (Inl e)
    with run mc have "r = Inl e" "mc' = mc" by (simp_all add: host_body_def bindE_def getlE_def liftE_def)
    moreover from resolve_buffers_error [OF Inl] have "X e" by (auto simp: X_kexn)
    ultimately show ?thesis using Q q.R_refl by simp
  next
    case (Inr b)
    then have "at_host b Q mc"
      using Q mc resolve_buffers_in_bounds resolve_buffers_no_memory by (cases hm) (auto simp: at_host_def)
    from specD [OF spec_host_resolved this] run mc Inr show ?thesis
      by (fastforce simp: host_body_def bindE_def getlE_def liftE_def rel_host_def)
  qed
qed

lemma spec_runner_host_call: "spec (on_outer Q) (rel_outer R) X (runner_host_call E sc run hm fn a ru)"
  unfolding runner_host_call_def
  by (intro effect.spec_catchE [OF q.effect_outer] spec_host_body effect.spec_returnE [OF q.effect_outer])

lemma spec_with_memory:
  assumes "spec (on_outer Q) (rel_outer R) X (m :: ('d, 'h, 'w, 'a) mrun)"
  shows "spec Q R X (with_memory mem m)"
proof (rule specI)
  fix c r c' assume Q: "Q c" and run: "with_memory mem m c = (r, c')"
  obtain s mem' c1 where m: "m (case mem of Some bs \<Rightarrow> bs | None \<Rightarrow> [], c) = (s, (mem', c1))" by (metis prod.collapse)
  from specD [OF assms _ m] Q have "R c c1 \<and> (\<forall>e. s = Inl e \<longrightarrow> X e)" by simp
  with run m show "R c c' \<and> (\<forall>e. r = Inl e \<longrightarrow> X e)"
    by (auto simp: with_memory_def split: sum.splits)
qed

lemma spec_execute: "spec Q R X (execute w E sc run ru)"
proof (induction w arbitrary: ru)
  case (Wasm_done t ticks)
  show ?case by (simp add: q.spec_returnE)
next
  case (Wasm_host fn a mem ticks k)
  show ?case
    by (simp, intro q.spec_bindE q.spec_case_prod spec_with_memory spec_runner_host_call)
       (rule Wasm_host.IH, rule rangeI)
qed

lemma spec_finish_run:
  assumes "runner_ok ru"
  shows "spec Q R X (thenE (use_meter_ticks E t)
           (case ru_exception ru of Some e \<Rightarrow> throwE e | None \<Rightarrow> assertE b (vexn v m)))"
proof -
  have "X e" if "ru_exception ru = Some e" for e
    using that assms by (intro X_thrown catchable_not_fatal) (simp add: runner_ok_def)
  then show ?thesis
    by (cases "ru_exception ru")
       (auto intro!: q.spec_thenE spec_q [OF spec_use_meter_ticks] q.spec_throwE q.spec_assertE X_kexn)
qed

lemma spec_execute_finish:
  assumes ru: "runner_ok ru"
  shows "spec Q R X (bindE (execute w E sc run ru) (\<lambda>(trapped, ru').
           thenE (use_meter_ticks E (ru_previous_ticks ru' - ru_ticks ru'))
             (case ru_exception ru' of Some e \<Rightarrow> throwE e | None \<Rightarrow> assertE (\<not> trapped) (vexn v m))))"
    (is "spec Q R X (bindE _ ?f)")
proof (rule specI)
  fix c r c' assume Q: "Q c" and run: "bindE (execute w E sc run ru) ?f c = (r, c')"
  obtain s c1 where ex: "execute w E sc run ru c = (s, c1)" by fastforce
  note 1 = specD [OF spec_execute Q ex]
  show "R c c' \<and> (\<forall>e. r = Inl e \<longrightarrow> X e)"
  proof (cases s)
    case (Inl e)
    with run ex 1 show ?thesis by (auto simp: bindE_def)
  next
    case (Inr p)
    obtain t ru' where p: "p = (t, ru')" by fastforce
    have "runner_ok ru'" using execute_ok [OF ru] ex Inr p by blast
    moreover have "?f p c1 = (r, c')" using run ex Inr by (simp add: bindE_def)
    moreover have "Q c1" using 1 Q_keeps [OF Q] by blast
    ultimately have "R c1 c' \<and> (\<forall>e. r = Inl e \<longrightarrow> X e)"
      using specD [OF spec_finish_run] unfolding p prod.case by blast
    with 1 q.R_trans [OF Q] show ?thesis by blast
  qed
qed

lemma spec_call_start: "spec Q R X (call_start E sc run m inst)"
  unfolding call_start_def
  by (intro q.effect_rules X_kexn spec_execute_finish) (simp add: runner_ok_def)

lemma spec_cache_get: "spec P R X (cache_get k)"
  by (rule specI)
     (auto simp: cache_get_def get_module_def Let_def R_refl X_kexn bookkeeping_simps
           split: sum.splits option.splits if_splits intro!: R_bookkeeping)

lemma spec_cache_put: "spec P R X (cache_put k m)"
  by (rule specI)
     (auto simp: cache_put_def put_module_def Let_def R_refl X_kexn bookkeeping_simps
           split: sum.splits if_splits intro!: R_bookkeeping)

lemma spec_parse_bytecode: "spec P R X (liftE (parse_bytecode E b))"
  by (rule spec_liftE) (auto simp: parse_bytecode_def X_kexn split: sum.splits prod.splits)

lemma spec_instantiate_module: "spec P R X (liftE (instantiate_module E m))"
  by (rule spec_liftE) (auto simp: instantiate_module_def X_kexn split: sum.splits prod.splits)

lemma spec_load_module: "spec P R X (load_module E b k)"
  unfolding load_module_def
  by (intro leaf_rules spec_cache_get spec_cache_put spec_parse_bytecode)

lemma spec_backend_run: "spec Q R X (backend_run E sc run b k)"
  unfolding backend_run_def
  by (intro q.spec_bindE spec_q [OF spec_load_module] spec_q [OF spec_instantiate_module] spec_call_start)

end

section \<open>The induction\<close>

text \<open>
  At unfolding \<open>n\<close>, \<open>S n\<close> is where a system call may start, \<open>T n\<close> where a thunk runs and \<open>V n\<close> where
  a contract runs.
\<close>

locale kernel_effect =
  fixes E :: "('d, 'h, 'w) env"
    and S T V :: "nat \<Rightarrow> ('d, 'h, 'w) ctx \<Rightarrow> bool"
    and R :: "('d, 'h, 'w) ctx \<Rightarrow> ('d, 'h, 'w) ctx \<Rightarrow> bool"
    and X :: "exn \<Rightarrow> bool" and N C :: "'d \<Rightarrow> 'h \<Rightarrow> bool"
  assumes base_sys: "spec (S 0) R X (throwE Out_of_fuel :: ('d, 'h, 'w, sc_ret) run)"
    and base_vm: "spec (V 0) R X (throwE Out_of_fuel :: ('d, 'h, 'w, unit) run)"
    and level: "(\<And>a. spec (S n) R X (ksys n E a)) \<Longrightarrow> (\<And>b k. spec (V n) R X (kvm n E b k)) \<Longrightarrow>
        vm_effect (T n) R X E (ksys n E) (kvm n E) N C (V (Suc n))"
    and frame: "spec (T n) R X (m :: ('d, 'h, 'w, sc_ret) run) \<Longrightarrow> spec (S (Suc n)) R X (with_stack_frame f m)"
begin

lemma kernel_spec: "spec (S n) R X (ksys n E a) \<and> spec (V n) R X (kvm n E b k)"
proof (induction n arbitrary: a b k)
  case 0
  show ?case by (simp add: base_sys base_vm)
next
  case (Suc n)
  have vm: "vm_effect (T n) R X E (ksys n E) (kvm n E) N C (V (Suc n))"
    by (rule level) (use Suc.IH in blast)+
  then have te: "thunk_effect (T n) R X E (ksys n E) (kvm n E) N C" by (simp add: vm_effect_def)
  show ?case
    using frame [OF thunk_effect.spec_system_call_body [OF te]] vm_effect.spec_backend_run [OF vm]
    by (simp add: system_call_def)
qed

lemmas sys_spec = kernel_spec [THEN conjunct1]
lemmas vm_spec = kernel_spec [THEN conjunct2]

end

end
