(* ===== verification/Example_Env.thy ===== *)
theory Example_Env
  imports Thunk_Effects
begin

text \<open>
  A concrete environment, for evaluating the definitions on examples: a state database of
  copy-on-create nodes, trivial serialisation and hashing, and modules that are their own behaviour.
  It satisfies the hypotheses the theorems make about the libraries.
\<close>

type_synonym example_db = "(object_space \<times> bytes \<rightharpoonup> bytes) list"
type_synonym example_module = "i64 \<Rightarrow> wasm_run"
type_synonym example_env = "(example_db, nat, example_module) env"
type_synonym example_ctx = "(example_db, nat, example_module) ctx"

definition example_num :: "syscall \<Rightarrow> u32" where
  "example_num s = of_nat (length (takeWhile (\<lambda>t. t \<noteq> s) registered_thunks))"

definition example_put :: "example_db \<Rightarrow> nat \<Rightarrow> object_space \<Rightarrow> bytes \<Rightarrow> bytes \<Rightarrow> exn + i64 \<times> example_db" where
  "example_put d h sp k v =
     (if h < length d then Inr (of_nat (length v), d[h := (d ! h)((sp, k) \<mapsto> v)])
      else Inl (StdExn ''no such node''))"

definition example_remove :: "example_db \<Rightarrow> nat \<Rightarrow> object_space \<Rightarrow> bytes \<Rightarrow> exn + i64 \<times> example_db" where
  "example_remove d h sp k = Inr (0, d[h := (d ! h)((sp, k) := None)])"

fun example_string :: "message \<Rightarrow> bytes" where
  "example_string (M_multihash mh) = mh_digest mh"
| "example_string (M_u32 w) = [char_of (unat w mod 256)]"
| "example_string (M_value (Value_uint64 n)) = [char_of (unat n mod 256)]"
| "example_string (M_error m) = m"
| "example_string (M_args _) = []"
| "example_string (M_ret _ (V_bytes b)) = b"
| "example_string _ = []"

fun example_value :: "bytes \<Rightarrow> exn + value_type" where
  "example_value [c] = Inr (Value_uint64 (of_nat (of_char c)))"
| "example_value _ = Inl (StdExn ''malformed value'')"

definition example_registry :: "(string \<times> u64) list" where
  "example_registry =
     [(''thunk'', 10), (''object_serialization_per_byte'', 1), (''event_per_impacted'', 2),
      (''deserialize_message_per_byte'', 1), (''sha2_256_base'', 5), (''sha2_256_per_byte'', 1)]"

fun example_codec :: "hash_alg \<Rightarrow> u64" where
  "example_codec sha1 = 17"
| "example_codec sha2_256 = 18"
| "example_codec sha2_512 = 19"
| "example_codec keccak_256 = 27"
| "example_codec ripemd_160 = 4179"

definition example_env :: example_env where
  "example_env =
     \<lparr>err_code = (\<lambda>k. case exn_base_of_class k of base_success \<Rightarrow> 0 | base_reversion \<Rightarrow> 1 | base_failure \<Rightarrow> -1),
      reversion = 1, failure = -1, render = (\<lambda>t _. t), to_int64 = word_of_int,
      syscall_num = example_num, syscall_name = (\<lambda>_. Some ''thunk''), syscall_parse = (\<lambda>_. None),
      space_num = (\<lambda>s. case s of Contract_bytecode \<Rightarrow> 0 | Contract_metadata \<Rightarrow> 1
                        | System_call_dispatch \<Rightarrow> 2 | Metadata \<Rightarrow> 3 | Transaction_nonce \<Rightarrow> 4),
      codec_num = example_codec, as_string = example_string,
      block_byte_size = (\<lambda>_. 100), transaction_byte_size = (\<lambda>_. 10),
      parse_args = (\<lambda>s b. if s = sc_log then A_log b else A_nop), parse_ret = (\<lambda>_ b. V_bytes b),
      to_contract_metadata = (\<lambda>b. Inr (empty_contract_metadata\<lparr>cm_hash := b\<rparr>)),
      to_system_call_target = (\<lambda>_. Inr Target_none),
      to_value = example_value, to_block = (\<lambda>_. Inl (StdExn ''malformed block'')),
      to_max_account_resources = (\<lambda>b. Inr (of_nat (length b))),
      to_resource_limit_data = (\<lambda>_. Inr empty_resource_limit_data),
      to_compute_registry = (\<lambda>_. Inr example_registry),
      to_unsigned_varint = (\<lambda>_. Inr 18), to_authorize_result = (\<lambda>b. Inr (b \<noteq> [])),
      parse_descriptors = (\<lambda>_. Some (\<lambda>_. None)), reflect = example_reflection,
      pb_transaction = (\<lambda>_. (''koinos.protocol.transaction'', [])),
      pb_block = (\<lambda>_. (''koinos.protocol.block'', [])),
      utf_decode = (\<lambda>s. (utf_valid, tl s)),
      crypto_hash = (\<lambda>code b n. \<lparr>mh_code = code, mh_digest = b\<rparr>),
      to_multihash = (\<lambda>b. Inr \<lparr>mh_code = 18, mh_digest = b\<rparr>),
      mh_is_zero = (\<lambda>m. mh_digest m = []), sig_is_canonical = (\<lambda>_. True),
      recover_key = (\<lambda>s m. Inr (hd s # [])), key_valid = (\<lambda>_. True), key_compressed = (\<lambda>k. k),
      key_uncompressed = (\<lambda>k. k), to_public_key = Inr, key_address = (\<lambda>k. k),
      merkle_root_hash = (\<lambda>code hs. \<lparr>mh_code = code, mh_digest = concat (map mh_digest hs)\<rparr>),
      verify_random_proof = (\<lambda>k m p. Inr None),
      node_get = (\<lambda>d h sp k. (d ! h) (sp, k)), node_put = example_put, node_remove = example_remove,
      node_next = (\<lambda>_ _ _ _. None), node_prev = (\<lambda>_ _ _ _. None),
      node_id = (\<lambda>d h. \<lparr>mh_code = 18, mh_digest = [char_of h]\<rparr>),
      node_parent_id = (\<lambda>d h. \<lparr>mh_code = 18, mh_digest = []\<rparr>), node_revision = (\<lambda>d h. of_nat h),
      node_parent = (\<lambda>d h. if h = 0 then None else Some 0), node_delta_entries = (\<lambda>d h. []),
      node_merkle_root = (\<lambda>d h. \<lparr>mh_code = 18, mh_digest = []\<rparr>), node_is_finalized = (\<lambda>d h. True),
      node_create_anonymous = (\<lambda>d h. (length d, d @ [d ! h])), node_commit = (\<lambda>d h. Inr (d[0 := d ! h])),
      db_get_node = (\<lambda>d i. None), db_get_root = (\<lambda>d. 0), db_get_head = (\<lambda>d. 0),
      db_get_fork_heads = (\<lambda>d. [0]), db_get_node_at_revision = (\<lambda>d r i. Inr 0),
      db_create_writable_node = (\<lambda>d p i h. (None, d)), db_finalize_node = (\<lambda>d i. Inr d),
      db_commit_node = (\<lambda>d i. Inr d), db_discard_node = (\<lambda>d i. d),
      fizzy_parse = (\<lambda>b. Inr (Wasm_done False)), fizzy_instantiate = (\<lambda>m n. Inr m),
      fizzy_create_context = (\<lambda>_ _. True), fizzy_has_start = (\<lambda>_. True),
      fizzy_execute = (\<lambda>m t. m t)\<rparr>"

section \<open>Its libraries\<close>

lemma example_field_error:
  "get_field_value example_reflection m fd t = Inl e \<Longrightarrow> \<not> fatal e"
  "repeated_element example_reflection m fd t i = Inl e \<Longrightarrow> \<not> fatal e"
  by (cases t; auto simp: example_reflection_def unexpected_field_type_def kexn_def memory_fault_def split: if_splits)+

lemma collect_sum_error:
  "collect_sum f xs = Inl e \<Longrightarrow> (\<And>x e. f x = Inl e \<Longrightarrow> G e) \<Longrightarrow> G e"
  by (induction xs) (auto split: sum.splits)

lemma example_repeated_error:
  "get_repeated_field_value example_reflection m fd t = Inl e \<Longrightarrow> \<not> fatal e"
  by (auto simp: get_repeated_field_value_def unexpected_field_type_def kexn_def memory_fault_def split: if_splits sum.splits
           dest!: collect_sum_error [where G = "\<lambda>e. \<not> fatal e"]
           dest: example_field_error(2))

lemma example_walk_error:
  "walk_path example_reflection pool m desc path = Inl e \<Longrightarrow> \<not> fatal e"
  by (induction example_reflection pool m desc path rule: walk_path.induct)
     (auto simp: example_reflection_def kexn_def kexn_args_def memory_fault_def split: option.splits if_splits)

lemma example_nested_error:
  "get_nested_field_value example_reflection pool m f = Inl e \<Longrightarrow> \<not> fatal e"
  by (auto simp: get_nested_field_value_def kexn_args_def split: option.splits sum.splits if_splits
           dest: example_walk_error example_repeated_error example_field_error(1))

lemma example_value_error: "example_value b = Inl e \<Longrightarrow> e = StdExn ''malformed value''"
  by (cases b rule: example_value.cases) auto

lemma example_libraries_ok: "libraries_ok example_env"
  unfolding libraries_ok_def
  by (auto simp: library_error_def example_env_def example_put_def example_remove_def split: if_splits
        dest: example_value_error example_nested_error)

lemma example_codes_ok: "codes_ok example_env"
  by (simp add: codes_ok_def example_env_def split: exn_base.split)

lemma example_num_inverse: "registered_thunks ! unat (example_num s) = s"
  by (cases s) (simp_all add: example_num_def registered_thunks_def genesis_thunks_def)

lemma example_numbers_ok: "numbers_ok example_env"
  unfolding numbers_ok_def example_env_def
  by (rule inj_on_inverseI [where g = "\<lambda>w. registered_thunks ! unat w"]) (simp add: example_num_inverse)

section \<open>A context\<close>

definition example_state :: "object_space \<times> bytes \<rightharpoonup> bytes" where
  "example_state =
     [(space_metadata example_env, key_compute_bandwidth_registry example_env) \<mapsto> ''registry'',
      (space_metadata example_env, key_chain_id example_env) \<mapsto> ''chain'',
      (space_metadata example_env, key_block_hash_code example_env) \<mapsto> ''sha2'',
      (space_metadata example_env, key_max_account_resources example_env) \<mapsto> ''12345'']"

definition kernel_frame :: stack_frame where
  "kernel_frame =
     \<lparr>fr_contract_id = [], fr_sid = 0, fr_call_privilege = kernel_mode, fr_call_args = [], fr_entry_point = 0\<rparr>"

definition example_context :: "intent \<Rightarrow> example_ctx" where
  "example_context i =
     (execution_context_new (module_cache_new 32) [example_state] i)
       \<lparr>ec_stack := [kernel_frame], ec_current_state_node := Some 0,
        ec_resource_meter := set_resource_limit_data
          \<lparr>disk_storage_limit = 1000, disk_storage_cost = 10, network_bandwidth_limit = 1000,
           network_bandwidth_cost = 5, compute_bandwidth_limit = 5000, compute_bandwidth_cost = 2\<rparr>
          resource_meter_new\<rparr>"

lemma example_context_simps [simp]:
  "ec_stack (example_context i) = [kernel_frame]" "ec_intent (example_context i) = i"
  "meter_ok (ec_resource_meter (example_context i))" "chronicler_ok (ec_chronicler (example_context i))"
  "is_read_only (example_context Read_only)"
  by (simp_all add: example_context_def execution_context_new_def is_read_only_def)

end
