(* ===== verification/Kernel_Safety.thy ===== *)
theory Kernel_Safety
  imports Kernel_Effects Example_Env
begin

text \<open>
  What holds of every system call and every contract run, whatever contracts do: the call stack is
  balanced and the recursion ends; a read-only context never writes; the meter and the chronicler
  keep their invariants.
\<close>

section \<open>Effects that ignore the stack\<close>

lemma spec_raii:
  assumes "effect P R" and m: "spec P R X m" and d: "spec P R X d" and X: "X Terminated"
  shows "spec P R X (raii m d)"
proof (rule specI)
  fix c r c'' assume P: "P c" and run: "raii m d c = (r, c'')"
  obtain s c' where mc: "m c = (s, c')" by fastforce
  obtain t c2 where dc: "d c' = (t, c2)" by fastforce
  note 1 = specD [OF m P mc]
  then have "P c'" using effect.R_keeps [OF assms(1) P] by blast
  note 2 = specD [OF d this dc]
  have "c'' = c2" and "r = (case t of Inl _ \<Rightarrow> Inl Terminated | Inr _ \<Rightarrow> s)"
    using run mc dc by (auto simp: raii_def split: sum.splits)
  with 1 2 effect.R_trans [OF assms(1) P] X show "R c c'' \<and> (\<forall>e. r = Inl e \<longrightarrow> X e)"
    by (auto split: sum.splits)
qed

locale flat_effect = effect P R X
  for P :: "('d, 'h, 'w) ctx \<Rightarrow> bool"
    and R :: "('d, 'h, 'w) ctx \<Rightarrow> ('d, 'h, 'w) ctx \<Rightarrow> bool"
    and X :: "exn \<Rightarrow> bool" +
  fixes E :: "('d, 'h, 'w) env" and N C :: "'d \<Rightarrow> 'h \<Rightarrow> bool"
  assumes flat_bookkeeping: "P c \<Longrightarrow> bookkeeping c c' \<Longrightarrow> R c c'"
    and flat_ledger: "P c \<Longrightarrow> ledger_step c c' \<Longrightarrow> R c c'"
    and flat_db: "P c \<Longrightarrow> \<not> is_read_only c \<Longrightarrow> write_step E N C (ec_db c) d \<Longrightarrow> R c (c\<lparr>ec_db := d\<rparr>)"
    and flat_node: "P c \<Longrightarrow> N (ec_db c) h \<Longrightarrow> R c (set_state_node E (Some h) p c)"
    and flat_N: "P c \<Longrightarrow> R c c' \<Longrightarrow> N (ec_db c) h \<Longrightarrow> N (ec_db c') h"
    and flat_C: "P c \<Longrightarrow> R c c' \<Longrightarrow> C (ec_db c) h \<Longrightarrow> C (ec_db c') h"
    and flat_current: "P c \<Longrightarrow> ec_current_state_node c = Some h \<Longrightarrow> N (ec_db c) h"
    and flat_anonymous: "N d h \<Longrightarrow> node_create_anonymous E d h = (h', d') \<Longrightarrow> N d' h' \<and> C d' h'"
    and flat_intent: "P c \<Longrightarrow> R c c' \<Longrightarrow> ec_intent c' = ec_intent c"
    and flat_stack: "P c \<Longrightarrow> R c (c\<lparr>ec_stack := s\<rparr>)"
    and flat_throws: "\<not> memory_fault e \<Longrightarrow> X e"
    and flat_library: "library_error E e \<Longrightarrow> X e"

context flat_effect
begin

lemma flat_fuel: "X Out_of_fuel" "X Terminated" "X (kexn n m)"
  by (auto intro!: flat_throws simp: memory_fault_def kexn_def)

lemma flat_push: "spec P R X (push_frame f)"
  unfolding push_frame_def by (intro effect_rules spec_modifyE flat_fuel flat_stack)

lemma flat_pop: "spec P R X pop_frame"
  unfolding pop_frame_def by (intro effect_rules spec_modifyE flat_fuel flat_stack)

lemma flat_with_stack_frame: "spec P R X m \<Longrightarrow> spec P R X (with_stack_frame f m)"
  unfolding with_stack_frame_def by (intro spec_thenE spec_raii [OF effect_axioms] flat_push flat_pop flat_fuel)

lemma flat_set_privilege: "spec P R X (set_privilege p)"
  unfolding set_privilege_def by (intro effect_rules spec_modifyE flat_fuel flat_stack)

lemma flat_get_privilege: "spec P R X get_privilege"
  unfolding get_privilege_def by (intro effect_rules flat_fuel)

lemma flat_with_privilege: "spec P R X m \<Longrightarrow> spec P R X (with_privilege p m)"
  unfolding with_privilege_def by (intro spec_bindE spec_thenE spec_raii [OF effect_axioms] flat_set_privilege flat_get_privilege flat_fuel)

lemma flat_get_caller: "spec P R X thunk_get_caller"
  unfolding thunk_get_caller_def by (intro effect_rules flat_push flat_pop)

lemma flat_host_frame:
  assumes "spec (at_host b P) (rel_host b R) X (m :: ('d, 'h, 'w, unit) mrun)"
  shows "spec (at_host b P) (rel_host b R) X (with_host_frame f m)"
  unfolding with_host_frame_def
  by (intro effect.spec_thenE [OF effect_host [OF effect_axioms]] spec_raii [OF effect_host [OF effect_axioms]]
        spec_host_outer flat_push flat_pop assms flat_fuel)

lemma flat_level:
  assumes "\<And>a. spec P R X (sc a)" "\<And>b k. spec P R X (run b k)"
  shows "vm_effect P R X E sc run N C P"
  by unfold_locales
     (simp_all add: flat_bookkeeping flat_ledger flat_db flat_node flat_N flat_C flat_current flat_anonymous flat_intent flat_throws fatal_def flat_library flat_fuel assms
        flat_with_stack_frame flat_get_caller flat_with_privilege flat_host_frame R_keeps)

end

sublocale flat_effect \<subseteq> ke: kernel_effect E "\<lambda>_. P" "\<lambda>_. P" "\<lambda>_. P" R X N C
  by (rule kernel_effect.intro) (rule spec_throwE flat_fuel flat_level flat_with_stack_frame; assumption?)+

section \<open>Read-only contexts\<close>

definition read_only_rel :: "('d, 'h, 'w) ctx \<Rightarrow> ('d, 'h, 'w) ctx \<Rightarrow> bool" where
  "read_only_rel c c' \<longleftrightarrow>
     ec_intent c' = ec_intent c \<and> (is_read_only c \<longrightarrow> ec_db c' = ec_db c)"

interpretation ro: flat_effect "\<lambda>_. True" read_only_rel "\<lambda>_. True" E any_node any_node for E :: "('d, 'h, 'w) env"
  by unfold_locales
     (auto simp: read_only_rel_def is_read_only_def bookkeeping_simps ledger_step_def set_state_node_def)

text \<open>
  C2.  A read-only context never writes to the state.  Whatever system call is made in it, natively
  or by a contract, with or without overrides, and whether it returns or throws, the state database is
  left as it was, and the context stays read-only.
\<close>

theorem read_only_never_writes:
  assumes "is_read_only c"
  shows "let c' = snd (ksys n E a c) in ec_db c' = ec_db c \<and> is_read_only c'"
proof -
  have "read_only_rel c (snd (ksys n E a c))"
    using ro.ke.sys_spec [of n E a] by (simp add: spec_def)
  with assms show ?thesis by (simp add: read_only_rel_def is_read_only_def Let_def)
qed

theorem read_only_never_writes_witness:
  "let c' = snd (ksys 256 example_env (A_put_object (space_metadata example_env) ''k'' ''v'') (example_context Read_only))
   in ec_db c' = ec_db (example_context Read_only) \<and> is_read_only c'"
  by (rule read_only_never_writes) simp

section \<open>The ledgers\<close>

definition ledgers_ok :: "('d, 'h, 'w) ctx \<Rightarrow> bool" where
  "ledgers_ok c \<longleftrightarrow> meter_ok (ec_resource_meter c) \<and> chronicler_ok (ec_chronicler c)"

definition ledger_rel :: "('d, 'h, 'w) ctx \<Rightarrow> ('d, 'h, 'w) ctx \<Rightarrow> bool" where
  "ledger_rel c c' \<longleftrightarrow>
     ec_intent c' = ec_intent c \<and> ledgers_ok c'
     \<and> (\<exists>new. ch_events (ec_chronicler c') = ch_events (ec_chronicler c) @ new)"

interpretation ledger: flat_effect ledgers_ok ledger_rel "\<lambda>_. True" E any_node any_node for E :: "('d, 'h, 'w) env"
  by unfold_locales
     (auto simp: ledger_rel_def ledgers_ok_def is_read_only_def bookkeeping_simps ledger_step_def set_state_node_def)

text \<open>
  C16.  Metering and chronicling survive anything.  Across any system call, whatever contracts it runs
  and however it ends, the meter never reports more remaining network or compute bandwidth than its
  limits, so that what it reports as used is exact; the events stay consecutively numbered and none
  recorded before is lost or changed.
\<close>

theorem ledgers_survive_system_calls:
  assumes "meter_ok (ec_resource_meter c)" and "chronicler_ok (ec_chronicler c)"
  shows "let c' = snd (ksys n E a c) in
           meter_ok (ec_resource_meter c') \<and> chronicler_ok (ec_chronicler c')
         \<and> (\<exists>new. ch_events (ec_chronicler c') = ch_events (ec_chronicler c) @ new)"
proof -
  have "ledger_rel c (snd (ksys n E a c))"
    using ledger.ke.sys_spec [of n E a] assms by (simp add: spec_def ledgers_ok_def)
  then show ?thesis by (simp add: ledger_rel_def ledgers_ok_def Let_def)
qed

theorem ledgers_survive_system_calls_witness:
  "let c = example_context Transaction_application; c' = snd (ksys 256 example_env (A_log ''hello'') c) in
     meter_ok (ec_resource_meter c') \<and> chronicler_ok (ec_chronicler c')
   \<and> (\<exists>new. ch_events (ec_chronicler c') = ch_events (ec_chronicler c) @ new)"
  using ledgers_survive_system_calls [of "example_context Transaction_application"]
  by (simp add: Let_def)

section \<open>The call stack\<close>

definition stack_rel :: "('d, 'h, 'w) ctx \<Rightarrow> ('d, 'h, 'w) ctx \<Rightarrow> bool" where
  "stack_rel c c' \<longleftrightarrow> ec_stack c' = ec_stack c \<and> ec_intent c' = ec_intent c"

definition ends :: "exn \<Rightarrow> bool" where
  "ends e \<longleftrightarrow> e \<noteq> Out_of_fuel \<and> e \<noteq> Terminated"

text \<open>The depths at which level \<open>n\<close> is entered: at least \<open>lo\<close> frames, and room left for \<open>n\<close> more levels.\<close>

definition depth :: "nat \<Rightarrow> nat \<Rightarrow> nat \<Rightarrow> ('d, 'h, 'w) ctx \<Rightarrow> bool" where
  "depth lo slack n c \<longleftrightarrow>
     lo \<le> length (ec_stack c) \<and> length (ec_stack c) \<le> stack_limit \<and> stack_limit + slack \<le> n + length (ec_stack c)"

lemma stack_frame_rule:
  assumes m: "spec P' stack_rel ends m"
    and P': "\<And>c. P c \<Longrightarrow> length (ec_stack c) < stack_limit \<Longrightarrow> P' (c\<lparr>ec_stack := f # ec_stack c\<rparr>)"
  shows "spec P stack_rel ends (with_stack_frame f m)"
proof (rule specI)
  fix c r c' assume P: "P c" and run: "with_stack_frame f m c = (r, c')"
  show "stack_rel c c' \<and> (\<forall>e. r = Inl e \<longrightarrow> ends e)"
  proof (cases "length (ec_stack c) < stack_limit")
    case False
    with run show ?thesis
      by (auto simp: with_stack_frame_def push_frame_def thenE_def bindE_def guardE_def stack_rel_def
            ends_def kexn_def)
  next
    case True
    let ?c = "c\<lparr>ec_stack := f # ec_stack c\<rparr>"
    obtain s c1 where mc: "m ?c = (s, c1)" by fastforce
    have "stack_rel ?c c1 \<and> (\<forall>e. s = Inl e \<longrightarrow> ends e)" by (rule specD [OF m P' [OF P True] mc])
    with run True mc show ?thesis
      by (auto simp: with_stack_frame_def push_frame_def thenE_def bindE_def guardE_def modifyE_def raii_def
            pop_frame_def getE_def returnE_def stack_rel_def)
  qed
qed

lemma host_frame_rule:
  fixes m :: "('d, 'h, 'w, unit) mrun"
  assumes m: "spec (at_host b P') (rel_host b stack_rel) ends m"
    and P': "\<And>c. P c \<Longrightarrow> length (ec_stack c) < stack_limit \<Longrightarrow> P' (c\<lparr>ec_stack := f # ec_stack c\<rparr>)"
  shows "spec (at_host b P) (rel_host b stack_rel) ends (with_host_frame f m)"
proof (rule specI)
  fix lc r lc' assume P: "at_host b P lc" and run: "with_host_frame f m lc = (r, lc')"
  obtain mem c where lc: "lc = (mem, c)" by fastforce
  show "rel_host b stack_rel lc lc' \<and> (\<forall>e. r = Inl e \<longrightarrow> ends e)"
  proof (cases "length (ec_stack c) < stack_limit")
    case False
    with run lc show ?thesis
      by (auto simp: with_host_frame_def push_frame_def thenE_def bindE_def guardE_def outerE_def stack_rel_def
            ends_def kexn_def rel_host_def confined_refl)
  next
    case True
    let ?c = "c\<lparr>ec_stack := f # ec_stack c\<rparr>"
    obtain s mem1 c1 where mc: "m (mem, ?c) = (s, (mem1, c1))" by (metis prod.collapse)
    have "confined b mem mem1 \<and> stack_rel ?c c1 \<and> (\<forall>e. s = Inl e \<longrightarrow> ends e)"
      using specD [OF m _ mc] P' [OF _ True] P lc by (simp add: at_host_def rel_host_def)
    with run lc True mc show ?thesis
      by (auto simp: rel_host_def with_host_frame_def push_frame_def thenE_def bindE_def guardE_def modifyE_def raii_def
            outerE_def pop_frame_def getE_def returnE_def stack_rel_def)
  qed
qed

lemma effect_stack: "effect (depth lo slack n) stack_rel"
  by unfold_locales (auto simp: stack_rel_def depth_def)

lemma stack_privilege_rule:
  assumes m: "spec (depth lo slack n) stack_rel ends m" and "0 < lo"
  shows "spec (depth lo slack n) stack_rel ends (with_privilege p m)"
proof (rule specI)
  fix c r c' assume P: "depth lo slack n c" and run: "with_privilege p m c = (r, c')"
  from P \<open>0 < lo\<close> obtain f fs where st: "ec_stack c = f # fs" by (cases "ec_stack c") (auto simp: depth_def)
  let ?c = "c\<lparr>ec_stack := f\<lparr>fr_call_privilege := p\<rparr> # fs\<rparr>"
  obtain s c1 where mc: "m ?c = (s, c1)" by fastforce
  have "depth lo slack n ?c" using P st by (simp add: depth_def)
  from specD [OF m this mc] have "stack_rel ?c c1 \<and> (\<forall>e. s = Inl e \<longrightarrow> ends e)" .
  with run st mc show "stack_rel c c' \<and> (\<forall>e. r = Inl e \<longrightarrow> ends e)"
    by (auto simp: with_privilege_def get_privilege_def set_privilege_def thenE_def bindE_def guardE_def
          modifyE_def raii_def getE_def stack_rel_def)
qed

lemma stack_get_caller_rule: "spec (depth 2 slack n) stack_rel ends thunk_get_caller"
proof (rule specI)
  fix c r c' assume P: "depth 2 slack n c" and run: "thunk_get_caller c = (r, c')"
  from P obtain f0 f1 fs where st: "ec_stack c = f0 # f1 # fs"
    by (cases "ec_stack c"; cases "tl (ec_stack c)") (auto simp: depth_def)
  have "length fs < stack_limit" "Suc (length fs) < stack_limit"
    using P st by (simp_all add: depth_def)
  with run st show "stack_rel c c' \<and> (\<forall>e. r = Inl e \<longrightarrow> ends e)"
    by (auto simp: thunk_get_caller_def pop_frame_def push_frame_def thenE_def bindE_def guardE_def
          modifyE_def getE_def returnE_def stack_rel_def)
qed

lemma stack_level:
  assumes E: "libraries_ok E"
    and sys: "\<And>a. spec (depth 1 1 n) stack_rel ends (sc a)"
    and vm: "\<And>b k. spec (depth 3 2 n) stack_rel ends (run b k)"
  shows "vm_effect (depth 2 1 n) stack_rel ends E sc run any_node any_node (depth 3 2 (Suc n))"
proof -
  have sc: "spec (depth 2 1 n) stack_rel ends (sc a)" for a
    by (rule spec_weaken [OF sys]) (simp add: depth_def)
  have run: "spec (depth 2 1 n) stack_rel ends (with_stack_frame f (run b k))" for f b k
    by (rule stack_frame_rule [OF vm]) (simp add: depth_def)
  have host: "spec (at_host b (depth 3 2 (Suc n))) (rel_host b stack_rel) ends (with_host_frame f m)"
    if "spec (at_host b (depth 2 1 n)) (rel_host b stack_rel) ends (m :: (_, _, _, unit) mrun)" for b f m
    by (rule host_frame_rule [OF that]) (simp add: depth_def)
  have lib: "ends e" if "library_error E e" for e using E that by (auto simp: libraries_ok_def ends_def fatal_def)
  have utf: "validate_utf E s \<noteq> None" for s by (rule validate_utf_total [OF E])
  show ?thesis
    by (intro vm_effect.intro thunk_effect.intro effect_stack thunk_effect_axioms.intro
          vm_effect_axioms.intro sc run host stack_get_caller_rule stack_privilege_rule)
       (use utf lib in \<open>auto simp: stack_rel_def bookkeeping_simps ledger_step_def set_state_node_def depth_def ends_def fatal_def\<close>)
qed

lemma stack_kernel_effect:
  assumes "libraries_ok E"
  shows "kernel_effect E (depth 1 1) (depth 2 1) (depth 3 2) stack_rel ends any_node any_node"
proof (rule kernel_effect.intro)
  fix n :: nat and m :: "('a, 'b, 'c, sc_ret) run" and f
  assume m: "spec (depth 2 1 n) stack_rel ends m"
  show "spec (depth 1 1 (Suc n)) stack_rel ends (with_stack_frame f m)"
    by (rule stack_frame_rule [OF m]) (simp add: depth_def)
next
  show "spec (depth 1 1 0) stack_rel ends (throwE Out_of_fuel :: ('a, 'b, 'c, sc_ret) run)"
    "spec (depth 3 2 0) stack_rel ends (throwE Out_of_fuel :: ('a, 'b, 'c, unit) run)"
    by (auto simp: spec_def depth_def)
qed (rule stack_level [OF assms])

text \<open>
  C1.  System calls always come back, with the stack they were called on.  Calls nest through native
  thunks, contracts and overrides without bound in the code; the limit of 256 stack frames is what
  stops them.  From a stack of at least one frame, 256 levels of nesting cover every execution: the
  model's fuel never runs out, no guard's destructor throws, and call stack and intent are
  unchanged afterwards, whether the call returned or threw.
\<close>

theorem system_calls_return_with_balanced_stack:
  assumes "libraries_ok E" and "1 \<le> length (ec_stack c)" and "length (ec_stack c) \<le> stack_limit"
    and "stack_limit \<le> n"
  shows "case ksys n E a c of (r, c') \<Rightarrow>
           r \<noteq> Inl Out_of_fuel \<and> r \<noteq> Inl Terminated
         \<and> ec_stack c' = ec_stack c \<and> ec_intent c' = ec_intent c"
proof -
  have d: "depth 1 1 n c" using assms by (simp add: depth_def)
  obtain r c' where run: "ksys n E a c = (r, c')" by fastforce
  from specD [OF kernel_effect.sys_spec [OF stack_kernel_effect [OF assms(1)]] d run]
  show ?thesis using run by (auto simp: stack_rel_def ends_def)
qed

theorem system_calls_return_with_balanced_stack_witness:
  "case ksys 256 example_env A_get_caller (example_context Read_only) of (r, c') \<Rightarrow>
     r \<noteq> Inl Out_of_fuel \<and> r \<noteq> Inl Terminated
   \<and> ec_stack c' = ec_stack (example_context Read_only) \<and> ec_intent c' = ec_intent (example_context Read_only)"
  by (rule system_calls_return_with_balanced_stack [OF example_libraries_ok]) (simp_all add: stack_limit_def)

end
