(* ===== verification/Native_Calls.thy ===== *)
theory Native_Calls
  imports Kernel_Safety
begin

text \<open>
  Nonces protect against replays: what \<open>verify_account_nonce\<close> answers once \<open>set_account_nonce\<close> has stored a
  nonce, through the whole path of the system calls.  The calls are native ones here: a contract that overrides
  one of them may do anything.
\<close>

section \<open>Native calls\<close>

definition native_entry :: "u32 \<Rightarrow> system_call_entry" where
  "native_entry sid = Thunk_entry \<lparr>tb_thunk_id = sid, tb_is_override = False\<rparr>"

text \<open>The call is bound to its thunk in the context's table, or it is not in the table and has no entry in the parent node.\<close>

definition native :: "('d, 'h, 'w) env \<Rightarrow> syscall \<Rightarrow> ('d, 'h, 'w) ctx \<Rightarrow> bool" where
  "native E s c \<longleftrightarrow>
     (case cache_system_call_table (ec_cache c) (syscall_num E s) of
        Some entry \<Rightarrow> entry = native_entry (syscall_num E s)
      | None \<Rightarrow> (\<forall>p. get_parent_node c = Some p \<longrightarrow>
          node_get E (ec_db c) p (space_system_call_dispatch E) (as_string E (M_u32 (syscall_num E s))) = None))"

text \<open>What reading and charging do: the database and the node stay, and native calls stay native.\<close>

definition quiet :: "('d, 'h, 'w) env \<Rightarrow> ('d, 'h, 'w) ctx \<Rightarrow> ('d, 'h, 'w) ctx \<Rightarrow> bool" where
  "quiet E c c' \<longleftrightarrow>
     ec_db c' = ec_db c \<and> ec_current_state_node c' = ec_current_state_node c
     \<and> ec_parent_state_node c' = ec_parent_state_node c \<and> (\<forall>s. native E s c \<longrightarrow> native E s c')"

interpretation qt: effect "\<lambda>_. True" "quiet E" "\<lambda>_. True" for E :: "('d, 'h, 'w) env"
  by unfold_locales (auto simp: quiet_def)

abbreviation quietly :: "('d, 'h, 'w) env \<Rightarrow> ('d, 'h, 'w, 'a) run \<Rightarrow> bool" where
  "quietly E m \<equiv> spec (\<lambda>_. True) (quiet E) (\<lambda>_. True) m"

lemma quietlyD: "quietly E m \<Longrightarrow> m c = (r, c') \<Longrightarrow> quiet E c c'"
  by (blast dest: specD)

lemma get_parent_node_cong:
  "ec_current_state_node c' = ec_current_state_node c \<Longrightarrow> ec_parent_state_node c' = ec_parent_state_node c \<Longrightarrow>
   get_parent_node c' = get_parent_node c"
  by (simp add: get_parent_node_def cong: option.case_cong)

lemma native_cong:
  assumes "ec_db c' = ec_db c" "ec_current_state_node c' = ec_current_state_node c" "ec_parent_state_node c' = ec_parent_state_node c"
    and "cache_system_call_table (ec_cache c') = cache_system_call_table (ec_cache c)"
  shows "native E s c' = native E s c"
  unfolding native_def using assms(1,4) get_parent_node_cong [OF assms(2,3)] by (simp cong: option.case_cong)

lemma quietI:
  "ec_db c' = ec_db c \<Longrightarrow> ec_current_state_node c' = ec_current_state_node c \<Longrightarrow>
   ec_parent_state_node c' = ec_parent_state_node c \<Longrightarrow>
   cache_system_call_table (ec_cache c') = cache_system_call_table (ec_cache c) \<Longrightarrow> quiet E c c'"
  using native_cong [of c' c E] by (simp add: quiet_def)

lemma quietly_stack: "quietly E (push_frame f)" "quietly E pop_frame"
  unfolding push_frame_def pop_frame_def
  by (intro qt.effect_rules qt.spec_modifyE TrueI quietI; simp)+

lemma quietly_meter:
  fixes E :: "('d, 'h, 'w) env"
  shows "quietly E (meter_op f)"
proof (rule specI)
  fix c c' :: "('d, 'h, 'w) ctx" and r assume "meter_op f c = (r, c')"
  moreover obtain ss where "store_session (rm_session (ec_resource_meter c)) s c = c\<lparr>ec_sessions := ss s\<rparr>" for s
    using store_session_eq [of "rm_session (ec_resource_meter c)" _ c] by metis
  ultimately show "quiet E c c' \<and> (\<forall>e. r = Inl e \<longrightarrow> True)"
    by (auto simp: meter_op_def Let_def split: sum.splits prod.splits intro!: quietI)
qed

text \<open>Looking a call up in the table: a native call is then bound to its thunk, and no binding changes.\<close>

lemma cache_system_call_run:
  assumes "cache_system_call E sid c = (r, c')"
  shows "quiet E c c'" and "r = Inr u \<Longrightarrow> sid = syscall_num E s \<Longrightarrow> native E s c \<Longrightarrow>
      cache_system_call_table (ec_cache c') sid = Some (native_entry sid)"
proof -
  let ?t = "cache_system_call_table (ec_cache c)"
  have same: "c' = c \<or> (\<exists>p e. get_parent_node c = Some p \<and> ?t sid = None
      \<and> c' = c\<lparr>ec_cache := (ec_cache c)\<lparr>cache_system_call_table := ?t(sid \<mapsto> e)\<rparr>\<rparr>
      \<and> (node_get E (ec_db c) p (space_system_call_dispatch E) (as_string E (M_u32 sid)) = None \<longrightarrow> e = native_entry sid))"
    using assms
    by (auto simp: cache_system_call_def cache_contract_call_def cache_entry_def need_parent_node_def bindE_def getE_def someE_def
        liftE_def modifyE_def returnE_def throwE_def native_entry_def
        split: option.splits sum.splits if_splits system_call_target.splits)
  then show "quiet E c c'"
  proof (elim disjE exE conjE)
    fix p e
    assume p: "get_parent_node c = Some p" and t: "?t sid = None"
      and c': "c' = c\<lparr>ec_cache := (ec_cache c)\<lparr>cache_system_call_table := ?t(sid \<mapsto> e)\<rparr>\<rparr>"
      and e: "node_get E (ec_db c) p (space_system_call_dispatch E) (as_string E (M_u32 sid)) = None \<longrightarrow> e = native_entry sid"
    have "get_parent_node c' = Some p" using p get_parent_node_cong [of c' c] by (simp add: c')
    with p t e show ?thesis
      by (auto simp: quiet_def c' native_def split: option.splits)
  qed (simp add: quiet_def)
  assume r: "r = Inr u" and sid: "sid = syscall_num E s" and native: "native E s c"
  from assms r obtain p where "get_parent_node c = Some p"
    by (auto simp: cache_system_call_def need_parent_node_def bindE_def getE_def someE_def throwE_def split: option.splits)
  with assms r sid native show "cache_system_call_table (ec_cache c') sid = Some (native_entry sid)"
    by (auto simp: cache_system_call_def cache_entry_def need_parent_node_def bindE_def getE_def someE_def returnE_def
        modifyE_def native_entry_def native_def split: option.splits if_splits)
qed

lemma quietly_cache: "quietly E (cache_system_call E sid)"
  by (rule specI) (simp add: cache_system_call_run(1))

lemma quietly_compute: "quietly E (get_compute_bandwidth E name)"
  unfolding get_compute_bandwidth_def build_compute_registry_cache_def need_parent_node_def
  by (intro qt.effect_rules qt.spec_liftE qt.spec_modifyE TrueI quietI; simp)

lemma quietly_charge: "quietly E (charge_thunk E tid)" "quietly E (charge_serialization E obj)" "quietly E (charge_disk E bytes)"
  unfolding charge_thunk_def charge_serialization_def charge_compute_def charge_disk_def
  by (intro qt.effect_rules quietly_compute quietly_meter TrueI)+

text \<open>A native call is not overridden, and translates to its own thunk.\<close>

lemma native_exists:
  assumes "native E s c" and "system_call_exists E (syscall_num E s) c = (Inr b, c')"
  shows "\<not> b \<and> quiet E c c'"
proof -
  from assms(2) obtain u where cache: "cache_system_call E (syscall_num E s) c = (Inr u, c')"
      and b: "b = (case cache_system_call_table (ec_cache c') (syscall_num E s) of Some (Contract_entry x) \<Rightarrow> True | _ \<Rightarrow> False)"
    by (auto simp: system_call_exists_def getE_def dest!: thenE_InrD)
  from cache_system_call_run(2) [OF cache refl refl assms(1)] b cache_system_call_run(1) [OF cache] show ?thesis
    by (simp add: native_entry_def)
qed

lemma native_translation:
  assumes "native E s c" and "thunk_translation E (syscall_num E s) c = (Inr tid, c')"
  shows "tid = syscall_num E s \<and> quiet E c c'"
proof -
  from assms(2) obtain u where cache: "cache_system_call E (syscall_num E s) c = (Inr u, c')"
    by (auto simp: thunk_translation_def getE_def dest!: thenE_InrD bindE_InrD split: option.splits system_call_entry.splits)
       (auto simp: returnE_def throwE_def assertE_def thenE_def bindE_def split: if_splits)
  with assms(2) cache_system_call_run(2) [OF cache refl refl assms(1)] cache_system_call_run(1) [OF cache] show ?thesis
    by (auto simp: thunk_translation_def thenE_def bindE_def getE_def native_entry_def assertE_def returnE_def throwE_def
        split: if_splits)
qed

text \<open>A native call that returns has run its thunk, with nothing but bookkeeping before and after.\<close>

lemma native_call_runs_thunk:
  assumes E: "numbers_ok E" and native: "native E (sc_of a) c" and run: "system_call E sc vm a c = (Inr r, c')"
  shows "\<exists>c1 c2. quiet E c c1 \<and> thunk E sc vm a c1 = (Inr r, c2) \<and> quiet E c2 c'"
proof -
  let ?sid = "syscall_num E (sc_of a)"
  let ?body = "bindE (system_call_exists E ?sid) (\<lambda>overridden.
      if overridden then invoke_override E vm a else invoke_native E sc vm a)"
  from run obtain u c0 c3 where push: "push_frame (system_frame ?sid) c = (Inr u, c0)"
      and body: "?body c0 = (Inr r, c3)" and pop: "snd (pop_frame c3) = c'"
    by (auto simp: system_call_def with_stack_frame_def raii_def dest!: thenE_InrD split: prod.splits sum.splits)
  note 0 = quietlyD [OF quietly_stack(1) push]
  from body obtain b c1 where ex: "system_call_exists E ?sid c0 = (Inr b, c1)"
      and rest: "(if b then invoke_override E vm a else invoke_native E sc vm a) c1 = (Inr r, c3)"
    by (auto dest: bindE_InrD)
  from 0 native have "native E (sc_of a) c0" by (simp add: quiet_def)
  note 1 = native_exists [OF this ex]
  with rest obtain tid c2 u3 c4 where tr: "thunk_translation E ?sid c1 = (Inr tid, c2)"
      and charge: "charge_thunk E tid c2 = (Inr u3, c4)" and th: "call_thunk_typed E sc vm tid a c4 = (Inr r, c3)"
    by (auto simp: invoke_native_def dest!: bindE_InrD thenE_InrD)
  from 0 1 native have "native E (sc_of a) c1" by (simp add: quiet_def)
  note 2 = native_translation [OF this tr]
  with th have "thunk E sc vm a c4 = (Inr r, c3)" by (simp add: call_thunk_typed_def thunk_lookup_num [OF E])
  moreover have "quiet E c c4" using 0 1 2 quietlyD [OF quietly_charge(1) charge] by (simp add: quiet_def)
  moreover have "quiet E c3 c'" using quietlyD [OF quietly_stack(2)] pop by (metis prod.collapse)
  ultimately show ?thesis by blast
qed

lemma native_kernel_call:
  assumes "numbers_ok E" and "native E (sc_of a) c" and "ksys n E a c = (Inr r, c')"
  shows "\<exists>m c1 c2. quiet E c c1 \<and> thunk E (ksys m E) (kvm m E) a c1 = (Inr r, c2) \<and> quiet E c2 c'"
proof (cases n)
  case 0
  with assms(3) show ?thesis by (simp add: throwE_def)
next
  case (Suc m)
  with native_call_runs_thunk [OF assms(1,2)] assms(3) show ?thesis by fastforce
qed

lemma quiet_trans: "quiet E c c1 \<Longrightarrow> quiet E c1 c2 \<Longrightarrow> quiet E c c2"
  by (simp add: quiet_def)

section \<open>Objects\<close>

text \<open>
  What is relied on in the state database: an object that was put is found in its node, and putting an object changes
  no other object of any node.
\<close>

definition puts_one_object :: "('d, 'h, 'w) env \<Rightarrow> bool" where
  "puts_one_object E \<longleftrightarrow>
     (\<forall>d h sp key obj n d'. node_put E d h sp key obj = Inr (n, d') \<longrightarrow>
        node_get E d' h sp key = Some obj
        \<and> (\<forall>h' sp' key'. (sp', key') \<noteq> (sp, key) \<longrightarrow> node_get E d' h' sp' key' = node_get E d h' sp' key'))"

lemma quietly_permissions: "quietly E (assert_permissions sp)" "quietly E need_kernel_mode" "quietly E (need_writable msg)"
  "quietly E checked_state_node"
  unfolding assert_permissions_def need_kernel_mode_def need_writable_def checked_state_node_def
  by (intro qt.effect_rules TrueI)+

text \<open>What \<open>get_object\<close> answers for an object of a node.\<close>

definition found :: "bytes option \<Rightarrow> database_object" where
  "found obj = (case obj of None \<Rightarrow> empty_database_object | Some v \<Rightarrow> \<lparr>do_exists = True, do_value = v, do_key = []\<rparr>)"

lemma native_get_object:
  assumes "numbers_ok E" and "native E sc_get_object c" and "ksys n E (A_get_object sp key) c = (Inr r, c')"
  shows "quiet E c c' \<and> (\<exists>h. ec_current_state_node c = Some h \<and> r = V_object (found (node_get E (ec_db c) h sp key)))"
proof -
  obtain c1 c2 where 1: "quiet E c c1" and run: "thunk_get_object E sp key c1 = (Inr r, c2)" and 2: "quiet E c2 c'"
    using native_kernel_call [OF assms(1) _ assms(3)] assms(2) by auto
  from run obtain u c3 h where perm: "assert_permissions sp c1 = (Inr u, c3)"
      and h: "ec_current_state_node c3 = Some h"
      and read: "(case node_get E (ec_db c3) h sp key of None \<Rightarrow> returnE (V_object empty_database_object)
        | Some v \<Rightarrow> thenE (charge_serialization E v) (returnE (V_object \<lparr>do_exists = True, do_value = v, do_key = []\<rparr>))) c3
        = (Inr r, c2)"
    by (auto simp: thunk_get_object_def checked_state_node_def getE_def someE_def returnE_def throwE_def
        dest!: thenE_InrD bindE_InrD split: option.splits)
  note 3 = quiet_trans [OF 1 quietlyD [OF quietly_permissions(1) perm]]
  from read have "quiet E c3 c2 \<and> r = V_object (found (node_get E (ec_db c3) h sp key))"
    by (auto simp: found_def returnE_def dest!: thenE_InrD split: option.splits dest: quietlyD [OF quietly_charge(2)] intro: qt.R_refl)
  with 2 3 h show ?thesis by (auto simp: quiet_def intro!: exI [of _ h])
qed

lemma native_put_object:
  assumes E: "numbers_ok E" "puts_one_object E" and native: "native E sc_put_object c"
    and sp: "sp \<noteq> space_system_call_dispatch E" and run: "ksys n E (A_put_object sp key obj) c = (Inr r, c')"
  shows "\<exists>h. ec_current_state_node c = Some h \<and> ec_current_state_node c' = Some h
    \<and> (\<forall>sp' key'. node_get E (ec_db c') h sp' key' =
         (if (sp', key') = (sp, key) then Some obj else node_get E (ec_db c) h sp' key'))
    \<and> (\<forall>s. native E s c \<longrightarrow> native E s c')"
proof -
  obtain c1 c2 where 1: "quiet E c c1" and run: "thunk_put_object E sp key obj c1 = (Inr r, c2)" and 2: "quiet E c2 c'"
    using native_kernel_call [OF E(1) _ run] native by auto
  from run obtain u3 c3 u4 c4 u5 c5 h bytes d u6 where steps: "need_writable ''cannot put object during read only call'' c1 = (Inr u3, c3)"
      "charge_serialization E obj c3 = (Inr u4, c4)" "assert_permissions sp c4 = (Inr u5, c5)"
      and h: "ec_current_state_node c5 = Some h" and put: "node_put E (ec_db c5) h sp key obj = Inr (bytes, d)"
      and disk: "charge_disk E bytes (c5\<lparr>ec_db := d\<rparr>) = (Inr u6, c2)"
    by (auto simp: thunk_put_object_def checked_state_node_def node_write_def getE_def someE_def returnE_def throwE_def
        dest!: thenE_InrD bindE_InrD split: option.splits sum.splits prod.splits)
  have 5: "quiet E c c5"
    using 1 quietlyD [OF quietly_permissions(3) steps(1)] quietlyD [OF quietly_charge(2) steps(2)]
      quietlyD [OF quietly_permissions(1) steps(3)] by (blast intro: quiet_trans)
  have d: "node_get E d h sp' key' = (if (sp', key') = (sp, key) then Some obj else node_get E (ec_db c5) h sp' key')"
      "node_get E d h' (space_system_call_dispatch E) k = node_get E (ec_db c5) h' (space_system_call_dispatch E) k" for h' k sp' key'
    using E(2) [unfolded puts_one_object_def, rule_format, OF put] sp by auto
  have "get_parent_node (c5\<lparr>ec_db := d\<rparr>) = get_parent_node c5" by (rule get_parent_node_cong) simp_all
  then have native: "native E s (c5\<lparr>ec_db := d\<rparr>) = native E s c5" for s
    by (simp add: native_def d(2) cong: option.case_cong)
  have "quiet E (c5\<lparr>ec_db := d\<rparr>) c'" using quietlyD [OF quietly_charge(3) disk] 2 by (rule quiet_trans)
  with 5 h d(1) native show ?thesis by (intro exI [of _ h]) (auto simp: quiet_def)
qed

text \<open>
  C18. What is put is what is read.  After \<open>put_object\<close> has returned, \<open>get_object\<close> answers with the object
  that was put for its space and key, and for every other space and key with what the current node held before: a
  round trip through the system calls.  The two calls are not overridden, the object is not a binding of a system
  call, and the state database keeps what is put into it.
\<close>

theorem stored_object_is_read_back:
  assumes "numbers_ok E" and "puts_one_object E" and "native E sc_put_object c" and "native E sc_get_object c"
    and "sp \<noteq> space_system_call_dispatch E"
    and "ksys n E (A_put_object sp key obj) c = (Inr r, c')" and "ksys m E (A_get_object sp' key') c' = (Inr r', c'')"
  shows "\<exists>node. ec_current_state_node c = Some node
    \<and> r' = V_object (found (if (sp', key') = (sp, key) then Some obj else node_get E (ec_db c) node sp' key'))"
  using native_put_object [OF assms(1-3,5,6)] native_get_object [OF assms(1) _ assms(7)] assms(4) by fastforce

section \<open>Nonces\<close>

definition nonce_calls :: "syscall list" where
  "nonce_calls = [sc_set_account_nonce, sc_put_object, sc_verify_account_nonce, sc_get_account_nonce, sc_get_object]"

lemma native_get_nonce:
  assumes E: "numbers_ok E" and native: "\<forall>s\<in>set nonce_calls. native E s c"
    and h: "ec_current_state_node c = Some h" and stored: "node_get E (ec_db c) h (space_transaction_nonce E) a = Some nonce"
    and run: "ksys n E (A_get_account_nonce a) c = (Inr r, c')"
  shows "r = V_bytes nonce"
proof -
  obtain m c1 c2 where 1: "quiet E c c1" and run: "thunk_get_account_nonce E (ksys m E) a c1 = (Inr r, c2)"
    using native_kernel_call [OF E _ run] native by (auto simp: nonce_calls_def)
  from run obtain v where "ksys m E (A_get_object (space_transaction_nonce E) a) c1 = (Inr v, c2)"
      and r: "r = V_bytes (if do_exists (v_object v) then do_value (v_object v) else as_string E (M_value (Value_uint64 0)))"
    by (auto simp: thunk_get_account_nonce_def sc_get_def returnE_def dest!: bindE_InrD)
  with native_get_object [OF E _ this(1)] 1 native h stored show ?thesis by (auto simp: quiet_def nonce_calls_def found_def)
qed

lemma native_verify_nonce:
  assumes E: "numbers_ok E" and native: "\<forall>s\<in>set nonce_calls. native E s c"
    and h: "ec_current_state_node c = Some h" and stored: "node_get E (ec_db c) h (space_transaction_nonce E) a = Some nonce"
    and run: "ksys n E (A_verify_account_nonce a nonce') c = (Inr r, c')"
  shows "\<exists>x y. to_value E nonce = Inr (Value_uint64 x) \<and> to_value E nonce' = Inr (Value_uint64 y) \<and> r = V_bool (y = x + 1)"
proof -
  have uint: "uint64_value v = Some x \<Longrightarrow> v = Value_uint64 x" for v x by (cases v) simp_all
  obtain m c1 c2 where 1: "quiet E c c1" and run: "thunk_verify_account_nonce E (ksys m E) a nonce' c1 = (Inr r, c2)"
    using native_kernel_call [OF E _ run] native by (auto simp: nonce_calls_def)
  from run obtain v y r' c3 w x where to: "to_value E nonce' = Inr v" "uint64_value v = Some y"
      and get: "ksys m E (A_get_account_nonce a) c1 = (Inr r', c3)"
      and cur: "to_value E (v_bytes r') = Inr w" "uint64_value w = Some x" and r: "r = V_bool (y = x + 1)"
    by (auto simp: thunk_verify_account_nonce_def liftE_def someE_def returnE_def throwE_def dest!: bindE_InrD split: option.splits)
  have "r' = V_bytes nonce"
    by (rule native_get_nonce [OF E _ _ _ get]) (use 1 native h stored in \<open>auto simp: quiet_def\<close>)
  with to cur r uint show ?thesis by auto
qed

lemma native_set_nonce:
  assumes E: "numbers_ok E" "puts_one_object E" and spaces: "space_transaction_nonce E \<noteq> space_system_call_dispatch E"
    and native: "\<forall>s\<in>set nonce_calls. native E s c" and run: "ksys n E (A_set_account_nonce a nonce) c = (Inr r, c')"
  shows "\<exists>h. ec_current_state_node c' = Some h \<and> node_get E (ec_db c') h (space_transaction_nonce E) a = Some nonce
      \<and> (\<forall>s\<in>set nonce_calls. native E s c')"
proof -
  obtain m c1 c2 where 1: "quiet E c c1" and run: "thunk_set_account_nonce E (ksys m E) a nonce c1 = (Inr r, c2)"
      and 2: "quiet E c2 c'"
    using native_kernel_call [OF E(1) _ run] native by (auto simp: nonce_calls_def)
  from run obtain u c3 v where "need_kernel_mode c1 = (Inr u, c3)"
      and put: "ksys m E (A_put_object (space_transaction_nonce E) a nonce) c3 = (Inr v, c2)"
    by (auto simp: thunk_set_account_nonce_def liftE_def assertE_def returnE_def throwE_def dest!: thenE_InrD bindE_InrD split: if_splits)
  with 1 have 3: "quiet E c c3" by (blast intro: quiet_trans quietlyD [OF quietly_permissions(2)])
  with native have n3: "\<forall>s\<in>set nonce_calls. native E s c3" by (simp add: quiet_def)
  then have "native E sc_put_object c3" by (simp add: nonce_calls_def)
  from native_put_object [OF E this spaces put] 2 n3 show ?thesis by (auto simp: quiet_def)
qed

text \<open>
  C10. A nonce that has been used is spent.  Once \<open>set_account_nonce\<close> has returned for an account, the next answer of
  \<open>verify_account_nonce\<close> for that account is true exactly for the following number, at 64 bits; in particular it
  is false for the nonce that was stored, so that a transaction whose nonce was recorded does not pass the check again.
  The calls involved are not overridden, and the state database keeps what is put into it.
\<close>

theorem spent_nonce_is_refused:
  assumes "numbers_ok E" and "puts_one_object E" and "space_transaction_nonce E \<noteq> space_system_call_dispatch E"
    and "\<forall>s\<in>set nonce_calls. native E s c"
    and "ksys n E (A_set_account_nonce a nonce) c = (Inr r, c')"
    and "ksys m E (A_verify_account_nonce a nonce') c' = (Inr r', c'')"
  shows "\<exists>x y. to_value E nonce = Inr (Value_uint64 x) \<and> to_value E nonce' = Inr (Value_uint64 y)
    \<and> r' = V_bool (y = x + 1) \<and> (nonce' = nonce \<longrightarrow> r' = V_bool False)"
  using native_set_nonce [OF assms(1-5)] native_verify_nonce [OF assms(1) _ _ _ assms(6)] by force

lemma nth_beyond: "length xs \<le> n \<Longrightarrow> xs ! n = [] ! (n - length xs)"
  by (induction xs arbitrary: n) (auto simp: nth_Cons split: nat.split)

lemma example_node_get: "node_get example_env d h sp key = (d ! h) (sp, key)"
  by (simp add: example_env_def)

lemma example_puts_one_object: "puts_one_object example_env"
proof -
  have "(d[h := (d ! h)((sp, key) \<mapsto> obj)] ! h') (sp', key') = (d ! h') (sp', key')"
    if "(sp', key') \<noteq> (sp, key)" for d :: example_db and h h' sp sp' key key' obj
  proof (cases "h' < length d")
    case True
    with that show ?thesis by (cases "h = h'") auto
  next
    case False
    with nth_beyond [of d h'] nth_beyond [of "d[h := (d ! h)((sp, key) \<mapsto> obj)]" h'] show ?thesis by simp
  qed
  moreover have "node_put example_env = example_put" by (simp add: example_env_def)
  ultimately show ?thesis by (simp add: puts_one_object_def example_node_get example_put_def)
qed

lemma example_native: "native example_env s (example_context Transaction_application)"
proof -
  have "space_system_call_dispatch example_env \<noteq> space_metadata example_env" by code_simp
  then show ?thesis
    by (simp add: native_def example_context_def execution_context_new_def empty_cache_def get_parent_node_def example_node_get
        example_state_def)
qed

theorem stored_object_is_read_back_witness:
  "let c' = snd (ksys 4 example_env (A_put_object (space_metadata example_env) ''k'' ''v'') (example_context Transaction_application)) in
     fst (ksys 4 example_env (A_get_object (space_metadata example_env) ''k'') c')
       = Inr (V_object \<lparr>do_exists = True, do_value = ''v'', do_key = []\<rparr>)"
proof -
  let ?c = "example_context Transaction_application" and ?sp = "space_metadata example_env"
  have "\<not> isl (fst (ksys 4 example_env (A_put_object ?sp ''k'' ''v'') ?c))" by code_simp
  then obtain r c' where put: "ksys 4 example_env (A_put_object ?sp ''k'' ''v'') ?c = (Inr r, c')"
    by (metis isl_def prod.collapse sum.exhaust)
  have "\<not> isl (fst (ksys 4 example_env (A_get_object ?sp ''k'')
      (snd (ksys 4 example_env (A_put_object ?sp ''k'' ''v'') ?c))))" by code_simp
  then obtain r' c'' where get: "ksys 4 example_env (A_get_object ?sp ''k'') c' = (Inr r', c'')"
    unfolding put by (metis isl_def prod.collapse snd_conv sum.exhaust)
  have sp: "?sp \<noteq> space_system_call_dispatch example_env" by code_simp
  from stored_object_is_read_back [OF example_numbers_ok example_puts_one_object example_native example_native sp put get]
  show ?thesis by (auto simp: put get found_def)
qed

theorem spent_nonce_is_refused_witness:
  "let c' = snd (ksys 4 example_env (A_set_account_nonce ''a'' [CHR 0x01]) (example_context Transaction_application)) in
     fst (ksys 4 example_env (A_verify_account_nonce ''a'' [CHR 0x01]) c') = Inr (V_bool False)"
proof -
  let ?c = "example_context Transaction_application"
  have "\<not> isl (fst (ksys 4 example_env (A_set_account_nonce ''a'' [CHR 0x01]) ?c))" by code_simp
  then obtain r c' where set: "ksys 4 example_env (A_set_account_nonce ''a'' [CHR 0x01]) ?c = (Inr r, c')"
    by (metis isl_def prod.collapse sum.exhaust)
  have "\<not> isl (fst (ksys 4 example_env (A_verify_account_nonce ''a'' [CHR 0x01])
      (snd (ksys 4 example_env (A_set_account_nonce ''a'' [CHR 0x01]) ?c))))" by code_simp
  then obtain r' c'' where verify: "ksys 4 example_env (A_verify_account_nonce ''a'' [CHR 0x01]) c' = (Inr r', c'')"
    unfolding set by (metis isl_def prod.collapse snd_conv sum.exhaust)
  have spaces: "space_transaction_nonce example_env \<noteq> space_system_call_dispatch example_env" by code_simp
  from spent_nonce_is_refused [OF example_numbers_ok example_puts_one_object spaces _ set verify] example_native
  show ?thesis by (auto simp: set verify)
qed

end
