(* ===== verification/Host_Results.thy ===== *)
theory Host_Results
  imports Native_Calls
begin

text \<open>
  What a contract gets from a system call: the path through the host API, from the arguments in the linear memory
  of the module to the result in its return buffer.
\<close>

section \<open>Regions of the linear memory\<close>

definition region :: "nat \<Rightarrow> nat \<Rightarrow> bytes \<Rightarrow> bytes" where
  "region p n mem = take n (drop p mem)"

lemma mem_write_InrE:
  assumes "mem_write p bs (mem, c) = (Inr u, lc)"
  obtains mem' where "lc = (mem', c)" "length mem' = length mem" "region p (length bs) mem' = bs"
    and "\<And>q n. q + n \<le> p \<or> p + length bs \<le> q \<Longrightarrow> region q n mem' = region q n mem"
proof
  let ?m = "take p mem @ bs @ drop (p + length bs) mem"
  from assms have le: "p + length bs \<le> length mem" and lc: "lc = (?m, c)" by (auto simp: mem_write_def split: if_splits)
  show "lc = (?m, c)" by (rule lc)
  show "length ?m = length mem" using le by simp
  show "region p (length bs) ?m = bs" using le by (simp add: region_def)
  show "region q n ?m = region q n mem" if "q + n \<le> p \<or> p + length bs \<le> q" for q n
    using that
  proof
    assume "q + n \<le> p"
    with le show ?thesis by (auto simp: region_def take_drop min_def take_append)
  next
    assume "p + length bs \<le> q"
    with le show ?thesis by (simp add: region_def drop_append)
  qed
qed

lemma mem_read_InrE:
  assumes "mem_read p n (mem, c) = (Inr bs, lc)"
  shows "lc = (mem, c) \<and> bs = region p n mem"
  using assms by (auto simp: mem_read_def region_def split: if_splits)

lemma write_return_InrE:
  assumes "write_return b out (mem, c) = (Inr u, lc)"
  obtains mem' where "lc = (mem', c)" "region (hb_bytes_written b) 4 mem' = le_bytes (of_nat (length out))"
    and "hb_ret_ptr b + length out \<le> hb_bytes_written b \<or> hb_bytes_written b + 4 \<le> hb_ret_ptr b \<Longrightarrow>
         region (hb_ret_ptr b) (length out) mem' = out"
proof -
  have four: "length (le_bytes w) = 4" for w by (simp add: le_bytes_def)
  from assms obtain u1 lc1 where w1: "mem_write (hb_ret_ptr b) out (mem, c) = (Inr u1, lc1)"
      and w2: "mem_write (hb_bytes_written b) (le_bytes (of_nat (length out))) lc1 = (Inr u, lc)"
    by (auto simp: write_return_def dest!: thenE_InrD)
  from w1 obtain m1 where m1: "lc1 = (m1, c)" "region (hb_ret_ptr b) (length out) m1 = out"
    by (rule mem_write_InrE)
  from w2 [unfolded m1(1)] obtain m2 where "lc = (m2, c)" "region (hb_bytes_written b) 4 m2 = le_bytes (of_nat (length out))"
      and "\<And>q n. q + n \<le> hb_bytes_written b \<or> hb_bytes_written b + 4 \<le> q \<Longrightarrow> region q n m2 = region q n m1"
    by (rule mem_write_InrE) (simp add: four)
  with m1(2) show ?thesis by (intro that [of m2]) auto
qed

section \<open>The path of a call\<close>

lemma outer_returned:
  assumes "outerE m (l, c) = (Inr a, lc)"
  obtains c' where "m c = (Inr a, c')" "lc = (l, c')"
  using assms by (auto simp: outerE_def split: prod.splits)

text \<open>What the module finds in its memory after a call that returned: the number of bytes, and the bytes themselves.\<close>

definition delivered :: "('d, 'h, 'w) env \<Rightarrow> syscall \<Rightarrow> sc_ret \<Rightarrow> host_buffers \<Rightarrow> bytes \<Rightarrow> bool" where
  "delivered E s ret b mem \<longleftrightarrow>
     (let out = (if returns_void s then [] else as_string E (M_ret s ret)) in
        region (hb_bytes_written b) 4 mem = le_bytes (of_nat (length out)) \<and> length out \<le> unat (hb_ret_len b)
        \<and> (hb_ret_ptr b + length out \<le> hb_bytes_written b \<or> hb_bytes_written b + 4 \<le> hb_ret_ptr b \<longrightarrow>
             region (hb_ret_ptr b) (length out) mem = out))"

lemma call_thunk_buffer_delivers:
  assumes look: "thunk_lookup E tid = Some s" and run: "call_thunk_buffer E sc vm tid b (mem, c) = (Inr u, (mem', c'))"
  shows "\<exists>c1 ret. quiet E c c1 \<and> delivered E s ret b mem'
    \<and> thunk E sc vm (parse_args E s (region (hb_arg_ptr b) (unat (hb_arg_len b)) mem)) c1 = (Inr ret, c')"
proof -
  let ?args = "region (hb_arg_ptr b) (unat (hb_arg_len b)) mem"
  from run look obtain cost lc1 u2 lc2 bs lc3 where cost: "outerE (get_compute_bandwidth E ''deserialize_message_per_byte'') (mem, c) = (Inr cost, lc1)"
      and charge: "outerE (charge_compute E (cost * ucast (hb_arg_len b))) lc1 = (Inr u2, lc2)"
      and read: "mem_read (hb_arg_ptr b) (unat (hb_arg_len b)) lc2 = (Inr bs, lc3)"
      and rest: "(if returns_void s then
            thenE (mem_write (hb_bytes_written b) (le_bytes 0)) (thenE (outerE (thunk E sc vm (parse_args E s bs))) (returnE ()))
          else
            bindE (outerE (thunk E sc vm (parse_args E s bs))) (\<lambda>ret.
            let out = as_string E (M_ret s ret) in
            thenE (assertE (length out \<le> unat (hb_ret_len b))
                     (kexn insufficient_return_buffer_exception ''return buffer is not large enough for the return value''))
            (write_return b out))) lc3 = (Inr u, (mem', c'))"
    by (auto simp: call_thunk_buffer_def dest!: bindE_InrD thenE_InrD)
  from cost obtain c1 where 1: "get_compute_bandwidth E ''deserialize_message_per_byte'' c = (Inr cost, c1)" "lc1 = (mem, c1)"
    by (rule outer_returned)
  from charge [unfolded 1(2)] obtain c2 where 2: "charge_compute E (cost * ucast (hb_arg_len b)) c1 = (Inr u2, c2)" "lc2 = (mem, c2)"
    by (rule outer_returned)
  from mem_read_InrE [OF read [unfolded 2(2)]] have 3: "lc3 = (mem, c2)" "bs = ?args" by simp_all
  have quiet: "quiet E c c2"
    using quietlyD [OF quietly_compute 1(1)] quietlyD [OF quietly_meter 2(1) [unfolded charge_compute_def]] by (rule quiet_trans)
  show ?thesis
  proof (cases "returns_void s")
    case True
    with rest 3 obtain u3 lc4 ret lc5 where w: "mem_write (hb_bytes_written b) (le_bytes 0) (mem, c2) = (Inr u3, lc4)"
        and th: "outerE (thunk E sc vm (parse_args E s ?args)) lc4 = (Inr ret, lc5)" and "lc5 = (mem', c')"
      by (auto simp: returnE_def dest!: thenE_InrD)
    moreover from w obtain m where "lc4 = (m, c2)" "region (hb_bytes_written b) (length (le_bytes 0)) m = le_bytes 0"
      by (rule mem_write_InrE)
    ultimately have "delivered E s ret b mem'" "thunk E sc vm (parse_args E s ?args) c2 = (Inr ret, c')"
      using True by (auto simp: delivered_def region_def le_bytes_def elim!: outer_returned)
    with quiet show ?thesis by blast
  next
    case False
    with rest 3 obtain ret lc4 where th: "outerE (thunk E sc vm (parse_args E s ?args)) (mem, c2) = (Inr ret, lc4)"
        and fits: "length (as_string E (M_ret s ret)) \<le> unat (hb_ret_len b)"
        and w: "write_return b (as_string E (M_ret s ret)) lc4 = (Inr u, (mem', c'))"
      by (auto simp: Let_def assertE_def returnE_def throwE_def dest!: bindE_InrD thenE_InrD split: if_splits)
    from th obtain c3 where 4: "thunk E sc vm (parse_args E s ?args) c2 = (Inr ret, c3)" "lc4 = (mem, c3)" by (rule outer_returned)
    from w [unfolded 4(2)] have "delivered E s ret b mem' \<and> c3 = c'"
      by (rule write_return_InrE) (use False fits in \<open>auto simp: delivered_def Let_def\<close>)
    with quiet 4(1) show ?thesis by blast
  qed
qed

text \<open>
  C19. A contract gets what the thunk computes.  When a module makes a system call that is not overridden and the
  call returns, the thunk of that system call has run on the arguments decoded from the argument buffer, with only
  lookups and charges before it and after it, and its encoded result is in the return buffer, its length in
  \<open>bytes_written\<close>; a result longer than the buffer is never delivered in part.  The argument buffer must not
  overlap \<open>bytes_written\<close>, which the host clears before it reads the arguments; and the result is intact unless
  \<open>bytes_written\<close>, which is written last, overlaps it.
\<close>

theorem contract_receives_the_result:
  assumes E: "numbers_ok E" and native: "native E s c"
    and apart: "hb_arg_ptr b + unat (hb_arg_len b) \<le> hb_bytes_written b \<or> hb_bytes_written b + 4 \<le> hb_arg_ptr b"
    and run: "host_call E sc vm (syscall_num E s) b (mem, c) = (Inr (), (mem', c'))"
  shows "\<exists>c1 c2 ret. quiet E c c1 \<and> quiet E c2 c' \<and> delivered E s ret b mem'
    \<and> thunk E sc vm (parse_args E s (region (hb_arg_ptr b) (unat (hb_arg_len b)) mem)) c1 = (Inr ret, c2)"
proof -
  let ?sid = "syscall_num E s" and ?args = "region (hb_arg_ptr b) (unat (hb_arg_len b))"
  let ?body = "bindE (outerE (system_call_exists E ?sid)) (\<lambda>overridden.
      if overridden then host_override E vm ?sid b else host_native E sc vm ?sid b)"
  from run obtain u lc0 where clear: "mem_write (hb_bytes_written b) (le_bytes 0) (mem, c) = (Inr u, lc0)"
      and framed: "with_host_frame (system_frame ?sid) ?body lc0 = (Inr (), (mem', c'))"
    by (auto simp: host_call_def dest!: thenE_InrD)
  from clear obtain m0 where m0: "lc0 = (m0, c)" "?args m0 = ?args mem"
    by (rule mem_write_InrE) (use apart in \<open>auto simp: le_bytes_def\<close>)
  from framed [unfolded m0(1)] obtain u1 c0 c5 where push: "push_frame (system_frame ?sid) c = (Inr u1, c0)"
      and body: "?body (m0, c0) = (Inr (), (mem', c5))" and pop: "snd (pop_frame c5) = c'"
    by (auto simp: with_host_frame_def raii_def outerE_def dest!: thenE_InrD split: prod.splits sum.splits)
  note 0 = quietlyD [OF quietly_stack(1) push]
  with native have "native E s c0" by (simp add: quiet_def)
  with body obtain o1 c1 where ex: "system_call_exists E ?sid c0 = (Inr o1, c1)"
      and rest: "(if o1 then host_override E vm ?sid b else host_native E sc vm ?sid b) (m0, c1) = (Inr (), (mem', c5))"
    by (auto dest!: bindE_InrD elim!: outer_returned)
  note 1 = native_exists [OF \<open>native E s c0\<close> ex]
  with \<open>native E s c0\<close> have "native E s c1" by (simp add: quiet_def)
  from rest 1 obtain tid c2 u3 c3 where tr: "thunk_translation E ?sid c1 = (Inr tid, c2)"
      and charge: "charge_thunk E tid c2 = (Inr u3, c3)"
      and call: "call_thunk_buffer E sc vm tid b (m0, c3) = (Inr (), (mem', c5))"
    by (auto simp: host_native_def assertE_def returnE_def throwE_def dest!: bindE_InrD thenE_InrD elim!: outer_returned split: if_splits)
  note 2 = native_translation [OF \<open>native E s c1\<close> tr]
  then have "thunk_lookup E tid = Some s" by (simp add: thunk_lookup_num [OF E])
  from call_thunk_buffer_delivers [OF this call] obtain c4 ret where 4: "quiet E c3 c4" "delivered E s ret b mem'"
      and th: "thunk E sc vm (parse_args E s (?args mem)) c4 = (Inr ret, c5)" by (auto simp: m0(2))
  have "quiet E c c4" using 0 1 2 quietlyD [OF quietly_charge(1) charge] 4(1) by (simp add: quiet_def)
  moreover have "quiet E c5 c'" using quietlyD [OF quietly_stack(2)] pop by (metis prod.collapse)
  ultimately show ?thesis using 4(2) th by blast
qed

text \<open>A library that decodes the arguments of \<open>hash\<close>.\<close>

definition hashing_env :: example_env where
  "hashing_env = example_env\<lparr>parse_args := (\<lambda>s bs. if s = sc_hash then A_hash 18 bs 0 else A_nop)\<rparr>"

definition hashing_buffers :: host_buffers where
  "hashing_buffers = \<lparr>hb_ret_ptr = 4, hb_ret_len = 8, hb_arg_ptr = 0, hb_arg_len = 3, hb_bytes_written = 12\<rparr>"

lemma hashing_numbers_ok: "numbers_ok hashing_env"
  using example_numbers_ok by (simp add: numbers_ok_def hashing_env_def)

lemma hashing_native: "native hashing_env s (example_context Transaction_application)"
  using example_native [of s] unfolding hashing_env_def native_def
  by (simp add: space_system_call_dispatch_def kernel_space_def cong: option.case_cong)

definition hashing_call :: "(exn + unit) \<times> bytes \<times> example_ctx" where
  "hashing_call = host_call hashing_env (ksys 4 hashing_env) (kvm 4 hashing_env) (syscall_num hashing_env sc_hash) hashing_buffers
     (''abc.............'', example_context Transaction_application)"

theorem contract_receives_the_result_witness:
  "fst (snd hashing_call) = ''abc.abc.....'' @ [CHR 0x03, CHR 0x00, CHR 0x00, CHR 0x00]
   \<and> (\<exists>ret. delivered hashing_env sc_hash ret hashing_buffers (fst (snd hashing_call)))"
proof -
  have "fst hashing_call = Inr ()" by code_simp
  then obtain mem' c' where run: "hashing_call = (Inr (), (mem', c'))" by (metis prod.collapse)
  have apart: "hb_arg_ptr hashing_buffers + unat (hb_arg_len hashing_buffers) \<le> hb_bytes_written hashing_buffers
      \<or> hb_bytes_written hashing_buffers + 4 \<le> hb_arg_ptr hashing_buffers" by code_simp
  have "fst (snd hashing_call) = ''abc.abc.....'' @ [CHR 0x03, CHR 0x00, CHR 0x00, CHR 0x00]" by code_simp
  moreover have "\<exists>ret. delivered hashing_env sc_hash ret hashing_buffers mem'"
    using contract_receives_the_result [OF hashing_numbers_ok hashing_native apart run [unfolded hashing_call_def]] by blast
  ultimately show ?thesis by (simp add: run)
qed

end
