(* ===== verification/Controller.thy ===== *)
theory Controller
  imports Kernel "HOL-Library.While_Combinator"
begin

text \<open>
  \<^verbatim>\<open>controller.cpp\<close>: the node's interface.  It owns the state database and the VM backend, applies
  submitted blocks and transactions in execution contexts of its own, keeps the head block cached,
  and answers read requests.

  The state is the record \<open>ctl\<close>.  Execution contexts are local variables of the operations: the
  database and the module cache are shared with the controller, and \<open>in_ctx\<close> runs a step of a local
  context on them.  \<open>sc\<close> and \<open>run\<close> are the system calls and the VM of \<open>Kernel\<close>.  An operation runs
  to its end before the next one starts; the locks are not part of the model.

  The services outside the repository that the controller uses, besides those of \<open>env\<close>, are the fields
  of \<open>services\<close>: opening the database, the message queue client, hexadecimal and base-58 text, copying
  an exception as its base class, and \<open>std::sort\<close>, which leaves the order of equal elements open.
\<close>

section \<open>State\<close>

datatype fork_resolution_algorithm = fifo | block_time | pob

datatype state_node_comparator = fifo_comparator | block_time_comparator | pob_comparator

record genesis_entry =
  ge_space :: object_space
  ge_key :: bytes
  ge_value :: bytes

type_synonym genesis_data = "genesis_entry list"

datatype broadcast =
    Bc_block_irreversible block_topology
  | Bc_block_accepted block block_receipt bool bool
  | Bc_fork_heads block_topology "block_topology list"
  | Bc_event_parcel bytes u64 "bytes option" event_data
  | Bc_transaction_failed bytes
  | Bc_transaction_accepted transaction transaction_receipt u64

text \<open>The responses of the block store and the mempool, as far as they are looked at.\<close>

datatype store_reply = Store_error string | Store_add_block | Store_other string
datatype mempool_reply = Mempool_error string | Mempool_check bool | Mempool_other

record ('d, 'h, 's) services =
  sv_open :: "string \<Rightarrow> state_node_comparator \<Rightarrow> ('h \<Rightarrow> ('d, exn, unit) comp) \<Rightarrow> 'd \<Rightarrow> exn + 'd"
  sv_reset :: "'d \<Rightarrow> exn + 'd"
  sv_close :: "'d \<Rightarrow> 'd"
  sv_genesis_bytes :: "genesis_data \<Rightarrow> bytes"
  sv_slice :: "exn \<Rightarrow> exn"
  sv_from_hex :: "json_arg \<Rightarrow> exn + bytes"
  sv_base58 :: "bytes \<Rightarrow> string"
  sv_sort :: "block_topology list \<Rightarrow> block_topology list"
  sv_add_block :: "'s \<Rightarrow> block \<Rightarrow> block_receipt \<Rightarrow> (exn + store_reply) \<times> 's"
  sv_check_pending :: "'s \<Rightarrow> bytes \<Rightarrow> u64 \<Rightarrow> u64 \<Rightarrow> (exn + mempool_reply) \<times> 's"
  sv_broadcast :: "'s \<Rightarrow> string \<Rightarrow> broadcast \<Rightarrow> (exn + unit) \<times> 's"

text \<open>
  \<open>ct_sent\<close> is not a member of the class: it records what was broadcast, in order.  \<open>None\<close> for the
  client is the null pointer the controller starts with.
\<close>

record ('d, 'w, 's) ctl =
  ct_db :: 'd
  ct_vm :: "'w module_cache"
  ct_client :: "'s option"
  ct_read_compute_bandwidth_limit :: u64
  ct_syscall_bufsize :: u32
  ct_cached_head_block :: "block option"
  ct_sent :: "(string \<times> broadcast) list"

definition empty_block :: block where
  "empty_block =
     \<lparr>blk_id = [], blk_has_header = False,
      blk_header = \<lparr>bh_previous = [], bh_height = 0, bh_timestamp = 0, bh_previous_state_merkle_root = [],
        bh_transaction_merkle_root = [], bh_signer = [], bh_other = []\<rparr>,
      blk_transactions = [], blk_signature = []\<rparr>"

definition controller_new :: "u64 \<Rightarrow> u32 \<Rightarrow> 'd \<Rightarrow> ('d, 'w, 's) ctl" where
  "controller_new read_compute_bandwidth_limit syscall_bufsize closed_db =
     \<lparr>ct_db = closed_db, ct_vm = module_cache_new module_cache_size, ct_client = None,
      ct_read_compute_bandwidth_limit = read_compute_bandwidth_limit,
      ct_syscall_bufsize = syscall_bufsize, ct_cached_head_block = Some empty_block, ct_sent = []\<rparr>"

definition set_client :: "'s \<Rightarrow> ('d, 'w, 's) ctl \<Rightarrow> ('d, 'w, 's) ctl" where
  "set_client c k = k\<lparr>ct_client := Some c\<rparr>"

section \<open>Steps\<close>

type_synonym ('d, 'w, 's, 'a) crun = "(('d, 'w, 's) ctl, exn, 'a) comp"
type_synonym ('d, 'h, 'w, 's, 'a) xrun = "(('d, 'h, 'w) ctx \<times> ('d, 'w, 's) ctl, exn, 'a) comp"

definition in_ctx :: "('d, 'h, 'w, 'a) run \<Rightarrow> ('d, 'h, 'w, 's, 'a) xrun" where
  "in_ctx m = (\<lambda>(x, k). case m (x\<lparr>ec_vm := ct_vm k, ec_db := ct_db k\<rparr>) of
     (r, x') \<Rightarrow> (r, (x', k\<lparr>ct_vm := ec_vm x', ct_db := ec_db x'\<rparr>)))"

text \<open>A block with an execution context of its own.\<close>

definition local_ctx :: "intent \<Rightarrow> ('d, 'h, 'w, 's, 'a) xrun \<Rightarrow> ('d, 'w, 's, 'a) crun" where
  "local_ctx i m = (\<lambda>k. localE (execution_context_new (ct_vm k) (ct_db k) i) m k)"

definition root_frame :: "bytes \<Rightarrow> privilege \<Rightarrow> stack_frame" where
  "root_frame contract_id p =
     \<lparr>fr_contract_id = contract_id, fr_sid = 0, fr_call_privilege = p, fr_call_args = [], fr_entry_point = 0\<rparr>"

definition on_db :: "('d \<Rightarrow> exn + 'd) \<Rightarrow> ('d, 'w, 's, unit) crun" where
  "on_db f = (\<lambda>k. case f (ct_db k) of Inl e \<Rightarrow> (Inl e, k) | Inr d \<Rightarrow> (Inr (), k\<lparr>ct_db := d\<rparr>))"

text \<open>\<open>if ( _client ) \<dots>\<close>\<close>

definition when_client :: "('d, 'w, 's, unit) crun \<Rightarrow> ('d, 'w, 's, unit) crun" where
  "when_client m = (\<lambda>k. case ct_client k of None \<Rightarrow> (Inr (), k) | Some _ \<Rightarrow> m k)"

definition ask_client :: "('s \<Rightarrow> (exn + 'a) \<times> 's) \<Rightarrow> ('d, 'w, 's, 'a) crun" where
  "ask_client f = (\<lambda>k. case ct_client k of
     None \<Rightarrow> (Inl (Undefined ''null client''), k)
   | Some s \<Rightarrow> (case f s of (r, s') \<Rightarrow> (r, k\<lparr>ct_client := Some s'\<rparr>)))"

definition send :: "('d, 'h, 's) services \<Rightarrow> string \<Rightarrow> broadcast \<Rightarrow> ('d, 'w, 's, unit) crun" where
  "send S topic msg =
     thenE (ask_client (\<lambda>s. sv_broadcast S s topic msg))
       (modifyE (\<lambda>k. k\<lparr>ct_sent := ct_sent k @ [(topic, msg)]\<rparr>))"

text \<open>\<open>node->create_anonymous_node()\<close> on a node chosen from the database.\<close>

definition anonymous_of :: "('d, 'h, 'w) env \<Rightarrow> ('d \<Rightarrow> 'h) \<Rightarrow> ('d, 'h, 'w, 'h) run" where
  "anonymous_of E pick =
     (\<lambda>x. case node_create_anonymous E (ec_db x) (pick (ec_db x)) of (h, d) \<Rightarrow> (Inr h, x\<lparr>ec_db := d\<rparr>))"

definition set_anonymous :: "('d, 'h, 'w) env \<Rightarrow> ('d \<Rightarrow> 'h) \<Rightarrow> ('d, 'h, 'w, unit) run" where
  "set_anonymous E pick =
     bindE (anonymous_of E pick) (\<lambda>h. modifyE (set_state_node E (Some h) None))"

definition need_head_block :: "('d, 'w, 's, block) crun" where
  "need_head_block =
     bindE (getE ct_cached_head_block)
       (\<lambda>b. someE b (kexn internal_error_exception ''error retrieving head block''))"

definition read_limits :: "('d, 'w, 's) ctl \<Rightarrow> resource_limit_data" where
  "read_limits k = empty_resource_limit_data\<lparr>compute_bandwidth_limit := ct_read_compute_bandwidth_limit k\<rparr>"

definition set_limits :: "resource_limit_data \<Rightarrow> ('d, 'h, 'w) ctx \<Rightarrow> ('d, 'h, 'w) ctx" where
  "set_limits rl x = x\<lparr>ec_resource_meter := set_resource_limit_data rl (ec_resource_meter x)\<rparr>"

section \<open>Opening\<close>

fun comparator_of :: "fork_resolution_algorithm \<Rightarrow> state_node_comparator" where
  "comparator_of block_time = block_time_comparator"
| "comparator_of pob = pob_comparator"
| "comparator_of fifo = fifo_comparator"

definition root_put :: "('d, 'h, 'w) env \<Rightarrow> 'h \<Rightarrow> object_space \<Rightarrow> bytes \<Rightarrow> bytes \<Rightarrow> ('d, exn, unit) comp" where
  "root_put E root sp key v =
     (\<lambda>d. case node_put E d root sp key v of Inl e \<Rightarrow> (Inl e, d) | Inr (_, d') \<Rightarrow> (Inr (), d'))"

definition put_genesis_entry :: "('d, 'h, 'w) env \<Rightarrow> 'h \<Rightarrow> genesis_entry \<Rightarrow> ('d, exn, unit) comp" where
  "put_genesis_entry E root entry =
     thenE (guardE (\<lambda>d. node_get E d root (ge_space entry) (ge_key entry) = None)
              (kexn unexpected_state_exception ''encountered unexpected object in initial state''))
       (root_put E root (ge_space entry) (ge_key entry) (ge_value entry))"

definition genesis_chain_id :: "('d, 'h, 'w) env \<Rightarrow> ('d, 'h, 's) services \<Rightarrow> genesis_data \<Rightarrow> bytes" where
  "genesis_chain_id E S data =
     as_string E (M_multihash (crypto_hash E (codec_num E sha2_256) (sv_genesis_bytes S data) 0))"

definition genesis_init ::
  "('d, 'h, 'w) env \<Rightarrow> ('d, 'h, 's) services \<Rightarrow> genesis_data \<Rightarrow> 'h \<Rightarrow> ('d, exn, unit) comp" where
  "genesis_init E S data root =
     thenE (forE data (put_genesis_entry E root)) (
     thenE (guardE (\<lambda>d. node_get E d root (space_metadata E) (key_genesis_key E) \<noteq> None)
              (kexn unexpected_state_exception ''could not find genesis public key in database'')) (
     thenE (guardE (\<lambda>d. node_get E d root (space_metadata E) (key_chain_id E) = None)
              (kexn unexpected_state_exception ''encountered unexpected chain id in initial state''))
     (root_put E root (space_metadata E) (key_chain_id E) (genesis_chain_id E S data))))"

definition controller_open ::
  "('d, 'h, 'w) env \<Rightarrow> ('d, 'h, 's) services \<Rightarrow> string \<Rightarrow> genesis_data \<Rightarrow> fork_resolution_algorithm \<Rightarrow> bool
     \<Rightarrow> ('d, 'w, 's, unit) crun" where
  "controller_open E S path data algo reset =
     thenE (on_db (sv_open S path (comparator_of algo) (genesis_init E S data)))
       (if reset then on_db (sv_reset S) else returnE ())"

definition controller_close :: "('d, 'h, 's) services \<Rightarrow> ('d, 'w, 's) ctl \<Rightarrow> ('d, 'w, 's) ctl" where
  "controller_close S k = k\<lparr>ct_db := sv_close S (ct_db k)\<rparr>"

section \<open>Validation\<close>

definition missing :: "string \<Rightarrow> string \<Rightarrow> (string \<times> json_arg) list \<Rightarrow> exn" where
  "missing what field js =
     kexn_args missing_required_arguments_exception (''missing expected field in '' @ what @ '': ${field}'')
       ((''field'', JStr field) # js)"

definition validate_transaction :: "transaction \<Rightarrow> ('c, exn, unit) comp" where
  "validate_transaction t =
     (let i = [(''transaction_id'', JHex (trx_id t))] in
      thenE (assertE (trx_id t \<noteq> []) (missing ''transaction'' ''id'' [])) (
      thenE (assertE (trx_has_header t) (missing ''transaction'' ''header'' i)) (
      thenE (assertE (th_rc_limit (trx_header t) \<noteq> 0) (missing ''transaction header'' ''rc_limit'' i)) (
      thenE (assertE (th_operation_merkle_root (trx_header t) \<noteq> [])
               (missing ''transaction header'' ''operation_merkle_root'' i))
      (assertE (trx_signatures t \<noteq> []) (missing ''transaction'' ''signature_data'' i))))))"

definition validate_block :: "block \<Rightarrow> ('c, exn, unit) comp" where
  "validate_block b =
     (let i = [(''block_id'', JHex (blk_id b))]; h = blk_header b in
      thenE (assertE (blk_id b \<noteq> []) (missing ''block'' ''id'' [])) (
      thenE (assertE (blk_has_header b) (missing ''block'' ''header'' i)) (
      thenE (assertE (bh_previous h \<noteq> []) (missing ''block header'' ''previous'' i)) (
      thenE (assertE (bh_height h \<noteq> 0) (missing ''block header'' ''height'' i)) (
      thenE (assertE (bh_timestamp h \<noteq> 0) (missing ''block header'' ''timestamp'' i)) (
      thenE (assertE (bh_previous_state_merkle_root h \<noteq> [])
               (missing ''block header'' ''previous_state_merkle_root'' i)) (
      thenE (assertE (bh_transaction_merkle_root h \<noteq> [])
               (missing ''block header'' ''transaction_merkle_root'' i)) (
      thenE (assertE (blk_signature b \<noteq> []) (missing ''block'' ''signature_data'' i))
      (forE (blk_transactions b) validate_transaction)))))))))"

section \<open>Fork data\<close>

definition sc_head_info :: "('d, 'h, 'w) sys \<Rightarrow> ('d, 'h, 'w, head_info) run" where
  "sc_head_info sc = bindE (sc A_get_head_info) (\<lambda>r. returnE (v_head_info r))"

text \<open>
  The search for the head block among the sorted fork heads, as it is written: it starts at the
  beginning and goes on while it is \<^emph>\<open>not\<close> at the beginning.
\<close>

definition find_fork :: "bytes \<Rightarrow> block_topology list \<Rightarrow> nat option" where
  "find_fork head_id forks = while_option (\<lambda>i. i \<noteq> 0 \<and> bt_id (forks ! i) \<noteq> head_id) Suc 0"

definition swap_first :: "nat \<Rightarrow> 'a list \<Rightarrow> 'a list" where
  "swap_first i xs = xs[0 := xs ! i, i := xs ! 0]"

definition order_forks ::
  "('d, 'h, 's) services \<Rightarrow> bytes \<Rightarrow> block_topology list \<Rightarrow> (exn + block_topology list)" where
  "order_forks S head_id forks =
     (let sorted_forks = sv_sort S forks in
      case find_fork head_id sorted_forks of
        None \<Rightarrow> Inl Out_of_fuel
      | Some i \<Rightarrow> Inr (if i \<noteq> 0 then swap_first i sorted_forks else sorted_forks))"

definition fork_topology :: "('d, 'h, 'w) env \<Rightarrow> ('d, 'h, 'w) sys \<Rightarrow> 'h \<Rightarrow> ('d, 'h, 'w, block_topology) run" where
  "fork_topology E sc fork =
     thenE (set_anonymous E (\<lambda>_. fork)) (
     thenE (modifyE reset_cache) (
     bindE (sc_head_info sc) (\<lambda>info. returnE (hi_head_topology info))))"

definition get_fork_data ::
  "('d, 'h, 'w) env \<Rightarrow> ('d, 'h, 's) services \<Rightarrow> ('d, 'h, 'w) sys
     \<Rightarrow> ('d, 'w, 's, block_topology list \<times> block_topology) crun" where
  "get_fork_data E S sc =
     local_ctx Read_only (in_ctx (
       thenE (push_frame (root_frame [] kernel_mode)) (
       thenE (set_anonymous E (db_get_root E)) (
       thenE (modifyE reset_cache) (
       bindE (getE (\<lambda>x. db_get_fork_heads E (ec_db x))) (\<lambda>fork_heads.
       bindE (sc_head_info sc) (\<lambda>info.
       bindE (mapE (fork_topology E sc) fork_heads) (\<lambda>forks.
       bindE (liftE (order_forks S (bt_id (hi_head_topology info)) forks)) (\<lambda>ordered.
       returnE (ordered, hi_head_topology info))))))))))"

section \<open>Reading the head state\<close>

record head_info_response =
  hr_head_topology :: block_topology
  hr_last_irreversible_block :: u64
  hr_head_state_merkle_root :: bytes
  hr_head_block_time :: u64

text \<open>The setup most requests share: a kernel frame and an anonymous node on the head.\<close>

definition at_head :: "('d, 'h, 'w) env \<Rightarrow> stack_frame \<Rightarrow> ('d, 'h, 'w, 'a) run \<Rightarrow> ('d, 'h, 'w, 'a) run" where
  "at_head E frame m =
     thenE (push_frame frame) (
     thenE (set_anonymous E (db_get_head E)) (
     thenE (modifyE reset_cache) m))"

definition get_head_info ::
  "('d, 'h, 'w) env \<Rightarrow> ('d, 'h, 'w) sys \<Rightarrow> ('d, 'w, 's, head_info_response) crun" where
  "get_head_info E sc =
     local_ctx Read_only (
       thenE (in_ctx (push_frame (root_frame [] kernel_mode))) (
       bindE (outerE need_head_block) (\<lambda>head_block.
       in_ctx (
         bindE (getE (\<lambda>x. db_get_head E (ec_db x))) (\<lambda>head.
         thenE (set_anonymous E (\<lambda>_. head)) (
         thenE (modifyE (set_block head_block)) (
         thenE (modifyE reset_cache) (
         bindE (sc_head_info sc) (\<lambda>info.
         getE (\<lambda>x.
           \<lparr>hr_head_topology = hi_head_topology info,
            hr_last_irreversible_block = hi_last_irreversible_block info,
            hr_head_state_merkle_root = as_string E (M_multihash (node_merkle_root E (ec_db x) head)),
            hr_head_block_time = hi_head_block_time info\<rparr>))))))))))"

definition get_chain_id :: "('d, 'h, 'w) env \<Rightarrow> ('d, 'h, 'w) sys \<Rightarrow> ('d, 'w, 's, bytes) crun" where
  "get_chain_id E sc =
     local_ctx Read_only (in_ctx (at_head E (root_frame [] kernel_mode)
       (bindE (sc A_get_chain_id) (\<lambda>r. returnE (v_bytes r)))))"

definition get_resource_limits ::
  "('d, 'h, 'w) env \<Rightarrow> ('d, 'h, 'w) sys \<Rightarrow> ('d, 'w, 's, resource_limit_data) crun" where
  "get_resource_limits E sc =
     local_ctx Read_only (in_ctx (at_head E (root_frame [] kernel_mode)
       (bindE (sc A_get_resource_limits) (\<lambda>r. returnE (v_limits r)))))"

definition missing_field :: "string \<Rightarrow> exn" where
  "missing_field f =
     kexn_args missing_required_arguments_exception ''missing expected field: ${f}'' [(''f'', JStr f)]"

definition get_account_rc ::
  "('d, 'h, 'w) env \<Rightarrow> ('d, 'h, 'w) sys \<Rightarrow> bytes \<Rightarrow> ('d, 'w, 's, u64) crun" where
  "get_account_rc E sc account =
     thenE (assertE (account \<noteq> []) (missing_field ''payer''))
       (local_ctx Read_only (in_ctx (at_head E (root_frame [] kernel_mode)
          (bindE (sc (A_get_account_rc account)) (\<lambda>r. returnE (v_u64 r))))))"

definition get_account_nonce ::
  "('d, 'h, 'w) env \<Rightarrow> ('d, 'h, 'w) sys \<Rightarrow> bytes \<Rightarrow> ('d, 'w, 's, bytes) crun" where
  "get_account_nonce E sc account =
     thenE (assertE (account \<noteq> []) (missing_field ''account''))
       (local_ctx Read_only (in_ctx (at_head E (root_frame [] kernel_mode)
          (bindE (sc (A_get_account_nonce account)) (\<lambda>r. returnE (v_bytes r))))))"

text \<open>The response: the fork heads and the last irreversible block.\<close>

definition get_fork_heads ::
  "('d, 'h, 'w) env \<Rightarrow> ('d, 'h, 's) services \<Rightarrow> ('d, 'h, 'w) sys
     \<Rightarrow> ('d, 'w, 's, block_topology list \<times> block_topology) crun" where
  "get_fork_heads E S sc = get_fork_data E S sc"

section \<open>Running code for a reader\<close>

text \<open>
  \<open>catch ( koinos::exception& e ) { \<dots> throw e; }\<close> throws a copy of \<open>e\<close> made as a \<open>koinos::exception\<close>,
  whatever its class was: that copy is \<open>sv_slice\<close>.
\<close>

definition read_contract ::
  "('d, 'h, 'w) env \<Rightarrow> ('d, 'h, 's) services \<Rightarrow> ('d, 'h, 'w) sys \<Rightarrow> bytes \<Rightarrow> u32 \<Rightarrow> bytes
     \<Rightarrow> ('d, 'w, 's, bytes \<times> bytes list) crun" where
  "read_contract E S sc contract_id entry_point args =
     thenE (assertE (contract_id \<noteq> []) (missing_field ''contract_id''))
       (local_ctx Read_only (
          thenE (in_ctx (push_frame (root_frame [] user_mode))) (
          bindE (outerE need_head_block) (\<lambda>head_block.
          bindE (outerE (getE read_limits)) (\<lambda>rl.
          in_ctx (
            thenE (set_anonymous E (db_get_head E)) (
            thenE (modifyE (set_block head_block)) (
            thenE (modifyE reset_cache) (
            thenE (modifyE (set_limits rl)) (
            bindE (catchE is_koinos (sc (A_call contract_id entry_point args))
                     (\<lambda>e. bindE (getE (\<lambda>x. ch_logs (ec_chronicler x)))
                            (\<lambda>logs. throwE (sv_slice S (add_json ''logs'' (JStrs logs) e))))) (\<lambda>r.
            bindE (getE (\<lambda>x. ch_logs (ec_chronicler x))) (\<lambda>logs.
            returnE (v_bytes r, logs)))))))))))))"

datatype call_name = By_id u32 | By_name string | Unnamed

fun find_call :: "('d, 'h, 'w) env \<Rightarrow> call_name \<Rightarrow> exn + u32" where
  "find_call E (By_id i) = Inr i"
| "find_call E (By_name n) =
     (case syscall_parse E n of
        Some i \<Rightarrow> Inr i
      | None \<Rightarrow> Inl (kexn unknown_system_call_exception ''unknown system call name''))"
| "find_call E Unnamed = Inl (kexn unknown_system_call_exception ''unknown system call name'')"

text \<open>
  The host call works on three separate objects: the return buffer, the arguments and the counter
  \<open>bytes_written\<close>.  They are laid out one after another in a memory of their own.  \<open>junk\<close> is what
  the counter holds before it is first written.
\<close>

definition call_buffers :: "u32 \<Rightarrow> bytes \<Rightarrow> host_buffers" where
  "call_buffers bufsize args =
     \<lparr>hb_ret_ptr = 0, hb_ret_len = bufsize, hb_arg_ptr = unat bufsize, hb_arg_len = of_nat (length args),
      hb_bytes_written = unat bufsize + length args\<rparr>"

definition call_memory :: "u32 \<Rightarrow> bytes \<Rightarrow> u32 \<Rightarrow> bytes" where
  "call_memory bufsize args junk = replicate (unat bufsize) (CHR 0x00) @ args @ le_bytes junk"

definition of_le_bytes :: "bytes \<Rightarrow> nat" where
  "of_le_bytes bs = foldr (\<lambda>c n. of_char c + 256 * n) bs 0"

definition written :: "u32 \<Rightarrow> bytes \<Rightarrow> bytes \<Rightarrow> bytes" where
  "written bufsize args mem = take (of_le_bytes (drop (unat bufsize + length args) mem)) mem"

definition caller_frame :: "(bytes \<times> privilege) option \<Rightarrow> stack_frame" where
  "caller_frame caller_data =
     (case caller_data of Some (c, p) \<Rightarrow> root_frame c p | None \<Rightarrow> root_frame [] kernel_mode)"

definition invoke_call ::
  "('d, 'h, 'w) env \<Rightarrow> ('d, 'h, 'w) sys \<Rightarrow> ('d, 'h, 'w) vm \<Rightarrow> u32 \<Rightarrow> u32 \<Rightarrow> bytes \<Rightarrow> u32 \<Rightarrow> ('d, 'h, 'w, bytes) run" where
  "invoke_call E sc run bufsize sid args junk =
     localE (call_memory bufsize args junk)
       (thenE (host_call E sc run sid (call_buffers bufsize args)) (getlE (written bufsize args)))"

definition ctl_invoke_system_call ::
  "('d, 'h, 'w) env \<Rightarrow> ('d, 'h, 'w) sys \<Rightarrow> ('d, 'h, 'w) vm \<Rightarrow> call_name \<Rightarrow> bytes \<Rightarrow> (bytes \<times> privilege) option
     \<Rightarrow> u32 \<Rightarrow> ('d, 'w, 's, bytes) crun" where
  "ctl_invoke_system_call E sc run name args caller_data junk =
     thenE (assertE (name \<noteq> Unnamed)
              (kexn_args missing_required_arguments_exception ''missing expected field: ${f1} or ${f2}''
                 [(''f1'', JStr ''id''), (''f2'', JStr ''name'')]))
       (bindE (getE (\<lambda>k. (ct_syscall_bufsize k, read_limits k))) (\<lambda>(bufsize, rl).
        local_ctx Read_only (in_ctx (at_head E (caller_frame caller_data) (
          thenE (modifyE (set_limits rl)) (
          bindE (liftE (find_call E name)) (\<lambda>sid.
          invoke_call E sc run bufsize sid args junk)))))))"

end
