(* ===== verification/Submission.thy ===== *)
theory Submission
  imports Controller "HOL-Library.Signed_Division"
begin

text \<open>
  The two operations of \<^verbatim>\<open>controller.cpp\<close> that change the chain: \<open>submit_block\<close> and
  \<open>submit_transaction\<close>.

  A block gets a writable state node of its own, is applied in it, and the node is finalised; a block
  that fails in between has its node discarded.  The phases of \<open>submit_block\<close> are definitions of their
  own, in the order of the source.  Its local variables that survive an exception are the record
  \<open>sb\<close>.  Log messages are left out, and with them the parameter \<open>index_to\<close>, which only chooses
  between them.
\<close>

section \<open>Time bounds\<close>

text \<open>
  \<open>now\<close> is in nanoseconds since the epoch; casting to milliseconds truncates towards zero, and the
  signed result is compared with the unsigned timestamp.
\<close>

definition milliseconds :: "int \<Rightarrow> int" where
  "milliseconds ns = ns sdiv 1000000"

definition time_upper_bound :: "int \<Rightarrow> u64" where
  "time_upper_bound now = word_of_int (milliseconds (now + 5 * 1000000000))"

definition is_live :: "int \<Rightarrow> block \<Rightarrow> bool" where
  "is_live now b \<longleftrightarrow>
     word_of_int (milliseconds (now - 60 * 1000000000)) < bh_timestamp (blk_header b)"

section \<open>Local state of a block submission\<close>

record ('d, 'h, 'w) sb =
  sb_ctx :: "('d, 'h, 'w) ctx"
  sb_block_node :: "'h option"
  sb_new_head :: bool
  sb_receipt :: "block_receipt option"

type_synonym ('d, 'h, 'w, 's, 'a) sbrun = "(('d, 'h, 'w) sb \<times> ('d, 'w, 's) ctl, exn, 'a) comp"

definition sb_in :: "('d, 'h, 'w, 'a) run \<Rightarrow> ('d, 'h, 'w, 's, 'a) sbrun" where
  "sb_in m = (\<lambda>(l, k). case in_ctx m (sb_ctx l, k) of (r, (x, k')) \<Rightarrow> (r, (l\<lparr>sb_ctx := x\<rparr>, k')))"

section \<open>Before the block is applied\<close>

definition create_block_node ::
  "('d, 'h, 'w) env \<Rightarrow> multihash \<Rightarrow> multihash \<Rightarrow> block_header \<Rightarrow> ('d, 'w, 's, 'h option) crun" where
  "create_block_node E parent_id block_id header =
     (\<lambda>k. case db_create_writable_node E (ct_db k) parent_id block_id header of
        (n, d) \<Rightarrow> (Inr n, k\<lparr>ct_db := d\<rparr>))"

text \<open>A block without a known parent is either the root of the database or unknown.\<close>

definition check_orphan ::
  "('d, 'h, 'w) env \<Rightarrow> multihash \<Rightarrow> u64 \<Rightarrow> ('d, 'w, 's, unit) crun" where
  "check_orphan E block_id block_height =
     thenE (guardE (\<lambda>k. node_revision E (ct_db k) (db_get_root E (ct_db k)) \<le> block_height)
              (kexn pre_irreversibility_block_exception ''block is prior to irreversibility''))
       (guardE (\<lambda>k. block_id = node_id E (ct_db k) (db_get_root E (ct_db k)))
          (kexn unknown_previous_block_exception ''unknown previous block''))"

text \<open>The height and time of the parent block, read from its state; zero for the genesis case.\<close>

definition parent_info ::
  "('d, 'h, 'w) env \<Rightarrow> ('d, 'h, 'w) sys \<Rightarrow> 'h option \<Rightarrow> multihash \<Rightarrow> 'h \<Rightarrow> ('d, 'w, 's, u64 \<times> u64) crun" where
  "parent_info E sc block_node parent_id parent_node =
     (if block_node \<noteq> None \<and> \<not> mh_is_zero E parent_id then
        local_ctx Read_only (in_ctx (
          thenE (push_frame (root_frame [] kernel_mode)) (
          thenE (modifyE (set_state_node E (Some parent_node) None)) (
          thenE (modifyE reset_cache) (
          bindE (sc_head_info sc) (\<lambda>info.
          returnE (bt_height (hi_head_topology info), hi_head_block_time info)))))))
      else returnE (0, 0))"

definition check_block_header ::
  "('d, 'h, 'w) env \<Rightarrow> block \<Rightarrow> int \<Rightarrow> 'h option \<Rightarrow> multihash \<Rightarrow> 'h \<Rightarrow> u64 \<times> u64 \<Rightarrow> ('d, 'w, 's, unit) crun" where
  "check_block_header E b now block_node parent_id parent_node info =
     (let h = blk_header b; parent_height = fst info; time_lower_bound = snd info in
      thenE (assertE (mh_is_zero E parent_id \<longrightarrow> bh_height h = 1)
               (kexn unexpected_height_exception ''first block must have height of 1'')) (
      thenE (assertE (block_node \<noteq> None)
               (kexn block_state_error_exception ''could not create new block state node'')) (
      thenE (assertE (bh_height h = parent_height + 1)
               (kexn_args unexpected_height_exception ''expected block height of ${a}, was ${b}''
                  [(''a'', JNum (uint (parent_height + 1))), (''b'', JNum (uint (bh_height h)))])) (
      thenE (assertE (bh_timestamp h \<le> time_upper_bound now)
               (kexn timestamp_out_of_bounds_exception ''block timestamp is too far in the future'')) (
      thenE (assertE (time_lower_bound < bh_timestamp h)
               (kexn timestamp_out_of_bounds_exception ''block timestamp is too old''))
      (guardE (\<lambda>k. bh_previous_state_merkle_root h
                     = as_string E (M_multihash (node_merkle_root E (ct_db k) parent_node)))
         (kexn state_merkle_mismatch_exception ''block previous state merkle mismatch'')))))))"

section \<open>Applying and storing\<close>

definition apply_in_node ::
  "('d, 'h, 'w) env \<Rightarrow> ('d, 'h, 'w) sys \<Rightarrow> block \<Rightarrow> 'h option \<Rightarrow> ('d, 'h, 'w, block_receipt) run" where
  "apply_in_node E sc b block_node =
     thenE (push_frame (root_frame [] kernel_mode)) (
     thenE (modifyE (set_state_node E block_node None)) (
     thenE (modifyE reset_cache) (
     thenE (sc (A_apply_block b)) (
     bindE (getE ec_receipt) (\<lambda>r. case r of
         Block_receipt br \<Rightarrow> returnE br
       | _ \<Rightarrow> throwE (kexn unexpected_receipt_exception ''expected block receipt''))))))"

definition store_block :: "('d, 'h, 's) services \<Rightarrow> block \<Rightarrow> block_receipt \<Rightarrow> ('d, 'w, 's, unit) crun" where
  "store_block S b receipt =
     when_client (bindE (ask_client (\<lambda>s. sv_add_block S s b receipt)) (\<lambda>reply. case reply of
         Store_error e \<Rightarrow> throwE (kexn_args rpc_failure_exception ''received error from block store: ${e}'' [(''e'', JStr e)])
       | Store_add_block \<Rightarrow> returnE ()
       | Store_other r \<Rightarrow> throwE (kexn_args rpc_failure_exception
           ''unexpected response when submitting block: ${r}'' [(''r'', JStr r)])))"

section \<open>Finalising\<close>

text \<open>The state node is looked up again after the database lock was given up.\<close>

definition restore_node :: "('d, 'h, 'w) env \<Rightarrow> multihash \<Rightarrow> ('d, 'h, 'w, 's, unit) sbrun" where
  "restore_node E block_id =
     (\<lambda>(l, k). let n = db_get_node E (ct_db k) block_id in
        (Inr (), (l\<lparr>sb_block_node := n, sb_ctx := set_state_node E n None ((sb_ctx l)\<lparr>ec_db := ct_db k\<rparr>)\<rparr>, k)))"

definition forget_nodes :: "('d, 'h, 'w) sb \<Rightarrow> ('d, 'h, 'w) sb" where
  "forget_nodes l = l\<lparr>sb_block_node := None, sb_ctx := clear_state_node (sb_ctx l)\<rparr>"

definition set_state_merkle_root ::
  "('d, 'h, 'w) env \<Rightarrow> multihash \<Rightarrow> ('d, 'h, 'w, 's, unit) sbrun" where
  "set_state_merkle_root E block_id =
     bindE (outerE (getE (\<lambda>k. map_option (node_merkle_root E (ct_db k)) (db_get_node E (ct_db k) block_id)))) (\<lambda>root.
     bindE (someE root (Undefined ''null state node'')) (\<lambda>r.
     setlE (\<lambda>l. l\<lparr>sb_receipt := map_option (\<lambda>br. br\<lparr>br_state_merkle_root := as_string E (M_multihash r)\<rparr>) (sb_receipt l)\<rparr>)))"

definition update_head :: "('d, 'h, 'w) env \<Rightarrow> block \<Rightarrow> multihash \<Rightarrow> ('d, 'h, 'w, 's, unit) sbrun" where
  "update_head E b block_id =
     (\<lambda>(l, k). if block_id = node_id E (ct_db k) (db_get_head E (ct_db k))
        then (Inr (), (l\<lparr>sb_new_head := True\<rparr>, k\<lparr>ct_cached_head_block := Some b\<rparr>))
        else (Inr (), (l, k)))"

definition advance_lib :: "('d, 'h, 'w) env \<Rightarrow> multihash \<Rightarrow> u64 \<Rightarrow> ('d, 'w, 's, unit) crun" where
  "advance_lib E block_id lib =
     (\<lambda>k. if node_revision E (ct_db k) (db_get_root E (ct_db k)) < lib then
        (case db_get_node_at_revision E (ct_db k) lib block_id of
           Inl e \<Rightarrow> (Inl e, k)
         | Inr n \<Rightarrow> on_db (\<lambda>d. db_commit_node E d (node_id E d n)) k)
        else (Inr (), k))"

definition finalize_block ::
  "('d, 'h, 'w) env \<Rightarrow> block \<Rightarrow> multihash \<Rightarrow> u64 \<Rightarrow> ('d, 'h, 'w, 's, unit) sbrun" where
  "finalize_block E b block_id lib =
     catchE catchable
       (thenE (setlE forget_nodes) (
        thenE (outerE (on_db (\<lambda>d. db_finalize_node E d block_id))) (
        thenE (set_state_merkle_root E block_id) (
        thenE (update_head E b block_id) (
        thenE (outerE (advance_lib E block_id lib))
        (restore_node E block_id))))))
       (\<lambda>e. thenE (restore_node E block_id) (throwE e))"

section \<open>Announcing\<close>

definition context_receipt :: "('d, 'h, 'w, block_receipt) run" where
  "context_receipt = bindE (getE ec_receipt) (\<lambda>r. case r of
       Block_receipt br \<Rightarrow> returnE br
     | _ \<Rightarrow> throwE (StdExn ''std::bad_variant_access''))"

definition event_topic :: "('d, 'h, 's) services \<Rightarrow> event_data \<Rightarrow> string" where
  "event_topic S ev = ''koinos.event.'' @ sv_base58 S (ev_source ev) @ ''.'' @ ev_name ev"

definition announce ::
  "('d, 'h, 'w) env \<Rightarrow> ('d, 'h, 's) services \<Rightarrow> ('d, 'h, 'w) sys \<Rightarrow> block \<Rightarrow> bool \<Rightarrow> ('d, 'h, 'w, 's, unit) sbrun" where
  "announce E S sc b live =
     bindE (outerE (get_fork_data E S sc)) (\<lambda>(fork_heads, last_irreversible_block).
     thenE (outerE (send S ''koinos.block.irreversible'' (Bc_block_irreversible last_irreversible_block))) (
     bindE (sb_in context_receipt) (\<lambda>receipt.
     bindE (getlE sb_new_head) (\<lambda>new_head.
     thenE (outerE (send S ''koinos.block.accept'' (Bc_block_accepted b receipt live new_head))) (
     thenE (outerE (send S ''koinos.block.forks'' (Bc_fork_heads last_irreversible_block fork_heads))) (
     bindE (sb_in (getE (\<lambda>x. ch_events (ec_chronicler x)))) (\<lambda>events.
     outerE (forE events (\<lambda>(transaction_id, ev).
       send S (event_topic S ev) (Bc_event_parcel (blk_id b) (bh_height (blk_header b)) transaction_id ev))))))))))"

section \<open>Failing\<close>

fun is_block_state_error :: "exn \<Rightarrow> bool" where
  "is_block_state_error (KExn (Chain block_state_error_exception) _ _ _) = True"
| "is_block_state_error _ = False"

definition discard_unfinalized :: "('d, 'h, 'w) env \<Rightarrow> ('d, 'h, 'w, 's, unit) sbrun" where
  "discard_unfinalized E =
     (\<lambda>(l, k). case sb_block_node l of
        Some n \<Rightarrow>
          if \<not> node_is_finalized E (ct_db k) n
          then (Inr (), (l, k\<lparr>ct_db := db_discard_node E (ct_db k) (node_id E (ct_db k) n)\<rparr>))
          else (Inr (), (l, k))
      | None \<Rightarrow> (Inr (), (l, k)))"

text \<open>Setting a JSON entry again replaces it, so the last one counts.\<close>

definition json_entry :: "string \<Rightarrow> exn \<Rightarrow> json_arg option" where
  "json_entry key e = map_of (rev (exn_json e)) key"

definition announce_failure :: "('d, 'h, 's) services \<Rightarrow> exn \<Rightarrow> ('d, 'w, 's, unit) crun" where
  "announce_failure S e =
     when_client (case json_entry ''transaction_id'' e of
         None \<Rightarrow> returnE ()
       | Some j \<Rightarrow> bindE (liftE (sv_from_hex S j)) (\<lambda>i.
           send S ''koinos.transaction.fail'' (Bc_transaction_failed i)))"

definition add_block_logs :: "('d, 'h, 'w) ctx \<Rightarrow> exn \<Rightarrow> exn" where
  "add_block_logs x e =
     (case ec_receipt x of Block_receipt br \<Rightarrow> add_json ''logs'' (JStrs (br_logs br)) e | _ \<Rightarrow> e)"

definition block_failed ::
  "('d, 'h, 'w) env \<Rightarrow> ('d, 'h, 's) services \<Rightarrow> exn \<Rightarrow> ('d, 'h, 'w, 's, 'a) sbrun" where
  "block_failed E S e =
     (if is_block_state_error e then throwE e
      else
        thenE (discard_unfinalized E)
          (if is_koinos e then
             thenE (outerE (announce_failure S e))
               (bindE (getlE sb_ctx) (\<lambda>x. throwE (add_block_logs x e)))
           else throwE e))"

section \<open>Submitting a block\<close>

definition apply_and_finalize ::
  "('d, 'h, 'w) env \<Rightarrow> ('d, 'h, 's) services \<Rightarrow> ('d, 'h, 'w) sys \<Rightarrow> block \<Rightarrow> int \<Rightarrow> multihash \<Rightarrow> multihash \<Rightarrow> 'h
     \<Rightarrow> u64 \<times> u64 \<Rightarrow> ('d, 'h, 'w, 's, unit) sbrun" where
  "apply_and_finalize E S sc b now block_id parent_id parent_node info =
     bindE (getlE sb_block_node) (\<lambda>block_node.
     thenE (outerE (check_block_header E b now block_node parent_id parent_node info)) (
     bindE (sb_in (apply_in_node E sc b block_node)) (\<lambda>receipt.
     thenE (setlE (\<lambda>l. l\<lparr>sb_receipt := Some receipt\<rparr>)) (
     thenE (outerE (store_block S b receipt)) (
     bindE (sb_in (bindE (sc A_get_last_irreversible_block) (\<lambda>r. returnE (v_u64 r)))) (\<lambda>lib.
     thenE (finalize_block E b block_id lib) (
     bindE (outerE (getE (\<lambda>k. ct_client k \<noteq> None))) (\<lambda>has_client.
     if has_client then announce E S sc b (is_live now b) else returnE ()))))))))"

definition apply_new_block ::
  "('d, 'h, 'w) env \<Rightarrow> ('d, 'h, 's) services \<Rightarrow> ('d, 'h, 'w) sys \<Rightarrow> block \<Rightarrow> int \<Rightarrow> multihash \<Rightarrow> multihash \<Rightarrow> 'h
     \<Rightarrow> 'h option \<Rightarrow> u64 \<times> u64 \<Rightarrow> ('d, 'w, 's, block_receipt option) crun" where
  "apply_new_block E S sc b now block_id parent_id parent_node block_node info =
     (\<lambda>k. localE \<lparr>sb_ctx = execution_context_new (ct_vm k) (ct_db k) Block_application,
                  sb_block_node = block_node, sb_new_head = False, sb_receipt = None\<rparr>
        (thenE (catchE catchable (apply_and_finalize E S sc b now block_id parent_id parent_node info) (block_failed E S))
           (getlE sb_receipt)) k)"

definition submit_block ::
  "('d, 'h, 'w) env \<Rightarrow> ('d, 'h, 's) services \<Rightarrow> ('d, 'h, 'w) sys \<Rightarrow> block \<Rightarrow> int
     \<Rightarrow> ('d, 'w, 's, block_receipt option) crun" where
  "submit_block E S sc b now =
     thenE (validate_block b) (
     bindE (liftE (to_multihash E (blk_id b))) (\<lambda>block_id.
     bindE (liftE (to_multihash E (bh_previous (blk_header b)))) (\<lambda>parent_id.
     bindE (getE (\<lambda>k. db_get_node E (ct_db k) block_id)) (\<lambda>block_node.
     bindE (getE (\<lambda>k. db_get_node E (ct_db k) parent_id)) (\<lambda>parent_node.
     if block_node \<noteq> None then returnE None
     else case parent_node of
         None \<Rightarrow> thenE (check_orphan E block_id (bh_height (blk_header b))) (returnE None)
       | Some parent \<Rightarrow>
           bindE (create_block_node E parent_id block_id (blk_header b)) (\<lambda>node.
           bindE (parent_info E sc node parent_id parent) (\<lambda>info.
           apply_new_block E S sc b now block_id parent_id parent node info)))))))"

section \<open>Submitting a transaction\<close>

definition check_pending ::
  "('d, 'h, 's) services \<Rightarrow> bytes \<Rightarrow> u64 \<Rightarrow> u64 \<Rightarrow> ('d, 'w, 's, unit) crun" where
  "check_pending S payer max_payer_rc rc_limit =
     when_client (bindE (ask_client (\<lambda>s. sv_check_pending S s payer max_payer_rc rc_limit)) (\<lambda>reply. case reply of
         Mempool_error e \<Rightarrow> throwE (kexn_args rpc_failure_exception ''received error from mempool: ${e}'' [(''e'', JStr e)])
       | Mempool_other \<Rightarrow> throwE (kexn rpc_failure_exception ''received unexpected response from mempool'')
       | Mempool_check success \<Rightarrow>
           assertE success (kexn insufficient_rc_exception ''insufficient pending account resources'')))"

definition announce_transaction ::
  "('d, 'h, 'w) env \<Rightarrow> ('d, 'h, 's) services \<Rightarrow> transaction \<Rightarrow> transaction_receipt \<Rightarrow> ('d, 'h, 'w, 's, unit) xrun" where
  "announce_transaction E S t receipt =
     bindE (in_ctx (bindE (getE ec_current_state_node) (\<lambda>n. someE n (Undefined ''null state node'')))) (\<lambda>node.
     bindE (in_ctx (getE (\<lambda>x. node_revision E (ec_db x) node))) (\<lambda>height.
     outerE (send S ''koinos.transaction.accept'' (Bc_transaction_accepted t receipt height))))"

definition transaction_failed :: "exn \<Rightarrow> ('d, 'h, 'w, 's, 'a) xrun" where
  "transaction_failed e =
     bindE (getlE ec_receipt) (\<lambda>r. throwE (case r of
         Transaction_receipt tr \<Rightarrow> add_json ''logs'' (JStrs (tr_logs tr)) e
       | _ \<Rightarrow> e))"

definition apply_submitted ::
  "('d, 'h, 'w) env \<Rightarrow> ('d, 'h, 's) services \<Rightarrow> ('d, 'h, 'w) sys \<Rightarrow> transaction \<Rightarrow> bool
     \<Rightarrow> ('d, 'h, 'w, 's, transaction_receipt) xrun" where
  "apply_submitted E S sc t broadcast =
     thenE (in_ctx (modifyE reset_cache)) (
     bindE (in_ctx (bindE (sc (A_get_account_rc (th_payer (trx_header t)))) (\<lambda>r. returnE (v_u64 r)))) (\<lambda>max_payer_rc.
     thenE (if broadcast then outerE (check_pending S (th_payer (trx_header t)) max_payer_rc (th_rc_limit (trx_header t)))
            else returnE ()) (
     bindE (in_ctx (
       bindE (sc A_get_resource_limits) (\<lambda>r.
       thenE (modifyE (set_limits (v_limits r))) (
       thenE (sc (A_apply_transaction t)) (
       bindE (getE ec_receipt) (\<lambda>r. case r of
           Transaction_receipt tr \<Rightarrow> returnE tr
         | _ \<Rightarrow> throwE (kexn unexpected_receipt_exception ''expected transaction receipt''))))))) (\<lambda>receipt.
     bindE (outerE (getE (\<lambda>k. broadcast \<and> ct_client k \<noteq> None))) (\<lambda>bc.
     thenE (if bc then announce_transaction E S t receipt else returnE ())
     (returnE receipt))))))"

definition submit_transaction ::
  "('d, 'h, 'w) env \<Rightarrow> ('d, 'h, 's) services \<Rightarrow> ('d, 'h, 'w) sys \<Rightarrow> transaction \<Rightarrow> bool
     \<Rightarrow> ('d, 'w, 's, transaction_receipt) crun" where
  "submit_transaction E S sc t broadcast =
     thenE (validate_transaction t) (
     bindE need_head_block (\<lambda>head_block.
     local_ctx Transaction_application (
       thenE (in_ctx (
         thenE (modifyE (set_block head_block)) (
         thenE (set_anonymous E (db_get_head E))
         (push_frame (root_frame [] kernel_mode)))))
       (catchE is_koinos (apply_submitted E S sc t broadcast) transaction_failed))))"

end
