(* ===== verification/Service.thy ===== *)
theory Service
  imports Submission
begin

text \<open>
  The service program, \<^verbatim>\<open>programs/koinos_chain/main.cpp\<close>: the two message handlers that turn requests and
  block broadcasts into calls of the controller.  \<^theory_text>\<open>Startup\<close> has the rest of the program.

  Logging, threads and the AMQP transport are not modelled; what they deliver are arguments.  \<open>wire\<close> holds the
  generated message codecs.
\<close>

section \<open>Requests\<close>

datatype chain_request =
    Rq_reserved
  | Rq_submit_block block
  | Rq_submit_transaction transaction bool
  | Rq_get_head_info
  | Rq_get_chain_id
  | Rq_get_fork_heads
  | Rq_read_contract bytes u32 bytes
  | Rq_get_account_nonce bytes
  | Rq_get_account_rc bytes
  | Rq_get_resource_limits
  | Rq_invoke_system_call call_name bytes "(bytes \<times> privilege) option"
  | Rq_unknown

datatype chain_response =
    Rp_reserved
  | Rp_submit_block "block_receipt option"
  | Rp_submit_transaction transaction_receipt
  | Rp_get_head_info head_info_response
  | Rp_get_chain_id bytes
  | Rp_get_fork_heads "block_topology list" block_topology
  | Rp_read_contract bytes "bytes list"
  | Rp_get_account_nonce bytes
  | Rp_get_account_rc u64
  | Rp_get_resource_limits resource_limit_data
  | Rp_invoke_system_call bytes
  | Rp_error string "(string \<times> json_arg) list"

record wire =
  wr_request :: "bytes \<Rightarrow> chain_request option"
  wr_response :: "chain_response \<Rightarrow> bytes"
  wr_block_accepted :: "bytes \<Rightarrow> block option"

definition yield :: "('c, exn, 'a) comp \<Rightarrow> ('a \<Rightarrow> 'b) \<Rightarrow> ('c, exn, 'b) comp" where
  "yield m f = bindE m (\<lambda>a. returnE (f a))"

text \<open>The \<open>switch\<close> over the request.  \<open>now\<close> is the default argument of \<open>submit_block\<close>.\<close>

fun dispatch_request ::
  "('d, 'h, 'w) env \<Rightarrow> ('d, 'h, 's) services \<Rightarrow> ('d, 'h, 'w) sys \<Rightarrow> ('d, 'h, 'w) vm \<Rightarrow> int \<Rightarrow> u32 \<Rightarrow> chain_request
     \<Rightarrow> ('d, 'w, 's, chain_response) crun" where
  "dispatch_request E S sc run now junk Rq_reserved = returnE Rp_reserved"
| "dispatch_request E S sc run now junk (Rq_submit_block b) = yield (submit_block E S sc b now) Rp_submit_block"
| "dispatch_request E S sc run now junk (Rq_submit_transaction t bc) =
     yield (submit_transaction E S sc t bc) Rp_submit_transaction"
| "dispatch_request E S sc run now junk Rq_get_head_info = yield (get_head_info E sc) Rp_get_head_info"
| "dispatch_request E S sc run now junk Rq_get_chain_id = yield (get_chain_id E sc) Rp_get_chain_id"
| "dispatch_request E S sc run now junk Rq_get_fork_heads =
     yield (get_fork_heads E S sc) (\<lambda>(heads, lib). Rp_get_fork_heads heads lib)"
| "dispatch_request E S sc run now junk (Rq_read_contract i e a) =
     yield (read_contract E S sc i e a) (\<lambda>(result, logs). Rp_read_contract result logs)"
| "dispatch_request E S sc run now junk (Rq_get_account_nonce a) = yield (get_account_nonce E sc a) Rp_get_account_nonce"
| "dispatch_request E S sc run now junk (Rq_get_account_rc a) = yield (get_account_rc E sc a) Rp_get_account_rc"
| "dispatch_request E S sc run now junk Rq_get_resource_limits = yield (get_resource_limits E sc) Rp_get_resource_limits"
| "dispatch_request E S sc run now junk (Rq_invoke_system_call name args caller) =
     yield (ctl_invoke_system_call E sc run name args caller junk) Rp_invoke_system_call"
| "dispatch_request E S sc run now junk Rq_unknown = returnE (Rp_error ''Error: attempted to call unknown rpc'' [])"

text \<open>\<open>e.what()\<close>, and the error data with the code of the exception.\<close>

fun error_response :: "('d, 'h, 'w) env \<Rightarrow> exn \<Rightarrow> chain_response" where
  "error_response E (StdExn what) = Rp_error what [(''code'', JNum (err_code E (Chain internal_error_exception)))]"
| "error_response E e = Rp_error (exn_message E e) (exn_json e @ [(''code'', JNum (exn_code E e))])"

definition rpc_handler ::
  "('d, 'h, 'w) env \<Rightarrow> ('d, 'h, 's) services \<Rightarrow> wire \<Rightarrow> ('d, 'h, 'w) sys \<Rightarrow> ('d, 'h, 'w) vm \<Rightarrow> int \<Rightarrow> u32 \<Rightarrow> bytes
     \<Rightarrow> ('d, 'w, 's, bytes) crun" where
  "rpc_handler E S W sc run now junk msg =
     bindE (case wr_request W msg of
         Some rq \<Rightarrow> catchE catchable (dispatch_request E S sc run now junk rq) (\<lambda>e. returnE (error_response E e))
       | None \<Rightarrow> returnE (Rp_error ''received bad message''
           [(''code'', JNum (err_code E (Chain internal_error_exception)))]))
       (\<lambda>rp. returnE (wr_response W rp))"

definition block_accept_handler ::
  "('d, 'h, 'w) env \<Rightarrow> ('d, 'h, 's) services \<Rightarrow> wire \<Rightarrow> ('d, 'h, 'w) sys \<Rightarrow> int \<Rightarrow> bytes \<Rightarrow> ('d, 'w, 's, unit) crun" where
  "block_accept_handler E S W sc now msg =
     (case wr_block_accepted W msg of
        None \<Rightarrow> returnE ()
      | Some b \<Rightarrow> catchE catchable (thenE (submit_block E S sc b now) (returnE ())) (\<lambda>_. returnE ()))"

end
