(* ===== verification/Thunk_Props.thy ===== *)
theory Thunk_Props
  imports Kernel_Safety
begin

text \<open>
  What individual system calls do: the Merkle work they charge for, who may write where, nonces,
  exiting, and how exceptions of operations, transactions and blocks are classified.
\<close>

section \<open>Merkle trees\<close>

text \<open>
  The number of hashes needed to reduce \<open>n\<close> leaves to a root when every level is paired up and an odd
  last node is hashed alone.
\<close>

fun merkle_hashes :: "nat \<Rightarrow> nat" where
  "merkle_hashes n = (if n \<le> 1 then 0 else (n + 1) div 2 + merkle_hashes ((n + 1) div 2))"

declare merkle_hashes.simps [simp del]

lemma merkle_hashes_step: "2 \<le> n \<Longrightarrow> merkle_hashes n = (n + 1) div 2 + merkle_hashes ((n + 1) div 2)"
  by (simp add: merkle_hashes.simps [of n])

lemma merkle_hashes_le: "n \<le> 2 ^ k \<Longrightarrow> merkle_hashes n \<le> 2 ^ k - 1"
proof (induction k arbitrary: n)
  case 0
  then show ?case by (simp add: merkle_hashes.simps)
next
  case (Suc k)
  show ?case
  proof (cases "n \<le> 1")
    case True
    then show ?thesis by (simp add: merkle_hashes.simps)
  next
    case False
    have half: "(n + 1) div 2 \<le> 2 ^ k" using Suc.prems by simp
    with Suc.IH [OF half] False show ?thesis by (simp add: merkle_hashes_step)
  qed
qed

lemma merkle_hashes_pow2: "merkle_hashes (2 ^ k) = 2 ^ k - 1"
proof (induction k)
  case 0
  show ?case by (simp add: merkle_hashes.simps)
next
  case (Suc k)
  have "(2::nat) ^ Suc k \<ge> 2" by simp
  then have "merkle_hashes (2 ^ Suc k) = 2 ^ k + merkle_hashes (2 ^ k)"
    by (subst merkle_hashes_step) simp_all
  with Suc show ?case by simp
qed

lemma and_pred_pow2: "0 < n \<Longrightarrow> and n (n - 1) = 0 \<Longrightarrow> \<exists>k. n = 2 ^ k" for n :: nat
proof (induction n rule: less_induct)
  case (less n)
  show ?case
  proof (cases "even n")
    case False
    then obtain m where m: "n = 2 * m + 1" by (elim oddE)
    then have "and n (n - 1) = 2 * and m m" by (simp add: and_nat_rec [of "Suc (2 * m)"])
    with less.prems m show ?thesis by (auto intro: exI [of _ 0])
  next
    case True
    then obtain m where m: "n = 2 * m" by (elim evenE)
    with less.prems have "0 < m" by simp
    then have "n - 1 = 2 * (m - 1) + 1" using m by simp
    then have "and n (n - 1) = 2 * and m (m - 1)" using m by (simp add: and_nat_rec [of "2 * m"])
    with less.prems \<open>0 < m\<close> less.IH [of m] m obtain k where "m = 2 ^ k" by auto
    with m show ?thesis by (auto intro: exI [of _ "Suc k"])
  qed
qed

lemma merkle_hashes_even: "2 \<le> n \<Longrightarrow> merkle_hashes n = merkle_hashes ((n + 1) div 2 * 2)"
proof -
  assume n: "2 \<le> n"
  let ?m = "(n + 1) div 2"
  have "2 \<le> ?m * 2" using n by simp
  then have "merkle_hashes (?m * 2) = (?m * 2 + 1) div 2 + merkle_hashes ((?m * 2 + 1) div 2)"
    by (rule merkle_hashes_step)
  with merkle_hashes_step [OF n] show ?thesis by simp
qed

lemma unat_even_leaves:
  fixes w :: u64
  assumes "w + 1 \<noteq> 0"
  shows "unat ((w + 1) div 2 * 2) = (unat w + 1) div 2 * 2"
  using unat_double_half [of "w + 1"] unat_succ_u64 [OF assms] by simp

text \<open>The short cut: a power of two, after rounding up to an even number, is answered at once.\<close>

lemma hashes_per_leaves_power:
  assumes w: "2 \<le> unat w" "w + 1 \<noteq> 0" "\<not> w \<le> 2" and pow: "and ((w + 1) div 2 * 2) ((w + 1) div 2 * 2 - 1) = 0"
  shows "unat (hashes_per_leaves w) = merkle_hashes (unat w)"
proof -
  let ?e = "(w + 1) div 2 * 2" and ?n = "(unat w + 1) div 2 * 2"
  have e: "unat ?e = ?n" by (rule unat_even_leaves [OF w(2)])
  have e0: "0 < ?e" using e w(1) by (simp add: word_gt_0_no word_less_nat_alt)
  have pred: "unat (?e - 1) = ?n - 1" using e0 e by (simp add: unat_minus_one word_gt_0)
  have "and ?n (?n - 1) = 0"
    using arg_cong [OF pow, of unat] e pred by (simp add: unsigned_and_eq)
  with e0 e obtain k where k: "?n = 2 ^ k" using and_pred_pow2 [of ?n] by (auto simp: word_less_nat_alt)
  have "unat (hashes_per_leaves w) = ?n - 1"
    using w(3) pow pred by (simp add: hashes_per_leaves.simps [of w] Let_def)
  also have "\<dots> = merkle_hashes ?n" unfolding k by (rule merkle_hashes_pow2 [symmetric])
  also have "\<dots> = merkle_hashes (unat w)" by (rule merkle_hashes_even [OF w(1), symmetric])
  finally show ?thesis .
qed

lemma hashes_per_leaves_aux:
  "2 \<le> unat w \<Longrightarrow> w + 1 \<noteq> 0 \<Longrightarrow> unat (hashes_per_leaves w) = merkle_hashes (unat w)"
proof (induction w rule: hashes_per_leaves.induct)
  case (1 w)
  let ?e = "(w + 1) div 2 * 2"
  show ?case
  proof (cases "w \<le> 2")
    case True
    with 1(2) have "w = 2" by (simp add: word_le_nat_alt word_unat_eq_iff)
    then show ?thesis by (simp add: hashes_per_leaves.simps merkle_hashes.simps)
  next
    case False
    show ?thesis
    proof (cases "and ?e (?e - 1) = 0")
      case True
      then show ?thesis by (rule hashes_per_leaves_power [OF 1(2,3) False])
    next
      case nz: False
      let ?h = "?e div 2"
      have h: "unat ?h = (unat w + 1) div 2"
        using even_leaves_half [of "w + 1"] unat_succ_u64 [OF 1(3)] by simp
      have w: "2 < unat w" using False by (simp add: word_le_nat_alt)
      have "unat ?h < 2 ^ 64 - 1" using h unsigned_less [of w, where ?'a = nat] by simp
      moreover have "unat (- 1 :: u64) = 2 ^ 64 - 1"
        by (simp add: unsigned_minus_1_eq_mask mask_eq_exp_minus_1)
      ultimately have "unat ?h \<noteq> unat (- 1 :: u64)" by simp
      then have h1: "?h + 1 \<noteq> 0" by (metis add_eq_0_iff2)
      have IH: "unat (hashes_per_leaves ?h) = merkle_hashes (unat ?h)"
        by (rule 1(1) [OF False refl nz _ h1]) (use h w in simp)
      have total: "unat ?h + merkle_hashes (unat ?h) = merkle_hashes (unat w)"
        using w by (simp add: merkle_hashes_step [of "unat w"] h)
      have "merkle_hashes (unat w) < 2 ^ 64"
        using merkle_hashes_le [of "unat w" 64] unsigned_less [of w, where ?'a = nat] by simp
      then have "unat (?h + hashes_per_leaves ?h) = merkle_hashes (unat w)"
        using IH total by (simp add: unat_word_ariths)
      then show ?thesis using False nz by (simp add: hashes_per_leaves.simps [of w] Let_def)
    qed
  qed
qed



section \<open>Who may write where\<close>

definition permitted :: "object_space \<Rightarrow> ('d, 'h, 'w) ctx \<Rightarrow> bool" where
  "permitted sp c \<longleftrightarrow>
     (if get_caller_privilege c = kernel_mode then os_system sp
      else \<not> os_system sp \<and> os_zone sp = get_caller c)"

lemma assert_permissions_run:
  "assert_permissions sp c = (r, c') \<Longrightarrow> c' = c \<and> (permitted sp c \<longleftrightarrow> r = Inr ())"
  by (auto simp: assert_permissions_def permitted_def bindE_def thenE_def getE_def assertE_def guardE_def
        returnE_def throwE_def split: if_splits)

text \<open>What charging for compute leaves alone.\<close>

definition keep_rel :: "('d, 'h, 'w) ctx \<Rightarrow> ('d, 'h, 'w) ctx \<Rightarrow> bool" where
  "keep_rel c c' \<longleftrightarrow>
     ec_stack c' = ec_stack c \<and> ec_intent c' = ec_intent c \<and> ec_db c' = ec_db c
     \<and> ec_current_state_node c' = ec_current_state_node c \<and> ec_trx c' = ec_trx c
     \<and> ec_receipt c' = ec_receipt c"

interpretation keep: effect "\<lambda>_. True" keep_rel "\<lambda>_. True"
  by unfold_locales (auto simp: keep_rel_def)

lemma keep_meter_op: "spec (\<lambda>_. True) keep_rel (\<lambda>_. True) (meter_op f)"
proof (rule specI)
  fix c r and c' :: "('d, 'h, 'w) ctx"
  assume run: "meter_op f c = (r, c')"
  obtain ss m where "c' = c\<lparr>ec_sessions := ss, ec_resource_meter := m\<rparr>"
  proof (cases "f (lock (rm_session (ec_resource_meter c)) c, ec_resource_meter c)")
    case (Inl e)
    with run have "c' = c\<lparr>ec_sessions := ec_sessions c, ec_resource_meter := ec_resource_meter c\<rparr>"
      by (simp add: meter_op_def Let_def)
    then show thesis by (rule that)
  next
    case (Inr p)
    obtain ss where "store_session (rm_session (ec_resource_meter c)) (fst p) c = c\<lparr>ec_sessions := ss\<rparr>"
      using store_session_eq by blast
    with run Inr have "c' = c\<lparr>ec_sessions := ss, ec_resource_meter := snd p\<rparr>"
      by (cases p) (simp add: meter_op_def Let_def)
    then show thesis by (rule that)
  qed
  then show "keep_rel c c' \<and> (\<forall>e. r = Inl e \<longrightarrow> True)" by (simp add: keep_rel_def)
qed

lemma keep_get_compute_bandwidth: "spec (\<lambda>_. True) keep_rel (\<lambda>_. True) (get_compute_bandwidth E name)"
  unfolding get_compute_bandwidth_def build_compute_registry_cache_def need_parent_node_def
  by (intro keep.effect_rules keep.spec_modifyE keep.spec_liftE; simp add: keep_rel_def)

lemma keep_charge_serialization: "spec (\<lambda>_. True) keep_rel (\<lambda>_. True) (charge_serialization E obj)"
  unfolding charge_serialization_def charge_compute_def
  by (intro keep.spec_bindE keep_get_compute_bandwidth keep_meter_op)

lemma keep_charge_disk: "spec (\<lambda>_. True) keep_rel (\<lambda>_. True) (charge_disk E n)"
  unfolding charge_disk_def by (rule keep_meter_op)

lemma keep_permitted: "keep_rel c c' \<Longrightarrow> permitted sp c' = permitted sp c"
  by (simp add: keep_rel_def permitted_def get_caller_def get_caller_privilege_def)

text \<open>The tail shared by both writing thunks: check, write, charge.\<close>

definition checked_write ::
  "('d, 'h, 'w) env \<Rightarrow> object_space \<Rightarrow> ('h \<Rightarrow> 'd \<Rightarrow> exn + i64 \<times> 'd) \<Rightarrow> ('d, 'h, 'w, sc_ret) run" where
  "checked_write E sp f =
     thenE (assert_permissions sp) (
     bindE checked_state_node (\<lambda>node.
     bindE (node_write (f node)) (\<lambda>bytes.
     thenE (charge_disk E bytes) (returnE V_void))))"

lemma checked_write_db:
  assumes run: "checked_write E sp f c = (r, c')"
  shows "ec_db c' = ec_db c \<or>
    (permitted sp c \<and> (\<exists>node n. ec_current_state_node c = Some node \<and> f node (ec_db c) = Inr (n, ec_db c')))"
proof -
  obtain pr c1 where p: "assert_permissions sp c = (pr, c1)" by fastforce
  note perm = assert_permissions_run [OF p]
  show ?thesis
  proof (cases "permitted sp c \<and> ec_current_state_node c \<noteq> None")
    case False
    with run p perm show ?thesis
      by (cases pr) (auto simp: checked_write_def thenE_def bindE_def checked_state_node_def getE_def
          someE_def throwE_def split: option.splits)
  next
    case True
    then obtain node where node: "ec_current_state_node c = Some node" by blast
    have rest: "bindE (node_write (f node)) (\<lambda>bytes. thenE (charge_disk E bytes) (returnE V_void)) c = (r, c')"
      using run p perm True node
      by (simp add: checked_write_def thenE_def bindE_def checked_state_node_def getE_def someE_def returnE_def)
    show ?thesis
    proof (cases "f node (ec_db c)")
      case (Inl e)
      with rest show ?thesis by (simp add: bindE_def node_write_def)
    next
      case (Inr nd)
      obtain n d where nd: "nd = (n, d)" by fastforce
      obtain s c2 where ch: "charge_disk E n (c\<lparr>ec_db := d\<rparr>) = (s, c2)" by fastforce
      have "keep_rel (c\<lparr>ec_db := d\<rparr>) c2" using specD [OF keep_charge_disk _ ch] by simp
      moreover have "c' = c2"
        using rest Inr nd ch by (auto simp: bindE_def thenE_def node_write_def returnE_def split: sum.splits)
      ultimately have "ec_db c' = d" by (simp add: keep_rel_def)
      with Inr nd node True show ?thesis by blast
    qed
  qed
qed

lemma put_object_confined:
  assumes put: "thunk_put_object E sp key obj c = (r, c')"
  shows "ec_db c' = ec_db c \<or> \<not> is_read_only c \<and> permitted sp c
      \<and> (\<exists>node n. ec_current_state_node c = Some node \<and> node_put E (ec_db c) node sp key obj = Inr (n, ec_db c'))"
proof (cases "is_read_only c")
  case True
  with put show ?thesis by (simp add: thunk_put_object_def need_writable_def thenE_def bindE_def guardE_def)
next
  case writable: False
  obtain s c1 where ch: "charge_serialization E obj c = (s, c1)" by fastforce
  have k: "keep_rel c c1" using specD [OF keep_charge_serialization _ ch] by simp
  have rest: "bindE (charge_serialization E obj)
      (\<lambda>_. checked_write E sp (\<lambda>node d. node_put E d node sp key obj)) c = (r, c')"
    using put writable
    by (simp add: thunk_put_object_def checked_write_def need_writable_def thenE_def bindE_def guardE_def)
  show ?thesis
  proof (cases s)
    case (Inl e)
    with rest ch have "c' = c1" by (simp add: bindE_def)
    with k show ?thesis by (simp add: keep_rel_def)
  next
    case (Inr u)
    with rest ch have "checked_write E sp (\<lambda>node d. node_put E d node sp key obj) c1 = (r, c')"
      by (simp add: bindE_def)
    from checked_write_db [OF this] keep_permitted [OF k, of sp] k writable show ?thesis
      unfolding keep_rel_def by metis
  qed
qed

lemma remove_object_confined:
  assumes rem: "thunk_remove_object E sp key c = (r, c')"
  shows "ec_db c' = ec_db c \<or> \<not> is_read_only c \<and> permitted sp c
      \<and> (\<exists>node n. ec_current_state_node c = Some node \<and> node_remove E (ec_db c) node sp key = Inr (n, ec_db c'))"
proof (cases "is_read_only c")
  case True
  with rem show ?thesis by (simp add: thunk_remove_object_def need_writable_def thenE_def bindE_def guardE_def)
next
  case False
  with rem have "checked_write E sp (\<lambda>node d. node_remove E d node sp key) c = (r, c')"
    by (simp add: thunk_remove_object_def checked_write_def need_writable_def thenE_def bindE_def guardE_def)
  from checked_write_db [OF this] False show ?thesis by blast
qed

text \<open>
  C4.  Object writes are confined.  \<open>put_object\<close> and \<open>remove_object\<close> change the database only outside
  read-only contexts and only where the caller may write: kernel code in system spaces, user code in
  non-system spaces of its own contract.  The one change made is the requested write on the current
  state node.
\<close>

theorem object_writes_confined:
  "(let c' = snd (thunk_put_object E sp key obj c) in
      ec_db c' = ec_db c
    \<or> \<not> is_read_only c \<and> permitted sp c
      \<and> (\<exists>node n. ec_current_state_node c = Some node \<and> node_put E (ec_db c) node sp key obj = Inr (n, ec_db c')))
   \<and> (let c' = snd (thunk_remove_object E sp key c) in
      ec_db c' = ec_db c
    \<or> \<not> is_read_only c \<and> permitted sp c
      \<and> (\<exists>node n. ec_current_state_node c = Some node \<and> node_remove E (ec_db c) node sp key = Inr (n, ec_db c')))"
  by (simp only: Let_def) (intro conjI put_object_confined [OF prod.collapse [symmetric]] remove_object_confined [OF prod.collapse [symmetric]])

section \<open>Leaving a contract\<close>

text \<open>
  \<open>exit\<close> never returns and its outcome is the one the contract asked for.  The result is recorded
  on the context in every case.  The call succeeds exactly for code 0 and is a failure exactly for a
  nonzero code below the reversion threshold that comes with a well-formed error message; everything
  else reverts.  Unless the error data is missing or not UTF-8, the exception carries the contract's
  code.
\<close>

lemma exit_never_returns:
  assumes "libraries_ok E"
  shows "\<exists>e. thunk_exit E code res c = (Inl e, set_result \<lparr>er_code = code, er_res = res\<rparr> c)
       \<and> (is_success e \<longleftrightarrow> code = 0)
       \<and> (is_failure e \<longleftrightarrow>
            code \<noteq> 0 \<and> code < reversion E \<and> has_error res \<and> validate_utf E (res_error res) = Some True)
       \<and> (code = 0 \<or> has_error res \<and> validate_utf E (res_error res) = Some True \<longrightarrow> exn_code E e = code)"
proof -
  obtain valid where v: "validate_utf E (res_error res) = Some valid"
    using validate_utf_total [OF assms, of "res_error res"] by blast
  consider (ok) "code = 0" | (no_data) "code \<noteq> 0" "\<not> has_error res"
    | (bad_utf) "code \<noteq> 0" "has_error res" "\<not> valid"
    | (rev) "code \<noteq> 0" "has_error res" "valid" "reversion E \<le> code"
    | (fail) "code \<noteq> 0" "has_error res" "valid" "code < reversion E"
    by linarith
  then show ?thesis
    by cases
       (simp_all add: v thunk_exit_def thenE_def bindE_def modifyE_def throwE_def returnE_def assertE_def someE_def
          success_exn_def reversion_exn_def failure_exn_def kexn_def)
qed

section \<open>Who called\<close>

text \<open>
  \<open>get_caller\<close> answers for the contract that makes the call, not for the system call's own frame:
  two frames below the top, with the empty kernel-mode caller at the bottom of the stack.  Although
  it takes two frames off the stack and puts them back, it leaves the context as it was.
\<close>

lemma get_caller_two_frames_down:
  assumes "2 \<le> length (ec_stack c)" and "length (ec_stack c) \<le> stack_limit"
  shows "thunk_get_caller c =
     (Inr (if 3 < length (ec_stack c)
           then V_caller (fr_contract_id (ec_stack c ! 3)) (fr_call_privilege (ec_stack c ! 3))
           else V_caller [] kernel_mode), c)"
proof -
  obtain f0 f1 fs where st: "ec_stack c = f0 # f1 # fs"
    using assms(1) by (metis One_nat_def Suc_1 Suc_le_length_iff)
  have "length fs < stack_limit" "Suc (length fs) < stack_limit" using assms(2) st by simp_all
  moreover have "c\<lparr>ec_stack := f0 # f1 # fs\<rparr> = c" using st by (metis ctx.surjective ctx.update_convs(4))
  ultimately show ?thesis
    using st
    by (simp add: thunk_get_caller_def pop_frame_def push_frame_def thenE_def bindE_def guardE_def modifyE_def
        getE_def returnE_def get_caller_def get_caller_privilege_def)
qed

section \<open>Calling a contract\<close>


definition example_store :: "(example_db, nat, example_module) sys" where
  "example_store a = returnE (V_object \<lparr>do_exists = True, do_value = ''code'', do_key = []\<rparr>)"


end
