(* ===== verification/Transaction_Props.thy ===== *)
theory Transaction_Props
  imports Thunk_Props
begin

text \<open>
  What the thunks that apply blocks, transactions and operations guarantee whatever the system calls
  they make do: \<open>sc\<close> is arbitrary throughout, so that contracts overriding system calls are covered.
\<close>

section \<open>How exceptions change class on the way out\<close>

text \<open>The exception a guarded block ends with is its body's own, or comes from the guard.\<close>

lemma with_privilege_InlD:
  assumes "with_privilege p m c = (Inl e, c')"
  shows "e = Terminated \<or> e = kexn internal_error_exception ''stack empty'' \<or> (\<exists>c1 c2. m c1 = (Inl e, c2))"
proof -
  obtain r c2 where m: "m (c\<lparr>ec_stack := (hd (ec_stack c))\<lparr>fr_call_privilege := p\<rparr> # tl (ec_stack c)\<rparr>) = (r, c2)"
    by fastforce
  show ?thesis
  proof (cases "ec_stack c = []")
    case True
    with assms show ?thesis
      by (simp add: with_privilege_def get_privilege_def thenE_def bindE_def guardE_def)
  next
    case False
    then have "with_privilege p m c = raii (\<lambda>_. (r, c2)) (set_privilege (fr_call_privilege (hd (ec_stack c)))) c"
      using m by (simp add: with_privilege_def get_privilege_def set_privilege_def thenE_def bindE_def guardE_def
          getE_def modifyE_def raii_def)
    with assms m show ?thesis by (auto simp: raii_def split: prod.splits sum.splits)
  qed
qed



text \<open>
  What applying a block's transactions comes to: each in turn, going on after one that returned or
  reverted and stopping at any other exception.
\<close>

fun apply_all :: "('d, 'h, 'w) sys \<Rightarrow> transaction list \<Rightarrow> ('d, 'h, 'w) ctx \<Rightarrow> (exn \<times> ('d, 'h, 'w) ctx) + ('d, 'h, 'w) ctx" where
  "apply_all sc [] c = Inr c"
| "apply_all sc (t # ts) c =
     (case sc (A_apply_transaction t) c of
        (Inr _, c') \<Rightarrow> apply_all sc ts c'
      | (Inl e, c') \<Rightarrow>
          if is_reversion e then apply_all sc ts c'
          else Inl (if is_koinos e then add_json ''transaction_id'' (JHex (trx_id t)) e else e, c'))"

text \<open>
  A reverted transaction does not invalidate its block.  The block's loop over its transactions
  applies every one of them in order, passes over those that revert, and ends early only with an
  exception that is no reversion; a chain exception is then marked with the transaction's id.
\<close>

lemma block_survives_reversions:
  "forE trxs (apply_block_transaction sc) c =
     (case apply_all sc trxs c of Inr c' \<Rightarrow> (Inr (), c') | Inl (e, c') \<Rightarrow> (Inl e, c'))"
proof (induction trxs arbitrary: c)
  case Nil
  show ?case by (simp add: returnE_def)
next
  case (Cons t ts)
  obtain r c1 where r: "sc (A_apply_transaction t) c = (r, c1)" by fastforce
  then have "apply_block_transaction sc t c =
      (case r of
         Inr _ \<Rightarrow> Inr ()
       | Inl e \<Rightarrow>
           if is_reversion e then Inr ()
           else Inl (if is_koinos e then add_json ''transaction_id'' (JHex (trx_id t)) e else e), c1)"
    by (auto simp: apply_block_transaction_def catchE_def thenE_def bindE_def returnE_def throwE_def
          split: sum.splits dest: has_base_koinos)
  with r Cons.IH show ?case by (auto simp: thenE_def bindE_def split: sum.splits)
qed

section \<open>What it takes to be applied\<close>

text \<open>\<open>answered sc a r\<close>: the system call \<open>a\<close> was made and answered \<open>r\<close>.\<close>

definition answered :: "('d, 'h, 'w) sys \<Rightarrow> sc_args \<Rightarrow> sc_ret \<Rightarrow> bool" where
  "answered sc a r \<longleftrightarrow> (\<exists>c c'. sc a c = (Inr r, c'))"

lemma answeredI: "sc a c = (Inr r, c') \<Longrightarrow> answered sc a r"
  by (auto simp: answered_def)

lemma sc_get_InrD: "sc_get sc sp k c = (Inr d, c') \<Longrightarrow> \<exists>r. answered sc (A_get_object sp k) r \<and> d = v_object r"
  unfolding sc_get_def by (drule bindE_InrD) (auto simp: returnE_def intro: answeredI)

lemma sc_hash_of_InrD:
  "sc_hash_of E sc obj c = (Inr h, c') \<Longrightarrow> \<exists>code r. answered sc (A_hash code obj 0) r \<and> h = v_bytes r"
  unfolding sc_hash_of_def by (drule bindE_InrD) (auto dest!: bindE_InrD simp: returnE_def intro: answeredI)

lemma require_authority_InrD:
  "require_transaction_authority sc a c = (Inr u, c') \<Longrightarrow>
     \<exists>r. answered sc (A_check_authority transaction_application_auth a []) r \<and> v_bool r"
  unfolding require_transaction_authority_def
  by (drule bindE_InrD) (auto dest!: assertE_InrD intro: answeredI)

lemma mapE_length: "mapE f xs c = (Inr ys, c') \<Longrightarrow> length ys = length xs"
  by (induction xs arbitrary: c ys) (auto dest!: bindE_InrD simp: returnE_def)

text \<open>The accounts that must have authorised a transaction.\<close>

definition authorizing_accounts :: "transaction \<Rightarrow> bytes list" where
  "authorizing_accounts trx =
     th_payer (trx_header trx) # (if uses_payee_nonce trx then [th_payee (trx_header trx)] else [])"

lemma bindE_InrE:
  assumes "bindE m f c = (Inr b, c'')"
  obtains a c' where "m c = (Inr a, c')" and "f a c' = (Inr b, c'')"
  using bindE_InrD [OF assms] by blast

lemma thenE_InrE:
  assumes "thenE m k c = (Inr b, c'')"
  obtains a c' where "m c = (Inr a, c')" and "k c' = (Inr b, c'')"
  using thenE_InrD [OF assms] by blast


definition example_answers :: "(example_db, nat, example_module) sys" where
  "example_answers a = returnE
     (case a of
        A_get_object _ _ \<Rightarrow> V_object \<lparr>do_exists = True, do_value = ''chain'', do_key = []\<rparr>
      | A_hash _ _ _ \<Rightarrow> V_bytes ''id''
      | A_verify_merkle_root _ _ \<Rightarrow> V_bool True
      | A_check_authority _ _ _ \<Rightarrow> V_bool True
      | A_verify_account_nonce _ _ \<Rightarrow> V_bool True
      | A_consume_account_rc _ _ \<Rightarrow> V_bool True
      | A_get_account_rc _ \<Rightarrow> V_u64 1000
      | _ \<Rightarrow> V_void)"

definition example_trx :: transaction where
  "example_trx =
     \<lparr>trx_id = ''id'', trx_has_header = True,
      trx_header = \<lparr>th_chain_id = ''chain'', th_rc_limit = 100, th_nonce = ''1'', th_operation_merkle_root = ''root'',
        th_payer = ''alice'', th_payee = ''bob''\<rparr>,
      trx_operations = [], trx_signatures = []\<rparr>"


section \<open>Receipts\<close>

lemma outerE_InrE:
  assumes "outerE m lc = (Inr a, lc')"
  obtains c' where "m (snd lc) = (Inr a, c')" and "lc' = (fst lc, c')"
  using assms by (cases lc) (auto simp: outerE_def split: prod.splits)

lemma catchE_InrE:
  assumes "catchE p m h c = (Inr a, c')"
  obtains "m c = (Inr a, c')" | e c1 where "m c = (Inl e, c1)" and "p e" and "h e c1 = (Inr a, c')"
  using assms by (auto simp: catchE_def split: prod.splits sum.splits if_splits)

lemma finallyE_InrE:
  assumes "finallyE m fin c = (r, c')"
  obtains c1 where "m c = (r, c1)" and "c' = fin c1"
  using assms by (auto simp: finallyE_def split: prod.splits)

lemma outerE_fst: "outerE m lc = (r, lc') \<Longrightarrow> fst lc' = fst lc"
  by (cases lc) (auto simp: outerE_def split: prod.splits)

definition receipt_filed :: "transaction_receipt \<Rightarrow> ('d, 'h, 'w) ctx \<Rightarrow> bool" where
  "receipt_filed tr c \<longleftrightarrow>
     (case ec_intent c of
        Block_application \<Rightarrow>
          (\<exists>r. ec_receipt c = Block_receipt r
             \<and> br_transaction_receipts r \<noteq> [] \<and> last (br_transaction_receipts r) = tr)
      | Transaction_application \<Rightarrow> ec_receipt c = Transaction_receipt tr
      | Read_only \<Rightarrow> True)"

definition receipt_for :: "transaction \<Rightarrow> trx_locals \<Rightarrow> transaction_receipt \<Rightarrow> bool" where
  "receipt_for trx l tr \<longleftrightarrow>
     tr_id tr = trx_id trx \<and> tr_payer tr = th_payer (trx_header trx)
     \<and> tr_rc_limit tr = th_rc_limit (trx_header trx) \<and> tr_rc_used tr = l_used_rc l
     \<and> tr_reverted tr = l_reverted l \<and> tr_events tr = l_events l"

lemma receipt_of_InrD: "transaction_receipt_of E trx l c = (Inr tr, c') \<Longrightarrow> receipt_for trx l tr"
  by (auto simp: transaction_receipt_of_def receipt_for_def getE_def elim!: bindE_InrE)

lemma file_receipt_InrD: "file_transaction_receipt tr c = (Inr u, c') \<Longrightarrow> receipt_filed tr c'"
  by (auto simp: file_transaction_receipt_def bindE_def getE_def throwE_def returnE_def modifyE_def
        receipt_filed_def split: intent.splits receipt.splits prod.splits)

lemma receipt_filing:
  "bindE (transaction_receipt_of E trx l) file_transaction_receipt c = (Inr u, c') \<Longrightarrow>
     \<exists>tr. receipt_for trx l tr \<and> receipt_filed tr c'"
  by (blast elim: bindE_InrE dest: receipt_of_InrD file_receipt_InrD)

text \<open>After the phases the \<open>reverted\<close> mark of the receipt and the remembered exception agree.\<close>

definition marks_agree :: "trx_locals \<Rightarrow> bool" where
  "marks_agree l \<longleftrightarrow> (l_reverted l \<longleftrightarrow> l_reverted_exception l \<noteq> None)"

lemma checks_phase_fst:
  assumes "catchE is_reversion
      (bindE (outerE m) (\<lambda>rc. thenE (setlE (\<lambda>l. l\<lparr>l_payer_rc := v_u64 rc\<rparr>)) (outerE (k rc))))
      (\<lambda>e. throwE (f e)) (l, c) = (Inr u, lc)"
  shows "\<exists>rc. fst lc = l\<lparr>l_payer_rc := rc\<rparr>"
  using assms
  by (auto elim!: catchE_InrE bindE_InrE thenE_InrE outerE_InrE simp: setlE_def throwE_def)

lemma effects_phase_fst:
  assumes "catchE is_reversion (outerE m)
      (\<lambda>e. thenE (setlE (\<lambda>l. l\<lparr>l_reverted := True\<rparr>)) (
            thenE (outerE (g e)) (setlE (\<lambda>l. l\<lparr>l_reverted_exception := Some e\<rparr>)))) lc0 = (Inr u, lc)"
    and "\<not> l_reverted (fst lc0)" and "l_reverted_exception (fst lc0) = None"
  shows "marks_agree (fst lc)"
  using assms
  by (elim catchE_InrE; elim thenE_InrE outerE_InrE)
     (auto simp: setlE_def marks_agree_def dest!: outerE_fst split: prod.splits)

lemma settle_fst:
  "settle_transaction E n a d w k lc = (Inr u, lc') \<Longrightarrow> marks_agree (fst lc) \<Longrightarrow> marks_agree (fst lc')"
  unfolding settle_transaction_def
  by (elim thenE_InrE bindE_InrE outerE_InrE) (auto simp: setlE_def marks_agree_def elim!: thenE_InrE outerE_InrE)

lemma transaction_phases_InrD:
  assumes run: "transaction_phases E sc trx a d w k (l, c) = (Inr u, (l', c'))"
    and l: "\<not> l_reverted l" "l_reverted_exception l = None"
  shows "marks_agree l' \<and> (\<exists>r. answered sc (A_consume_account_rc (th_payer (trx_header trx)) (l_used_rc l')) r \<and> v_bool r)
    \<and> (\<exists>tr. receipt_for trx l' tr \<and> receipt_filed tr c')"
proof -
  from run obtain lc0 lc1 lc2 lc3 lc4 lc5 lc6 lc7 n m u0 u2 u3 u6 used ok l7
    where checks: "catchE is_reversion
              (bindE (outerE (sc (A_get_account_rc (th_payer (trx_header trx))))) (\<lambda>rc.
               thenE (setlE (\<lambda>l. l\<lparr>l_payer_rc := v_u64 rc\<rparr>))
               (outerE (transaction_checks E sc trx (v_u64 rc)))))
              (\<lambda>e. throwE (kexn failure_exception (exn_message E e))) (l, c) = (Inr u0, lc0)"
      and deref: "outerE deref_state_node lc0 = (Inr n, lc1)"
      and enter: "outerE (enter_anonymous_node E n) lc1 = (Inr m, lc2)"
      and effects: "catchE is_reversion (outerE (transaction_effects E sc trx m))
              (\<lambda>e. thenE (setlE (\<lambda>l. l\<lparr>l_reverted := True\<rparr>)) (
                    thenE (outerE (thunk_log E (''transaction reverted: '' @ exn_message E e)))
                    (setlE (\<lambda>l. l\<lparr>l_reverted_exception := Some e\<rparr>)))) lc2 = (Inr u2, lc3)"
      and settle: "settle_transaction E n a d w k lc3 = (Inr u3, lc4)"
      and used: "getlE l_used_rc lc4 = (Inr used, lc5)"
      and consume: "outerE (sc (A_consume_account_rc (th_payer (trx_header trx)) used)) lc5 = (Inr ok, lc6)"
      and paid: "assertE (v_bool ok) (kexn_args failure_exception ''unable to consume rc for payer: ${p}''
                    [(''p'', JBase58 (th_payer (trx_header trx)))]) lc6 = (Inr u6, lc7)"
      and getl: "getlE (\<lambda>l. l) lc7 = (Inr l7, lc7)"
      and filed: "outerE (bindE (transaction_receipt_of E trx l7) file_transaction_receipt) lc7 = (Inr u, (l', c'))"
    unfolding transaction_phases_def
    by - (elim thenE_InrE bindE_InrE, rule that, auto simp: getlE_def split: prod.splits)
  have "fst lc2 = fst lc0" using deref enter by (auto dest!: outerE_fst)
  with checks_phase_fst [OF checks] l
  have "\<not> l_reverted (fst lc2)" "l_reverted_exception (fst lc2) = None" by auto
  with effects_phase_fst [OF effects] have "marks_agree (fst lc3)" by blast
  with settle have agree: "marks_agree (fst lc4)" by (rule settle_fst)
  have l': "l' = fst lc4" "l7 = l'" "used = l_used_rc (fst lc4)"
    using used consume paid getl filed
    by (auto simp: getlE_def dest!: outerE_fst assertE_InrD split: prod.splits)
  have "answered sc (A_consume_account_rc (th_payer (trx_header trx)) (l_used_rc l')) ok \<and> v_bool ok"
    using consume paid l' by (auto elim!: outerE_InrE dest!: assertE_InrD intro: answeredI)
  moreover have "\<exists>tr. receipt_for trx l' tr \<and> receipt_filed tr c'"
    using filed l' by (auto elim!: outerE_InrE dest!: receipt_filing)
  ultimately show ?thesis using agree l' by blast
qed

text \<open>
  C8.  What a transaction leaves behind.  When applying a transaction returns normally, the context has
  no current transaction, the payer's account was charged exactly the rc the receipt shows, and the
  receipt filed last is this transaction's own and is not marked as reverted.
\<close>

theorem applied_transaction_is_paid_and_recorded:
  assumes "thunk_apply_transaction E sc trx c = (Inr v, c')"
  shows "ec_trx c' = None
    \<and> (\<exists>tr r. tr_id tr = trx_id trx \<and> tr_payer tr = th_payer (trx_header trx)
         \<and> \<not> tr_reverted tr \<and> receipt_filed tr c'
         \<and> answered sc (A_consume_account_rc (tr_payer tr) (tr_rc_used tr)) r \<and> v_bool r)"
proof -
  let ?rethrow = "\<lambda>e. bindE (getlE (\<lambda>l. l)) (\<lambda>l.
      thenE (outerE (bindE (transaction_receipt_of E trx l) file_transaction_receipt)) (throwE e))
      :: (trx_locals \<times> ('a, 'b, 'c) ctx, exn, unit) comp"
  have never: "?rethrow e lc \<noteq> (Inr u, lc')" for e lc u lc'
    by (auto simp: throwE_def elim!: bindE_InrE thenE_InrE)
  obtain l a d w k c1 c2 where phases: "transaction_phases E sc trx a d w k (trx_locals_init, c1) = (Inr (), (l, c2))"
    and c': "c' = (reset_session a c2)\<lparr>ec_trx := None\<rparr>" and ex: "l_reverted_exception l = None"
    using assms
    by (auto simp: thunk_apply_transaction_def guard_defs localE_def getlE_def returnE_def throwE_def never modifyE_def
          split: prod.splits option.splits dest!: guardE_InrD
          elim!: bindE_InrE thenE_InrE catchE_InrE finallyE_InrE outerE_InrE)
  from transaction_phases_InrD [OF phases] obtain tr r
    where "marks_agree l" "receipt_for trx l tr" "receipt_filed tr c2"
      "answered sc (A_consume_account_rc (th_payer (trx_header trx)) (l_used_rc l)) r" "v_bool r"
    by (auto simp: trx_locals_init_def)
  moreover from this have "receipt_filed tr c'" using c' by (simp add: receipt_filed_def reset_session_def split: intent.splits)
  ultimately show ?thesis using c' ex by (force simp: marks_agree_def receipt_for_def)
qed

theorem applied_transaction_is_paid_and_recorded_witness:
  "let c' = snd (thunk_apply_transaction example_env example_answers example_trx (example_context Transaction_application)) in
     ec_trx c' = None
   \<and> (\<exists>tr r. tr_id tr = ''id'' \<and> tr_payer tr = ''alice'' \<and> \<not> tr_reverted tr \<and> receipt_filed tr c'
         \<and> answered example_answers (A_consume_account_rc (tr_payer tr) (tr_rc_used tr)) r \<and> v_bool r)"
proof -
  obtain r c' where run: "thunk_apply_transaction example_env example_answers example_trx
      (example_context Transaction_application) = (r, c')" by fastforce
  have "fst (thunk_apply_transaction example_env example_answers example_trx
      (example_context Transaction_application)) = Inr V_void"
    by code_simp
  with run have "r = Inr V_void" by simp
  with applied_transaction_is_paid_and_recorded [of example_env example_answers example_trx
      "example_context Transaction_application" V_void c'] run
  show ?thesis by (simp add: Let_def example_trx_def)
qed

section \<open>Receipts and unprivileged callers\<close>

text \<open>
  The privilege checks of \<open>apply_transaction\<close> and \<open>apply_block\<close> come after or inside the code that
  writes the receipt under construction.  A contract can make both calls through the host API; they
  are refused, but not without a trace.
\<close>

definition user_frames :: "stack_frame list" where
  "user_frames = [system_frame 0, kernel_frame\<lparr>fr_contract_id := ''mallory'', fr_call_privilege := user_mode\<rparr>]"

lemma unprivileged_guard:
  "get_caller_privilege c \<noteq> kernel_mode \<Longrightarrow>
     need_kernel_mode c =
       (Inl (kexn insufficient_privileges_exception ''calling privileged thunk from non-privileged code''), c)"
  by (simp add: need_kernel_mode_def guardE_def)

lemma generate_block_receipt_run:
  assumes "ec_receipt c = Block_receipt r" and "ec_current_state_node c = Some node"
  shows "\<exists>r'. generate_block_receipt E blk d w k c = (Inr (), c\<lparr>ec_receipt := Block_receipt r'\<rparr>)
       \<and> br_transaction_receipts r' = br_transaction_receipts r"
proof -
  obtain r' where "generate_block_receipt E blk d w k c = (Inr (), c\<lparr>ec_receipt := Block_receipt r'\<rparr>)"
    and "br_transaction_receipts r' = br_transaction_receipts r"
    by (rule that)
       (use assms in \<open>(simp (no_asm_simp) add: generate_block_receipt_def bindE_def getE_def deref_state_node_def
          someE_def returnE_def modifyE_def; (rule refl)?)+\<close>)
  then show ?thesis by blast
qed

text \<open>
  C38.  A refused \<open>apply_transaction\<close> still files a receipt.  Called by user code while a block is
  applied, it throws for lack of privilege, yet appends to the block's receipt a transaction receipt
  with the id, payer and rc limit of whatever transaction the caller passed.
\<close>

theorem refused_apply_transaction_files_receipt:
  assumes "get_caller_privilege c \<noteq> kernel_mode" and "ec_intent c = Block_application"
    and "ec_receipt c = Block_receipt r" and "ec_current_state_node c = Some node"
  shows "\<exists>tr. tr_id tr = trx_id trx \<and> tr_payer tr = th_payer (trx_header trx)
       \<and> tr_rc_limit tr = th_rc_limit (trx_header trx)
       \<and> thunk_apply_transaction E sc trx c =
           (Inl (kexn insufficient_privileges_exception ''calling privileged thunk from non-privileged code''),
            c\<lparr>ec_receipt := Block_receipt (r\<lparr>br_transaction_receipts := br_transaction_receipts r @ [tr]\<rparr>)\<rparr>)"
proof -
  obtain tr where tr: "transaction_receipt_of E trx trx_locals_init c = (Inr tr, c)"
    using assms(4) by (simp add: transaction_receipt_of_def bindE_def deref_state_node_def getE_def someE_def returnE_def)
  then have fields: "tr_id tr = trx_id trx" "tr_payer tr = th_payer (trx_header trx)"
      "tr_rc_limit tr = th_rc_limit (trx_header trx)"
    using receipt_of_InrD [OF tr] by (auto simp: receipt_for_def)
  have "thunk_apply_transaction E sc trx c =
      (Inl (kexn insufficient_privileges_exception ''calling privileged thunk from non-privileged code''),
       c\<lparr>ec_receipt := Block_receipt (r\<lparr>br_transaction_receipts := br_transaction_receipts r @ [tr]\<rparr>)\<rparr>)"
    using assms tr
    by (simp add: thunk_apply_transaction_def guard_defs localE_def thenE_def bindE_def catchE_def outerE_def need_kernel_mode_def
        guardE_def getlE_def throwE_def getE_def file_transaction_receipt_def modifyE_def kexn_def)
  with fields show ?thesis by blast
qed

theorem refused_apply_transaction_files_receipt_witness:
  "\<exists>tr. tr_id tr = ''id'' \<and> snd (thunk_apply_transaction example_env example_answers example_trx
       (example_context Block_application
          \<lparr>ec_stack := user_frames, ec_receipt := Block_receipt empty_block_receipt\<rparr>))
     = example_context Block_application
          \<lparr>ec_stack := user_frames,
           ec_receipt := Block_receipt (empty_block_receipt\<lparr>br_transaction_receipts := [tr]\<rparr>)\<rparr>"
  using refused_apply_transaction_files_receipt
    [of "example_context Block_application \<lparr>ec_stack := user_frames, ec_receipt := Block_receipt empty_block_receipt\<rparr>"
       empty_block_receipt 0 example_trx example_env example_answers]
  by (auto simp: user_frames_def get_caller_privilege_def example_context_def empty_block_receipt_def example_trx_def
      execution_context_new_def)

text \<open>
  C39.  A refused \<open>apply_block\<close> erases the receipts of the block being applied.  Called by user code it
  throws for lack of privilege, but the block receipt has been replaced by a fresh one before the
  check: the transaction receipts collected so far are gone.
\<close>

theorem refused_apply_block_erases_receipts:
  assumes "get_caller_privilege c \<noteq> kernel_mode" and "ec_current_state_node c = Some node"
  shows "\<exists>r. br_transaction_receipts r = []
       \<and> thunk_apply_block E sc blk c =
           (Inl (kexn insufficient_privileges_exception ''calling privileged thunk from non-privileged code''),
            c\<lparr>ec_receipt := Block_receipt r\<rparr>)"
proof -
  let ?c = "c\<lparr>ec_receipt := Block_receipt empty_block_receipt\<rparr>"
  let ?m = "ec_resource_meter c"
  obtain r where gen: "generate_block_receipt E blk (disk_storage_used ?m) (network_bandwidth_used ?m)
      (compute_bandwidth_used ?m) ?c = (Inr (), ?c\<lparr>ec_receipt := Block_receipt r\<rparr>)"
    and empty: "br_transaction_receipts r = br_transaction_receipts empty_block_receipt"
    using generate_block_receipt_run [of ?c empty_block_receipt node E blk] assms(2) by (metis ctx.select_convs(5) ctx.surjective ctx.update_convs(13) ctx.select_convs(13))
  have priv: "get_caller_privilege ?c \<noteq> kernel_mode" using assms(1) by (auto simp: get_caller_privilege_def split: if_splits)
  have "thunk_apply_block E sc blk c =
      (Inl (kexn insufficient_privileges_exception ''calling privileged thunk from non-privileged code''),
       ?c\<lparr>ec_receipt := Block_receipt r\<rparr>)"
    using unprivileged_guard [OF priv] gen
    by (simp add: thunk_apply_block_def guard_defs thenE_def bindE_def modifyE_def catchE_def getE_def throwE_def)
  with empty show ?thesis by (auto simp: empty_block_receipt_def)
qed

definition example_block :: block where
  "example_block =
     \<lparr>blk_id = ''block'', blk_has_header = True,
      blk_header = \<lparr>bh_previous = [], bh_height = 1, bh_timestamp = 0, bh_previous_state_merkle_root = [],
        bh_transaction_merkle_root = [], bh_signer = ''signer'', bh_other = []\<rparr>,
      blk_transactions = [], blk_signature = []\<rparr>"

theorem refused_apply_block_erases_receipts_witness:
  "\<exists>r. br_transaction_receipts r = []
     \<and> snd (thunk_apply_block example_env example_answers example_block (example_context Block_application \<lparr>ec_stack := user_frames\<rparr>))
       = example_context Block_application \<lparr>ec_stack := user_frames, ec_receipt := Block_receipt r\<rparr>"
  using refused_apply_block_erases_receipts
    [of "example_context Block_application \<lparr>ec_stack := user_frames\<rparr>" 0 example_env example_answers example_block]
  by (auto simp: user_frames_def get_caller_privilege_def example_context_def execution_context_new_def)

end
