(* ===== verification/Host_Props.thy ===== *)
theory Host_Props
  imports Transaction_Props
begin

text \<open>
  The boundary between a WebAssembly module and the chain: the module's linear memory is never
  overrun, the host writes only where the module asked it to, and a module cannot run on ticks it
  does not have.
\<close>

section \<open>Linear memory\<close>

text \<open>
  \<open>resolve_ptr\<close> is exact.  On a memory of \<open>n\<close> bytes it yields a pointer exactly when the whole
  range lies inside the memory, computed without wrap-around, and the pointer is then the offset the
  module passed.
\<close>

lemma resolve_ptr_exact:
  "resolve_ptr (Some n) ptr sz = Inr (Some p) \<longleftrightarrow> p = unat ptr \<and> unat ptr + unat sz \<le> n"
  by (auto simp: resolve_ptr_def unat_eq_0)

text \<open>The contract of one level of the kernel, for any effect that ignores the stack.\<close>

context flat_effect
begin

lemma flat_sys: "spec P R X (ksys n E a)"
  by (rule ke.sys_spec)

lemma flat_invoke_host: "spec (at_host b P) (rel_host b R) X (invoke_host E (ksys n E) (kvm n E) fn i b)"
  by (rule vm_effect.spec_invoke_host [OF flat_level]) (rule ke.sys_spec ke.vm_spec)+

end

definition same_intent :: "('d, 'h, 'w) ctx \<Rightarrow> ('d, 'h, 'w) ctx \<Rightarrow> bool" where
  "same_intent c c' \<longleftrightarrow> ec_intent c' = ec_intent c"

lemma memory_safe_effect:
  assumes "libraries_ok E"
  shows "flat_effect (\<lambda>_. True) same_intent (\<lambda>e. \<not> memory_fault e) E any_node any_node"
  by unfold_locales
     (use assms in \<open>auto simp: same_intent_def bookkeeping_simps ledger_step_def set_state_node_def libraries_ok_def fatal_def\<close>)

text \<open>
  C3.  The linear memory of a module is never overrun.  Whatever system call is made, whatever contracts
  run under it and whatever pointers they pass to the host, no access outside a module's memory
  happens.
\<close>

theorem linear_memory_never_overrun:
  assumes "libraries_ok E"
  shows "case fst (ksys n E a c) of Inl e \<Rightarrow> \<not> memory_fault e | Inr _ \<Rightarrow> True"
  using flat_effect.flat_sys [OF memory_safe_effect [OF assms], of n a]
  by (simp add: spec_def split: sum.splits)

theorem linear_memory_never_overrun_witness:
  "case fst (ksys 256 example_env (A_call ''c'' 1 []) (example_context Transaction_application)) of
     Inl e \<Rightarrow> \<not> memory_fault e | Inr _ \<Rightarrow> True"
  by (rule linear_memory_never_overrun [OF example_libraries_ok])

text \<open>
  C31.  A host call writes only where the module asked it to.  With the buffers resolved against the
  module's memory, either host function leaves the memory's size alone and changes no byte outside the
  return buffer and the four bytes of \<open>bytes_written\<close>, whether it returns or throws.
\<close>

theorem host_call_confined:
  assumes "resolve_buffers fn a (Some (length mem)) = Inr b"
    and "invoke_host E (ksys n E) (kvm n E) fn (arg0 a) b (mem, c) = (r, (mem', c'))"
  shows "length mem' = length mem
       \<and> (\<forall>i < length mem. mem' ! i \<noteq> mem ! i \<longrightarrow>
            unat (arg1 a) \<le> i \<and> i < unat (arg1 a) + unat (arg2 a)
          \<or> unat (arg5 a) \<le> i \<and> i < unat (arg5 a) + 4)"
proof -
  have b: "hb_ret_ptr b = unat (arg1 a)" "hb_ret_len b = arg2 a" "hb_bytes_written b = unat (arg5 a)"
    using assms(1) by (auto simp: resolve_buffers_def resolve_ptr_def split: if_splits)
  have "at_host b (\<lambda>_. True) (mem, c)"
    using resolve_buffers_in_bounds [OF assms(1)] by (simp add: at_host_def)
  from specD [OF ro.flat_invoke_host this assms(2)] have "confined b mem mem'" by (simp add: rel_host_def)
  then show ?thesis by (auto simp: confined_def writable_at_def b)
qed

definition example_host_args :: host_args where
  "example_host_args = \<lparr>arg0 = example_num sc_get_contract_id, arg1 = 0, arg2 = 4, arg3 = 4, arg4 = 0, arg5 = 4\<rparr>"

theorem host_call_confined_witness:
  "length (fst (snd (invoke_host example_env (ksys 2 example_env) (kvm 2 example_env) Invoke_system_call
       (arg0 example_host_args)
       \<lparr>hb_ret_ptr = 0, hb_ret_len = 4, hb_arg_ptr = 4, hb_arg_len = 0, hb_bytes_written = 4\<rparr>
       (replicate 8 CHR ''x'', example_context Read_only)))) = 8"
proof -
  let ?b = "\<lparr>hb_ret_ptr = 0, hb_ret_len = 4, hb_arg_ptr = 4, hb_arg_len = 0, hb_bytes_written = 4\<rparr>"
  obtain r mem' c' where run: "invoke_host example_env (ksys 2 example_env) (kvm 2 example_env) Invoke_system_call
      (arg0 example_host_args) ?b (replicate 8 CHR ''x'', example_context Read_only) = (r, (mem', c'))"
    by (metis prod.collapse)
  have b: "resolve_buffers Invoke_system_call example_host_args (Some (length (replicate 8 CHR ''x''))) = Inr ?b"
    by (simp add: resolve_buffers_def resolve_ptr_def example_host_args_def)
  from host_call_confined [OF b run] run show ?thesis by simp
qed

section \<open>Ticks\<close>

text \<open>Once everything affordable is spent nothing is left, whatever the division by the unit cost rounds off.\<close>

lemma spending_the_rest:
  assumes "cvt_ok cvt" "session_ok s" "rc_balance s \<le> rc_grant s"
    and t: "t = compute_bandwidth_remaining (Some s, m)" "0 \<le> sint t"
    and use: "use_compute_bandwidth cvt t (Some s, m) = Inr (ses', m')"
  shows "\<exists>s'. ses' = Some s' \<and> session_ok s' \<and> rc_balance s' \<le> rc_grant s'
       \<and> compute_bandwidth_remaining (Some s', m') = 0"
proof -
  let ?cost = "\<lambda>m. compute_bandwidth_cost (rm_resource_limit_data m)"
  let ?left = "\<lambda>m. uint (rm_compute_bandwidth_remaining m)"
  obtain s' where s': "ses' = Some s'" "session_ok s'" "rc_grant s' = rc_grant s"
      "rc_balance s' = rc_balance s - sint t * uint (?cost m)" "?left m' = ?left m - sint t" "?cost m' = ?cost m"
    using compute.charge_result [OF assms(1,2) t(2) use] by blast
  have rc: "uint (remaining_rc s) = rc_balance s" using assms(2,3) by (simp add: rcs.uint_remaining)
  have nn: "0 \<le> sint t * uint (?cost m)" using t(2) by simp
  then have rc': "uint (remaining_rc s') = rc_balance s'"
    using s' assms(3) by (simp add: rcs.uint_remaining)
  have "compute_bandwidth_remaining (Some s', m') = 0"
  proof (cases "0 < ?cost m \<and> sint t = rc_balance s div uint (?cost m)")
    case True
    then have "rc_balance s' = rc_balance s mod uint (?cost m)"
      using s'(4) by (simp add: minus_div_mult_eq_mod)
    then have "uint (remaining_rc s') div uint (?cost m') = 0"
      using True rc' s'(6) by (simp add: word_less_def)
    then have "remaining_rc s' div ?cost m' = 0" by (simp add: word_uint_eq_iff uint_div)
    with True s'(6) show ?thesis by (simp add: Let_def)
  next
    case False
    with t rc have "sint t = ?left m"
      by (auto simp: Let_def min_def uint_div sint_nonneg_uint word_gt_0 split: if_splits)
    with s'(5) have "rm_compute_bandwidth_remaining m' = 0" by (simp add: word_uint_eq_iff)
    then show ?thesis by (simp add: Let_def)
  qed
  with s' nn assms(3) show ?thesis by auto
qed

lemma use_compute_keeps_session: "use_compute_bandwidth cvt t (ses, m) = Inr (ses', m') \<Longrightarrow> rm_session m' = rm_session m"
  by (auto simp: Let_def split: if_splits option.splits sum.splits)

lemma lock_store_session: "lock w c = Some s \<Longrightarrow> lock w (store_session w (Some s') c) = Some s'"
  by (auto simp: lock_def store_session_def split: option.splits if_splits)

lemma charge_compute_run:
  "charge_compute E t c =
     (case use_compute_bandwidth (to_int64 E) t (lock (rm_session (ec_resource_meter c)) c, ec_resource_meter c) of
        Inl e \<Rightarrow> (Inl e, c)
      | Inr (s, m) \<Rightarrow> (Inr (), (store_session (rm_session (ec_resource_meter c)) s c)\<lparr>ec_resource_meter := m\<rparr>))"
  by (simp add: charge_compute_def meter_op_def Let_def)

lemma lock_meter: "lock w (c\<lparr>ec_resource_meter := m\<rparr>) = lock w c"
  by (simp add: lock_def split: option.splits)

text \<open>The session the meter charges is within its grant.\<close>

definition session_within_grant :: "('d, 'h, 'w) ctx \<Rightarrow> bool" where
  "session_within_grant c \<longleftrightarrow>
     (case lock (rm_session (ec_resource_meter c)) c of
        Some s \<Rightarrow> session_ok s \<and> rc_balance s \<le> rc_grant s
      | None \<Rightarrow> True)"

lemma spending_the_rest_leaves_none:
  assumes "cvt_ok (to_int64 E)" and ses: "session_within_grant c"
    and run: "charge_compute E (compute_left c) c = (Inr (), c')"
  shows "session_within_grant c' \<and> compute_left c' = 0"
proof -
  let ?m = "ec_resource_meter c"
  let ?w = "rm_session ?m"
  obtain s' m' where use: "use_compute_bandwidth (to_int64 E) (compute_left c) (lock ?w c, ?m) = Inr (s', m')"
    and c': "c' = (store_session ?w s' c)\<lparr>ec_resource_meter := m'\<rparr>"
    using run by (auto simp: charge_compute_run split: sum.splits prod.splits)
  note keep = use_compute_keeps_session [OF use]
  have t0: "0 \<le> sint (compute_left c)" using use by (auto split: if_splits)
  show ?thesis
  proof (cases "lock ?w c")
    case None
    with use have "s' = None" "rm_compute_bandwidth_remaining m' = 0"
      by (auto simp: compute_left_def Let_def split: if_splits)
    with c' keep None show ?thesis
      by (auto simp: session_within_grant_def compute_left_def lock_meter store_session_def split: option.splits)
  next
    case (Some s)
    with spending_the_rest [OF assms(1), of s "compute_left c" ?m s' m'] use t0 ses
    obtain s1 where "s' = Some s1" "session_ok s1" "rc_balance s1 \<le> rc_grant s1"
        "compute_bandwidth_remaining (Some s1, m') = 0"
      by (auto simp: compute_left_def session_within_grant_def)
    with c' keep Some show ?thesis
      by (simp add: session_within_grant_def compute_left_def lock_meter lock_store_session)
  qed
qed



section \<open>Loading modules\<close>

text \<open>
  C32.  The module cache is transparent.  As long as a cache key determines the bytecode stored under it
  (keys are hashes of bytecode), loading a module gives what parsing its bytecode gives, hit or miss,
  parse error or not; nothing undefined happens, and the cache stays well-formed and holds nothing but
  parse results.
\<close>

theorem loading_is_parsing:
  assumes "cache_ok (ec_vm c)" and "mcache.sound (\<lambda>k. parse_bytecode E (content k)) (ec_vm c)"
    and "key \<noteq> [] \<Longrightarrow> content key = bytecode"
  shows "\<exists>vm. load_module E bytecode key c = (parse_bytecode E bytecode, c\<lparr>ec_vm := vm\<rparr>)
       \<and> cache_ok vm \<and> mcache.sound (\<lambda>k. parse_bytecode E (content k)) vm"
proof (cases "key = []")
  case True
  with assms(1,2) show ?thesis by (intro exI [of _ "ec_vm c"]) (simp add: load_module_def liftE_def)
next
  case False
  let ?parse = "\<lambda>k. parse_bytecode E (content k)"
  obtain vm where g: "get_module key (ec_vm c) = Inr (cached (ec_vm c) key, vm)"
    using mcache.get_ok [OF assms(1), of key] by blast
  note vm = mcache.sound_get [OF assms(1,2) g]
  show ?thesis
  proof (cases "cached (ec_vm c) key")
    case (Some m)
    with vm False assms(3) have "parse_bytecode E bytecode = Inr m" by simp
    with Some False g vm show ?thesis
      by (auto simp: load_module_def cache_get_def bindE_def returnE_def)
  next
    case None
    show ?thesis
    proof (cases "parse_bytecode E bytecode")
      case (Inl e)
      with None False g vm show ?thesis
        by (auto simp: load_module_def cache_get_def bindE_def liftE_def)
    next
      case (Inr m)
      obtain vm' where p: "put_module key m vm = Inr vm'" using mcache.put_ok [of vm key m] vm by blast
      have "cache_ok vm' \<and> mcache.sound ?parse vm'"
        by (rule mcache.sound_put [OF _ _ _ p]) (use vm Inr False assms(3) in auto)
      with None False g Inr p show ?thesis
        by (auto simp: load_module_def cache_get_def cache_put_def bindE_def thenE_def liftE_def returnE_def)
    qed
  qed
qed

theorem loading_is_parsing_witness:
  "\<exists>vm. load_module example_env ''code'' ''hash'' (example_context Read_only)
       = (parse_bytecode example_env ''code'', example_context Read_only\<lparr>ec_vm := vm\<rparr>) \<and> cache_ok vm"
proof -
  have "cache_ok (ec_vm (example_context Read_only))"
    by (simp add: example_context_def execution_context_new_def cache_ok_new)
  moreover have "mcache.sound (\<lambda>k. parse_bytecode example_env ''code'') (ec_vm (example_context Read_only))"
    by (simp add: mcache.sound_def example_context_def execution_context_new_def module_cache_new_def cached_def)
  ultimately show ?thesis
    using loading_is_parsing [of "example_context Read_only" example_env "\<lambda>_. ''code''" "''hash''" "''code''"] by auto
qed

end
