(* ===== verification/Controller_Effects.thy ===== *)
theory Controller_Effects
  imports Service Host_Props
begin

text \<open>
  From execution contexts to the controller.  An operation of the controller runs steps of a context of
  its own; \<open>in_ctx\<close> distributes over sequencing, and an effect of a context step on the database and
  the intent is an effect of the operation on the controller.  The locale \<open>query_effect\<close> is the
  contract of the operations that only read.
\<close>

section \<open>Steps in a context\<close>

lemma in_ctx_bindE: "in_ctx (bindE m f) = bindE (in_ctx m) (\<lambda>a. in_ctx (f a))"
proof (rule ext)
  fix lk :: "('a, 'b, 'c) ctx \<times> ('a, 'c, 'd) ctl"
  obtain x k where lk: "lk = (x, k)" by fastforce
  obtain r x' where m: "m (x\<lparr>ec_vm := ct_vm k, ec_db := ct_db k\<rparr>) = (r, x')" by fastforce
  show "in_ctx (bindE m f) lk = bindE (in_ctx m) (\<lambda>a. in_ctx (f a)) lk"
    by (cases r) (simp_all add: lk in_ctx_def bindE_def m split: prod.splits)
qed

lemma in_ctx_thenE: "in_ctx (thenE m n) = thenE (in_ctx m) (in_ctx n)"
  by (simp add: thenE_def in_ctx_bindE)

lemma in_ctx_returnE: "in_ctx (returnE a) = (\<lambda>(x, k). (Inr a, (x\<lparr>ec_vm := ct_vm k, ec_db := ct_db k\<rparr>, k)))"
  by (rule ext) (simp add: in_ctx_def returnE_def split: prod.splits)

text \<open>A predicate on the context as it is when a step runs: with the controller's database.\<close>

definition in_step :: "(('d, 'h, 'w) ctx \<Rightarrow> bool) \<Rightarrow> ('d, 'h, 'w) ctx \<times> ('d, 'w, 's) ctl \<Rightarrow> bool" where
  "in_step P xk \<longleftrightarrow> P ((fst xk)\<lparr>ec_vm := ct_vm (snd xk), ec_db := ct_db (snd xk)\<rparr>)"

text \<open>\<open>part\<close> is the part of the controller that steps of a context leave alone.\<close>

definition step_rel ::
  "(('d, 'h, 'w) ctx \<Rightarrow> ('d, 'h, 'w) ctx \<Rightarrow> bool) \<Rightarrow> (('d, 'w, 's) ctl \<Rightarrow> 'p) \<Rightarrow> ('d, 'h, 'w) ctx \<times> ('d, 'w, 's) ctl
     \<Rightarrow> ('d, 'h, 'w) ctx \<times> ('d, 'w, 's) ctl \<Rightarrow> bool" where
  "step_rel R part xk xk' \<longleftrightarrow>
     R ((fst xk)\<lparr>ec_vm := ct_vm (snd xk), ec_db := ct_db (snd xk)\<rparr>)
       ((fst xk')\<lparr>ec_vm := ct_vm (snd xk'), ec_db := ct_db (snd xk')\<rparr>)
     \<and> part (snd xk') = part (snd xk)"

text \<open>The controller without database and module cache, and without the client and what it sent.\<close>

definition node_part :: "('d, 'w, 's) ctl \<Rightarrow> 's option \<times> u64 \<times> u32 \<times> block option \<times> (string \<times> broadcast) list" where
  "node_part k =
     (ct_client k, ct_read_compute_bandwidth_limit k, ct_syscall_bufsize k, ct_cached_head_block k, ct_sent k)"

definition local_part :: "('d, 'w, 's) ctl \<Rightarrow> u64 \<times> u32 \<times> block option" where
  "local_part k = (ct_read_compute_bandwidth_limit k, ct_syscall_bufsize k, ct_cached_head_block k)"

text \<open>An exception one of the services can throw.\<close>

definition service_error :: "('d, 'h, 's) services \<Rightarrow> exn \<Rightarrow> bool" where
  "service_error S e \<longleftrightarrow>
     (\<exists>s b r. fst (sv_add_block S s b r) = Inl e) \<or> (\<exists>s p m l. fst (sv_check_pending S s p m l) = Inl e)
     \<or> (\<exists>s t m. fst (sv_broadcast S s t m) = Inl e) \<or> (\<exists>j. sv_from_hex S j = Inl e)
     \<or> (\<exists>x. is_koinos x \<and> e = sv_slice S x)"

section \<open>Requests\<close>

text \<open>What a request that only reads may change: the module cache, and the database as \<open>D\<close> allows.\<close>

definition same_chain ::
  "('d \<Rightarrow> 'd \<Rightarrow> bool) \<Rightarrow> (('d, 'w, 's) ctl \<Rightarrow> 'p) \<Rightarrow> ('d, 'w, 's) ctl \<Rightarrow> ('d, 'w, 's) ctl \<Rightarrow> bool" where
  "same_chain D part k k' \<longleftrightarrow> D (ct_db k) (ct_db k') \<and> part k' = part k"

lemma push_first: "ec_stack c = [] \<Longrightarrow> thenE (push_frame f) m c = m (c\<lparr>ec_stack := [f]\<rparr>)"
  by (simp add: push_frame_def thenE_def bindE_def guardE_def modifyE_def stack_limit_def)

lemma local_step:
  assumes run: "local_ctx i (thenE (in_ctx (push_frame f)) m) k = (r, k')"
    and m: "spec (in_step P) (step_rel R part) X m"
    and fresh: "P ((execution_context_new (ct_vm k) (ct_db k) i)\<lparr>ec_stack := [f]\<rparr>)"
    and D: "\<And>c c'. P c \<Longrightarrow> R c c' \<Longrightarrow> D (ec_db c) (ec_db c')"
  shows "same_chain D part k k' \<and> (\<forall>e. r = Inl e \<longrightarrow> X e)"
proof -
  let ?x = "(execution_context_new (ct_vm k) (ct_db k) i)\<lparr>ec_stack := [f]\<rparr>"
  obtain x' where m_run: "m (?x, k) = (r, (x', k'))"
    using run by (auto simp: local_ctx_def localE_def thenE_def bindE_def in_ctx_def push_frame_def guardE_def modifyE_def
        execution_context_new_def stack_limit_def split: prod.splits)
  have P: "in_step P (?x, k)" using fresh by (simp add: in_step_def execution_context_new_def)
  from specD [OF m P m_run] D fresh show ?thesis
    by (fastforce simp: step_rel_def same_chain_def execution_context_new_def in_step_def)
qed

locale request_effect = effect P R X
  for P :: "('d, 'h, 'w) ctx \<Rightarrow> bool"
    and R :: "('d, 'h, 'w) ctx \<Rightarrow> ('d, 'h, 'w) ctx \<Rightarrow> bool"
    and X :: "exn \<Rightarrow> bool" +
  fixes E :: "('d, 'h, 'w) env" and S :: "('d, 'h, 's) services" and sc :: "('d, 'h, 'w) sys" and run :: "('d, 'h, 'w) vm"
    and D :: "'d \<Rightarrow> 'd \<Rightarrow> bool" and part :: "('d, 'w, 's) ctl \<Rightarrow> 'p" and allowed :: "intent \<Rightarrow> bool"
  assumes fresh: "allowed i \<Longrightarrow> P ((execution_context_new vm db i)\<lparr>ec_stack := [f]\<rparr>)"
    and D_refl: "D d d"
    and D_trans: "D d d' \<Longrightarrow> D d' d'' \<Longrightarrow> D d d''"
    and R_D: "P c \<Longrightarrow> R c c' \<Longrightarrow> D (ec_db c) (ec_db c')"
    and R_anonymous: "P c \<Longrightarrow> node_create_anonymous E (ec_db c) h = (h', d) \<Longrightarrow> R c (c\<lparr>ec_db := d\<rparr>)"
    and R_housekeeping: "P c \<Longrightarrow> housekeeping c c' \<Longrightarrow> R c c'"
    and R_ledger: "P c \<Longrightarrow> ledger_step c c' \<Longrightarrow> R c c'"
    and part_step: "part (k\<lparr>ct_vm := v, ct_db := d\<rparr>) = part k"
    and X_thrown: "ends e \<Longrightarrow> X e"
    and X_service: "service_error S e \<Longrightarrow> X e"
    and sc_spec: "spec P R X (sc a)"
    and invoke_spec: "spec P R X (invoke_call E sc run bufsize sid args junk)"
begin

lemma X_kexn: "X (kexn n m)" "X (kexn_args n m a)"
  by (simp_all add: X_thrown ends_def kexn_def kexn_args_def)

lemma effect_step: "effect (in_step P) (step_rel R part)"
proof (rule effect.intro)
  fix c c' c'' :: "('d, 'h, 'w) ctx \<times> ('d, 'w, 's) ctl"
  assume P: "in_step P c"
  show "step_rel R part c c" using P by (simp add: in_step_def step_rel_def R_refl)
  show "in_step P c'" if "step_rel R part c c'" using P that by (auto simp: in_step_def step_rel_def dest: R_keeps)
  show "step_rel R part c c''" if "step_rel R part c c'" "step_rel R part c' c''"
    using that R_trans [OF P [unfolded in_step_def]] by (simp add: step_rel_def) metis
qed

lemma spec_in_ctx: "spec P R X m \<Longrightarrow> spec (in_step P) (step_rel R part) X (in_ctx m)"
  by (rule specI) (auto simp: in_ctx_def in_step_def step_rel_def part_step dest: specD split: prod.splits)

lemma spec_rearranged: "(\<And>c. housekeeping c (f c)) \<Longrightarrow> spec P R X (modifyE f)"
  by (rule spec_modifyE) (erule R_housekeeping, assumption)

lemma spec_set_anonymous: "spec P R X (set_anonymous E pick)"
proof (rule specI)
  fix c r c' assume P: "P c" and run: "set_anonymous E pick c = (r, c')"
  obtain h d where hd: "node_create_anonymous E (ec_db c) (pick (ec_db c)) = (h, d)" by fastforce
  have 1: "R c (c\<lparr>ec_db := d\<rparr>)" by (rule R_anonymous [OF P hd])
  have c': "c' = set_state_node E (Some h) None (c\<lparr>ec_db := d\<rparr>)" and r: "r = Inr ()"
    using run hd by (auto simp: set_anonymous_def anonymous_of_def bindE_def modifyE_def)
  have "R (c\<lparr>ec_db := d\<rparr>) c'"
    using R_keeps [OF P 1] by (intro R_housekeeping) (auto simp: c' housekeeping_def set_state_node_def)
  with 1 P r R_trans show "R c c' \<and> (\<forall>e. r = Inl e \<longrightarrow> X e)" by blast
qed

lemma spec_set_limits: "spec P R X (modifyE (set_limits rl))"
  by (rule spec_modifyE) (simp add: set_limits_def R_ledger ledger_step_limits)

lemma spec_housekeeping:
  "spec P R X (modifyE reset_cache)" "spec P R X (modifyE (set_block b))"
  "spec P R X (modifyE (set_state_node E node parent))"
  by (rule spec_rearranged, simp add: housekeeping_def reset_cache_def set_block_def set_state_node_def)+

lemma spec_sc_head_info: "spec P R X (sc_head_info sc)"
  unfolding sc_head_info_def by (intro effect_rules sc_spec)

lemma spec_fork_topology: "spec P R X (fork_topology E sc fork)"
  unfolding fork_topology_def by (intro effect_rules spec_set_anonymous spec_housekeeping spec_sc_head_info)

lemma spec_order_forks: "spec P R X (liftE (order_forks S i forks))"
  by (rule spec_liftE) (simp add: order_forks_def find_fork_def Let_def while_option_unfold split: if_splits)

lemmas query_rules =
  effect_rules X_kexn sc_spec spec_set_anonymous spec_set_limits spec_housekeeping spec_sc_head_info
  spec_fork_topology spec_order_forks invoke_spec

lemma spec_fork_steps:
  "spec P R X (thenE (set_anonymous E (db_get_root E)) (
       thenE (modifyE reset_cache) (
       bindE (getE (\<lambda>x. db_get_fork_heads E (ec_db x))) (\<lambda>fork_heads.
       bindE (sc_head_info sc) (\<lambda>info.
       bindE (mapE (fork_topology E sc) fork_heads) (\<lambda>forks.
       bindE (liftE (order_forks S (bt_id (hi_head_topology info)) forks)) (\<lambda>ordered.
       returnE (ordered, hi_head_topology info))))))))"
  by (intro query_rules)

lemma spec_at_head_steps:
  "spec P R X m \<Longrightarrow> spec P R X (thenE (set_anonymous E (db_get_head E)) (thenE (modifyE reset_cache) m))"
  by (intro query_rules)

text \<open>An operation that opens its context, pushes a frame and goes on within the effect.\<close>

lemma spec_opened:
  assumes "allowed i" and "spec (in_step P) (step_rel R part) X m"
  shows "spec (\<lambda>_. True) (same_chain D part) X (local_ctx i (thenE (in_ctx (push_frame f)) m))"
  by (rule specI) (erule local_step [OF _ assms(2)], rule fresh [OF assms(1)], erule (1) R_D)

lemma spec_opened_step:
  "allowed i \<Longrightarrow> spec P R X m \<Longrightarrow> spec (\<lambda>_. True) (same_chain D part) X (local_ctx i (in_ctx (thenE (push_frame f) m)))"
  by (simp add: in_ctx_thenE spec_opened spec_in_ctx)

lemma spec_opened_at_head:
  "allowed i \<Longrightarrow> spec P R X m \<Longrightarrow> spec (\<lambda>_. True) (same_chain D part) X (local_ctx i (in_ctx (at_head E f m)))"
  unfolding at_head_def by (intro spec_opened_step spec_at_head_steps)

lemma effect_chain: "effect (\<lambda>_. True) (same_chain D part)"
  by unfold_locales (auto simp: same_chain_def D_refl intro: D_trans)

end

sublocale request_effect \<subseteq> st: effect "in_step P" "step_rel R part" X
  by (rule effect_step)

sublocale request_effect \<subseteq> ch: effect "\<lambda>_. True" "same_chain D part" X
  by (rule effect_chain)

context request_effect
begin

lemma spec_outer_read:
  fixes m :: "('d, 'w, 's, 'a) crun"
  assumes "\<And>k r k'. m k = (r, k') \<Longrightarrow> k' = k \<and> (\<forall>e. r = Inl e \<longrightarrow> X e)"
  shows "spec (in_step P) (step_rel R part) X (outerE m)"
proof (rule specI)
  fix xk r xk' assume P: "in_step P xk" and run: "outerE m xk = (r, xk')"
  then obtain k' where "m (snd xk) = (r, k')" "xk' = (fst xk, k')"
    by (auto simp: outerE_def split: prod.splits)
  with assms [of "snd xk" r k'] P show "step_rel R part xk xk' \<and> (\<forall>e. r = Inl e \<longrightarrow> X e)"
    by (auto simp: step_rel_def in_step_def R_refl)
qed

lemma spec_need_head_block: "spec (in_step P) (step_rel R part) X (outerE (need_head_block :: ('d, 'w, 's, block) crun))"
  by (rule spec_outer_read)
     (auto simp: need_head_block_def bindE_def getE_def someE_def returnE_def throwE_def X_kexn split: option.splits)

lemma spec_outer_getE: "spec (in_step P) (step_rel R part) X (outerE (getE f :: ('d, 'w, 's, 'a) crun))"
  by (rule spec_outer_read) (simp add: getE_def)

lemmas st_rules = st.effect_rules spec_need_head_block spec_outer_getE spec_in_ctx query_rules

lemma spec_get_fork_data: "allowed Read_only \<Longrightarrow> spec (\<lambda>_. True) (same_chain D part) X (get_fork_data E S sc)"
  unfolding get_fork_data_def by (intro spec_opened_step spec_fork_steps)

lemma spec_queries:
  assumes "allowed Read_only"
  shows "spec (\<lambda>_. True) (same_chain D part) X (get_head_info E sc :: ('d, 'w, 's, head_info_response) crun)"
    "spec (\<lambda>_. True) (same_chain D part) X (get_chain_id E sc :: ('d, 'w, 's, bytes) crun)"
    "spec (\<lambda>_. True) (same_chain D part) X (get_resource_limits E sc :: ('d, 'w, 's, resource_limit_data) crun)"
    "spec (\<lambda>_. True) (same_chain D part) X (get_account_rc E sc a :: ('d, 'w, 's, u64) crun)"
    "spec (\<lambda>_. True) (same_chain D part) X (get_account_nonce E sc a :: ('d, 'w, 's, bytes) crun)"
  unfolding get_head_info_def get_chain_id_def get_resource_limits_def get_account_rc_def
    get_account_nonce_def missing_field_def
  by (intro assms spec_opened st_rules | intro assms spec_opened_at_head ch.effect_rules query_rules)+

lemma spec_read_contract:
  assumes "allowed Read_only"
  shows "spec (\<lambda>_. True) (same_chain D part) X (read_contract E S sc i e a)"
proof -
  have slice: "X (sv_slice S (add_json k v x))" if "is_koinos x" for k v x
  proof -
    have "is_koinos (add_json k v x)" using that by (cases x) simp_all
    then have "service_error S (sv_slice S (add_json k v x))" unfolding service_error_def by blast
    then show ?thesis by (rule X_service)
  qed
  show ?thesis
    unfolding read_contract_def missing_field_def
    by (intro ch.spec_thenE ch.spec_assertE X_kexn assms spec_opened st_rules spec_catchE slice)
qed

lemma spec_find_call: "spec P R X (liftE (find_call E name))"
  by (rule spec_liftE) (cases name; auto simp: X_kexn split: option.splits)

lemma spec_invoke_system_call:
  assumes "allowed Read_only"
  shows "spec (\<lambda>_. True) (same_chain D part) X (ctl_invoke_system_call E sc run name args caller junk :: ('d, 'w, 's, bytes) crun)"
  unfolding ctl_invoke_system_call_def
  by (intro ch.effect_rules X_kexn assms spec_opened_at_head query_rules spec_find_call)

end

section \<open>Transactions\<close>

definition client_rel :: "(('d, 'w, 's) ctl \<Rightarrow> 'p) \<Rightarrow> ('d, 'w, 's) ctl \<Rightarrow> ('d, 'w, 's) ctl \<Rightarrow> bool" where
  "client_rel part k k' \<longleftrightarrow> ct_db k' = ct_db k \<and> ct_vm k' = ct_vm k \<and> part k' = part k"

definition ignores_client :: "(('d, 'w, 's) ctl \<Rightarrow> 'p) \<Rightarrow> bool" where
  "ignores_client part \<longleftrightarrow>
     (\<forall>k c. part (k\<lparr>ct_client := c\<rparr>) = part k) \<and> (\<forall>k l. part (k\<lparr>ct_sent := l\<rparr>) = part k)"

lemma effect_client: "effect (\<lambda>_. True) (client_rel part)"
  by unfold_locales (auto simp: client_rel_def)

text \<open>The frame of a transaction's context is pushed last; pushing it first is the same.\<close>

lemma push_last:
  assumes "ec_stack c = []"
  shows "thenE (modifyE (set_block b)) (thenE (set_anonymous E pick) (push_frame f)) c
       = thenE (push_frame f) (thenE (modifyE (set_block b)) (set_anonymous E pick)) c"
proof -
  obtain h d where "node_create_anonymous E (ec_db c) (pick (ec_db c)) = (h, d)" by fastforce
  with assms show ?thesis
    by (cases c) (simp add: thenE_def bindE_def modifyE_def set_block_def set_anonymous_def anonymous_of_def
      push_frame_def guardE_def stack_limit_def set_state_node_def)
qed

lemma thenE_run_cong: "m c = m' c \<Longrightarrow> thenE m k c = thenE m' k c"
  by (simp add: thenE_def bindE_def)

context request_effect
begin

lemma spec_outer_client:
  assumes "spec (\<lambda>_. True) (client_rel part) X m"
  shows "spec (in_step P) (step_rel R part) X (outerE m)"
proof (rule specI)
  fix xk r xk' assume P: "in_step P xk" and run: "outerE m xk = (r, xk')"
  then obtain k' where "m (snd xk) = (r, k')" "xk' = (fst xk, k')"
    by (auto simp: outerE_def split: prod.splits)
  with specD [OF assms, of "snd xk" r k'] P show "step_rel R part xk xk' \<and> (\<forall>e. r = Inl e \<longrightarrow> X e)"
    by (auto simp: step_rel_def in_step_def client_rel_def R_refl)
qed

lemma spec_ask_client:
  assumes "ignores_client part" and "\<And>s e. fst (f s) = Inl e \<Longrightarrow> service_error S e"
  shows "spec (\<lambda>_. True) (client_rel part) X (ask_client f :: ('d, 'w, 's, 'a) crun)"
proof (rule specI)
  fix k r k' assume run: "ask_client f k = (r, (k' :: ('d, 'w, 's) ctl))"
  show "client_rel part k k' \<and> (\<forall>e. r = Inl e \<longrightarrow> X e)"
  proof (cases "ct_client k")
    case None
    with run show ?thesis by (auto simp: ask_client_def client_rel_def X_thrown ends_def)
  next
    case (Some s)
    with run have "r = fst (f s)" "k' = k\<lparr>ct_client := Some (snd (f s))\<rparr>"
      by (auto simp: ask_client_def split: prod.splits)
    with assms show ?thesis by (auto simp: client_rel_def ignores_client_def X_service)
  qed
qed

lemma spec_when_client:
  "spec (\<lambda>_. True) (client_rel part) X m \<Longrightarrow> spec (\<lambda>_. True) (client_rel part) X (when_client m)"
  by (rule specI) (auto simp: when_client_def client_rel_def dest: specD split: option.splits)

lemma spec_send:
  assumes "ignores_client part"
  shows "spec (\<lambda>_. True) (client_rel part) X (send S topic msg)"
  unfolding send_def
  by (intro effect.spec_thenE [OF effect_client] effect.spec_modifyE [OF effect_client] spec_ask_client assms)
     (use assms in \<open>auto simp: service_error_def client_rel_def ignores_client_def\<close>)

lemma spec_check_pending:
  assumes "ignores_client part"
  shows "spec (\<lambda>_. True) (client_rel part) X (check_pending S p m l)"
  unfolding check_pending_def
  by (intro spec_when_client effect.spec_bindE [OF effect_client] spec_ask_client assms)
     (auto simp: service_error_def X_kexn
        intro!: effect.spec_throwE [OF effect_client] effect.spec_assertE [OF effect_client] split: mempool_reply.split)

lemma spec_announce_transaction:
  assumes "ignores_client part"
  shows "spec (in_step P) (step_rel R part) X (announce_transaction E S t receipt)"
  unfolding announce_transaction_def
  by (intro st_rules spec_outer_client spec_send assms) (simp add: X_thrown ends_def)

lemma spec_apply_transaction_steps:
  "spec P R X (
       bindE (sc A_get_resource_limits) (\<lambda>r.
       thenE (modifyE (set_limits (v_limits r))) (
       thenE (sc (A_apply_transaction t)) (
       bindE (getE ec_receipt) (\<lambda>r. case r of
           Transaction_receipt tr \<Rightarrow> returnE tr
         | _ \<Rightarrow> throwE (kexn unexpected_receipt_exception ''expected transaction receipt''))))))"
  by (intro query_rules) (auto split: receipt.split intro!: query_rules)

lemma spec_apply_submitted:
  assumes "ignores_client part"
  shows "spec (in_step P) (step_rel R part) X (apply_submitted E S sc t bc)"
  unfolding apply_submitted_def
  by (intro st.effect_rules spec_in_ctx query_rules spec_apply_transaction_steps spec_outer_getE
        spec_outer_client spec_check_pending spec_announce_transaction assms)

lemma spec_transaction_failed:
  "X e \<Longrightarrow> is_koinos e \<Longrightarrow> spec (in_step P) (step_rel R part) X (transaction_failed e)"
  by (rule specI, cases e)
     (auto simp: transaction_failed_def bindE_def getlE_def throwE_def step_rel_def in_step_def R_refl X_thrown ends_def
       split: receipt.splits prod.splits)

lemma spec_submit_transaction:
  assumes "allowed Transaction_application" and "ignores_client part"
  shows "spec (\<lambda>_. True) (same_chain D part) X (submit_transaction E S sc t bc)"
proof -
  let ?f = "root_frame [] kernel_mode"
  let ?apply = "catchE is_koinos (apply_submitted E S sc t bc) transaction_failed"
  have first: "local_ctx Transaction_application (thenE (in_ctx (
         thenE (modifyE (set_block b)) (thenE (set_anonymous E (db_get_head E)) (push_frame ?f)))) m)
     = (local_ctx Transaction_application (thenE (in_ctx (push_frame ?f)) (
         thenE (in_ctx (thenE (modifyE (set_block b)) (set_anonymous E (db_get_head E)))) m)) :: ('d, 'w, 's, transaction_receipt) crun)"
    for b and m :: "('d, 'h, 'w, 's, transaction_receipt) xrun"
  proof (rule ext)
    fix k :: "('d, 'w, 's) ctl"
    have "thenE (in_ctx (thenE (modifyE (set_block b)) (thenE (set_anonymous E (db_get_head E)) (push_frame ?f)))) m
            (execution_context_new (ct_vm k) (ct_db k) Transaction_application, k)
        = thenE (in_ctx (thenE (push_frame ?f) (thenE (modifyE (set_block b)) (set_anonymous E (db_get_head E))))) m
            (execution_context_new (ct_vm k) (ct_db k) Transaction_application, k)"
      by (rule thenE_run_cong) (simp add: in_ctx_def push_last execution_context_new_def)
    then show "local_ctx Transaction_application (thenE (in_ctx (
         thenE (modifyE (set_block b)) (thenE (set_anonymous E (db_get_head E)) (push_frame ?f)))) m) k
     = local_ctx Transaction_application (thenE (in_ctx (push_frame ?f)) (
         thenE (in_ctx (thenE (modifyE (set_block b)) (set_anonymous E (db_get_head E)))) m)) k"
      by (simp add: local_ctx_def localE_def in_ctx_bindE thenE_def bindE_assoc)
  qed
  show ?thesis
    unfolding submit_transaction_def validate_transaction_def missing_def need_head_block_def Let_def first
    by (intro ch.effect_rules X_kexn assms spec_opened st.spec_thenE st.spec_catchE spec_in_ctx query_rules
          spec_apply_submitted spec_transaction_failed)
qed

end

section \<open>Blocks\<close>

definition database_error :: "('d, 'h, 'w) env \<Rightarrow> exn \<Rightarrow> bool" where
  "database_error E e \<longleftrightarrow>
     (\<exists>d i. db_finalize_node E d i = Inl e) \<or> (\<exists>d i. db_commit_node E d i = Inl e)
     \<or> (\<exists>d r i. db_get_node_at_revision E d r i = Inl e)"

definition at_block ::
  "(('d, 'h, 'w) ctx \<Rightarrow> bool) \<Rightarrow> ('d, 'h, 'w) sb \<times> ('d, 'w, 's) ctl \<Rightarrow> bool" where
  "at_block P lk \<longleftrightarrow> in_step P (sb_ctx (fst lk), snd lk)"

text \<open>An operation throws only exceptions satisfying \<open>X\<close>.\<close>

abbreviation throws :: "(exn \<Rightarrow> bool) \<Rightarrow> ('c, exn, 'a) comp \<Rightarrow> bool" where
  "throws X \<equiv> spec (\<lambda>_. True) (\<lambda>_ _. True) X"

lemma throwsI: "spec (\<lambda>_. True) R X m \<Longrightarrow> throws X m"
  by (simp add: spec_def)

lemma throws_effect: "effect (\<lambda>_. True) (\<lambda>_ _. True)"
  by unfold_locales simp_all

lemma throws_outerE: "throws X m \<Longrightarrow> throws X (outerE m)"
  by (rule specI) (auto simp: outerE_def dest: specD split: prod.splits)

text \<open>The same of one run.\<close>

definition safe :: "('e \<Rightarrow> bool) \<Rightarrow> ('e + 'a) \<times> 'c \<Rightarrow> bool" where
  "safe X rc \<longleftrightarrow> (\<forall>e. fst rc = Inl e \<longrightarrow> X e)"

lemma safe_spec: "spec P R X m \<Longrightarrow> P c \<Longrightarrow> safe X (m c)"
  by (simp add: spec_def safe_def)

lemma safe_bindE:
  "safe X (m c) \<Longrightarrow> (\<And>a c'. m c = (Inr a, c') \<Longrightarrow> safe X (f a c')) \<Longrightarrow> safe X (bindE m f c)"
  by (cases "m c"; cases "fst (m c)") (auto simp: safe_def bindE_def)

lemma safe_thenE:
  "safe X (m c) \<Longrightarrow> (\<And>a c'. m c = (Inr a, c') \<Longrightarrow> safe X (k c')) \<Longrightarrow> safe X (thenE m k c)"
  unfolding thenE_def by (rule safe_bindE)

lemma safe_catchE: "safe X (m c) \<Longrightarrow> (\<And>e. X e \<Longrightarrow> throws X (h e)) \<Longrightarrow> safe X (catchE p m h c)"
  by (cases "m c"; cases "fst (m c)") (auto simp: safe_def catchE_def spec_def)

lemma safe_throws: "(\<And>c. safe X (m c)) \<Longrightarrow> throws X m"
  by (simp add: spec_def safe_def)

locale submission_effect = request_effect P R X E S sc run D part allowed
  for P :: "('d, 'h, 'w) ctx \<Rightarrow> bool"
    and R :: "('d, 'h, 'w) ctx \<Rightarrow> ('d, 'h, 'w) ctx \<Rightarrow> bool"
    and X :: "exn \<Rightarrow> bool"
    and E :: "('d, 'h, 'w) env" and S :: "('d, 'h, 's) services" and sc :: "('d, 'h, 'w) sys" and run :: "('d, 'h, 'w) vm"
    and D :: "'d \<Rightarrow> 'd \<Rightarrow> bool" and part :: "('d, 'w, 's) ctl \<Rightarrow> 'p" and allowed :: "intent \<Rightarrow> bool" +
  assumes P_world: "P c \<Longrightarrow> P (c\<lparr>ec_vm := v, ec_db := d\<rparr>)"
    and any_intent: "allowed i"
    and part_client: "ignores_client part"
    and X_library: "library_error E e \<Longrightarrow> X e"
    and X_database: "database_error E e \<Longrightarrow> X e"

sublocale submission_effect \<subseteq> bl: effect "at_block P" "\<lambda>_ lk. at_block P lk" X
  by unfold_locales simp_all

sublocale submission_effect \<subseteq> th: effect "\<lambda>_. True" "\<lambda>_ _. True" X
  by (rule throws_effect)

context submission_effect
begin

lemma spec_sb_in: "spec P R X m \<Longrightarrow> spec (at_block P) (\<lambda>_ lk. at_block P lk) X (sb_in m)"
  by (rule specI) (auto simp: sb_in_def in_ctx_def at_block_def in_step_def dest!: specD dest: R_keeps split: prod.splits)

lemma at_block_world: "at_block P (l, k) \<Longrightarrow> at_block P (l, k')"
  unfolding at_block_def in_step_def using P_world [of "(sb_ctx l)\<lparr>ec_vm := ct_vm k, ec_db := ct_db k\<rparr>" "ct_db k'" "ct_vm k'"]
  by simp

lemma spec_sb_outer: "throws X m \<Longrightarrow> spec (at_block P) (\<lambda>_ lk. at_block P lk) X (outerE m)"
  by (rule specI) (auto simp: outerE_def dest: specD at_block_world split: prod.splits)

lemma spec_sb_locals:
  assumes "\<And>l. sb_ctx (f l) = sb_ctx l"
  shows "spec (at_block P) (\<lambda>_ lk. at_block P lk) X (setlE f)" "spec (at_block P) (\<lambda>_ lk. at_block P lk) X (getlE g)"
  using assms by (auto simp: spec_def setlE_def getlE_def at_block_def split: prod.splits)

lemma at_block_nodes:
  assumes "in_step P (x, k)" and "housekeeping (x\<lparr>ec_vm := ct_vm k, ec_db := ct_db k\<rparr>) (x'\<lparr>ec_vm := ct_vm k, ec_db := ct_db k\<rparr>)"
  shows "in_step P (x', k)"
  using R_keeps [OF _ R_housekeeping] assms unfolding in_step_def by (metis fst_conv snd_conv)

lemma spec_restore_node: "spec (at_block P) (\<lambda>_ lk. at_block P lk) X (restore_node E i)"
  by (auto simp: spec_def restore_node_def at_block_def Let_def elim!: at_block_nodes split: prod.splits)
     (simp add: housekeeping_def set_state_node_def)

lemma spec_forget_nodes: "spec (at_block P) (\<lambda>_ lk. at_block P lk) X (setlE forget_nodes)"
  by (auto simp: spec_def setlE_def at_block_def forget_nodes_def elim!: at_block_nodes split: prod.splits)
     (simp add: housekeeping_def clear_state_node_def)

lemma throws_on_db: "(\<And>d e. f d = Inl e \<Longrightarrow> X e) \<Longrightarrow> throws X (on_db f)"
  by (auto simp: spec_def on_db_def split: sum.splits)

lemma throws_database:
  "throws X (on_db (\<lambda>d. db_finalize_node E d i))" "throws X (on_db (\<lambda>d. db_commit_node E d (g d)))"
  by (rule throws_on_db, rule X_database, unfold database_error_def, blast)+

lemma throws_advance_lib: "throws X (advance_lib E i lib)"
proof (rule specI)
  fix k r k' assume run: "advance_lib E i lib k = (r, k')"
  show "True \<and> (\<forall>e. r = Inl e \<longrightarrow> X e)"
  proof (cases "db_get_node_at_revision E (ct_db k) lib i")
    case (Inl e)
    then have "X e" by (intro X_database) (unfold database_error_def, blast)
    with run Inl show ?thesis by (auto simp: advance_lib_def split: if_splits)
  next
    case (Inr n)
    with run specD [OF throws_database(2), where c = k and r = r and c' = k'] show ?thesis
      by (auto simp: advance_lib_def split: if_splits)
  qed
qed

lemma spec_update_head: "spec (at_block P) (\<lambda>_ lk. at_block P lk) X (update_head E b i)"
  by (auto simp: spec_def update_head_def at_block_def in_step_def)

lemma spec_set_state_merkle_root: "spec (at_block P) (\<lambda>_ lk. at_block P lk) X (set_state_merkle_root E i)"
  unfolding set_state_merkle_root_def
  by (intro bl.effect_rules spec_sb_outer th.spec_getE spec_sb_locals) (simp_all add: X_thrown ends_def)

lemma spec_finalize_block: "spec (at_block P) (\<lambda>_ lk. at_block P lk) X (finalize_block E b i lib)"
  unfolding finalize_block_def
  by (intro bl.spec_catchE bl.spec_thenE spec_forget_nodes spec_sb_outer throws_database spec_set_state_merkle_root
        spec_update_head throws_advance_lib spec_restore_node bl.spec_throwE)

lemma throws_client:
  "throws X (send S topic msg :: ('d, 'w, 's, unit) crun)"
  "throws X (ask_client (\<lambda>s. sv_add_block S s b r) :: ('d, 'w, 's, store_reply) crun)"
  by ((rule throwsI [OF spec_send [OF part_client]] throwsI [OF spec_ask_client [OF part_client]])+,
      unfold service_error_def, blast)

lemma throws_when_client: "throws X m \<Longrightarrow> throws X (when_client m)"
  by (auto simp: spec_def when_client_def split: option.splits)

lemma spec_context_receipt: "spec P R X context_receipt"
  unfolding context_receipt_def by (intro query_rules) (auto split: receipt.split intro!: query_rules X_thrown simp: ends_def)

lemma spec_announce: "spec (at_block P) (\<lambda>_ lk. at_block P lk) X (announce E S sc b live)"
  unfolding announce_def
  by (intro bl.effect_rules spec_sb_outer th.effect_rules throws_client throwsI [OF spec_get_fork_data] any_intent
        spec_sb_in spec_context_receipt spec_getE spec_sb_locals(2) [where f = "\<lambda>l. l"] refl)

lemma throws_store_block: "throws X (store_block S b r :: ('d, 'w, 's, unit) crun)"
  unfolding store_block_def
  by (intro throws_when_client th.spec_bindE throws_client)
     (auto split: store_reply.split intro!: th.effect_rules X_kexn)

lemma throws_check_block_header: "throws X (check_block_header E b now node i parent info)"
  unfolding check_block_header_def Let_def by (intro th.effect_rules X_kexn)

lemma throws_block_failed:
  assumes "X e"
  shows "throws X (block_failed E S e :: ('d, 'h, 'w, 's, 'a) sbrun)"
proof -
  have logs: "X (add_block_logs x e)" if "is_koinos e" for x
    using that assms by (cases e) (auto simp: add_block_logs_def X_thrown ends_def split: receipt.split)
  have discard: "throws X (discard_unfinalized E :: ('d, 'h, 'w, 's, unit) sbrun)"
    by (auto simp: spec_def discard_unfinalized_def split: option.split)
  have hex: "throws X (liftE (sv_from_hex S j))" for j
    by (rule th.spec_liftE, rule X_service, unfold service_error_def, blast)
  have failure: "throws X (announce_failure S e :: ('d, 'w, 's, unit) crun)"
    unfolding announce_failure_def by (intro throws_when_client th.effect_rules hex throws_client)
  have locals: "throws X (getlE f :: ('d, 'h, 'w, 's, ('d, 'h, 'w) ctx) sbrun)" for f
    by (auto simp: spec_def getlE_def split: prod.split)
  show ?thesis
  proof (cases "is_koinos e")
    case True
    then show ?thesis unfolding block_failed_def
      by (simp, intro th.effect_rules discard throws_outerE failure locals logs assms conjI impI)
  next
    case False
    then show ?thesis unfolding block_failed_def
      by (simp, intro th.effect_rules discard assms conjI impI)
  qed
qed

lemma fresh_apply:
  assumes run: "sb_in (apply_in_node E sc b node) (l, k) = (r, lk)"
    and new: "sb_ctx l = execution_context_new vm db Block_application"
  shows "at_block P lk \<and> (\<forall>e. r = Inl e \<longrightarrow> X e)"
proof -
  let ?rest = "thenE (modifyE (set_state_node E node None)) (
     thenE (modifyE reset_cache) (
     thenE (sc (A_apply_block b)) (
     bindE (getE ec_receipt) (\<lambda>r. case r of
         Block_receipt br \<Rightarrow> returnE br
       | _ \<Rightarrow> throwE (kexn unexpected_receipt_exception ''expected block receipt'')))))"
  let ?x = "(execution_context_new (ct_vm k) (ct_db k) Block_application)\<lparr>ec_stack := [root_frame [] kernel_mode]\<rparr>"
  have rest: "spec P R X ?rest"
    by (intro query_rules) (auto split: receipt.split intro!: query_rules)
  have P: "at_block P (l\<lparr>sb_ctx := ?x\<rparr>, k)"
    using fresh [OF any_intent] by (simp add: at_block_def in_step_def execution_context_new_def)
  have "sb_in ?rest (l\<lparr>sb_ctx := ?x\<rparr>, k) = (r, lk)"
    using run new by (simp add: sb_in_def in_ctx_def apply_in_node_def execution_context_new_def push_first)
  from specD [OF spec_sb_in [OF rest] P this] show ?thesis .
qed

lemma safe_apply_and_finalize:
  assumes "sb_ctx l = execution_context_new vm db Block_application"
  shows "safe X (apply_and_finalize E S sc b now i j parent info (l, k))"
proof -
  have lib: "spec P R X (bindE (sc A_get_last_irreversible_block) (\<lambda>r. returnE (v_u64 r)))"
    by (intro query_rules)
  have cont: "spec (at_block P) (\<lambda>_ lk. at_block P lk) X (
     thenE (setlE (\<lambda>l. l\<lparr>sb_receipt := Some receipt\<rparr>)) (
     thenE (outerE (store_block S b receipt)) (
     bindE (sb_in (bindE (sc A_get_last_irreversible_block) (\<lambda>r. returnE (v_u64 r)))) (\<lambda>lib.
     thenE (finalize_block E b i lib) (
     bindE (outerE (getE (\<lambda>k. ct_client k \<noteq> None))) (\<lambda>has_client.
     if has_client then announce E S sc b (is_live now b) else returnE ()))))))" for receipt
    by (intro bl.effect_rules spec_sb_outer throws_store_block spec_sb_in lib spec_finalize_block
          th.spec_getE spec_announce spec_sb_locals(1)) simp
  show ?thesis
    unfolding apply_and_finalize_def
  proof (rule safe_bindE [OF _ safe_thenE [OF _ safe_bindE]], goal_cases)
    case 1 then show ?case by (simp add: safe_def getlE_def)
  next
    case (2 node lk)
    show ?case by (rule safe_spec [OF throws_outerE [OF throws_check_block_header] TrueI])
  next
    case (3 node lk u lk')
    then have "fst lk' = l" by (auto simp: getlE_def outerE_def split: prod.splits)
    then show ?case
      using fresh_apply [OF _ assms, of b node "snd lk'"] unfolding safe_def by (metis prod.collapse)
  next
    case (4 node lk u lk' receipt lk'')
    then have "fst lk' = l" by (auto simp: getlE_def outerE_def split: prod.splits)
    with 4 have "at_block P lk''" using fresh_apply [OF _ assms, of b node "snd lk'"] by (cases lk') auto
    then show ?case by (rule safe_spec [OF cont])
  qed
qed

lemma throws_apply_new_block: "throws X (apply_new_block E S sc b now i j parent node info)"
proof (rule safe_throws)
  fix k :: "('d, 'w, 's) ctl"
  let ?l = "\<lparr>sb_ctx = execution_context_new (ct_vm k) (ct_db k) Block_application,
                  sb_block_node = node, sb_new_head = False, sb_receipt = None\<rparr>"
  have "safe X (thenE (catchE catchable (apply_and_finalize E S sc b now i j parent info) (block_failed E S))
           (getlE sb_receipt) (?l, k))"
    by (intro safe_thenE safe_catchE safe_apply_and_finalize throws_block_failed)
       (simp_all add: safe_def getlE_def split: prod.split)
  then show "safe X (apply_new_block E S sc b now i j parent node info k)"
    by (simp add: apply_new_block_def localE_def safe_def split: prod.splits)
qed

lemma throws_submit_block: "throws X (submit_block E S sc b now)"
proof -
  have lib: "throws X (liftE (to_multihash E bs) :: ('d, 'w, 's, multihash) crun)" for bs
    by (rule th.spec_liftE, rule X_library) (auto simp: library_error_def)
  have info: "throws X (parent_info E sc node i parent :: ('d, 'w, 's, u64 \<times> u64) crun)" for node i parent
    unfolding parent_info_def
    by (intro th.effect_rules throwsI [OF spec_opened_step] any_intent query_rules)
  have create: "throws X (create_block_node E i j h :: ('d, 'w, 's, 'h option) crun)" for i j h
    by (auto simp: spec_def create_block_node_def split: prod.split)
  have valid: "throws X (validate_block b :: ('d, 'w, 's, unit) crun)"
    unfolding validate_block_def validate_transaction_def missing_def Let_def by (intro th.effect_rules X_kexn)
  show ?thesis
    unfolding submit_block_def check_orphan_def
    by (intro th.effect_rules valid lib create info throws_apply_new_block X_kexn)
qed

lemma throws_yield: "throws X m \<Longrightarrow> throws X (yield m f)"
  unfolding yield_def by (intro th.effect_rules)

lemma throws_dispatch_request: "throws X (dispatch_request E S sc run now junk rq)"
  by (cases rq)
     (simp_all, (intro th.effect_rules throws_yield throws_submit_block
        throwsI [OF spec_submit_transaction] throwsI [OF spec_queries(1)] throwsI [OF spec_queries(2)]
        throwsI [OF spec_queries(3)] throwsI [OF spec_queries(4)] throwsI [OF spec_queries(5)]
        throwsI [OF spec_read_contract] throwsI [OF spec_invoke_system_call]
        throwsI [OF spec_get_fork_data, folded get_fork_heads_def] any_intent part_client)+)

end

end
