(* ===== verification/Controller_Props.thy ===== *)
theory Controller_Props
  imports Controller_Effects
begin

text \<open>
  Correctness of the controller: requests that read change nothing, every request is answered, and the
  buffers of a directly invoked system call are respected.
\<close>

section \<open>Direct system calls\<close>

lemma call_in_bounds: "in_bounds (call_buffers bufsize args) (length (call_memory bufsize args junk))"
proof -
  have "unat (of_nat (length args) :: u32) \<le> length args" by (simp add: unat_of_nat)
  then show ?thesis by (simp add: in_bounds_def call_buffers_def call_memory_def)
qed

lemma spec_getlE_host: "effect P R \<Longrightarrow> spec (at_host b P) (rel_host b R) X (getlE f)"
  by (auto simp: spec_def getlE_def rel_host_def at_host_def confined_refl effect.R_refl split: prod.splits)

lemma spec_invoke_call:
  assumes "effect P R"
    and "spec (at_host (call_buffers bufsize args) P) (rel_host (call_buffers bufsize args) R) X
           (host_call E sc run sid (call_buffers bufsize args))"
  shows "spec P R X (invoke_call E sc run bufsize sid args junk)"
proof (rule specI)
  let ?b = "call_buffers bufsize args"
  let ?m = "thenE (host_call E sc run sid ?b) (getlE (written bufsize args))"
  fix c r c' assume P: "P c" and run: "invoke_call E sc run bufsize sid args junk c = (r, c')"
  obtain mem where m: "?m (call_memory bufsize args junk, c) = (r, (mem, c'))"
    using run by (auto simp: invoke_call_def localE_def split: prod.splits)
  have "spec (at_host ?b P) (rel_host ?b R) X ?m"
    by (rule effect.spec_thenE [OF effect_host [OF assms(1)] assms(2) spec_getlE_host [OF assms(1)]])
  from specD [OF this _ m] P show "R c c' \<and> (\<forall>e. r = Inl e \<longrightarrow> X e)"
    by (simp add: at_host_def rel_host_def call_in_bounds)
qed

context vm_effect
begin

lemma spec_host_call: "spec (at_host b Q) (rel_host b R) X (host_call E sc run i b)"
  unfolding host_call_def by (intro mq.spec_thenE q_memory host_frame spec_host_body_call)

end

context flat_effect
begin

lemma flat_invoke_call: "spec P R X (invoke_call E (ksys n E) (kvm n E) bufsize sid args junk)"
  by (rule spec_invoke_call [OF effect_axioms vm_effect.spec_host_call [OF flat_level]]) (rule ke.sys_spec ke.vm_spec)+

end

section \<open>Requests that read\<close>

definition anonymous_step :: "('d, 'h, 'w) env \<Rightarrow> 'd \<Rightarrow> 'd \<Rightarrow> bool" where
  "anonymous_step E d d' \<longleftrightarrow> (\<exists>h h'. node_create_anonymous E d h = (h', d'))"

lemma anonymous_stepI: "node_create_anonymous E d h = (h', d') \<Longrightarrow> (anonymous_step E)\<^sup>*\<^sup>* d d'"
  by (rule r_into_rtranclp) (auto simp: anonymous_step_def)

definition query_rel :: "('d, 'h, 'w) env \<Rightarrow> ('d, 'h, 'w) ctx \<Rightarrow> ('d, 'h, 'w) ctx \<Rightarrow> bool" where
  "query_rel E c c' \<longleftrightarrow> ec_intent c' = ec_intent c \<and> (anonymous_step E)\<^sup>*\<^sup>* (ec_db c) (ec_db c')"

lemma spec_query: "spec P read_only_rel X m \<Longrightarrow> (\<And>c. P c \<Longrightarrow> is_read_only c) \<Longrightarrow> spec P (query_rel E) X m"
  by (auto simp: spec_def read_only_rel_def query_rel_def)

interpretation query: request_effect is_read_only "query_rel E" "\<lambda>_. True" E S "ksys n E" "kvm n E"
    "(anonymous_step E)\<^sup>*\<^sup>*" node_part "\<lambda>i. i = Read_only"
  for E :: "('d, 'h, 'w) env" and S :: "('d, 'h, 's) services" and n
proof unfold_locales
  fix a :: sc_args show "spec is_read_only (query_rel E) (\<lambda>_. True) (ksys n E a)"
    by (rule spec_query [OF spec_weaken [OF ro.flat_sys]]) simp_all
next
  fix bufsize sid :: u32 and args :: bytes and junk :: u32
  show "spec is_read_only (query_rel E) (\<lambda>_. True) (invoke_call E (ksys n E) (kvm n E) bufsize sid args junk)"
    by (rule spec_query [OF spec_weaken [OF ro.flat_invoke_call]]) simp_all
qed (auto simp: query_rel_def is_read_only_def housekeeping_def ledger_step_def execution_context_new_def node_part_def
      intro: rtranclp_trans anonymous_stepI)

fun is_query :: "chain_request \<Rightarrow> bool" where
  "is_query (Rq_submit_block _) = False"
| "is_query (Rq_submit_transaction _ _) = False"
| "is_query _ = True"

lemma query_spec:
  assumes "is_query rq"
  shows "spec (\<lambda>_. True) (same_chain (anonymous_step E)\<^sup>*\<^sup>* node_part) (\<lambda>_. True)
           (dispatch_request E S (ksys n E) (kvm n E) now junk rq)"
  using assms
  by (cases rq)
     (simp_all add: yield_def get_fork_heads_def,
       (intro query.ch.effect_rules query.spec_queries query.spec_read_contract query.spec_invoke_system_call
         query.spec_get_fork_data refl)+)

text \<open>
  C14.  Requests that read cannot change the chain.  Whatever account, contract or system call a request
  names, and whether it succeeds or fails, every request other than the two submissions leaves the
  state database as it was but for temporary nodes created on top of it, and leaves the cached head
  block, the configuration and the client alone; nothing is broadcast.
\<close>

theorem queries_change_nothing:
  assumes "is_query rq"
  shows "let k' = snd (dispatch_request E S (ksys n E) (kvm n E) now junk rq k) in
           (anonymous_step E)\<^sup>*\<^sup>* (ct_db k) (ct_db k')
         \<and> ct_cached_head_block k' = ct_cached_head_block k \<and> ct_client k' = ct_client k \<and> ct_sent k' = ct_sent k
         \<and> ct_read_compute_bandwidth_limit k' = ct_read_compute_bandwidth_limit k
         \<and> ct_syscall_bufsize k' = ct_syscall_bufsize k"
  using query_spec [OF assms, of E S n now junk]
  by (simp add: spec_def same_chain_def node_part_def Let_def)

section \<open>Every request is answered\<close>

lemma stack_invoke_call:
  assumes E: "libraries_ok E" and n: "stack_limit \<le> n"
  shows "spec (depth 1 1 n) stack_rel ends (invoke_call E (ksys n E) (kvm n E) bufsize sid args junk)"
proof (rule spec_invoke_call [OF effect_stack])
  let ?b = "call_buffers bufsize args"
  have vm: "vm_effect (depth 2 1 n) stack_rel ends E (ksys n E) (kvm n E) any_node any_node (depth 3 2 (Suc n))"
    by (rule stack_level [OF E]) (rule kernel_effect.sys_spec kernel_effect.vm_spec, rule stack_kernel_effect [OF E])+
  show "spec (at_host ?b (depth 1 1 n)) (rel_host ?b stack_rel) ends (host_call E (ksys n E) (kvm n E) sid ?b)"
    unfolding host_call_def
    by (intro effect.spec_thenE [OF effect_host [OF effect_stack]] spec_host_written effect_stack
          host_frame_rule [OF vm_effect.spec_host_body_call [OF vm]])
       (use n in \<open>simp add: depth_def\<close>)
qed

text \<open>What the node relies on in the services it calls: they throw exceptions, they do not abort.\<close>

definition services_ok :: "('d, 'h, 'w) env \<Rightarrow> ('d, 'h, 's) services \<Rightarrow> bool" where
  "services_ok E S \<longleftrightarrow> (\<forall>e. service_error S e \<or> database_error E e \<longrightarrow> \<not> fatal e)"

lemma answering_effect:
  assumes "libraries_ok E" and "services_ok E S" and "stack_limit \<le> n"
  shows "submission_effect (depth 1 1 n) stack_rel ends E S (ksys n E) (kvm n E) (\<lambda>_ _. True) (\<lambda>_. ()) (\<lambda>_. True)"
proof -
  have sys: "spec (depth 1 1 n) stack_rel ends (ksys n E a)" for a
    by (rule kernel_effect.sys_spec [OF stack_kernel_effect [OF assms(1)]])
  have invoke: "spec (depth 1 1 n) stack_rel ends (invoke_call E (ksys n E) (kvm n E) bufsize sid args junk)"
    for bufsize sid args junk
    by (rule stack_invoke_call [OF assms(1,3)])
  show ?thesis
    by unfold_locales
       (use assms sys invoke in \<open>auto simp: stack_rel_def depth_def housekeeping_def ledger_step_def execution_context_new_def
         stack_limit_def ignores_client_def ends_def fatal_def libraries_ok_def services_ok_def\<close>)
qed

text \<open>
  C15.  Every request is answered.  However a request fails, in the controller, in a contract it runs, in
  the database or in another service, the handler returns a serialised response; the only way not to
  return one is undefined behaviour (a null state node dereferenced).  In particular a request cannot
  make the handler nest forever or terminate the program.
\<close>

theorem every_request_is_answered:
  assumes "libraries_ok E" and "services_ok E S" and "stack_limit \<le> n"
  shows "case fst (rpc_handler E S W (ksys n E) (kvm n E) now junk msg k) of
           Inr answer \<Rightarrow> \<exists>rp. answer = wr_response W rp
         | Inl e \<Rightarrow> \<exists>what. e = Undefined what"
proof (cases "wr_request W msg")
  case None
  then show ?thesis by (auto simp: rpc_handler_def run_returnE bindE_def)
next
  case (Some rq)
  let ?d = "dispatch_request E S (ksys n E) (kvm n E) now junk rq"
  have "throws ends ?d" by (rule submission_effect.throws_dispatch_request [OF answering_effect [OF assms]])
  then have e: "ends e" if "fst (?d k) = Inl e" for e using that by (simp add: spec_def)
  have undefined: "\<exists>what. e = Undefined what" if "ends e" "\<not> catchable e" for e
    using that by (cases e) (auto simp: ends_def)
  show ?thesis
    using e undefined
    by (cases "?d k"; cases "fst (?d k)") (auto simp: rpc_handler_def Some bindE_def catchE_def returnE_def)
qed

end
