(* ===== verification/Submission_Props.thy ===== *)
theory Submission_Props
  imports Controller_Props
begin

text \<open>
  Correctness of block submission: what an accepted block has been checked for, the invariant between
  requests (every indexed node is finalised and the cached head block is the head of the database),
  the order of announcements, and a block that is left behind.
\<close>

section \<open>Triples\<close>

text \<open>
  \<open>triple P m Q Z\<close>: from \<open>P\<close>, \<open>m\<close> returns with \<open>Q\<close> or throws with \<open>Z\<close>.
\<close>

definition triple ::
  "('c \<Rightarrow> bool) \<Rightarrow> ('c, 'e, 'a) comp \<Rightarrow> ('a \<Rightarrow> 'c \<Rightarrow> bool) \<Rightarrow> ('e \<Rightarrow> 'c \<Rightarrow> bool) \<Rightarrow> bool" where
  "triple P m Q Z \<longleftrightarrow>
     (\<forall>c. P c \<longrightarrow> (case m c of (Inr a, c') \<Rightarrow> Q a c' | (Inl e, c') \<Rightarrow> Z e c'))"

lemma tripleD: "triple P m Q Z \<Longrightarrow> P c \<Longrightarrow> m c = (Inr a, c') \<Longrightarrow> Q a c'"
  by (fastforce simp: triple_def)

lemma triple_bindE: "triple P m Q Z \<Longrightarrow> (\<And>a. triple (Q a) (f a) Q' Z) \<Longrightarrow> triple P (bindE m f) Q' Z"
  by (fastforce simp: triple_def bindE_def split: prod.splits sum.splits)

lemma triple_thenE: "triple P m (\<lambda>_. Q) Z \<Longrightarrow> triple Q k Q' Z \<Longrightarrow> triple P (thenE m k) Q' Z"
  unfolding thenE_def by (rule triple_bindE)

lemma triple_catchE:
  assumes "triple P m Q Z'" and "\<And>e. p e \<Longrightarrow> triple (Z' e) (h e) Q Z" and "\<And>e c. \<not> p e \<Longrightarrow> Z' e c \<Longrightarrow> Z e c"
  shows "triple P (catchE p m h) Q Z"
  using assms by (fastforce simp: triple_def catchE_def split: prod.splits sum.splits)

lemma triple_conseq:
  "triple P m Q Z \<Longrightarrow> (\<And>c. P' c \<Longrightarrow> P c) \<Longrightarrow> (\<And>a c. Q a c \<Longrightarrow> Q' a c) \<Longrightarrow> (\<And>e c. Z e c \<Longrightarrow> Z' e c) \<Longrightarrow> triple P' m Q' Z'"
  by (fastforce simp: triple_def split: prod.splits sum.splits)

lemma triple_basic:
  "triple (Q a) (returnE a) Q Z" "triple (Z e) (throwE e) Q Z" "triple (\<lambda>c. Q (f c) c) (getE f) Q Z"
  "triple (\<lambda>c. Q () (g c)) (modifyE g) Q Z" "triple (\<lambda>c. Q (f' (fst c)) c) (getlE f') Q Z"
  "triple (\<lambda>c. Q () (g' (fst c), snd c)) (setlE g') Q Z"
  by (simp_all add: triple_def returnE_def throwE_def getE_def modifyE_def getlE_def setlE_def split: prod.splits)

lemma triple_throw: "(\<And>c. P c \<Longrightarrow> Z e c) \<Longrightarrow> triple P (throwE e) Q Z"
  by (simp add: triple_def throwE_def)

lemma triple_if: "(b \<Longrightarrow> triple P m Q Z) \<Longrightarrow> (\<not> b \<Longrightarrow> triple P k Q Z) \<Longrightarrow> triple P (if b then m else k) Q Z"
  by simp

lemma triple_spec:
  assumes "spec (\<lambda>_. True) R (\<lambda>_. True) m" and "\<And>c c'. P c \<Longrightarrow> R c c' \<Longrightarrow> P c'"
  shows "triple P m (\<lambda>_. P) (\<lambda>_. P)"
  using assms by (fastforce simp: triple_def spec_def split: prod.splits sum.splits)

section \<open>Laws of the state database\<close>

definition head_id :: "('d, 'h, 'w) env \<Rightarrow> 'd \<Rightarrow> multihash" where
  "head_id E d = node_id E d (db_get_head E d)"

definition same_index :: "('d, 'h, 'w) env \<Rightarrow> 'd \<Rightarrow> 'd \<Rightarrow> bool" where
  "same_index E d d' \<longleftrightarrow>
     db_get_node E d' = db_get_node E d \<and> node_is_finalized E d' = node_is_finalized E d \<and> head_id E d' = head_id E d"

text \<open>Every node but possibly that of \<open>i\<close> is finalised; all of them are.\<close>

definition settled_but :: "multihash \<Rightarrow> ('d, 'h, 'w) env \<Rightarrow> 'd \<Rightarrow> bool" where
  "settled_but i E d \<longleftrightarrow> (\<forall>j n. j \<noteq> i \<longrightarrow> db_get_node E d j = Some n \<longrightarrow> node_is_finalized E d n)"

definition settled :: "('d, 'h, 'w) env \<Rightarrow> 'd \<Rightarrow> bool" where
  "settled E d \<longleftrightarrow> (\<forall>j n. db_get_node E d j = Some n \<longrightarrow> node_is_finalized E d n)"

text \<open>
  What the controller relies on.  Reading and writing objects, and anonymous nodes, do not touch the
  index.  A created node is indexed under its id; discarding an unfinalised node removes it alone;
  finalising marks a node finalised and may make it the head; committing keeps the head and leaves
  no node unfinalised that was not.
\<close>

definition objects_leave_index :: "('d, 'h, 'w) env \<Rightarrow> bool" where
  "objects_leave_index E \<longleftrightarrow> (\<forall>d d'. db_step E d d' \<longrightarrow> same_index E d d')"

definition ids_indexed :: "('d, 'h, 'w) env \<Rightarrow> bool" where
  "ids_indexed E \<longleftrightarrow> (\<forall>d i n. db_get_node E d i = Some n \<longrightarrow> node_id E d n = i)"

definition creates_one :: "('d, 'h, 'w) env \<Rightarrow> bool" where
  "creates_one E \<longleftrightarrow>
     (\<forall>d p i h n d'. settled E d \<longrightarrow> db_get_node E d i = None \<longrightarrow> db_create_writable_node E d p i h = (n, d') \<longrightarrow>
        db_get_node E d' i = n \<and> settled_but i E d' \<and> head_id E d' = head_id E d)"

definition discards_one :: "('d, 'h, 'w) env \<Rightarrow> bool" where
  "discards_one E \<longleftrightarrow>
     (\<forall>d i n. settled_but i E d \<longrightarrow> db_get_node E d i = Some n \<longrightarrow> \<not> node_is_finalized E d n \<longrightarrow>
        settled E (db_discard_node E d i) \<and> head_id E (db_discard_node E d i) = head_id E d)"

definition finalizes_one :: "('d, 'h, 'w) env \<Rightarrow> bool" where
  "finalizes_one E \<longleftrightarrow>
     (\<forall>d i d'. settled_but i E d \<longrightarrow> db_finalize_node E d i = Inr d' \<longrightarrow>
        settled E d' \<and> (head_id E d' = i \<or> head_id E d' = head_id E d))"

definition commits_settled :: "('d, 'h, 'w) env \<Rightarrow> bool" where
  "commits_settled E \<longleftrightarrow>
     (\<forall>d i d'. settled E d \<longrightarrow> db_commit_node E d i = Inr d' \<longrightarrow> settled E d' \<and> head_id E d' = head_id E d)"

definition db_laws :: "('d, 'h, 'w) env \<Rightarrow> bool" where
  "db_laws E \<longleftrightarrow>
     objects_leave_index E \<and> ids_indexed E \<and> creates_one E \<and> discards_one E \<and> finalizes_one E \<and> commits_settled E"

lemma db_laws_step:
  assumes "db_laws E" and "(db_step E)\<^sup>*\<^sup>* d d'"
  shows "same_index E d d'"
  using assms(2)
proof induction
  case base
  show ?case by (simp add: same_index_def)
next
  case (step d1 d2)
  have "same_index E d1 d2" using assms(1) step.hyps(2) by (simp add: db_laws_def objects_leave_index_def)
  with step.IH show ?case by (simp add: same_index_def)
qed

lemma db_laws_id: "db_laws E \<Longrightarrow> db_get_node E d i = Some n \<Longrightarrow> node_id E d n = i"
  by (simp add: db_laws_def ids_indexed_def)

lemma db_laws_create:
  "db_laws E \<Longrightarrow> settled E d \<Longrightarrow> db_get_node E d i = None \<Longrightarrow> db_create_writable_node E d p i h = (n, d') \<Longrightarrow>
     db_get_node E d' i = n \<and> settled_but i E d' \<and> head_id E d' = head_id E d"
  unfolding db_laws_def creates_one_def by blast

lemma db_laws_discard:
  "db_laws E \<Longrightarrow> settled_but i E d \<Longrightarrow> db_get_node E d i = Some n \<Longrightarrow> \<not> node_is_finalized E d n \<Longrightarrow>
     settled E (db_discard_node E d i) \<and> head_id E (db_discard_node E d i) = head_id E d"
  unfolding db_laws_def discards_one_def by blast

lemma db_laws_finalize:
  "db_laws E \<Longrightarrow> settled_but i E d \<Longrightarrow> db_finalize_node E d i = Inr d' \<Longrightarrow>
     settled E d' \<and> (head_id E d' = i \<or> head_id E d' = head_id E d)"
  unfolding db_laws_def finalizes_one_def by blast

lemma db_laws_commit:
  "db_laws E \<Longrightarrow> settled E d \<Longrightarrow> db_commit_node E d i = Inr d' \<Longrightarrow> settled E d' \<and> head_id E d' = head_id E d"
  unfolding db_laws_def commits_settled_def by blast

lemma settled_same_index:
  "same_index E d d' \<Longrightarrow> settled E d' = settled E d" "same_index E d d' \<Longrightarrow> settled_but i E d' = settled_but i E d"
  by (simp_all add: same_index_def settled_def settled_but_def)

lemma settled_weaken: "settled E d \<Longrightarrow> settled_but i E d"
  by (simp add: settled_def settled_but_def)

lemma settled_unindexed: "settled_but i E d \<Longrightarrow> db_get_node E d i = None \<Longrightarrow> settled E d"
  unfolding settled_def settled_but_def by (metis option.distinct(1))

section \<open>Steps on the index\<close>

definition db_rel :: "('d, 'h, 'w) env \<Rightarrow> ('d, 'h, 'w) ctx \<Rightarrow> ('d, 'h, 'w) ctx \<Rightarrow> bool" where
  "db_rel E c c' \<longleftrightarrow> ec_intent c' = ec_intent c \<and> (db_step E)\<^sup>*\<^sup>* (ec_db c) (ec_db c')"

interpretation dbs: flat_effect "\<lambda>_. True" "db_rel E" "\<lambda>_. True" E any_node any_node for E :: "('d, 'h, 'w) env"
  by unfold_locales
     (auto simp: db_rel_def bookkeeping_simps ledger_step_def set_state_node_def
        intro: rtranclp_trans r_into_rtranclp dest!: write_step_db_step)

interpretation steps: request_effect "\<lambda>_. True" "db_rel E" "\<lambda>_. True" E S "ksys n E" "kvm n E"
    "(db_step E)\<^sup>*\<^sup>*" local_part "\<lambda>_. True"
  for E :: "('d, 'h, 'w) env" and S :: "('d, 'h, 's) services" and n
  by unfold_locales
     (auto simp: db_rel_def housekeeping_def ledger_step_def local_part_def
        intro: rtranclp_trans dbs.flat_sys dbs.flat_invoke_call r_into_rtranclp db_step_intros)

lemma ignores_client_local: "ignores_client local_part"
  by (simp add: ignores_client_def local_part_def)

definition cached :: "('d, 'h, 'w) env \<Rightarrow> ('d, 'w, 's) ctl \<Rightarrow> bool" where
  "cached E k \<longleftrightarrow> (\<exists>hb. ct_cached_head_block k = Some hb \<and> to_multihash E (blk_id hb) = Inr (head_id E (ct_db k)))"

text \<open>
  The invariant of the controller between requests: every block node in the index is finalised, and
  the cached head block is the block of the database's head.
\<close>

definition consistent :: "('d, 'h, 'w) env \<Rightarrow> ('d, 'w, 's) ctl \<Rightarrow> bool" where
  "consistent E k \<longleftrightarrow> settled E (ct_db k) \<and> cached E k"

definition pending :: "('d, 'h, 'w) env \<Rightarrow> multihash \<Rightarrow> ('d, 'h, 'w) sb \<times> ('d, 'w, 's) ctl \<Rightarrow> bool" where
  "pending E i lk \<longleftrightarrow>
     settled_but i E (ct_db (snd lk)) \<and> sb_block_node (fst lk) = db_get_node E (ct_db (snd lk)) i \<and> cached E (snd lk)"

definition keeps :: "('d, 'h, 'w) env \<Rightarrow> ('d, 'h, 'w) sb \<times> ('d, 'w, 's) ctl \<Rightarrow> ('d, 'h, 'w) sb \<times> ('d, 'w, 's) ctl \<Rightarrow> bool" where
  "keeps E lk lk' \<longleftrightarrow>
     sb_block_node (fst lk') = sb_block_node (fst lk) \<and> same_index E (ct_db (snd lk)) (ct_db (snd lk'))
     \<and> ct_cached_head_block (snd lk') = ct_cached_head_block (snd lk)"

lemma effect_keeps: "effect (\<lambda>_. True) (keeps E)"
  by unfold_locales (auto simp: keeps_def same_index_def)

lemma keeps_pending: "keeps E lk lk' \<Longrightarrow> pending E i lk \<Longrightarrow> pending E i lk'"
  by (simp add: keeps_def pending_def settled_but_def cached_def same_index_def)

lemma keeps_consistent: "keeps E lk lk' \<Longrightarrow> consistent E (snd lk) \<Longrightarrow> consistent E (snd lk')"
  by (simp add: keeps_def consistent_def settled_def cached_def same_index_def)

abbreviation kept :: "('d, 'h, 'w) env \<Rightarrow> ('d, 'h, 'w, 's, 'a) sbrun \<Rightarrow> bool" where
  "kept E \<equiv> spec (\<lambda>_. True) (keeps E) (\<lambda>_. True)"

lemma kept_sb_in:
  assumes "db_laws E" and "spec (\<lambda>_. True) (db_rel E) (\<lambda>_. True) m"
  shows "kept E (sb_in m)"
proof (rule specI)
  fix lk r lk' assume run: "sb_in m lk = (r, lk')"
  obtain l k where lk: "lk = (l, k)" by fastforce
  let ?x = "(sb_ctx l)\<lparr>ec_vm := ct_vm k, ec_db := ct_db k\<rparr>"
  obtain s x' where m: "m ?x = (s, x')" by fastforce
  from specD [OF assms(2) TrueI m] have "same_index E (ct_db k) (ec_db x')"
    using db_laws_step [OF assms(1)] by (simp add: db_rel_def)
  with run lk m show "keeps E lk lk' \<and> (\<forall>e. r = Inl e \<longrightarrow> True)"
    by (auto simp: sb_in_def in_ctx_def keeps_def)
qed

lemma kept_outer:
  fixes E :: "('a, 'b, 'c) env" and m :: "('a, 'c, 'd, 'e) crun"
  assumes "db_laws E" and "spec (\<lambda>_. True) (same_chain (db_step E)\<^sup>*\<^sup>* local_part) (\<lambda>_. True) m"
  shows "kept E (outerE m)"
proof (rule specI)
  fix lk lk' :: "('a, 'b, 'c) sb \<times> ('a, 'c, 'd) ctl" and r assume "outerE m lk = (r, lk')"
  then obtain k' where m: "m (snd lk) = (r, k')" and lk': "lk' = (fst lk, k')"
    by (auto simp: outerE_def split: prod.splits)
  from specD [OF assms(2) TrueI m] db_laws_step [OF assms(1)] lk' show "keeps E lk lk' \<and> (\<forall>e. r = Inl e \<longrightarrow> True)"
    by (auto simp: keeps_def same_chain_def local_part_def)
qed

lemma client_chain: "spec (\<lambda>_. True) (client_rel part) X m \<Longrightarrow> spec (\<lambda>_. True) (same_chain (db_step E)\<^sup>*\<^sup>* part) X m"
  by (simp add: spec_def client_rel_def same_chain_def)

lemma kept_locals: "(\<And>l. sb_block_node (f l) = sb_block_node l) \<Longrightarrow> kept E (setlE f)" "kept E (getlE g)"
  by (auto simp: spec_def keeps_def setlE_def getlE_def same_index_def split: prod.splits)

lemma kept_pending: "kept E m \<Longrightarrow> triple (pending E i) m (\<lambda>_. pending E i) (\<lambda>_. pending E i)"
  by (erule triple_spec) (erule (1) keeps_pending [rotated -1])

lemma kept_consistent:
  "kept E m \<Longrightarrow> triple (\<lambda>lk. consistent E (snd lk)) m (\<lambda>_ lk. consistent E (snd lk)) (\<lambda>_ lk. consistent E (snd lk))"
  by (erule triple_spec) (erule (1) keeps_consistent [rotated -1])

section \<open>Finalising\<close>

abbreviation half_done :: "('d, 'h, 'w) env \<Rightarrow> multihash \<Rightarrow> ('d, 'h, 'w) sb \<times> ('d, 'w, 's) ctl \<Rightarrow> bool" where
  "half_done E i lk \<equiv> settled_but i E (ct_db (snd lk)) \<and> cached E (snd lk)"

text \<open>After the node is finalised the cached head may lag behind by this one block.\<close>

abbreviation head_moved :: "('d, 'h, 'w) env \<Rightarrow> multihash \<Rightarrow> ('d, 'h, 'w) sb \<times> ('d, 'w, 's) ctl \<Rightarrow> bool" where
  "head_moved E i lk \<equiv> settled E (ct_db (snd lk)) \<and> (cached E (snd lk) \<or> head_id E (ct_db (snd lk)) = i)"

lemma finalize_steps:
  assumes laws: "db_laws E" and i: "to_multihash E (blk_id b) = Inr i"
  shows "triple (pending E i) (setlE forget_nodes) (\<lambda>_. half_done E i) Z"
    "triple (half_done E i) (outerE (on_db (\<lambda>d. db_finalize_node E d i))) (\<lambda>_. head_moved E i) (\<lambda>_. half_done E i)"
    "triple (head_moved E i) (set_state_merkle_root E i) (\<lambda>_. head_moved E i) (\<lambda>e _. \<not> catchable e)"
    "triple (head_moved E i) (update_head E b i) (\<lambda>_ lk. consistent E (snd lk)) Z"
    "triple (\<lambda>lk. consistent E (snd lk)) (outerE (advance_lib E i lib)) (\<lambda>_ lk. consistent E (snd lk))
       (\<lambda>_ lk. consistent E (snd lk))"
    "triple (half_done E i) (restore_node E i) (\<lambda>_. pending E i) Z"
    "triple (\<lambda>lk. consistent E (snd lk)) (restore_node E i) (\<lambda>_ lk. pending E i lk \<and> consistent E (snd lk)) Z"
  subgoal by (simp add: triple_def setlE_def pending_def split: prod.splits)
  subgoal
    using db_laws_finalize [OF laws]
    by (fastforce simp: triple_def outerE_def on_db_def cached_def split: prod.splits sum.splits)
  subgoal
    by (auto simp: triple_def set_state_merkle_root_def bindE_def outerE_def getE_def someE_def throwE_def returnE_def
        setlE_def cached_def split: prod.splits sum.splits option.splits)
  subgoal
    using i by (auto simp: triple_def update_head_def consistent_def cached_def head_id_def)
  subgoal
    using db_laws_commit [OF laws]
    by (fastforce simp: triple_def outerE_def advance_lib_def on_db_def consistent_def cached_def
        split: prod.splits sum.splits if_splits)
  subgoal by (auto simp: triple_def restore_node_def pending_def Let_def)
  subgoal by (auto simp: triple_def restore_node_def consistent_def pending_def settled_weaken Let_def)
  done

lemma finalize_block_triple:
  assumes "db_laws E" and "to_multihash E (blk_id b) = Inr i"
  shows "triple (pending E i) (finalize_block E b i lib) (\<lambda>_ lk. pending E i lk \<and> consistent E (snd lk))
           (\<lambda>e lk. catchable e \<longrightarrow> pending E i lk)"
proof -
  note f = finalize_steps [OF assms]
  have body: "triple (pending E i)
       (thenE (setlE forget_nodes) (
        thenE (outerE (on_db (\<lambda>d. db_finalize_node E d i))) (
        thenE (set_state_merkle_root E i) (
        thenE (update_head E b i) (
        thenE (outerE (advance_lib E i lib))
        (restore_node E i)))))) (\<lambda>_ lk. pending E i lk \<and> consistent E (snd lk)) (\<lambda>e lk. catchable e \<longrightarrow> half_done E i lk)"
  proof -
    let ?Z = "\<lambda>e lk. catchable e \<longrightarrow> half_done E i lk"
    have 2: "triple (half_done E i) (outerE (on_db (\<lambda>d. db_finalize_node E d i))) (\<lambda>_. head_moved E i) ?Z"
      by (rule triple_conseq [OF f(2)]) simp_all
    have 3: "triple (head_moved E i) (set_state_merkle_root E i) (\<lambda>_. head_moved E i) ?Z"
      by (rule triple_conseq [OF f(3)]) simp_all
    have 5: "triple (\<lambda>lk. consistent E (snd lk)) (outerE (advance_lib E i lib)) (\<lambda>_ lk. consistent E (snd lk)) ?Z"
      by (rule triple_conseq [OF f(5)]) (simp_all add: consistent_def settled_weaken)
    show ?thesis
      by (intro triple_thenE [OF f(1)] triple_thenE [OF 2] triple_thenE [OF 3] triple_thenE [OF f(4)]
            triple_thenE [OF 5] f(7))
  qed
  show ?thesis
    unfolding finalize_block_def
  proof (rule triple_catchE [OF body])
    fix e assume e: "catchable e"
    show "triple (\<lambda>lk. catchable e \<longrightarrow> half_done E i lk) (thenE (restore_node E i) (throwE e))
        (\<lambda>_ lk. pending E i lk \<and> consistent E (snd lk)) (\<lambda>e' lk. catchable e' \<longrightarrow> pending E i lk)"
      by (rule triple_thenE [where Q = "pending E i"], rule triple_conseq [OF f(6)])
         (use e in \<open>auto intro: triple_throw\<close>)
  qed simp
qed

section \<open>Failing\<close>

lemma client_cached: "client_rel local_part k k' \<Longrightarrow> consistent E k \<Longrightarrow> consistent E k'"
  by (simp add: client_rel_def local_part_def consistent_def cached_def)

lemma announce_failure_spec:
  "spec (\<lambda>_. True) (client_rel local_part) (\<lambda>_. True) (announce_failure S e)"
  unfolding announce_failure_def
  by (intro steps.spec_when_client effect.effect_rules [OF effect_client] effect.spec_liftE [OF effect_client]
        steps.spec_send ignores_client_local) simp

lemma discard_triple:
  assumes "db_laws E"
  shows "triple (pending E i) (discard_unfinalized E) (\<lambda>_ lk. consistent E (snd lk)) Z"
proof -
  have "case discard_unfinalized E (l, k) of (Inr a, c') \<Rightarrow> consistent E (snd c') | (Inl e, c') \<Rightarrow> Z e c'"
    if p: "pending E i (l, k)" for l and k :: "('a, 'c, 'd) ctl"
  proof (cases "\<exists>n. sb_block_node l = Some n \<and> \<not> node_is_finalized E (ct_db k) n")
    case True
    then obtain n where n: "sb_block_node l = Some n" "\<not> node_is_finalized E (ct_db k) n" by blast
    with p have node: "db_get_node E (ct_db k) i = Some n" and but: "settled_but i E (ct_db k)" and "cached E k"
      by (simp_all add: pending_def)
    with n db_laws_discard [OF assms but node] db_laws_id [OF assms node] show ?thesis
      by (simp add: discard_unfinalized_def consistent_def cached_def)
  next
    case False
    with p have "settled E (ct_db k)"
      unfolding pending_def settled_def settled_but_def fst_conv snd_conv by metis
    moreover from p have "cached E k" by (simp add: pending_def)
    ultimately show ?thesis using False by (auto simp: discard_unfinalized_def consistent_def split: option.splits)
  qed
  then show ?thesis by (auto simp: triple_def)
qed

text \<open>Outcomes of a submission after which the invariant is promised.\<close>

definition orderly :: "exn \<Rightarrow> bool" where
  "orderly e \<longleftrightarrow> catchable e \<and> \<not> is_block_state_error e"

lemma block_failed_triple:
  assumes "db_laws E"
  shows "triple (pending E i) (block_failed E S e) Q (\<lambda>e' lk. orderly e' \<longrightarrow> consistent E (snd lk))"
proof -
  have failure: "triple (\<lambda>lk. consistent E (snd lk)) (outerE (announce_failure S e)) (\<lambda>_ lk. consistent E (snd lk))
      (\<lambda>_ lk. consistent E (snd lk))" for e
    by (rule triple_spec [OF spec_outerE [OF announce_failure_spec]]) (erule client_cached)
  have koinos: "triple (\<lambda>lk. consistent E (snd lk)) (thenE (outerE (announce_failure S e))
      (bindE (getlE sb_ctx) (\<lambda>x. throwE (add_block_logs x e)))) Q (\<lambda>_ lk. consistent E (snd lk))"
    by (rule triple_thenE [OF failure]) (simp add: triple_def bindE_def getlE_def throwE_def split: prod.splits)
  have other: "triple (\<lambda>lk. consistent E (snd lk)) (throwE e) Q (\<lambda>_ lk. consistent E (snd lk))"
    by (simp add: triple_def throwE_def)
  have "triple (pending E i) (thenE (discard_unfinalized E)
          (if is_koinos e then thenE (outerE (announce_failure S e))
               (bindE (getlE sb_ctx) (\<lambda>x. throwE (add_block_logs x e)))
           else throwE e)) Q (\<lambda>_ lk. consistent E (snd lk))"
    by (rule triple_thenE [OF discard_triple [OF assms]]) (use koinos other in auto)
  then have "triple (pending E i) (thenE (discard_unfinalized E)
          (if is_koinos e then thenE (outerE (announce_failure S e))
               (bindE (getlE sb_ctx) (\<lambda>x. throwE (add_block_logs x e)))
           else throwE e)) Q (\<lambda>e' lk. orderly e' \<longrightarrow> consistent E (snd lk))"
    by (rule triple_conseq) simp_all
  moreover have "triple (pending E i) (throwE e) Q (\<lambda>e' lk. orderly e' \<longrightarrow> consistent E (snd lk))"
    if "is_block_state_error e" using that by (simp add: triple_def throwE_def orderly_def)
  ultimately show ?thesis by (simp add: block_failed_def)
qed

section \<open>The invariant\<close>

lemma kept_store_block: "db_laws E \<Longrightarrow> kept E (outerE (store_block S b r))"
  unfolding store_block_def
  by (intro kept_outer client_chain steps.spec_when_client effect.spec_bindE [OF effect_client]
        steps.spec_ask_client ignores_client_local)
     (auto simp: service_error_def intro!: effect.effect_rules [OF effect_client] split: store_reply.split)

lemma kept_check_block_header: "db_laws E \<Longrightarrow> kept E (outerE (check_block_header E b now node i parent info))"
  unfolding check_block_header_def Let_def
  by (intro kept_outer client_chain effect.effect_rules [OF effect_client]) simp_all

lemma kept_apply_in_node: "db_laws E \<Longrightarrow> kept E (sb_in (apply_in_node E (ksys n E) b node))"
  unfolding apply_in_node_def
  by (intro kept_sb_in steps.query_rules dbs.flat_push)
     (auto split: receipt.split intro!: steps.query_rules)

lemma kept_get_lib:
  "db_laws E \<Longrightarrow> kept E (sb_in (bindE (ksys n E A_get_last_irreversible_block) (\<lambda>r. returnE (v_u64 r))))"
  by (intro kept_sb_in steps.query_rules)

lemma kept_announce: "db_laws E \<Longrightarrow> kept E (announce E S (ksys n E) b live)"
  unfolding announce_def context_receipt_def
  by (intro effect.effect_rules [OF effect_keeps] kept_outer kept_sb_in steps.spec_get_fork_data kept_locals
        client_chain steps.spec_send ignores_client_local effect.spec_forE [OF effect_client]
        effect.spec_case_prod [OF effect_client] steps.query_rules)
     (auto split: receipt.split intro!: steps.query_rules)

lemma kept_both:
  "kept E m \<Longrightarrow> triple (\<lambda>lk. pending E i lk \<and> consistent E (snd lk)) m (\<lambda>_ lk. pending E i lk \<and> consistent E (snd lk))
     (\<lambda>_ lk. pending E i lk \<and> consistent E (snd lk))"
  by (erule triple_spec) (blast intro: keeps_pending keeps_consistent)

lemma apply_and_finalize_triple:
  fixes E :: "('d, 'h, 'w) env" and S :: "('d, 'h, 's) services"
  assumes "db_laws E" and "to_multihash E (blk_id b) = Inr i"
  shows "triple (pending E i) (apply_and_finalize E S (ksys n E) b now i j parent info)
           (\<lambda>_ lk. pending E i lk \<and> consistent E (snd lk)) (\<lambda>e lk. catchable e \<longrightarrow> pending E i lk)"
proof -
  let ?Z = "\<lambda>e (lk :: ('d, 'h, 'w) sb \<times> ('d, 'w, 's) ctl). catchable e \<longrightarrow> pending E i lk"
  let ?done = "\<lambda>lk :: ('d, 'h, 'w) sb \<times> ('d, 'w, 's) ctl. pending E i lk \<and> consistent E (snd lk)"
  have kept: "triple (pending E i) m (\<lambda>_. pending E i) ?Z" if "kept E m" for m :: "('d, 'h, 'w, 's, 'x) sbrun"
    using kept_pending [OF that, of i] by (rule triple_conseq) simp_all
  have both: "triple ?done m (\<lambda>_. ?done) ?Z" if "kept E m" for m :: "('d, 'h, 'w, 's, 'x) sbrun"
    using kept_both [OF that, of i] by (rule triple_conseq) simp_all
  have end_: "triple ?done (bindE (outerE (getE (\<lambda>k. ct_client k \<noteq> None))) (\<lambda>has_client.
      if has_client then announce E S (ksys n E) b (is_live now b) else returnE ())) (\<lambda>_. ?done) ?Z"
    by (intro triple_bindE [OF both] triple_if both kept_announce assms(1) kept_outer client_chain
          effect.spec_getE [OF effect_client] effect.spec_returnE [OF effect_keeps])
  show ?thesis
    unfolding apply_and_finalize_def
    by (intro triple_bindE [OF kept] triple_thenE [OF kept] kept_locals kept_check_block_header kept_apply_in_node
          kept_store_block kept_get_lib triple_thenE [OF finalize_block_triple] end_ assms) simp
qed

lemma apply_new_block_keeps:
  assumes "db_laws E" and i: "to_multihash E (blk_id b) = Inr i"
    and "settled_but i E (ct_db k)" and "db_get_node E (ct_db k) i = node" and "cached E k"
    and run: "apply_new_block E S (ksys n E) b now i j parent node info k = (r, k')"
    and r: "\<And>e. r = Inl e \<Longrightarrow> orderly e"
  shows "consistent E k'"
proof -
  let ?l = "\<lparr>sb_ctx = execution_context_new (ct_vm k) (ct_db k) Block_application,
                  sb_block_node = node, sb_new_head = False, sb_receipt = None\<rparr>"
  let ?m = "thenE (catchE catchable (apply_and_finalize E S (ksys n E) b now i j parent info) (block_failed E S))
           (getlE sb_receipt)"
  have get: "triple (\<lambda>lk. consistent E (snd lk)) (getlE sb_receipt) (\<lambda>_ lk. consistent E (snd lk)) Z" for Z :: "exn \<Rightarrow> _"
    by (simp add: triple_def getlE_def split: prod.splits)
  have "triple (pending E i) ?m (\<lambda>_ lk. consistent E (snd lk)) (\<lambda>e lk. orderly e \<longrightarrow> consistent E (snd lk))"
  proof (rule triple_thenE [OF triple_catchE get])
    show "triple (pending E i) (apply_and_finalize E S (ksys n E) b now i j parent info)
        (\<lambda>_ lk. consistent E (snd lk)) (\<lambda>e lk. catchable e \<longrightarrow> pending E i lk)"
      by (rule triple_conseq [OF apply_and_finalize_triple [OF assms(1,2)]]) simp_all
    show "triple (\<lambda>lk. catchable e \<longrightarrow> pending E i lk) (block_failed E S e)
        (\<lambda>_ lk. consistent E (snd lk)) (\<lambda>e lk. orderly e \<longrightarrow> consistent E (snd lk))" if "catchable e" for e
      by (rule triple_conseq [OF block_failed_triple [OF assms(1)]]) (use that in simp_all)
  qed (simp add: orderly_def)
  moreover have "pending E i (?l, k)" using assms(3-5) by (simp add: pending_def)
  moreover obtain l' where "?m (?l, k) = (r, (l', k'))"
    using run by (auto simp: apply_new_block_def localE_def split: prod.splits)
  ultimately show ?thesis using r by (cases r) (auto simp: triple_def dest!: spec)
qed

lemma same_index_consistent:
  "same_index E (ct_db k) (ct_db k') \<Longrightarrow> ct_cached_head_block k' = ct_cached_head_block k \<Longrightarrow> consistent E k \<Longrightarrow> consistent E k'"
  by (simp add: same_index_def consistent_def settled_def cached_def)

lemma chain_consistent:
  assumes "db_laws E" and "spec (\<lambda>_. True) (same_chain (db_step E)\<^sup>*\<^sup>* local_part) (\<lambda>_. True) m"
    and "m k = (r, k')" and "consistent E k"
  shows "consistent E k'"
proof -
  from specD [OF assms(2) TrueI assms(3)] have "(db_step E)\<^sup>*\<^sup>* (ct_db k) (ct_db k')" "ct_cached_head_block k' = ct_cached_head_block k"
    by (simp_all add: same_chain_def local_part_def)
  with db_laws_step [OF assms(1)] assms(4) show ?thesis by (blast intro: same_index_consistent)
qed

lemma validate_unchanged: "validate_block b k = (r, k') \<Longrightarrow> k' = k" "validate_transaction t k = (r, k') \<Longrightarrow> k' = k"
proof -
  have pure: "effect (\<lambda>_. True) (\<lambda>k k'. k' = k)" by unfold_locales simp_all
  have t: "spec (\<lambda>_. True) (\<lambda>k k'. k' = k) (\<lambda>_. True) (validate_transaction t)" for t :: transaction
    unfolding validate_transaction_def Let_def by (intro effect.effect_rules [OF pure]) simp_all
  have b: "spec (\<lambda>_. True) (\<lambda>k k'. k' = k) (\<lambda>_. True) (validate_block b)"
    unfolding validate_block_def Let_def by (intro effect.effect_rules [OF pure] t) simp_all
  show "validate_block b k = (r, k') \<Longrightarrow> k' = k" "validate_transaction t k = (r, k') \<Longrightarrow> k' = k"
    by (drule specD [OF b TrueI] specD [OF t TrueI], simp)+
qed

text \<open>Reading the head of the parent's state does not throw.\<close>

definition parent_readable :: "('d, 'h, 'w) env \<Rightarrow> ('d, 'h, 'w) sys \<Rightarrow> block \<Rightarrow> ('d, 'w, 's) ctl \<Rightarrow> bool" where
  "parent_readable E sc b k \<longleftrightarrow>
     (\<forall>p parent node d. to_multihash E (bh_previous (blk_header b)) = Inr p \<longrightarrow> db_get_node E (ct_db k) p = Some parent \<longrightarrow>
        (\<exists>info k'. parent_info E sc node p parent (k\<lparr>ct_db := d\<rparr>) = (Inr info, k')))"

lemma parent_info_chain:
  "spec (\<lambda>_. True) (same_chain (db_step E)\<^sup>*\<^sup>* local_part) (\<lambda>_. True) (parent_info E (ksys n E) node p parent)"
  unfolding parent_info_def
  by (intro steps.ch.effect_rules steps.spec_opened_step steps.query_rules)

lemma run_reads: "bindE (liftE (Inr a)) f = f a" "bindE (liftE (Inl e)) f = throwE e" "bindE (getE g) h c = h (g c) c"
  by (simp_all add: bindE_def liftE_def getE_def throwE_def fun_eq_iff)

lemma create_block_node_run:
  "bindE (create_block_node E p i h) f k =
     (case db_create_writable_node E (ct_db k) p i h of (n, d) \<Rightarrow> f n (k\<lparr>ct_db := d\<rparr>))"
  by (simp add: bindE_def create_block_node_def split: prod.split)

lemma submit_block_run:
  assumes "validate_block b k = (Inr (), k)" and "to_multihash E (blk_id b) = Inr i"
    and "to_multihash E (bh_previous (blk_header b)) = Inr p"
  shows "submit_block E S sc b now k =
    (if db_get_node E (ct_db k) i \<noteq> None then (Inr None, k)
     else case db_get_node E (ct_db k) p of
         None \<Rightarrow> thenE (check_orphan E i (bh_height (blk_header b))) (returnE None) k
       | Some parent \<Rightarrow>
           (case db_create_writable_node E (ct_db k) p i (blk_header b) of (node, d) \<Rightarrow>
              bindE (parent_info E sc node p parent) (apply_new_block E S sc b now i p parent node) (k\<lparr>ct_db := d\<rparr>)))"
  unfolding submit_block_def run_thenE_Inr [of "validate_block b" k "()" k, OF assms(1)]
  by (cases "db_get_node E (ct_db k) i"; cases "db_get_node E (ct_db k) p")
     (simp_all add: assms(2,3) run_reads create_block_node_run run_returnE)

lemma check_orphan_unchanged:
  "snd (thenE (check_orphan E i h) (returnE (None :: block_receipt option)) k) = k" "fst (thenE (check_orphan E i h) (returnE None) k) \<noteq> Inr (Some (x :: block_receipt))"
  by (simp_all add: check_orphan_def thenE_def bindE_def guardE_def returnE_def)

lemma submit_block_refused:
  assumes "validate_block b k = (v, k)"
    and "(\<exists>e. v = Inl e) \<or> (\<exists>e. to_multihash E (blk_id b) = Inl e) \<or> (\<exists>e. to_multihash E (bh_previous (blk_header b)) = Inl e)"
  shows "snd (submit_block E S sc b now k) = k \<and> fst (submit_block E S sc b now k) \<noteq> Inr x"
proof (cases v)
  case (Inl e)
  with assms(1) show ?thesis by (simp add: submit_block_def run_thenE_Inl)
next
  case (Inr u)
  show ?thesis
    unfolding submit_block_def run_thenE_Inr [of "validate_block b" k u k, OF assms(1) [unfolded Inr]]
    using assms(2) Inr
    by (cases "to_multihash E (blk_id b)"; cases "to_multihash E (bh_previous (blk_header b))")
       (simp_all add: run_reads run_throwE)
qed

lemma submit_block_cases:
  assumes run: "submit_block E S sc b now k = (r, k')"
  obtains (unchanged) "k' = k" "\<And>x. r \<noteq> Inr (Some x)"
  | (applied) i p parent node d where
      "to_multihash E (blk_id b) = Inr i" "to_multihash E (bh_previous (blk_header b)) = Inr p"
      "validate_block b k = (Inr (), k)"
      "db_get_node E (ct_db k) i = None" "db_get_node E (ct_db k) p = Some parent"
      "db_create_writable_node E (ct_db k) p i (blk_header b) = (node, d)"
      "bindE (parent_info E sc node p parent) (apply_new_block E S sc b now i p parent node) (k\<lparr>ct_db := d\<rparr>) = (r, k')"
proof -
  obtain v where v: "validate_block b k = (v, k)" using validate_unchanged(1) [of b k] by (metis prod.collapse)
  show thesis
  proof (cases "(\<exists>e. v = Inl e) \<or> (\<exists>e. to_multihash E (blk_id b) = Inl e) \<or> (\<exists>e. to_multihash E (bh_previous (blk_header b)) = Inl e)")
    case True
    with submit_block_refused [OF v, of E S sc now] run show thesis by (intro unchanged) simp_all
  next
    case False
    then obtain i p where ok: "validate_block b k = (Inr (), k)" "to_multihash E (blk_id b) = Inr i"
      "to_multihash E (bh_previous (blk_header b)) = Inr p"
      using v by (metis old.unit.exhaust sum.exhaust)
    note run' = run [unfolded submit_block_run [OF ok]]
    show thesis
    proof (cases "db_get_node E (ct_db k) i = None \<and> db_get_node E (ct_db k) p \<noteq> None")
      case True
      then obtain parent where "db_get_node E (ct_db k) p = Some parent" by blast
      moreover obtain node d where "db_create_writable_node E (ct_db k) p i (blk_header b) = (node, d)" by fastforce
      ultimately show thesis using applied [OF ok(2,3,1)] run' True by simp
    next
      case False
      with run' check_orphan_unchanged [where E = E and i = i and h = "bh_height (blk_header b)" and k = k]
      have "k' = k \<and> (\<forall>x. r \<noteq> Inr (Some x))" by (auto split: if_splits option.splits)
      then show thesis by (intro unchanged) blast+
    qed
  qed
qed

lemma query_chain:
  assumes "is_query rq"
  shows "spec (\<lambda>_. True) (same_chain (db_step E)\<^sup>*\<^sup>* local_part) (\<lambda>_. True)
           (dispatch_request E S (ksys n E) (kvm n E) now junk rq)"
  using assms
  by (cases rq)
     (simp_all add: yield_def get_fork_heads_def,
       (intro steps.ch.effect_rules steps.spec_queries steps.spec_read_contract steps.spec_invoke_system_call
         steps.spec_get_fork_data TrueI)+)

lemma submit_block_keeps:
  assumes laws: "db_laws E" and k: "consistent E k" and readable: "parent_readable E (ksys n E) b k"
    and run: "submit_block E S (ksys n E) b now k = (r, k')" and r: "\<And>e. r = Inl e \<Longrightarrow> orderly e"
  shows "consistent E k'"
  using run
proof (cases rule: submit_block_cases)
  case unchanged
  with k show ?thesis by simp
next
  case (applied i p parent node d)
  have created: "db_get_node E d i = node \<and> settled_but i E d \<and> head_id E d = head_id E (ct_db k)"
    using k by (intro db_laws_create [OF laws _ applied(4,6)]) (simp add: consistent_def)
  obtain info k1 where info: "parent_info E (ksys n E) node p parent (k\<lparr>ct_db := d\<rparr>) = (Inr info, k1)"
    using readable applied(2,5) unfolding parent_readable_def by blast
  from specD [OF parent_info_chain TrueI info]
  have "same_index E d (ct_db k1)" and head: "ct_cached_head_block k1 = ct_cached_head_block k"
    using db_laws_step [OF laws] by (simp_all add: same_chain_def local_part_def)
  moreover have "cached E k" using k by (simp add: consistent_def)
  ultimately have "settled_but i E (ct_db k1)" "db_get_node E (ct_db k1) i = node" "cached E k1"
    using created by (simp_all add: same_index_def settled_but_def cached_def)
  moreover have "apply_new_block E S (ksys n E) b now i p parent node info k1 = (r, k')"
    using applied(7) info by (simp add: bindE_def)
  ultimately show ?thesis by (rule apply_new_block_keeps [OF laws applied(1)]) (rule r)
qed


section \<open>Accepted blocks\<close>

lemma forE_InrD: "forE xs f c = (Inr u, c') \<Longrightarrow> x \<in> set xs \<Longrightarrow> \<exists>u c1 c2. f x c1 = (Inr u, c2)"
  by (induction xs arbitrary: c) (auto dest!: thenE_InrD, blast)

lemma validate_transaction_fields:
  "validate_transaction t k = (Inr u, k') \<Longrightarrow>
     trx_id t \<noteq> [] \<and> trx_has_header t \<and> th_rc_limit (trx_header t) \<noteq> 0
     \<and> th_operation_merkle_root (trx_header t) \<noteq> [] \<and> trx_signatures t \<noteq> []"
  unfolding validate_transaction_def Let_def by (auto dest!: run_InrD)

lemma validate_block_fields:
  assumes "validate_block b k = (Inr u, k')"
  shows "blk_id b \<noteq> [] \<and> blk_has_header b \<and> bh_previous (blk_header b) \<noteq> [] \<and> bh_height (blk_header b) \<noteq> 0
     \<and> bh_timestamp (blk_header b) \<noteq> 0 \<and> bh_previous_state_merkle_root (blk_header b) \<noteq> []
     \<and> bh_transaction_merkle_root (blk_header b) \<noteq> [] \<and> blk_signature b \<noteq> []"
    and "t \<in> set (blk_transactions b) \<Longrightarrow> trx_id t \<noteq> [] \<and> trx_has_header t \<and> th_rc_limit (trx_header t) \<noteq> 0
     \<and> th_operation_merkle_root (trx_header t) \<noteq> [] \<and> trx_signatures t \<noteq> []"
  using assms unfolding validate_block_def Let_def
  by (auto dest!: run_InrD) (auto dest!: forE_InrD validate_transaction_fields)

lemma forE_unchanged: "(\<And>x. x \<in> set xs \<Longrightarrow> f x c = (Inr (), c)) \<Longrightarrow> forE xs f c = (Inr (), c)"
  by (induction xs) (simp_all add: run_returnE run_thenE_Inr)

lemma validate_anywhere:
  assumes "validate_block b k = (Inr u, k')"
  shows "validate_block b c = (Inr (), c)"
proof -
  have "validate_transaction t c = (Inr (), c)" if "t \<in> set (blk_transactions b)" for t
    using validate_block_fields(2) [OF assms that] by (simp add: validate_transaction_def assertE_def run_returnE Let_def)
  then have "forE (blk_transactions b) validate_transaction c = (Inr (), c)"
    by (rule forE_unchanged)
  then show ?thesis
    using validate_block_fields(1) [OF assms] by (simp add: validate_block_def assertE_def Let_def)
qed

lemma check_block_header_passed:
  assumes "check_block_header E b now node p parent (height, time) k = (Inr u, k')"
  shows "node \<noteq> None \<and> (mh_is_zero E p \<longrightarrow> bh_height (blk_header b) = 1) \<and> bh_height (blk_header b) = height + 1
     \<and> time < bh_timestamp (blk_header b) \<and> bh_timestamp (blk_header b) \<le> time_upper_bound now
     \<and> bh_previous_state_merkle_root (blk_header b) = as_string E (M_multihash (node_merkle_root E (ct_db k) parent))"
  using assms unfolding check_block_header_def Let_def by (auto dest!: run_InrD)

lemma time_upper_bound_exact:
  assumes "0 \<le> now" and "now < 2 ^ 63"
  shows "uint (time_upper_bound now) = (now + 5000000000) div 1000000"
proof -
  have "milliseconds (now + 5 * 1000000000) = (now + 5000000000) div 1000000"
    using assms(1) by (simp add: milliseconds_def signed_divide_int_def sgn_if)
  moreover have "(now + 5000000000) div 1000000 < 2 ^ 64" using assms by simp
  moreover have "0 \<le> (now + 5000000000) div 1000000" using assms by simp
  ultimately show ?thesis by (simp add: time_upper_bound_def uint_word_of_int take_bit_int_eq_self)
qed

lemma timestamp_bound:
  assumes "ts \<le> time_upper_bound now" and "0 \<le> now" and "now < 2 ^ 63"
  shows "1000000 * uint ts \<le> now + 5000000000"
proof -
  have "uint ts \<le> (now + 5000000000) div 1000000"
    using assms(1) unfolding word_le_def time_upper_bound_exact [OF assms(2,3)] .
  then show ?thesis by linarith
qed

lemma apply_new_block_finished:
  assumes "apply_new_block E S sc b now i p parent node info k = (Inr x, k')"
  shows "\<exists>l u lk. apply_and_finalize E S sc b now i p parent info (l, k) = (Inr u, lk) \<and> snd lk = k' \<and> sb_block_node l = node"
proof -
  let ?l = "\<lparr>sb_ctx = execution_context_new (ct_vm k) (ct_db k) Block_application,
                  sb_block_node = node, sb_new_head = False, sb_receipt = None\<rparr>"
  have failed: "block_failed E S e lk \<noteq> (Inr u, lk')" for e lk lk' and u :: unit
    by (auto simp: block_failed_def throwE_def dest!: thenE_InrD bindE_InrD split: if_splits)
  obtain l' where "thenE (catchE catchable (apply_and_finalize E S sc b now i p parent info) (block_failed E S))
      (getlE sb_receipt) (?l, k) = (Inr x, (l', k'))"
    using assms by (auto simp: apply_new_block_def localE_def split: prod.splits)
  then obtain u lk where "catchE catchable (apply_and_finalize E S sc b now i p parent info) (block_failed E S) (?l, k) = (Inr u, lk)"
    and "snd lk = k'"
    by (auto simp: getlE_def dest!: thenE_InrD split: prod.splits)
  then have "apply_and_finalize E S sc b now i p parent info (?l, k) = (Inr u, lk)"
    using failed by (auto simp: catchE_def split: prod.splits sum.splits if_splits)
  with \<open>snd lk = k'\<close> show ?thesis by (intro exI [of _ ?l] exI [of _ u] exI [of _ lk]) simp
qed

lemma apply_new_block_returned:
  assumes "apply_new_block E S sc b now i p parent node info k = (Inr x, k')"
  shows "\<exists>u k1. check_block_header E b now node p parent info k = (Inr u, k1)"
proof -
  obtain l u lk where "apply_and_finalize E S sc b now i p parent info (l, k) = (Inr u, lk)" "sb_block_node l = node"
    using apply_new_block_finished [OF assms] by blast
  then obtain v lk' where "outerE (check_block_header E b now node p parent info) (l, k) = (Inr v, lk')"
    unfolding apply_and_finalize_def by (auto simp: getlE_def dest!: bindE_InrD thenE_InrD)
  then show ?thesis by (auto simp: outerE_def split: prod.splits)
qed


section \<open>A block left behind\<close>

text \<open>
  C36.  A block whose parent cannot be read is left behind.  The head information of the parent is read
  after the state node of the new block was created and before the handler that discards it is in
  place.  When reading it throws, the node stays in the index without having been applied, and
  submitting the same block again is then answered as for a block that has been applied.
\<close>

theorem unreadable_parent_strands_block:
  assumes laws: "db_laws E" and "settled E (ct_db k)"
    and valid: "validate_block b k = (Inr (), k)"
    and ids: "to_multihash E (blk_id b) = Inr i" "to_multihash E (bh_previous (blk_header b)) = Inr p"
    and new: "db_get_node E (ct_db k) i = None" and parent: "db_get_node E (ct_db k) p = Some parent"
    and create: "db_create_writable_node E (ct_db k) p i (blk_header b) = (Some node, d)"
    and unreadable: "parent_info E (ksys n E) (Some node) p parent (k\<lparr>ct_db := d\<rparr>) = (Inl e, k')"
  shows "submit_block E S (ksys n E) b now k = (Inl e, k') \<and> db_get_node E (ct_db k') i = Some node
       \<and> submit_block E S (ksys n E) b later k' = (Inr None, k')"
proof -
  have first: "submit_block E S (ksys n E) b now k = (Inl e, k')"
    unfolding submit_block_run [OF valid ids] using new parent create unreadable by (simp add: bindE_def)
  have "db_get_node E d i = Some node"
    using db_laws_create [OF laws assms(2) new create] by simp
  moreover have "same_index E d (ct_db k')"
    using specD [OF parent_info_chain TrueI unreadable] db_laws_step [OF laws] by (simp add: same_chain_def)
  ultimately have left: "db_get_node E (ct_db k') i = Some node" by (simp add: same_index_def)
  have "validate_block b k' = (Inr (), k')"
    by (rule validate_anywhere [OF valid])
  from submit_block_run [OF this ids] left have "submit_block E S (ksys n E) b later k' = (Inr None, k')" by simp
  with first left show ?thesis by blast
qed

section \<open>Announcements\<close>

definition quiet :: "('d, 'h, 'w) sb \<times> ('d, 'w, 's) ctl \<Rightarrow> ('d, 'h, 'w) sb \<times> ('d, 'w, 's) ctl \<Rightarrow> bool" where
  "quiet lk lk' \<longleftrightarrow> ct_sent (snd lk') = ct_sent (snd lk) \<and> (ct_client (snd lk') = None \<longleftrightarrow> ct_client (snd lk) = None)"

lemma effect_quiet: "effect (\<lambda>_. True) quiet"
  by unfold_locales (auto simp: quiet_def)

definition silent_part :: "('d, 'w, 's) ctl \<Rightarrow> (string \<times> broadcast) list \<times> bool \<times> block option" where
  "silent_part k = (ct_sent k, ct_client k = None, ct_cached_head_block k)"

interpretation silent: request_effect "\<lambda>_. True" "\<lambda>_ _. True" "\<lambda>_. True" E S sc run "\<lambda>_ _. True" silent_part "\<lambda>_. True"
  for E :: "('d, 'h, 'w) env" and S :: "('d, 'h, 's) services" and sc run
  by unfold_locales (simp_all add: silent_part_def spec_def)

lemma quiet_sb_in: "spec (\<lambda>_. True) quiet (\<lambda>_. True) (sb_in m)"
  by (rule specI) (auto simp: sb_in_def in_ctx_def quiet_def split: prod.splits)

lemma quiet_outer:
  assumes "spec (\<lambda>_. True) R (\<lambda>_. True) m"
    and "\<And>k k'. R k k' \<Longrightarrow> ct_sent k' = ct_sent k \<and> (ct_client k' = None \<longleftrightarrow> ct_client k = None)"
  shows "spec (\<lambda>_. True) quiet (\<lambda>_. True) (outerE m)"
  by (rule specI) (use assms(2) in \<open>auto simp: outerE_def quiet_def dest!: specD [OF assms(1) TrueI] split: prod.splits\<close>)

lemma silent_client: "same_chain D silent_part k k' \<Longrightarrow> ct_sent k' = ct_sent k \<and> (ct_client k' = None \<longleftrightarrow> ct_client k = None)"
  by (auto simp: same_chain_def silent_part_def)

abbreviation silently :: "('d, 'w, 's, 'a) crun \<Rightarrow> bool" where
  "silently \<equiv> spec (\<lambda>_. True) (same_chain (\<lambda>_ _. True) silent_part) (\<lambda>_. True)"

lemma silently_ask: "silently (ask_client f)"
  by (rule specI) (auto simp: ask_client_def same_chain_def silent_part_def split: option.splits prod.splits)

lemma silently_when_client: "silently m \<Longrightarrow> silently (when_client m)"
  by (rule specI) (auto simp: when_client_def same_chain_def dest: specD split: option.splits)

lemma silently_store_block: "silently (store_block S b r)"
  unfolding store_block_def
  by (intro silently_when_client silent.ch.spec_bindE silently_ask)
     (auto intro!: silent.ch.effect_rules split: store_reply.split)

lemma quiet_silently: "silently m \<Longrightarrow> spec (\<lambda>_. True) quiet (\<lambda>_. True) (outerE m)"
  by (erule quiet_outer) (rule silent_client)

lemma quiet_finalize: "spec (\<lambda>_. True) quiet (\<lambda>_. True) (finalize_block E b i lib)"
proof -
  have leaf: "spec (\<lambda>_. True) quiet (\<lambda>_. True) (setlE f)" "spec (\<lambda>_. True) quiet (\<lambda>_. True) (restore_node E i)"
    "spec (\<lambda>_. True) quiet (\<lambda>_. True) (update_head E b i)" for f
    by (auto simp: spec_def quiet_def setlE_def restore_node_def update_head_def Let_def split: prod.splits)
  have db: "spec (\<lambda>_. True) quiet (\<lambda>_. True) (outerE (on_db f))" "spec (\<lambda>_. True) quiet (\<lambda>_. True) (outerE (advance_lib E i lib))" for f
    by (auto simp: spec_def quiet_def outerE_def on_db_def advance_lib_def split: prod.splits sum.splits if_splits)
  have root: "spec (\<lambda>_. True) quiet (\<lambda>_. True) (set_state_merkle_root E i)"
    unfolding set_state_merkle_root_def
    by (intro effect.effect_rules [OF effect_quiet] quiet_silently silent.ch.spec_getE leaf TrueI)
  show ?thesis
    unfolding finalize_block_def
    by (intro effect.spec_catchE [OF effect_quiet] effect.spec_thenE [OF effect_quiet] effect.spec_throwE [OF effect_quiet] leaf db root)
qed

definition announcements ::
  "('d, 'h, 's) services \<Rightarrow> block \<Rightarrow> bool \<Rightarrow> bool \<Rightarrow> block_receipt \<Rightarrow> block_topology \<Rightarrow> block_topology list
     \<Rightarrow> event_bundle list \<Rightarrow> (string \<times> broadcast) list" where
  "announcements S b live head receipt lib fork_heads events =
     [(''koinos.block.irreversible'', Bc_block_irreversible lib),
      (''koinos.block.accept'', Bc_block_accepted b receipt live head),
      (''koinos.block.forks'', Bc_fork_heads lib fork_heads)]
     @ map (\<lambda>(t, ev). (event_topic S ev, Bc_event_parcel (blk_id b) (bh_height (blk_header b)) t ev)) events"

lemma send_InrD: "send S topic msg k = (Inr u, k') \<Longrightarrow> ct_sent k' = ct_sent k @ [(topic, msg)]"
  unfolding send_def
  by (auto simp: modifyE_def ask_client_def dest!: thenE_InrD split: option.splits prod.splits)

lemma send_all_InrD:
  "forE events (\<lambda>(t, ev). send S (topic ev) (msg t ev)) k = (Inr u, k') \<Longrightarrow>
     ct_sent k' = ct_sent k @ map (\<lambda>(t, ev). (topic ev, msg t ev)) events"
  by (induction events arbitrary: k) (auto simp: returnE_def dest!: thenE_InrD send_InrD split: prod.splits)

abbreviation sent :: "(string \<times> broadcast) list \<Rightarrow> ('d, 'h, 'w) sb \<times> ('d, 'w, 's) ctl \<Rightarrow> bool" where
  "sent t lk \<equiv> ct_sent (snd lk) = t"

lemma triple_case_prod: "(\<And>x y. triple P (f x y) Q Z) \<Longrightarrow> triple P (case a of (x, y) \<Rightarrow> f x y) Q Z"
  by (cases a) simp

lemma sent_quiet: "spec (\<lambda>_. True) quiet (\<lambda>_. True) m \<Longrightarrow> triple (sent t) m (\<lambda>_. sent t) (\<lambda>_ _. True)"
  by (auto simp: triple_def spec_def quiet_def split: prod.splits sum.splits) (metis prod.sel(2))+

lemma sent_send: "triple (sent t) (outerE (send S topic msg)) (\<lambda>_. sent (t @ [(topic, msg)])) (\<lambda>_ _. True)"
  by (auto simp: triple_def outerE_def dest: send_InrD split: prod.splits sum.splits)

lemma sent_send_all:
  "triple (sent t) (outerE (forE events (\<lambda>(x, ev). send S (topic ev) (msg x ev))))
     (\<lambda>_. sent (t @ map (\<lambda>(x, ev). (topic ev, msg x ev)) events)) (\<lambda>_ _. True)"
  by (auto simp: triple_def outerE_def dest!: send_all_InrD split: prod.splits sum.splits)

lemma quiet_getlE: "spec (\<lambda>_. True) quiet (\<lambda>_. True) (getlE f)" "spec (\<lambda>_. True) quiet (\<lambda>_. True) (setlE g)"
  by (auto simp: spec_def quiet_def getlE_def setlE_def split: prod.splits)

lemma announce_triple:
  "triple (sent t) (announce E S sc b live)
     (\<lambda>_ lk. \<exists>head receipt lib fork_heads events. sent (t @ announcements S b live head receipt lib fork_heads events) lk)
     (\<lambda>_ _. True)"
  unfolding announce_def announcements_def
  by (intro triple_bindE [OF sent_quiet [OF quiet_silently [OF silent.spec_get_fork_data [OF TrueI]]]] triple_case_prod
        triple_thenE [OF sent_send] triple_bindE [OF sent_quiet [OF quiet_sb_in]] triple_bindE [OF sent_quiet [OF quiet_getlE(1)]]
        triple_conseq [OF sent_send_all])
     auto

abbreviation heard :: "(string \<times> broadcast) list \<Rightarrow> ('d, 'h, 'w) sb \<times> ('d, 'w, 's) ctl \<Rightarrow> bool" where
  "heard t lk \<equiv> sent t lk \<and> ct_client (snd lk) \<noteq> None"

lemma heard_quiet: "spec (\<lambda>_. True) quiet (\<lambda>_. True) m \<Longrightarrow> triple (heard t) m (\<lambda>_. heard t) (\<lambda>_ _. True)"
  by (rule triple_conseq [OF triple_spec [where R = quiet and P = "heard t"]]) (auto simp: quiet_def)

lemma apply_and_finalize_sent:
  "triple (heard t) (apply_and_finalize E S sc b now i p parent info)
     (\<lambda>_ lk. \<exists>head receipt lib fork_heads events.
        sent (t @ announcements S b (is_live now b) head receipt lib fork_heads events) lk) (\<lambda>_ _. True)"
proof -
  have check: "silently (check_block_header E b now node p parent info)" for node
    unfolding check_block_header_def Let_def by (intro silent.ch.effect_rules TrueI)
  have last: "triple (heard t) (bindE (outerE (getE (\<lambda>k. ct_client k \<noteq> None))) (\<lambda>has_client.
      if has_client then announce E S sc b (is_live now b) else returnE ()))
     (\<lambda>_ lk. \<exists>head receipt lib fork_heads events.
        sent (t @ announcements S b (is_live now b) head receipt lib fork_heads events) lk) (\<lambda>_ _. True)"
    using announce_triple [of t E S sc b "is_live now b"]
    by (auto simp: triple_def bindE_def outerE_def getE_def)
  show ?thesis
    unfolding apply_and_finalize_def
    by (intro triple_bindE [OF heard_quiet] triple_thenE [OF heard_quiet] quiet_getlE quiet_silently check quiet_sb_in
          silently_store_block quiet_finalize last)
qed


end
