(* ===== verification/Request_Props.thy ===== *)
theory Request_Props
  imports Submission_Props
begin

text \<open>
  Further properties of the requests: the bytes a directly invoked system call returns, the order of
  fork heads, and the state a fresh database starts from.
\<close>

section \<open>The bytes a system call returns\<close>

lemma of_le_bytes_le_bytes: "of_le_bytes (le_bytes w) = unat w"
proof -
  let ?n = "unat w"
  have bound: "?n < 2 ^ 32" by (rule less_le_trans [OF unsigned_less]) simp
  have parts: "?n div 2 ^ 16 = ?n div 2 ^ 8 div 2 ^ 8" "?n div 2 ^ 24 = ?n div 2 ^ 8 div 2 ^ 8 div 2 ^ 8"
    by (simp_all add: div_mult2_eq [symmetric])
  have "?n div 2 ^ 24 < 256" using bound by (simp add: less_mult_imp_div_less)
  then have digits: "?n mod 256 + 256 * (?n div 2 ^ 8 mod 256 + 256 * (?n div 2 ^ 16 mod 256 + 256 * (?n div 2 ^ 24 mod 256))) = ?n"
    unfolding parts by simp
  have "unat (drop_bit k w) = unat w div 2 ^ k" for k
    unfolding unat_drop_bit_eq by (simp add: drop_bit_eq_div)
  then have "of_le_bytes (le_bytes w) = unat w mod 256 + 256 * (unat w div 2 ^ 8 mod 256 + 256 * (unat w div 2 ^ 16 mod 256 + 256 * (unat w div 2 ^ 24 mod 256)))"
    by (simp add: of_le_bytes_def le_bytes_def upt_rec)
  from trans [OF this digits] show ?thesis .
qed

text \<open>The counter of a call memory holds at most the size of the return buffer.\<close>

definition counted :: "u32 \<Rightarrow> bytes \<Rightarrow> bytes \<times> 'c \<Rightarrow> bool" where
  "counted bufsize args mc \<longleftrightarrow>
     length (fst mc) = unat bufsize + length args + 4
     \<and> of_le_bytes (drop (unat bufsize + length args) (fst mc)) \<le> unat bufsize"

lemma effect_counted: "effect (counted bufsize args) (\<lambda>_. counted bufsize args)"
  by unfold_locales simp_all

abbreviation counts :: "u32 \<Rightarrow> bytes \<Rightarrow> ('d, 'h, 'w, 'a) mrun \<Rightarrow> bool" where
  "counts bufsize args \<equiv> spec (counted bufsize args) (\<lambda>_. counted bufsize args) (\<lambda>_. True)"

lemma counts_outerE: "counts bufsize args (outerE m)"
  by (auto simp: spec_def outerE_def counted_def split: prod.splits)

lemma counts_read: "counts bufsize args (mem_read p n)"
  by (auto simp: spec_def mem_read_def counted_def)

lemma counter_written:
  assumes "length mem = unat bufsize + length args + 4" and "unat w \<le> unat bufsize"
  shows "mem_write (unat bufsize + length args) (le_bytes w) (mem, c) =
      (Inr (), (take (unat bufsize + length args) mem @ le_bytes w, c))"
    and "counted bufsize args (take (unat bufsize + length args) mem @ le_bytes w, c)"
  using assms by (simp_all add: mem_write_def counted_def of_le_bytes_le_bytes)

lemma counts_counter: "unat w \<le> unat bufsize \<Longrightarrow> counts bufsize args (mem_write (hb_bytes_written (call_buffers bufsize args)) (le_bytes w))"
  by (rule specI) (auto simp: call_buffers_def counter_written counted_def [of _ _ "(_, _)"] of_le_bytes_le_bytes mem_write_def split: if_splits)

lemma counts_buffer:
  "length bs \<le> unat bufsize \<Longrightarrow> counts bufsize args (mem_write (hb_ret_ptr (call_buffers bufsize args)) bs)"
  by (rule specI) (auto simp: call_buffers_def counted_def mem_write_def split: if_splits)

lemma counts_return:
  assumes "length bs \<le> unat (hb_ret_len (call_buffers bufsize args))"
  shows "counts bufsize args (write_return (call_buffers bufsize args) bs)"
proof -
  have len: "length bs \<le> unat bufsize" using assms by (simp add: call_buffers_def)
  moreover have "unat (of_nat (length bs) :: u32) \<le> unat bufsize"
    using len by (simp add: unat_of_nat le_trans [OF mod_less_eq_dividend])
  ultimately show ?thesis
    unfolding write_return_def by (intro effect.spec_thenE [OF effect_counted] counts_buffer counts_counter)
qed

lemma counts_checked:
  "counts bufsize args (thenE (assertE (length bs \<le> unat (hb_ret_len (call_buffers bufsize args))) e)
     (write_return (call_buffers bufsize args) bs))"
  by (rule spec_asserted [OF effect_counted]) (simp_all add: counts_return)

lemma counts_raii: "counts bufsize args m \<Longrightarrow> counts bufsize args (raii m (outerE d))"
  by (rule spec_raii [OF effect_counted _ counts_outerE]) simp_all

lemma counts_body:
  "counts bufsize args (with_host_frame f
     (bindE (outerE (system_call_exists E i)) (\<lambda>overridden.
        if overridden then host_override E run i (call_buffers bufsize args)
        else host_native E sc run i (call_buffers bufsize args))))"
proof -
  note rules = effect.effect_rules [OF effect_counted] counts_outerE counts_read counts_checked TrueI
  have thunk: "counts bufsize args (call_thunk_buffer E sc run t (call_buffers bufsize args))" for t
    unfolding call_thunk_buffer_def Let_def by (intro rules counts_counter) simp
  show ?thesis
    unfolding with_host_frame_def host_override_def host_native_def
    by (intro effect.spec_thenE [OF effect_counted] counts_outerE counts_raii rules thunk)
qed

lemma host_call_forgets_junk:
  "host_call E sc run sid (call_buffers bufsize args) (call_memory bufsize args junk, c)
     = with_host_frame (system_frame sid)
          (bindE (outerE (system_call_exists E sid)) (\<lambda>overridden.
             if overridden then host_override E run sid (call_buffers bufsize args)
             else host_native E sc run sid (call_buffers bufsize args)))
          (call_memory bufsize args 0, c)"
  unfolding host_call_def
  by (rule run_thenE_Inr) (simp add: call_memory_def call_buffers_def mem_write_def)

lemma written_short:
  "counted bufsize args (mem, c) \<Longrightarrow> length (written bufsize args mem) \<le> unat bufsize"
  by (simp add: counted_def written_def)

lemma invoke_call_bounded:
  assumes "invoke_call E sc run bufsize sid args junk c = (Inr bs, c')"
  shows "length bs \<le> unat bufsize"
proof -
  have start: "counted bufsize args (call_memory bufsize args 0, c)"
    by (simp add: counted_def call_memory_def of_le_bytes_le_bytes)
  obtain u mem where "host_call E sc run sid (call_buffers bufsize args) (call_memory bufsize args junk, c) = (Inr u, (mem, c'))"
    and "bs = written bufsize args mem"
    using assms by (auto simp: invoke_call_def localE_def getlE_def dest!: thenE_InrD split: prod.splits)
  note run = this
  from specD [OF counts_body start run(1) [unfolded host_call_forgets_junk]] have "counted bufsize args (mem, c')" ..
  with run(2) show ?thesis by (simp add: written_short)
qed

lemma invoke_call_junk: "invoke_call E sc run bufsize sid args junk = invoke_call E sc run bufsize sid args 0"
  by (rule ext) (simp add: invoke_call_def localE_def thenE_def bindE_def host_call_forgets_junk)

text \<open>
  C28.  A directly invoked system call returns what was written and no more.  The response is never longer
  than the configured buffer, and neither it nor anything else depends on the counter the host call
  finds uninitialised.
\<close>

theorem invoked_call_respects_its_buffer:
  "(case fst (ctl_invoke_system_call E sc run name args caller junk k) of
      Inr bs \<Rightarrow> length bs \<le> unat (ct_syscall_bufsize k) | Inl _ \<Rightarrow> True)
   \<and> ctl_invoke_system_call E sc run name args caller junk k = ctl_invoke_system_call E sc run name args caller junk' k"
proof (rule conjI)
  show "ctl_invoke_system_call E sc run name args caller junk k = ctl_invoke_system_call E sc run name args caller junk' k"
    unfolding ctl_invoke_system_call_def invoke_call_junk [of _ _ _ _ _ _ junk] invoke_call_junk [of _ _ _ _ _ _ junk'] ..
  show "case fst (ctl_invoke_system_call E sc run name args caller junk k) of
      Inr bs \<Rightarrow> length bs \<le> unat (ct_syscall_bufsize k) | Inl _ \<Rightarrow> True"
  proof (cases "ctl_invoke_system_call E sc run name args caller junk k")
    case (Pair r k')
    show ?thesis
    proof (cases r)
      case (Inr bs)
      have "\<exists>sid c c'. invoke_call E sc run (ct_syscall_bufsize k) sid args junk c = (Inr bs, c')"
        using Pair Inr
        by (auto simp: ctl_invoke_system_call_def local_ctx_def localE_def in_ctx_def at_head_def getE_def
            dest!: thenE_InrD bindE_InrD assertE_InrD split: prod.splits) blast
      with invoke_call_bounded Inr Pair show ?thesis by auto
    qed (simp add: Pair)
  qed
qed

section \<open>Fork heads\<close>

text \<open>
  Fork heads are sorted, and that is all.  The search for the head block among the fork heads stops
  where it starts, so the swap that is meant to put the head block first never happens: the fork heads
  are reported in the order the sort leaves them, whatever the head block is.
\<close>

theorem fork_heads_only_sorted:
  "order_forks S head forks = Inr (sv_sort S forks)"
  by (simp add: order_forks_def find_fork_def Let_def while_option_unfold)

section \<open>The first state\<close>

definition entry_at :: "genesis_entry \<Rightarrow> object_space \<times> bytes" where
  "entry_at ge = (ge_space ge, ge_key ge)"

definition genesis_map :: "genesis_data \<Rightarrow> (object_space \<times> bytes \<rightharpoonup> bytes)" where
  "genesis_map data = map_of (map (\<lambda>ge. (entry_at ge, ge_value ge)) data)"

text \<open>What is relied on of the root node: an object that was put is read back, and no other changes.\<close>

definition root_store :: "('d, 'h, 'w) env \<Rightarrow> 'h \<Rightarrow> ('d \<Rightarrow> bool) \<Rightarrow> bool" where
  "root_store E root V \<longleftrightarrow>
     (\<forall>d sp k v. V d \<longrightarrow> (\<exists>n d'. node_put E d root sp k v = Inr (n, d') \<and> V d'
        \<and> (\<forall>sp' k'. node_get E d' root sp' k' = (if (sp', k') = (sp, k) then Some v else node_get E d root sp' k'))))"

abbreviation contents :: "('d, 'h, 'w) env \<Rightarrow> 'h \<Rightarrow> 'd \<Rightarrow> object_space \<times> bytes \<rightharpoonup> bytes" where
  "contents E root d \<equiv> \<lambda>(sp, k). node_get E d root sp k"

lemma root_put_run:
  assumes "root_store E root V" and "V d"
  shows "\<exists>d'. root_put E root sp k v d = (Inr (), d') \<and> V d' \<and> contents E root d' = (contents E root d)((sp, k) \<mapsto> v)"
proof -
  obtain n d' where "node_put E d root sp k v = Inr (n, d')" "V d'"
    "\<And>sp' k'. node_get E d' root sp' k' = (if (sp', k') = (sp, k) then Some v else node_get E d root sp' k')"
    using assms unfolding root_store_def by blast
  then show ?thesis by (intro exI [of _ d']) (auto simp: root_put_def fun_eq_iff)
qed

lemma genesis_map_none: "genesis_map data x = None \<longleftrightarrow> x \<notin> entry_at ` set data"
  by (simp add: genesis_map_def map_of_eq_None_iff image_image)

lemma updated_none:
  "(\<forall>x \<in> A. (m(y \<mapsto> v)) (f x) = None) \<longleftrightarrow> y \<notin> f ` A \<and> (\<forall>x \<in> A. m (f x) = None)"
  unfolding fun_upd_apply image_iff by (metis option.distinct(1))

lemma put_genesis_entries:
  assumes "root_store E root V" and "V d"
  shows "case forE data (put_genesis_entry E root) d of (r, d') \<Rightarrow>
     (r = Inr () \<longleftrightarrow> distinct (map entry_at data) \<and> (\<forall>ge \<in> set data. contents E root d (entry_at ge) = None))
     \<and> (r = Inr () \<longrightarrow> V d' \<and> contents E root d' = contents E root d ++ genesis_map data)"
  using assms(2)
proof (induction data arbitrary: d)
  case Nil
  then show ?case by (simp add: returnE_def genesis_map_def)
next
  case (Cons ge data)
  show ?case
  proof (cases "contents E root d (entry_at ge)")
    case None
    obtain d1 where put: "root_put E root (ge_space ge) (ge_key ge) (ge_value ge) d = (Inr (), d1)" "V d1"
      and d1: "contents E root d1 = (contents E root d)(entry_at ge \<mapsto> ge_value ge)"
      using root_put_run [OF assms(1) Cons.prems] unfolding entry_at_def by blast
    have "put_genesis_entry E root ge d = (Inr (), d1)"
      using None put by (simp add: put_genesis_entry_def thenE_def bindE_def guardE_def entry_at_def)
    then have run: "forE (ge # data) (put_genesis_entry E root) d = forE data (put_genesis_entry E root) d1"
      by (simp add: run_thenE_Inr)
    obtain r d' where rest: "forE data (put_genesis_entry E root) d1 = (r, d')" by fastforce
    have iff: "r = Inr () \<longleftrightarrow> distinct (map entry_at (ge # data)) \<and> (\<forall>ge' \<in> set (ge # data). contents E root d (entry_at ge') = None)"
      using Cons.IH [OF put(2)] None unfolding rest d1 updated_none by (simp, blast)
    moreover have "V d' \<and> contents E root d' = contents E root d ++ genesis_map (ge # data)" if "r = Inr ()"
    proof -
      have "entry_at ge \<notin> set (map entry_at data)" using iff that by auto
      then have "entry_at ge \<notin> dom (genesis_map data)"
        by (simp add: domIff genesis_map_none)
      then have "(contents E root d)(entry_at ge \<mapsto> ge_value ge) ++ genesis_map data
          = contents E root d ++ genesis_map (ge # data)"
        by (simp add: map_add_upd_left genesis_map_def)
      moreover have "V d' \<and> contents E root d' = (contents E root d)(entry_at ge \<mapsto> ge_value ge) ++ genesis_map data"
        using Cons.IH [OF put(2)] that unfolding rest d1 prod.case by blast
      ultimately show ?thesis by (simp only: simp_thms)
    qed
    ultimately show ?thesis unfolding run rest by simp
  next
    case (Some v)
    then have "put_genesis_entry E root ge d = (Inl (kexn unexpected_state_exception ''encountered unexpected object in initial state''), d)"
      by (simp add: put_genesis_entry_def thenE_def bindE_def guardE_def entry_at_def)
    with Some show ?thesis by (auto simp: run_thenE_Inl)
  qed
qed

text \<open>
  C23.  A fresh database starts from exactly the genesis data.  Initialising an empty root succeeds
  exactly when no two genesis entries have the same key, the genesis key is among them and the chain
  id is not; the root then holds the entries and the chain id, the hash of the genesis data, and
  nothing else.
\<close>

theorem genesis_state_exact:
  assumes "root_store E root V" and "V d" and "\<And>sp k. node_get E d root sp k = None"
  shows "case genesis_init E S data root d of (r, d') \<Rightarrow>
      (r = Inr () \<longleftrightarrow> distinct (map entry_at data)
         \<and> (space_metadata E, key_genesis_key E) \<in> entry_at ` set data
         \<and> (space_metadata E, key_chain_id E) \<notin> entry_at ` set data)
    \<and> (r = Inr () \<longrightarrow> (\<forall>sp k. node_get E d' root sp k =
         ((genesis_map data)((space_metadata E, key_chain_id E) \<mapsto> genesis_chain_id E S data)) (sp, k)))"
proof -
  let ?c = "(space_metadata E, key_chain_id E)" and ?g = "(space_metadata E, key_genesis_key E)"
  obtain r1 d1 where 1: "forE data (put_genesis_entry E root) d = (r1, d1)" by fastforce
  have empty: "contents E root d = Map.empty" using assms(3) by (auto simp: fun_eq_iff)
  have entries: "(r1 = Inr () \<longleftrightarrow> distinct (map entry_at data)) \<and> (r1 = Inr () \<longrightarrow> V d1 \<and> contents E root d1 = genesis_map data)"
    using put_genesis_entries [OF assms(1,2), of data] 1 unfolding empty by simp
  show ?thesis
  proof (cases r1)
    case (Inl e)
    with 1 entries show ?thesis by (auto simp: genesis_init_def run_thenE_Inl)
  next
    case (Inr u)
    then have d1: "V d1" "contents E root d1 = genesis_map data" and dist: "distinct (map entry_at data)"
      using entries by simp_all
    have at: "node_get E d1 root sp k = genesis_map data (sp, k)" for sp k using fun_cong [OF d1(2), of "(sp, k)"] by simp
    obtain d2 where put: "root_put E root (space_metadata E) (key_chain_id E) (genesis_chain_id E S data) d1 = (Inr (), d2)"
      and d2: "contents E root d2 = (contents E root d1)(?c \<mapsto> genesis_chain_id E S data)"
      using root_put_run [OF assms(1) d1(1)] by blast
    have at2: "node_get E d2 root sp k = ((genesis_map data)(?c \<mapsto> genesis_chain_id E S data)) (sp, k)" for sp k
      using fun_cong [OF d2, of "(sp, k)"] unfolding d1(2) by simp
    have run: "genesis_init E S data root d =
        (if genesis_map data ?g = None
         then (Inl (kexn unexpected_state_exception ''could not find genesis public key in database''), d1)
         else if genesis_map data ?c \<noteq> None
         then (Inl (kexn unexpected_state_exception ''encountered unexpected chain id in initial state''), d1)
         else (Inr (), d2))"
      using 1 Inr put by (simp add: genesis_init_def run_thenE_Inr [of "forE _ _"] thenE_def bindE_def guardE_def at)
    show ?thesis
      unfolding run genesis_map_none using dist at2 by simp
  qed
qed

end
