(* ===== verification/Result_Types.thy ===== *)
theory Result_Types
  imports Kernel
begin

text \<open>
  The types of results.  In C++ every system call has its own result message and the compiler sees to
  it that a caller reads the right one; in the model a result is a value of \<open>sc_ret\<close> and a caller
  projects it.  Here it is shown that the projections never meet a result of another type: every
  thunk, and every overriding contract whose result is parsed as the call's result message, yields a
  value of the declared type.
\<close>

section \<open>What a computation yields\<close>

definition yields :: "('a \<Rightarrow> bool) \<Rightarrow> ('c, 'e, 'a) comp \<Rightarrow> bool" where
  "yields Q m \<longleftrightarrow> (\<forall>c a c'. m c = (Inr a, c') \<longrightarrow> Q a)"

named_theorems yields_intros \<open>rules for the results of computations\<close>

lemma yieldsD: "yields Q m \<Longrightarrow> fst (m c) = Inr a \<Longrightarrow> Q a"
  by (cases "m c") (auto simp: yields_def)

lemma yields_returnE [yields_intros]: "Q a \<Longrightarrow> yields Q (returnE a)"
  by (simp add: yields_def returnE_def)

lemma yields_throwE [yields_intros]: "yields Q (throwE e)"
  by (simp add: yields_def throwE_def)

lemma yields_bindE [yields_intros]: "(\<And>a. yields Q (f a)) \<Longrightarrow> yields Q (bindE m f)"
  by (auto simp: yields_def bindE_def split: prod.splits sum.splits)

lemma yields_bind_getE: "(\<And>c. yields Q (f (g c))) \<Longrightarrow> yields Q (bindE (getE g) f)"
  by (auto simp: yields_def bindE_def getE_def)

lemma yields_thenE [yields_intros]: "yields Q k \<Longrightarrow> yields Q (thenE m k)"
  by (simp add: thenE_def yields_bindE)

lemma yields_raii [yields_intros]: "yields Q m \<Longrightarrow> yields Q (raii m d)"
  by (fastforce simp: yields_def raii_def split: prod.splits sum.splits)

lemma yields_localE [yields_intros]: "yields Q m \<Longrightarrow> yields Q (localE l m)"
  by (fastforce simp: yields_def localE_def split: prod.splits)

lemma yields_with_stack_frame [yields_intros]: "yields Q m \<Longrightarrow> yields Q (with_stack_frame f m)"
  by (simp add: with_stack_frame_def yields_thenE yields_raii)

lemma yields_if [yields_intros]: "yields Q m \<Longrightarrow> yields Q m' \<Longrightarrow> yields Q (if b then m else m')"
  by simp

lemma yields_option [yields_intros]:
  "yields Q m \<Longrightarrow> (\<And>x. yields Q (f x)) \<Longrightarrow> yields Q (case w of None \<Rightarrow> m | Some x \<Rightarrow> f x)"
  by (cases w) simp_all

lemma yields_prod [yields_intros]: "(\<And>x y. yields Q (f x y)) \<Longrightarrow> yields Q (case w of (x, y) \<Rightarrow> f x y)"
  by (cases w) simp

section \<open>Result types\<close>

datatype ret_type =
    void_ret | bool_ret | u64_ret | bytes_ret | head_info_ret | transaction_ret | block_ret | value_ret
  | operation_ret | limits_ret | object_ret | arguments_ret | caller_ret

fun type_of_ret :: "sc_ret \<Rightarrow> ret_type" where
  "type_of_ret V_void = void_ret"
| "type_of_ret (V_bool _) = bool_ret"
| "type_of_ret (V_u64 _) = u64_ret"
| "type_of_ret (V_bytes _) = bytes_ret"
| "type_of_ret (V_head_info _) = head_info_ret"
| "type_of_ret (V_transaction _) = transaction_ret"
| "type_of_ret (V_block _) = block_ret"
| "type_of_ret (V_value _) = value_ret"
| "type_of_ret (V_operation _) = operation_ret"
| "type_of_ret (V_limits _) = limits_ret"
| "type_of_ret (V_object _) = object_ret"
| "type_of_ret (V_arguments _ _) = arguments_ret"
| "type_of_ret (V_caller _ _) = caller_ret"

text \<open>The return types in the declarations of \<^verbatim>\<open>system_calls.hpp\<close>.\<close>

fun declared_ret :: "syscall \<Rightarrow> ret_type" where
  "declared_ret sc_get_head_info = head_info_ret"
| "declared_ret sc_get_chain_id = bytes_ret"
| "declared_ret sc_process_block_signature = bool_ret"
| "declared_ret sc_get_transaction = transaction_ret"
| "declared_ret sc_get_transaction_field = value_ret"
| "declared_ret sc_get_block = block_ret"
| "declared_ret sc_get_block_field = value_ret"
| "declared_ret sc_get_last_irreversible_block = u64_ret"
| "declared_ret sc_get_account_nonce = bytes_ret"
| "declared_ret sc_verify_account_nonce = bool_ret"
| "declared_ret sc_check_system_authority = bool_ret"
| "declared_ret sc_get_operation = operation_ret"
| "declared_ret sc_get_account_rc = u64_ret"
| "declared_ret sc_consume_account_rc = bool_ret"
| "declared_ret sc_get_resource_limits = limits_ret"
| "declared_ret sc_consume_block_resources = bool_ret"
| "declared_ret sc_get_object = object_ret"
| "declared_ret sc_get_next_object = object_ret"
| "declared_ret sc_get_prev_object = object_ret"
| "declared_ret sc_hash = bytes_ret"
| "declared_ret sc_recover_public_key = bytes_ret"
| "declared_ret sc_verify_merkle_root = bool_ret"
| "declared_ret sc_verify_signature = bool_ret"
| "declared_ret sc_verify_vrf_proof = bool_ret"
| "declared_ret sc_call = bytes_ret"
| "declared_ret sc_get_arguments = arguments_ret"
| "declared_ret sc_get_contract_id = bytes_ret"
| "declared_ret sc_get_caller = caller_ret"
| "declared_ret sc_check_authority = bool_ret"
| "declared_ret _ = void_ret"

abbreviation typed :: "ret_type \<Rightarrow> ('d, 'h, 'w, sc_ret) run \<Rightarrow> bool" where
  "typed t \<equiv> yields (\<lambda>r. type_of_ret r = t)"

lemmas thunk_unfolds =
  thunk_nop_def thunk_get_head_info_def thunk_get_chain_id_def thunk_process_block_signature_def
  thunk_get_transaction_def thunk_get_transaction_field_def thunk_get_block_def thunk_get_block_field_def
  thunk_get_last_irreversible_block_def thunk_get_account_nonce_def thunk_verify_account_nonce_def thunk_set_account_nonce_def
  thunk_check_system_authority_def thunk_get_operation_def thunk_get_account_rc_def thunk_consume_account_rc_def
  thunk_get_resource_limits_def thunk_consume_block_resources_def thunk_put_object_def thunk_remove_object_def
  thunk_get_object_def thunk_get_next_object_def thunk_get_prev_object_def thunk_log_def
  thunk_event_def thunk_hash_def thunk_recover_public_key_def thunk_verify_merkle_root_def
  thunk_verify_signature_def thunk_verify_vrf_proof_def thunk_call_def thunk_exit_def
  thunk_get_arguments_def thunk_get_contract_id_def thunk_check_authority_def
  thunk_apply_upload_contract_operation_def thunk_apply_call_contract_operation_def thunk_apply_set_system_call_operation_def thunk_apply_set_system_contract_operation_def
  thunk_apply_transaction_def thunk_apply_block_def guard_defs
  get_neighbour_def

lemma typed_get_caller: "typed caller_ret thunk_get_caller"
  unfolding thunk_get_caller_def
  by (intro yields_bind_getE yields_bindE [where m = pop_frame] yields_thenE yields_returnE) simp

lemma thunk_typed: "typed (declared_ret (sc_of a)) (thunk E sc run a)"
  by (cases a; simp only: thunk.simps sc_of.simps declared_ret.simps thunk_unfolds Let_def;
      (rule typed_get_caller | (intro yields_intros; simp)))

lemma override_typed:
  assumes "\<And>s b. \<not> returns_void s \<Longrightarrow> type_of_ret (parse_ret E s b) = declared_ret s"
  shows "typed (declared_ret (sc_of a)) (invoke_override E run a)"
proof -
  have "returns_void s \<Longrightarrow> declared_ret s = void_ret" for s by (cases s) simp_all
  then show ?thesis unfolding invoke_override_def Let_def by (intro yields_intros) (simp add: assms)
qed

lemma native_typed: "typed (declared_ret (sc_of a)) (invoke_native E sc run a)"
proof -
  have "same_signature s t \<Longrightarrow> s \<noteq> t \<Longrightarrow> declared_ret t = void_ret" for s t
    by (cases t) (simp_all add: same_signature_def)
  then have "typed (declared_ret (sc_of a)) (call_thunk_typed E sc run tid a)" for tid
    unfolding call_thunk_typed_def
    by (cases "thunk_lookup E tid") (auto simp: thunk_typed intro!: yields_intros)
  then show ?thesis unfolding invoke_native_def by (intro yields_intros)
qed


end
