(* ===== verification/Indexer.thy ===== *)
theory Indexer
  imports Chain_Prelude
begin

text \<open>
  \<^verbatim>\<open>indexer.cpp\<close>: replaying the block store into the chain before the node starts serving.

  Two chains of tasks run concurrently on a thread pool.  One asks the block store for batches of
  blocks and moves them to a queue; the other takes blocks from the queue and submits them.  Each task
  posts its successor as its last action, so there is at most one task of each chain; \<open>ix_request\<close>
  and \<open>ix_block\<close> say where they are, \<open>None\<close> when there is none left.  A task is cut into steps where
  the other chain or the signal handler may come in between: a step is a function from state to
  state, without a result where the task has to wait.  \<open>ix_step\<close> interleaves the steps.

  The block store and the controller are the record \<open>sources\<close>, where the answers of the controller depend on
  the blocks submitted so far; \<open>Inl\<close> is an error with its message.
  \<open>ix_outcomes\<close> records what the promise was given.
\<close>

section \<open>State\<close>

datatype outcome = Completed bool | Failed string

datatype 'b request_task =
    Prepare_index
  | Query_highest
  | Send_requests u64 u64
  | Process_requests u64 u64
  | Pull_request u64 u64
  | Push_blocks "'b list" u64 u64

datatype 'b block_task = Process_block | Decide_block | Pull_block | Submit_block 'b

record 'b sources =
  so_highest_block :: "string + u64"
  so_head_height :: "string + u64"
  so_blocks_by_height :: "u64 \<Rightarrow> u32 \<Rightarrow> string + 'b list"
  so_submit_block :: "'b list \<Rightarrow> 'b \<Rightarrow> string option"
  so_new_head :: "'b list \<Rightarrow> string + u64"

record 'b indexer =
  ix_stopped :: bool
  ix_complete :: bool
  ix_outcomes :: "outcome list"
  ix_undefined :: bool
  ix_signal_armed :: bool
  ix_request_queue :: "(u64 \<times> u32) list"
  ix_request_queue_closed :: bool
  ix_block_queue :: "'b list"
  ix_block_queue_closed :: bool
  ix_requests_complete :: bool
  ix_request_processing_complete :: bool
  ix_target_head :: u64
  ix_submitted :: "'b list"
  ix_request :: "'b request_task option"
  ix_block :: "'b block_task option"

text \<open>The constructor, and \<open>index()\<close>, which posts the first task.\<close>

definition indexer_new :: "'b indexer" where
  "indexer_new =
     \<lparr>ix_stopped = False, ix_complete = True, ix_outcomes = [], ix_undefined = False, ix_signal_armed = True,
      ix_request_queue = [], ix_request_queue_closed = False, ix_block_queue = [], ix_block_queue_closed = False,
      ix_requests_complete = False, ix_request_processing_complete = False, ix_target_head = 0,
      ix_submitted = [], ix_request = None, ix_block = None\<rparr>"

definition index :: "'b indexer \<Rightarrow> 'b indexer" where
  "index s = s\<lparr>ix_request := Some Prepare_index\<rparr>"

section \<open>Ends\<close>

text \<open>\<open>if ( _complete.has_value() ) { \<dots>; _complete.reset(); }\<close>\<close>

definition settle :: "outcome \<Rightarrow> 'b indexer \<Rightarrow> 'b indexer" where
  "settle r s = (if ix_complete s then s\<lparr>ix_outcomes := ix_outcomes s @ [r], ix_complete := False\<rparr> else s)"

definition close_queues :: "'b indexer \<Rightarrow> 'b indexer" where
  "close_queues s = s\<lparr>ix_request_queue_closed := True, ix_block_queue_closed := True\<rparr>"

definition handle_error :: "string \<Rightarrow> 'b indexer \<Rightarrow> 'b indexer" where
  "handle_error msg s = close_queues (settle (Failed msg) (s\<lparr>ix_stopped := True\<rparr>))"

definition handle_signal :: "'b indexer \<Rightarrow> 'b indexer" where
  "handle_signal s = close_queues (settle (Completed False) (s\<lparr>ix_stopped := True, ix_signal_armed := False\<rparr>))"

text \<open>\<open>_complete->set_value( true )\<close> is not guarded: on an empty optional it is undefined behaviour.\<close>

definition finish :: "'b indexer \<Rightarrow> 'b indexer" where
  "finish s =
     (if ix_complete s then s\<lparr>ix_outcomes := ix_outcomes s @ [Completed True], ix_complete := False\<rparr>
      else s\<lparr>ix_undefined := True\<rparr>)"

definition end_request :: "'b indexer \<Rightarrow> 'b indexer" where
  "end_request s = s\<lparr>ix_request := None\<rparr>"

definition end_block :: "'b indexer \<Rightarrow> 'b indexer" where
  "end_block s = s\<lparr>ix_block := None\<rparr>"

section \<open>Tasks\<close>

definition prepare_index :: "'b indexer \<Rightarrow> 'b indexer" where
  "prepare_index s = (if ix_stopped s then end_request s else s\<lparr>ix_request := Some Query_highest\<rparr>)"

definition query_highest :: "'b sources \<Rightarrow> 'b indexer \<Rightarrow> 'b indexer" where
  "query_highest A s =
     (case so_highest_block A of
        Inl msg \<Rightarrow> handle_error msg (end_request s)
      | Inr target \<Rightarrow>
          let s1 = s\<lparr>ix_target_head := target\<rparr> in
          (case so_head_height A of
             Inl msg \<Rightarrow> handle_error msg (end_request s1)
           | Inr height \<Rightarrow>
               if height < target
               then s1\<lparr>ix_request := Some (Send_requests height 50), ix_block := Some Process_block\<rparr>
               else finish (end_request s1)))"

definition send_requests :: "u64 \<Rightarrow> u64 \<Rightarrow> 'b indexer \<Rightarrow> 'b indexer" where
  "send_requests last_height batch_size s =
     (if ix_stopped s then end_request s
      else if last_height \<le> ix_target_head s then
        if ix_request_queue_closed s then end_request s
        else s\<lparr>ix_request_queue := ix_request_queue s @ [(last_height + 1, ucast batch_size)],
               ix_request := Some (Process_requests last_height batch_size)\<rparr>
      else s\<lparr>ix_requests_complete := True, ix_request := Some (Process_requests last_height batch_size)\<rparr>)"

definition process_requests :: "u64 \<Rightarrow> u64 \<Rightarrow> 'b indexer \<Rightarrow> 'b indexer" where
  "process_requests last_height batch_size s =
     (if ix_stopped s then end_request s
      else if ix_requests_complete s \<and> ix_request_queue s = []
      then end_request (s\<lparr>ix_request_processing_complete := True\<rparr>)
      else s\<lparr>ix_request := Some (Pull_request last_height batch_size)\<rparr>)"

text \<open>\<open>pull\<close> waits on an empty queue and throws on an empty closed one.\<close>

definition pull_request :: "'b sources \<Rightarrow> u64 \<Rightarrow> u64 \<Rightarrow> 'b indexer \<Rightarrow> 'b indexer option" where
  "pull_request A last_height batch_size s =
     (case ix_request_queue s of
        [] \<Rightarrow> if ix_request_queue_closed s then Some (end_request s) else None
      | (start, n) # rest \<Rightarrow>
          let s1 = s\<lparr>ix_request_queue := rest\<rparr> in
          (case so_blocks_by_height A start n of
             Inl msg \<Rightarrow> Some (handle_error msg (end_request s1))
           | Inr bs \<Rightarrow> Some (s1\<lparr>ix_request := Some (Push_blocks bs last_height batch_size)\<rparr>)))"

definition push_blocks :: "'b list \<Rightarrow> u64 \<Rightarrow> u64 \<Rightarrow> 'b indexer \<Rightarrow> 'b indexer" where
  "push_blocks bs last_height batch_size s =
     (case bs of
        [] \<Rightarrow> s\<lparr>ix_request := Some (Send_requests (last_height + batch_size) (min (batch_size * 2) 1000))\<rparr>
      | b # rest \<Rightarrow>
          if ix_block_queue_closed s then end_request s
          else s\<lparr>ix_block_queue := ix_block_queue s @ [b], ix_request := Some (Push_blocks rest last_height batch_size)\<rparr>)"

definition process_block :: "'b indexer \<Rightarrow> 'b indexer" where
  "process_block s = (if ix_stopped s then end_block s else s\<lparr>ix_block := Some Decide_block\<rparr>)"

definition decide_block :: "'b sources \<Rightarrow> 'b indexer \<Rightarrow> 'b indexer" where
  "decide_block A s =
     (if ix_request_processing_complete s \<and> ix_block_queue s = [] then
        (case so_new_head A (ix_submitted s) of
           Inl msg \<Rightarrow> handle_error msg (end_block s)
         | Inr _ \<Rightarrow> finish (end_block s))
      else s\<lparr>ix_block := Some Pull_block\<rparr>)"

definition pull_block :: "'b indexer \<Rightarrow> 'b indexer option" where
  "pull_block s =
     (case ix_block_queue s of
        [] \<Rightarrow> if ix_block_queue_closed s then Some (end_block s) else None
      | b # rest \<Rightarrow> Some (s\<lparr>ix_block_queue := rest, ix_block := Some (Submit_block b)\<rparr>))"

definition submit_pulled :: "'b sources \<Rightarrow> 'b \<Rightarrow> 'b indexer \<Rightarrow> 'b indexer" where
  "submit_pulled A b s =
     (case so_submit_block A (ix_submitted s) b of
        Some msg \<Rightarrow> handle_error msg (end_block s)
      | None \<Rightarrow> s\<lparr>ix_submitted := ix_submitted s @ [b], ix_block := Some Process_block\<rparr>)"

section \<open>Interleaving\<close>

fun request_step :: "'b sources \<Rightarrow> 'b request_task \<Rightarrow> 'b indexer \<Rightarrow> 'b indexer option" where
  "request_step A Prepare_index s = Some (prepare_index s)"
| "request_step A Query_highest s = Some (query_highest A s)"
| "request_step A (Send_requests h n) s = Some (send_requests h n s)"
| "request_step A (Process_requests h n) s = Some (process_requests h n s)"
| "request_step A (Pull_request h n) s = pull_request A h n s"
| "request_step A (Push_blocks bs h n) s = Some (push_blocks bs h n s)"

fun block_step :: "'b sources \<Rightarrow> 'b block_task \<Rightarrow> 'b indexer \<Rightarrow> 'b indexer option" where
  "block_step A Process_block s = Some (process_block s)"
| "block_step A Decide_block s = Some (decide_block A s)"
| "block_step A Pull_block s = pull_block s"
| "block_step A (Submit_block b) s = Some (submit_pulled A b s)"

inductive ix_step :: "'b sources \<Rightarrow> 'b indexer \<Rightarrow> 'b indexer \<Rightarrow> bool" for A where
  request: "ix_request s = Some t \<Longrightarrow> request_step A t s = Some s' \<Longrightarrow> ix_step A s s'"
| block: "ix_block s = Some t \<Longrightarrow> block_step A t s = Some s' \<Longrightarrow> ix_step A s s'"
| signal: "ix_signal_armed s \<Longrightarrow> ix_step A s (handle_signal s)"

inductive reachable :: "'b sources \<Rightarrow> 'b indexer \<Rightarrow> bool" for A where
  start: "reachable A (index indexer_new)"
| step: "reachable A s \<Longrightarrow> ix_step A s s' \<Longrightarrow> reachable A s'"

inductive_cases ix_stepE: "ix_step A s s'"

end
