(* ===== verification/Indexer_Props.thy ===== *)
theory Indexer_Props
  imports Indexer "HOL-Library.Sublist"
begin

text \<open>
  Properties of the indexer over all interleavings: the promise is given one outcome, the blocks are
  submitted in order and completely, every run comes to rest, and at rest the promise was kept except
  in one shape of state, which is reachable.
\<close>

lemmas ix_defs =
  prepare_index_def query_highest_def send_requests_def process_requests_def pull_request_def push_blocks_def
  process_block_def decide_block_def pull_block_def submit_pulled_def handle_error_def handle_signal_def settle_def
  close_queues_def finish_def end_request_def end_block_def

lemma ix_step_cases:
  assumes "ix_step A s s'"
  obtains (prepare) "ix_request s = Some Prepare_index" "s' = prepare_index s"
  | (query) "ix_request s = Some Query_highest" "s' = query_highest A s"
  | (send) h n where "ix_request s = Some (Send_requests h n)" "s' = send_requests h n s"
  | (process) h n where "ix_request s = Some (Process_requests h n)" "s' = process_requests h n s"
  | (pull) h n where "ix_request s = Some (Pull_request h n)" "Some s' = pull_request A h n s"
  | (push) bs h n where "ix_request s = Some (Push_blocks bs h n)" "s' = push_blocks bs h n s"
  | (check) "ix_block s = Some Process_block" "s' = process_block s"
  | (decide) "ix_block s = Some Decide_block" "s' = decide_block A s"
  | (take) "ix_block s = Some Pull_block" "Some s' = pull_block s"
  | (submit) b where "ix_block s = Some (Submit_block b)" "s' = submit_pulled A b s"
  | (signal) "ix_signal_armed s" "s' = handle_signal s"
  using assms
proof cases
  case (request t)
  then show thesis by (cases t) (auto intro: that)
next
  case (block t)
  then show thesis by (cases t) (auto intro: that)
next
  case signal
  then show thesis by (auto intro: that)
qed

section \<open>Control flow\<close>

fun early :: "'b request_task option \<Rightarrow> bool" where
  "early (Some Prepare_index) = True"
| "early (Some Query_highest) = True"
| "early _ = False"

fun waiting_for_reply :: "'b request_task option \<Rightarrow> bool" where
  "waiting_for_reply (Some (Pull_request _ _)) = True"
| "waiting_for_reply _ = False"

definition flow :: "'b indexer \<Rightarrow> bool" where
  "flow s \<longleftrightarrow>
     (ix_complete s \<longleftrightarrow> ix_outcomes s = []) \<and> length (ix_outcomes s) \<le> 1
   \<and> (ix_stopped s \<longrightarrow> \<not> ix_complete s \<and> ix_request_queue_closed s \<and> ix_block_queue_closed s) \<and> (\<not> ix_stopped s \<longrightarrow> \<not> ix_request_queue_closed s \<and> \<not> ix_block_queue_closed s)
   \<and> (\<not> ix_stopped s \<longrightarrow> waiting_for_reply (ix_request s) \<longrightarrow> ix_request_queue s \<noteq> [])
   \<and> (\<not> ix_stopped s \<longrightarrow> (\<forall>h n. ix_request s = Some (Process_requests h n) \<longrightarrow> ix_requests_complete s \<or> ix_request_queue s \<noteq> []))
   \<and> (ix_complete s \<longrightarrow> ix_request s = None \<longrightarrow> ix_request_processing_complete s)
   \<and> (ix_complete s \<longrightarrow> \<not> early (ix_request s) \<longrightarrow> ix_block s \<noteq> None)"

lemma flow_start: "flow (index indexer_new)"
  by (simp add: flow_def index_def indexer_new_def)

lemma flow_step:
  assumes "flow s" and "ix_step A s s'"
  shows "flow s'"
  using assms(2)
proof (cases rule: ix_step_cases)
  case (pull h n)
  show ?thesis
  proof (cases "ix_request_queue s")
    case Nil
    with pull assms(1) show ?thesis by (auto simp: flow_def pull_request_def end_request_def split: if_splits)
  next
    case (Cons r rest)
    with pull assms(1) show ?thesis
      by (cases r; cases "so_blocks_by_height A (fst r) (snd r)") (auto simp: flow_def ix_defs Let_def)
  qed
next
  case take
  with assms(1) show ?thesis by (cases "ix_block_queue s") (auto simp: flow_def ix_defs split: if_splits)
next
  case query
  with assms(1) show ?thesis
    by (cases "so_highest_block A"; cases "so_head_height A") (auto simp: flow_def ix_defs Let_def)
next
  case (push bs h n)
  with assms(1) show ?thesis by (cases bs) (auto simp: flow_def ix_defs Let_def)
next
  case decide
  with assms(1) show ?thesis by (cases "so_new_head A (ix_submitted s)") (auto simp: flow_def ix_defs Let_def)
next
  case (submit b)
  with assms(1) show ?thesis by (cases "so_submit_block A (ix_submitted s) b") (auto simp: flow_def ix_defs Let_def)
qed (use assms(1) in \<open>auto simp: flow_def ix_defs\<close>)

lemma reachable_flow: "reachable A s \<Longrightarrow> flow s"
  by (induction rule: reachable.induct) (auto simp: flow_start intro: flow_step)

section \<open>The blocks submitted\<close>

text \<open>
  The block store holds the chain \<open>chain h\<close> of blocks by height, up to the target \<open>T\<close>; a request for
  \<open>n\<close> blocks from a height is answered with those of them that exist, or with an error.
\<close>

definition serves :: "'b sources \<Rightarrow> (nat \<Rightarrow> 'b) \<Rightarrow> u64 \<Rightarrow> u64 \<Rightarrow> bool" where
  "serves A chain H T \<longleftrightarrow>
     so_highest_block A = Inr T \<and> so_head_height A = Inr H \<and> H < T \<and> unat T + 2000 < 2 ^ 64
   \<and> (\<forall>h n bs. so_blocks_by_height A h n = Inr bs \<longrightarrow> bs = map chain [unat h ..< min (unat h + unat n) (Suc (unat T))])"

definition upto_height :: "(nat \<Rightarrow> 'b) \<Rightarrow> u64 \<Rightarrow> nat \<Rightarrow> 'b list" where
  "upto_height chain H m = map chain [Suc (unat H) ..< m]"

fun in_hand :: "'b block_task option \<Rightarrow> 'b list" where
  "in_hand (Some (Submit_block b)) = [b]"
| "in_hand _ = []"

definition moved :: "'b indexer \<Rightarrow> 'b list" where
  "moved s = ix_submitted s @ in_hand (ix_block s) @ ix_block_queue s"

definition batch_ok :: "u64 \<Rightarrow> bool" where
  "batch_ok n \<longleftrightarrow> 0 < unat n \<and> unat n \<le> 1000"

text \<open>How far the blocks have been moved, by the state of the request chain.\<close>

fun request_inv :: "(nat \<Rightarrow> 'b) \<Rightarrow> u64 \<Rightarrow> u64 \<Rightarrow> 'b request_task option \<Rightarrow> 'b indexer \<Rightarrow> bool" where
  "request_inv chain H T None s =
     (ix_request_processing_complete s \<longrightarrow> moved s = upto_height chain H (Suc (unat T)))"
| "request_inv chain H T (Some (Send_requests h n)) s =
     (ix_target_head s = T \<and> batch_ok n \<and> unat H \<le> unat h \<and> unat h \<le> unat T + 1000 \<and> ix_request_queue s = []
      \<and> \<not> ix_requests_complete s \<and> \<not> ix_request_processing_complete s
      \<and> moved s = upto_height chain H (min (Suc (unat h)) (Suc (unat T))))"
| "request_inv chain H T (Some (Process_requests h n)) s =
     (ix_target_head s = T \<and> batch_ok n \<and> unat H \<le> unat h \<and> \<not> ix_request_processing_complete s
      \<and> (if ix_requests_complete s
          then ix_request_queue s = [] \<and> moved s = upto_height chain H (Suc (unat T))
          else ix_request_queue s = [(h + 1, ucast n)] \<and> unat h \<le> unat T \<and> moved s = upto_height chain H (Suc (unat h))))"
| "request_inv chain H T (Some (Pull_request h n)) s =
     (ix_target_head s = T \<and> batch_ok n \<and> unat H \<le> unat h \<and> \<not> ix_request_processing_complete s \<and> \<not> ix_requests_complete s
      \<and> ix_request_queue s = [(h + 1, ucast n)] \<and> unat h \<le> unat T \<and> moved s = upto_height chain H (Suc (unat h)))"
| "request_inv chain H T (Some (Push_blocks bs h n)) s =
     (ix_target_head s = T \<and> batch_ok n \<and> unat H \<le> unat h \<and> \<not> ix_request_processing_complete s \<and> \<not> ix_requests_complete s
      \<and> ix_request_queue s = [] \<and> unat h \<le> unat T
      \<and> moved s @ bs = upto_height chain H (min (Suc (unat h + unat n)) (Suc (unat T))))"
| "request_inv chain H T _ s =
     (ix_request_queue s = [] \<and> \<not> ix_requests_complete s \<and> \<not> ix_request_processing_complete s \<and> ix_block s = None
      \<and> moved s = [])"

definition order_inv :: "(nat \<Rightarrow> 'b) \<Rightarrow> u64 \<Rightarrow> u64 \<Rightarrow> 'b indexer \<Rightarrow> bool" where
  "order_inv chain H T s \<longleftrightarrow>
     prefix (ix_submitted s @ in_hand (ix_block s)) (upto_height chain H (Suc (unat T)))
   \<and> (ix_block s \<noteq> None \<longrightarrow> prefix (moved s) (upto_height chain H (Suc (unat T))))
   \<and> (early (ix_request s) \<longrightarrow> ix_block s = None \<and> moved s = [])
   \<and> (\<not> ix_stopped s \<longrightarrow> request_inv chain H T (ix_request s) s)
   \<and> (Completed True \<in> set (ix_outcomes s) \<longrightarrow>
        ix_submitted s = upto_height chain H (Suc (unat T)) \<and> ix_block s = None \<and> ix_request s = None)"

lemma upto_append:
  "Suc (unat H) \<le> m \<Longrightarrow> m \<le> m' \<Longrightarrow> upto_height chain H m @ map chain [m ..< m'] = upto_height chain H m'"
  unfolding upto_height_def map_append [symmetric] using upt_add_eq_append [of "Suc (unat H)" m "m' - m"] by simp

lemma upto_prefix: "m \<le> m' \<Longrightarrow> prefix (upto_height chain H m) (upto_height chain H m')"
  by (cases "Suc (unat H) \<le> m") (erule prefixI [OF upto_append [symmetric]], assumption, simp add: upto_height_def)

lemma order_start: "order_inv chain H T (index indexer_new)"
  by (simp add: order_inv_def index_def indexer_new_def moved_def)

text \<open>Heights and batch sizes stay far from the end of the 64-bit range.\<close>

lemma small_arith:
  assumes "unat (T :: u64) + 2000 < 2 ^ 64" and "unat h \<le> unat T" and "batch_ok n"
  shows "unat (h + 1) = Suc (unat h)" "unat (h + n) = unat h + unat n" "unat (ucast n :: u32) = unat n"
    "batch_ok (min (n * 2) 1000)"
proof -
  have n: "0 < unat n" "unat n \<le> 1000" using assms(3) by (simp_all add: batch_ok_def)
  show "unat (h + 1) = Suc (unat h)" using assms by (simp add: unat_plus_if_size word_size)
  show "unat (h + n) = unat h + unat n" using assms n by (simp add: unat_plus_if_size word_size)
  show "unat (ucast n :: u32) = unat n" using n by (simp add: unsigned_ucast_eq take_bit_nat_eq_self)
  have "unat (n * 2) = 2 * unat n" using n by (simp add: unat_mult_lem [THEN iffD1])
  then show "batch_ok (min (n * 2) 1000)" using n by (simp add: batch_ok_def min_def word_le_nat_alt)
qed

lemma order_stopped_request:
  assumes inv: "order_inv chain H T s" and flow: "flow s" and stopped: "ix_stopped s"
    and t: "ix_request s = Some t" and step: "Some s' = request_step A t s"
  shows "order_inv chain H T s'"
proof -
  have closed: "ix_request_queue_closed s" "ix_block_queue_closed s" "\<not> ix_complete s"
    using flow stopped by (auto simp: flow_def)
  have same: "ix_stopped s' \<and> ix_submitted s' = ix_submitted s \<and> ix_block_queue s' = ix_block_queue s \<and> ix_outcomes s' = ix_outcomes s
    \<and> (early (ix_request s') \<longrightarrow> early (ix_request s))
    \<and> (ix_block s' = ix_block s \<or> early (ix_request s) \<and> ix_block s' = Some Process_block \<and> \<not> early (ix_request s'))"
  proof (cases t)
    case Query_highest
    with step t closed stopped show ?thesis
      by (cases "so_highest_block A"; cases "so_head_height A") (auto simp: ix_defs Let_def)
  next
    case (Pull_request h n)
    with step t closed stopped show ?thesis
    proof (cases "ix_request_queue s")
      case (Cons r rest)
      with Pull_request step t closed stopped show ?thesis
        by (cases r; cases "so_blocks_by_height A (fst r) (snd r)") (auto simp: ix_defs Let_def)
    qed (auto simp: ix_defs)
  next
    case (Push_blocks bs h n)
    with step t closed stopped show ?thesis by (cases bs) (auto simp: ix_defs)
  qed (use step t closed stopped in \<open>auto simp: ix_defs\<close>)
  then consider "ix_block s' = ix_block s" | "early (ix_request s)" "ix_block s' = Some Process_block" "\<not> early (ix_request s')"
    by blast
  then show ?thesis
  proof cases
    case 1
    with same inv t show ?thesis by (auto simp: order_inv_def moved_def)
  next
    case 2
    with same inv t show ?thesis by (auto simp: order_inv_def moved_def)
  qed
qed

text \<open>The answer to a request of the chain's length that is still inside the range of heights.\<close>

lemma pulled_blocks:
  assumes A: "serves A chain H T" and h: "unat h \<le> unat T" "batch_ok n" and "so_blocks_by_height A (h + 1) (ucast n) = Inr bs"
  shows "bs = map chain [Suc (unat h) ..< min (Suc (unat h + unat n)) (Suc (unat T))]"
proof -
  have "unat T + 2000 < 2 ^ 64" using A by (simp add: serves_def)
  note ar = small_arith [OF this h]
  have "bs = map chain [unat (h + 1) ..< min (unat (h + 1) + unat (ucast n :: u32)) (Suc (unat T))]"
    using assms unfolding serves_def by blast
  then show ?thesis unfolding ar(1,3) by (simp only: add_Suc)
qed

lemma order_pull_request:
  assumes inv: "order_inv chain H T s" and A: "serves A chain H T" and active: "\<not> ix_stopped s"
    and t: "ix_request s = Some (Pull_request h n)" and step: "Some s' = request_step A (Pull_request h n) s"
  shows "order_inv chain H T s'"
proof -
  have req: "request_inv chain H T (Some (Pull_request h n)) s" using inv active t by (simp add: order_inv_def)
  then have h: "unat h \<le> unat T" "batch_ok n" and q: "ix_request_queue s = [(h + 1, ucast n)]" by simp_all
  have unfinished: "Completed True \<notin> set (ix_outcomes s)" using inv t by (auto simp: order_inv_def)
  show ?thesis
  proof (cases "so_blocks_by_height A (h + 1) (ucast n)")
    case (Inl msg)
    then show ?thesis using step q inv t active unfinished by (auto simp: order_inv_def moved_def ix_defs Let_def)
  next
    case (Inr bs)
    have "moved s = upto_height chain H (Suc (unat h))" "Suc (unat H) \<le> Suc (unat h)" using req by simp_all
    moreover have "Suc (unat h) \<le> min (Suc (unat h + unat n)) (Suc (unat T))" using h by simp
    ultimately have m: "moved s @ bs = upto_height chain H (min (Suc (unat h + unat n)) (Suc (unat T)))"
      unfolding pulled_blocks [OF A h Inr] by (simp only: upto_append)
    have "s' = s\<lparr>ix_request_queue := [], ix_request := Some (Push_blocks bs h n)\<rparr>"
      using step q Inr by (simp add: pull_request_def Let_def)
    then show ?thesis using inv t active req m unfinished by (auto simp: order_inv_def moved_def)
  qed
qed

lemma order_push_blocks:
  assumes inv: "order_inv chain H T s" and flow: "flow s" and A: "serves A chain H T" and active: "\<not> ix_stopped s"
    and t: "ix_request s = Some (Push_blocks bs h n)" and step: "Some s' = request_step A (Push_blocks bs h n) s"
  shows "order_inv chain H T s'"
proof -
  let ?m = "min (Suc (unat h + unat n)) (Suc (unat T))"
  have req: "request_inv chain H T (Some (Push_blocks bs h n)) s" using inv active t by (simp add: order_inv_def)
  then have h: "unat h \<le> unat T" "batch_ok n" and m: "moved s @ bs = upto_height chain H ?m" by simp_all
  have "unat T + 2000 < 2 ^ 64" using A by (simp add: serves_def)
  note ar = small_arith [OF this h]
  have unfinished: "Completed True \<notin> set (ix_outcomes s)" using inv t by (auto simp: order_inv_def)
  show ?thesis
  proof (cases bs)
    case Nil
    then have "s' = s\<lparr>ix_request := Some (Send_requests (h + n) (min (n * 2) 1000))\<rparr>"
      using step by (simp add: push_blocks_def)
    then show ?thesis
      using inv t active req m Nil unfinished ar h by (auto simp: order_inv_def moved_def batch_ok_def)
  next
    case (Cons b rest)
    have "\<not> ix_block_queue_closed s" using flow active by (auto simp: flow_def)
    then have s': "s' = s\<lparr>ix_block_queue := ix_block_queue s @ [b], ix_request := Some (Push_blocks rest h n)\<rparr>"
      using step Cons by (simp add: push_blocks_def)
    have "upto_height chain H ?m = (moved s @ [b]) @ rest" using m Cons by simp
    then have "prefix (moved s @ [b]) (upto_height chain H ?m)" by (rule prefixI)
    moreover have "prefix (upto_height chain H ?m) (upto_height chain H (Suc (unat T)))" by (rule upto_prefix) simp
    ultimately have "prefix (moved s @ [b]) (upto_height chain H (Suc (unat T)))" by (rule prefix_order.trans)
    moreover have "moved s' = moved s @ [b]" by (simp add: s' moved_def)
    ultimately show ?thesis using inv t active req m Cons unfinished s' by (auto simp: order_inv_def)
  qed
qed

lemma order_active_request:
  assumes inv: "order_inv chain H T s" and flow: "flow s" and A: "serves A chain H T" and active: "\<not> ix_stopped s"
    and t: "ix_request s = Some t" and step: "Some s' = request_step A t s"
  shows "order_inv chain H T s'"
proof -
  have req: "request_inv chain H T (Some t) s" using inv active t by (simp add: order_inv_def)
  have unfinished: "Completed True \<notin> set (ix_outcomes s)" using inv t by (auto simp: order_inv_def)
  have open_: "\<not> ix_request_queue_closed s" "\<not> ix_block_queue_closed s" using flow active by (auto simp: flow_def)
  have T: "unat T + 2000 < 2 ^ 64" "unat H < unat T" using A by (auto simp: serves_def word_less_nat_alt)
  show ?thesis
  proof (cases t)
    case Prepare_index
    with step t inv active show ?thesis by (auto simp: order_inv_def prepare_index_def moved_def)
  next
    case Query_highest
    have "s' = s\<lparr>ix_target_head := T, ix_request := Some (Send_requests H 50), ix_block := Some Process_block\<rparr>"
      using Query_highest step A by (simp add: query_highest_def serves_def Let_def)
    moreover have "batch_ok 50" by (simp add: batch_ok_def)
    ultimately show ?thesis
      using inv t Query_highest active req T unfinished by (auto simp: order_inv_def moved_def upto_height_def)
  next
    case (Send_requests h n)
    show ?thesis
    proof (cases "h \<le> T")
      case True
      then have h: "unat h \<le> unat T" by (simp add: word_le_nat_alt)
      have "s' = s\<lparr>ix_request_queue := [(h + 1, ucast n)], ix_request := Some (Process_requests h n)\<rparr>"
        using Send_requests step active open_ req True by (simp add: send_requests_def)
      then show ?thesis
        using inv t Send_requests active req h unfinished by (auto simp: order_inv_def moved_def min_def)
    next
      case False
      then have h: "unat T < unat h" by (simp add: word_le_nat_alt)
      have "s' = s\<lparr>ix_requests_complete := True, ix_request := Some (Process_requests h n)\<rparr>"
        using Send_requests step active req False by (simp add: send_requests_def)
      then show ?thesis
        using inv t Send_requests active req h unfinished by (auto simp: order_inv_def moved_def min_def)
    qed
  next
    case (Process_requests h n)
    then show ?thesis
      using step inv t active req unfinished
      by (auto simp: order_inv_def moved_def process_requests_def end_request_def split: if_splits)
  next
    case (Pull_request h n)
    with order_pull_request [OF inv A active] t step show ?thesis by simp
  next
    case (Push_blocks bs h n)
    with order_push_blocks [OF inv flow A active] t step show ?thesis by simp
  qed
qed

lemma request_inv_cong:
  assumes "moved s' = moved s" "ix_target_head s' = ix_target_head s" "ix_request_queue s' = ix_request_queue s"
    "ix_requests_complete s' = ix_requests_complete s" "ix_request_processing_complete s' = ix_request_processing_complete s"
    and "\<not> early r"
  shows "request_inv chain H T r s' = request_inv chain H T r s"
  using assms by (cases "(chain, H, T, r, s)" rule: request_inv.cases) simp_all

lemma processing_complete_request:
  "request_inv chain H T r s \<Longrightarrow> ix_request_processing_complete s \<Longrightarrow> r = None \<and> moved s = upto_height chain H (Suc (unat T))"
  by (cases "(chain, H, T, r, s)" rule: request_inv.cases) simp_all

text \<open>A step of the block chain that keeps what has been moved keeps the invariant.\<close>

lemma order_block_moves:
  assumes inv: "order_inv chain H T s" and t: "ix_block s = Some t" and m: "moved s' = moved s"
    and same: "ix_target_head s' = ix_target_head s" "ix_request_queue s' = ix_request_queue s" "ix_requests_complete s' = ix_requests_complete s"
      "ix_request_processing_complete s' = ix_request_processing_complete s" "ix_request s' = ix_request s" "ix_stopped s' = ix_stopped s"
      "ix_outcomes s' = ix_outcomes s"
  shows "order_inv chain H T s'"
proof -
  have late: "\<not> early (ix_request s)" and unfinished: "Completed True \<notin> set (ix_outcomes s)"
      and pre: "prefix (moved s) (upto_height chain H (Suc (unat T)))" and req: "\<not> ix_stopped s \<longrightarrow> request_inv chain H T (ix_request s) s"
    using inv t by (auto simp: order_inv_def)
  have "prefix (ix_submitted s' @ in_hand (ix_block s')) (moved s')" by (simp add: moved_def)
  with pre m have "prefix (ix_submitted s' @ in_hand (ix_block s')) (upto_height chain H (Suc (unat T)))"
    using prefix_order.trans by metis
  with late unfinished pre req m same request_inv_cong [OF m same(1-4) late] show ?thesis by (simp add: order_inv_def)
qed

lemma order_decide_block:
  assumes inv: "order_inv chain H T s" and flow: "flow s"
    and t: "ix_block s = Some Decide_block" and step: "Some s' = block_step A Decide_block s"
  shows "order_inv chain H T s'"
proof (cases "ix_request_processing_complete s \<and> ix_block_queue s = []")
  case True
  have facts: "\<not> early (ix_request s)" "Completed True \<notin> set (ix_outcomes s)"
      "prefix (moved s) (upto_height chain H (Suc (unat T)))" "prefix (ix_submitted s) (upto_height chain H (Suc (unat T)))"
    using inv t by (auto simp: order_inv_def)
  have "request_inv chain H T (ix_request s) s" if "\<not> ix_stopped s" using inv that by (simp add: order_inv_def)
  then have sub: "ix_submitted s = upto_height chain H (Suc (unat T)) \<and> ix_request s = None" if "\<not> ix_stopped s"
    using processing_complete_request [of chain H T "ix_request s" s] True t that by (simp add: moved_def)
  have "ix_stopped s \<Longrightarrow> \<not> ix_complete s" using flow by (auto simp: flow_def)
  with True step sub facts t show ?thesis
    by (cases "so_new_head A (ix_submitted s)"; cases "ix_stopped s"; cases "ix_complete s")
       (auto simp: order_inv_def ix_defs moved_def)
next
  case False
  then have "s' = s\<lparr>ix_block := Some Pull_block\<rparr>" using step by (auto simp: decide_block_def)
  with t show ?thesis by (intro order_block_moves [OF inv t]) (simp_all add: moved_def)
qed

lemma order_block:
  assumes inv: "order_inv chain H T s" and flow: "flow s"
    and t: "ix_block s = Some t" and step: "Some s' = block_step A t s"
  shows "order_inv chain H T s'"
proof -
  have facts: "\<not> early (ix_request s)" "Completed True \<notin> set (ix_outcomes s)"
      "prefix (ix_submitted s) (upto_height chain H (Suc (unat T)))"
    using inv t by (auto simp: order_inv_def dest: append_prefixD)
  note moves = order_block_moves [OF inv t]
  show ?thesis
  proof (cases t)
    case Process_block
    show ?thesis
    proof (cases "ix_stopped s")
      case True
      with Process_block step facts show ?thesis by (simp add: process_block_def order_inv_def end_block_def)
    next
      case False
      with Process_block step t show ?thesis by (intro moves) (simp_all add: process_block_def moved_def)
    qed
  next
    case Decide_block
    with order_decide_block [OF inv flow] t step show ?thesis by simp
  next
    case Pull_block
    show ?thesis
    proof (cases "ix_block_queue s")
      case Nil
      with step Pull_block flow have "s' = end_block s" and "ix_stopped s"
        by (auto simp: pull_block_def flow_def split: if_splits)
      with facts show ?thesis by (simp add: order_inv_def end_block_def)
    next
      case (Cons b rest)
      with step Pull_block t show ?thesis by (intro moves) (simp_all add: pull_block_def moved_def)
    qed
  next
    case (Submit_block b)
    show ?thesis
    proof (cases "so_submit_block A (ix_submitted s) b")
      case None
      with step Submit_block t show ?thesis by (intro moves) (simp_all add: submit_pulled_def moved_def)
    next
      case (Some msg)
      with step Submit_block facts show ?thesis by (auto simp: order_inv_def ix_defs)
    qed
  qed
qed

lemma order_signal:
  assumes "order_inv chain H T s"
  shows "order_inv chain H T (handle_signal s)"
  using assms by (auto simp: order_inv_def ix_defs moved_def)

lemma reachable_order:
  assumes "reachable A s" and "serves A chain H T"
  shows "order_inv chain H T s"
  using assms(1)
proof induction
  case start
  show ?case by (rule order_start)
next
  case (step s s')
  note flow = reachable_flow [OF step.hyps(1)]
  from step.hyps(2) show ?case
  proof cases
    case (request t)
    then show ?thesis
      using order_stopped_request [OF step.IH flow] order_active_request [OF step.IH flow assms(2)] by metis
  next
    case (block t)
    then show ?thesis using order_block [OF step.IH flow] by metis
  next
    case signal
    then show ?thesis using order_signal [OF step.IH] by simp
  qed
qed

text \<open>
  C11.  The indexer submits the chain in order and completely.  Whatever the interleaving of the two task
  chains and the signal handler, and whichever requests or blocks fail, what has been submitted is
  always an initial part of the chain from the block after the node's head, in order of height, with
  nothing skipped and nothing submitted twice; and when the indexer reports success, every block up to the
  target has been submitted.  The promise is given at most one outcome.
\<close>

theorem indexer_submits_the_chain_in_order:
  assumes "serves A chain H T" and "reachable A s"
  shows "prefix (ix_submitted s) (map chain [Suc (unat H) ..< Suc (unat T)])
       \<and> (Completed True \<in> set (ix_outcomes s) \<longrightarrow> ix_submitted s = map chain [Suc (unat H) ..< Suc (unat T)])
       \<and> length (ix_outcomes s) \<le> 1"
proof -
  have inv: "order_inv chain H T s" by (rule reachable_order [OF assms(2,1)])
  then have "prefix (ix_submitted s) (upto_height chain H (Suc (unat T)))"
    unfolding order_inv_def by (blast dest: append_prefixD)
  with inv reachable_flow [OF assms(2)] show ?thesis by (simp add: order_inv_def flow_def upto_height_def)
qed

end
