(* ===== verification/Indexer_Liveness.thy ===== *)
theory Indexer_Liveness
  imports Indexer_Props
begin

text \<open>
  Liveness of the indexer.  A measure decreases with every step, so every run comes to rest; at rest the
  promise has been given an outcome, except in one shape of state, and that state can be reached.
\<close>

section \<open>The shape of the request chain\<close>

text \<open>What holds of the request chain even after the indexer was stopped.\<close>

fun request_shape :: "u64 \<Rightarrow> 'b request_task option \<Rightarrow> 'b indexer \<Rightarrow> bool" where
  "request_shape T None s = True"
| "request_shape T (Some (Send_requests h n)) s =
     (ix_target_head s = T \<and> batch_ok n \<and> unat h \<le> unat T + 1000 \<and> ix_request_queue s = [] \<and> \<not> ix_requests_complete s)"
| "request_shape T (Some (Process_requests h n)) s =
     (ix_target_head s = T \<and> batch_ok n \<and> unat h \<le> unat T + 1000
      \<and> (if ix_requests_complete s then ix_request_queue s = []
          else ix_request_queue s = [(h + 1, ucast n)] \<and> unat h \<le> unat T))"
| "request_shape T (Some (Pull_request h n)) s =
     (ix_target_head s = T \<and> batch_ok n \<and> unat h \<le> unat T \<and> ix_request_queue s = [(h + 1, ucast n)] \<and> \<not> ix_requests_complete s)"
| "request_shape T (Some (Push_blocks bs h n)) s =
     (ix_target_head s = T \<and> batch_ok n \<and> unat h \<le> unat T \<and> ix_request_queue s = [] \<and> \<not> ix_requests_complete s
      \<and> length bs \<le> unat n)"
| "request_shape T _ s = (ix_request_queue s = [] \<and> \<not> ix_requests_complete s)"

definition left :: "u64 \<Rightarrow> nat \<Rightarrow> nat" where
  "left T h = 10 * (unat T + 1001 - h)"

fun request_measure :: "u64 \<Rightarrow> u64 \<Rightarrow> 'b request_task option \<Rightarrow> nat" where
  "request_measure H T None = 0"
| "request_measure H T (Some Prepare_index) = left T (unat H) + 4 * (unat T - unat H) + 11"
| "request_measure H T (Some Query_highest) = left T (unat H) + 4 * (unat T - unat H) + 10"
| "request_measure H T (Some (Send_requests h n)) = left T (unat h) + 4"
| "request_measure H T (Some (Process_requests h n)) = left T (unat h) + 3"
| "request_measure H T (Some (Pull_request h n)) = left T (unat h) + 2"
| "request_measure H T (Some (Push_blocks bs h n)) = left T (unat h + unat n) + 5 + length bs"

fun block_measure :: "nat \<Rightarrow> 'b block_task option \<Rightarrow> nat" where
  "block_measure m None = 0"
| "block_measure m (Some Process_block) = 4 * m + 4"
| "block_measure m (Some Decide_block) = 4 * m + 3"
| "block_measure m (Some Pull_block) = 4 * m + 2"
| "block_measure m (Some (Submit_block b)) = 4 * m + 1"

definition ix_measure :: "u64 \<Rightarrow> u64 \<Rightarrow> 'b indexer \<Rightarrow> nat" where
  "ix_measure H T s =
     request_measure H T (ix_request s) + block_measure (unat T - unat H - length (ix_submitted s)) (ix_block s)
     + (if ix_signal_armed s then 1 else 0)"

lemma request_fields [simp]:
  "ix_request (handle_error m s) = ix_request s" "ix_block (handle_error m s) = ix_block s"
  "ix_signal_armed (handle_error m s) = ix_signal_armed s" "ix_submitted (handle_error m s) = ix_submitted s"
  "ix_request (finish s) = ix_request s" "ix_block (finish s) = ix_block s"
  "ix_signal_armed (finish s) = ix_signal_armed s" "ix_submitted (finish s) = ix_submitted s"
  "ix_request (handle_signal s) = ix_request s" "ix_block (handle_signal s) = ix_block s"
  "ix_submitted (handle_signal s) = ix_submitted s" "\<not> ix_signal_armed (handle_signal s)"
  "ix_request_queue (handle_signal s) = ix_request_queue s" "ix_target_head (handle_signal s) = ix_target_head s"
  "ix_requests_complete (handle_signal s) = ix_requests_complete s"
  by (simp_all add: handle_error_def finish_def handle_signal_def settle_def close_queues_def)

text \<open>One step of the request chain keeps the shape and decreases the measure of that chain.\<close>

lemma request_progress:
  assumes A: "serves A chain H T" and shape: "request_shape T (ix_request s) s"
    and t: "ix_request s = Some t" and step: "Some s' = request_step A t s"
  shows "request_shape T (ix_request s') s' \<and> ix_submitted s' = ix_submitted s \<and> ix_signal_armed s' = ix_signal_armed s
    \<and> (if t = Query_highest then (ix_block s' = ix_block s \<or> ix_block s' = Some Process_block)
          \<and> request_measure H T (ix_request s') + 4 * (unat T - unat H) + 4 < request_measure H T (ix_request s)
       else ix_block s' = ix_block s \<and> request_measure H T (ix_request s') < request_measure H T (ix_request s))"
proof -
  have T: "unat T + 2000 < 2 ^ 64" "unat H < unat T" using A by (auto simp: serves_def word_less_nat_alt)
  show ?thesis
  proof (cases t)
    case Prepare_index
    with t step shape show ?thesis by (auto simp: prepare_index_def end_request_def)
  next
    case Query_highest
    have "s' = s\<lparr>ix_target_head := T, ix_request := Some (Send_requests H 50), ix_block := Some Process_block\<rparr>"
      using Query_highest step A by (simp add: query_highest_def serves_def Let_def)
    then show ?thesis using t Query_highest shape T by (simp add: batch_ok_def)
  next
    case (Send_requests h n)
    with t step shape show ?thesis
      by (auto simp: send_requests_def end_request_def word_le_nat_alt)
  next
    case (Process_requests h n)
    with t step shape show ?thesis by (auto simp: process_requests_def end_request_def split: if_splits)
  next
    case (Pull_request h n)
    have h: "unat h \<le> unat T" "batch_ok n" and q: "ix_request_queue s = [(h + 1, ucast n)]"
      using shape t Pull_request by simp_all
    show ?thesis
    proof (cases "so_blocks_by_height A (h + 1) (ucast n)")
      case (Inl msg)
      then have "s' = handle_error msg (end_request (s\<lparr>ix_request_queue := []\<rparr>))"
        using step q Pull_request by (simp add: pull_request_def Let_def)
      then show ?thesis using t Pull_request by (simp add: end_request_def)
    next
      case (Inr bs)
      have "length bs \<le> unat n" unfolding pulled_blocks [OF A h Inr] by auto
      moreover have "s' = s\<lparr>ix_request_queue := [], ix_request := Some (Push_blocks bs h n)\<rparr>"
        using step q Pull_request Inr by (simp add: pull_request_def Let_def)
      ultimately show ?thesis
        using t Pull_request shape h by (auto simp: left_def batch_ok_def)
    qed
  next
    case (Push_blocks bs h n)
    have h: "unat h \<le> unat T" "batch_ok n" using shape t Push_blocks by simp_all
    note ar = small_arith [OF T(1) h]
    show ?thesis
    proof (cases bs)
      case Nil
      then have "s' = s\<lparr>ix_request := Some (Send_requests (h + n) (min (n * 2) 1000))\<rparr>"
        using step Push_blocks by (simp add: push_blocks_def)
      then show ?thesis using t Push_blocks shape ar h by (simp add: batch_ok_def)
    next
      case (Cons b rest)
      then show ?thesis
        using step t Push_blocks shape by (auto simp: push_blocks_def end_request_def)
    qed
  qed
qed

lemma request_shape_cong:
  assumes "ix_target_head s' = ix_target_head s" "ix_request_queue s' = ix_request_queue s"
    "ix_requests_complete s' = ix_requests_complete s"
  shows "request_shape T r s' = request_shape T r s"
  using assms by (cases "(T, r, s)" rule: request_shape.cases) simp_all

lemma block_step_frame:
  assumes "Some s' = block_step A t s"
  shows "ix_request s' = ix_request s \<and> ix_signal_armed s' = ix_signal_armed s \<and> ix_target_head s' = ix_target_head s
    \<and> ix_request_queue s' = ix_request_queue s \<and> ix_requests_complete s' = ix_requests_complete s"
proof (cases t)
  case Decide_block
  with assms show ?thesis by (cases "so_new_head A (ix_submitted s)") (auto simp: ix_defs)
next
  case Pull_block
  with assms show ?thesis by (cases "ix_block_queue s") (auto simp: ix_defs split: if_splits)
next
  case (Submit_block b)
  with assms show ?thesis by (cases "so_submit_block A (ix_submitted s) b") (auto simp: ix_defs)
qed (use assms in \<open>auto simp: ix_defs\<close>)

lemma reachable_shape:
  assumes "reachable A s" and "serves A chain H T"
  shows "request_shape T (ix_request s) s"
  using assms(1)
proof induction
  case start
  show ?case by (simp add: index_def indexer_new_def)
next
  case (step s s')
  from step.hyps(2) show ?case
  proof cases
    case (request t)
    then show ?thesis using request_progress [OF assms(2) step.IH] by metis
  next
    case (block t)
    then show ?thesis using block_step_frame [of s' A t s] request_shape_cong [of s' s T] step.IH by metis
  next
    case signal
    then show ?thesis using step.IH request_shape_cong [of s' s T] by simp
  qed
qed

text \<open>One step of the block chain decreases the measure of that chain.\<close>

lemma block_progress:
  assumes inv: "order_inv chain H T s" and t: "ix_block s = Some t" and step: "Some s' = block_step A t s"
  shows "block_measure (unat T - unat H - length (ix_submitted s')) (ix_block s')
       < block_measure (unat T - unat H - length (ix_submitted s)) (ix_block s)"
proof (cases t)
  case Process_block
  with t step show ?thesis by (simp add: process_block_def end_block_def)
next
  case Decide_block
  with t step show ?thesis by (cases "so_new_head A (ix_submitted s)") (auto simp: decide_block_def end_block_def)
next
  case Pull_block
  with t step show ?thesis by (cases "ix_block_queue s") (auto simp: pull_block_def end_block_def split: if_splits)
next
  case (Submit_block b)
  have "prefix (ix_submitted s @ [b]) (upto_height chain H (Suc (unat T)))"
    using inv t Submit_block by (simp add: order_inv_def)
  then have "Suc (length (ix_submitted s)) \<le> unat T - unat H"
    by (auto dest!: prefix_length_le simp: upto_height_def simp del: upt_Suc)
  with t step Submit_block show ?thesis
    by (cases "so_submit_block A (ix_submitted s) b") (auto simp: submit_pulled_def end_block_def)
qed

lemma ix_step_decreases:
  assumes A: "serves A chain H T" and s: "reachable A s" and step: "ix_step A s s'"
  shows "ix_measure H T s' < ix_measure H T s"
  using step
proof cases
  case (request t)
  note p = request_progress [OF A reachable_shape [OF s A] request(1) request(2) [symmetric]]
  show ?thesis
  proof (cases "t = Query_highest")
    case True
    then have "ix_block s = None" "ix_submitted s = []"
      using reachable_order [OF s A] request(1) by (simp_all add: order_inv_def moved_def)
    with p True show ?thesis by (auto simp: ix_measure_def)
  next
    case False
    with p show ?thesis by (simp add: ix_measure_def)
  qed
next
  case (block t)
  then show ?thesis
    using block_progress [OF reachable_order [OF s A], of t s' A] block_step_frame [of s' A t s]
    by (simp add: ix_measure_def)
next
  case signal
  then show ?thesis by (simp add: ix_measure_def)
qed

lemma run_bound:
  fixes A :: "'b sources"
  assumes "serves A chain H T" and "(ix_step A ^^ n) (index indexer_new) s"
  shows "reachable A s \<and> n + ix_measure H T s \<le> ix_measure H T (index indexer_new :: 'b indexer)"
  using assms(2)
proof (induction n arbitrary: s)
  case 0
  then show ?case by (auto intro: reachable.start)
next
  case (Suc n)
  then obtain r where r: "(ix_step A ^^ n) (index indexer_new) r" "ix_step A r s" by auto
  from Suc.IH [OF r(1)] ix_step_decreases [OF assms(1) _ r(2)] r(2) show ?case
    by (auto intro: reachable.step)
qed

section \<open>At rest\<close>

text \<open>Neither task chain can go on: what is left is the signal handler.\<close>

definition at_rest :: "'b sources \<Rightarrow> 'b indexer \<Rightarrow> bool" where
  "at_rest A s \<longleftrightarrow>
     (case ix_request s of None \<Rightarrow> True | Some t \<Rightarrow> request_step A t s = None)
   \<and> (case ix_block s of None \<Rightarrow> True | Some t \<Rightarrow> block_step A t s = None)"

text \<open>The block chain waits for a block that nobody will push.\<close>

definition waits_forever :: "'b indexer \<Rightarrow> bool" where
  "waits_forever s \<longleftrightarrow>
     \<not> ix_stopped s \<and> ix_request_processing_complete s \<and> ix_request s = None
   \<and> ix_block s = Some Pull_block \<and> ix_block_queue s = [] \<and> \<not> ix_block_queue_closed s"

lemma request_waits:
  assumes "flow s" and "ix_request s = Some t"
  shows "request_step A t s \<noteq> None"
proof (cases t)
  case (Pull_request h n)
  then have "ix_request_queue s \<noteq> [] \<or> ix_request_queue_closed s" using assms by (auto simp: flow_def)
  with Pull_request show ?thesis
    by (cases "ix_request_queue s") (auto simp: pull_request_def Let_def split: sum.splits)
qed simp_all

lemma block_waits:
  assumes "block_step A t s = None"
  shows "t = Pull_block \<and> ix_block_queue s = [] \<and> \<not> ix_block_queue_closed s"
  using assms by (cases t) (auto simp: pull_block_def split: list.splits if_splits)

lemma rest_outcome:
  assumes flow: "flow s" and rest: "at_rest A s" and none: "ix_outcomes s = []"
  shows "waits_forever s"
proof -
  have c: "ix_complete s" using flow none by (simp add: flow_def)
  then have r: "\<not> ix_stopped s" using flow by (auto simp: flow_def)
  have req: "ix_request s = None"
    using rest request_waits [OF flow, of _ A] by (cases "ix_request s") (auto simp: at_rest_def)
  with flow c have pc: "ix_request_processing_complete s" and "ix_block s \<noteq> None" by (auto simp: flow_def)
  then obtain t where t: "ix_block s = Some t" "block_step A t s = None"
    using rest by (auto simp: at_rest_def split: option.splits)
  from block_waits [OF t(2)] t(1) r req pc show ?thesis by (simp add: waits_forever_def)
qed

text \<open>
  C12.  Indexing comes to rest.  Whatever the schedule, whichever requests fail and whenever the signal
  comes, a run from \<open>index()\<close> has at most 14 steps per block to replay and 10022 more: no task is posted
  forever, and the doubling of the batch size never wraps around.  Where neither chain of tasks can go on,
  the promise has been given its outcome, or every block up to the target was submitted and the block
  chain waits on the open, empty queue for a block that no task will push.
\<close>

theorem indexing_comes_to_rest:
  fixes A :: "'b sources"
  assumes "serves A chain H T" and "(ix_step A ^^ n) (index indexer_new) s"
  shows "n \<le> 14 * (unat T - unat H) + 10022
       \<and> (at_rest A s \<longrightarrow> ix_outcomes s \<noteq> []
            \<or> waits_forever s \<and> ix_submitted s = map chain [Suc (unat H) ..< Suc (unat T)])"
proof -
  have s: "reachable A s" and bound: "n + ix_measure H T s \<le> ix_measure H T (index indexer_new :: 'b indexer)"
    using run_bound [OF assms] by simp_all
  have "unat H < unat T" using assms(1) by (simp add: serves_def word_less_nat_alt)
  then have "ix_measure H T (index indexer_new :: 'b indexer) = 14 * (unat T - unat H) + 10022"
    by (simp add: ix_measure_def index_def indexer_new_def left_def)
  with bound have n: "n \<le> 14 * (unat T - unat H) + 10022" by simp
  have "ix_submitted s = map chain [Suc (unat H) ..< Suc (unat T)]" if "waits_forever s"
    using that reachable_order [OF s assms(1)]
    by (simp add: waits_forever_def order_inv_def moved_def upto_height_def)
  with n rest_outcome [OF reachable_flow [OF s], of A] show ?thesis by blast
qed

section \<open>Schedules\<close>

text \<open>A schedule names the chain that steps next; it has no result where that chain cannot step.\<close>

datatype turn = Request_turn | Block_turn | Signal_turn

fun take_turn :: "'b sources \<Rightarrow> turn \<Rightarrow> 'b indexer \<Rightarrow> 'b indexer option" where
  "take_turn A Request_turn s = (case ix_request s of None \<Rightarrow> None | Some t \<Rightarrow> request_step A t s)"
| "take_turn A Block_turn s = (case ix_block s of None \<Rightarrow> None | Some t \<Rightarrow> block_step A t s)"
| "take_turn A Signal_turn s = (if ix_signal_armed s then Some (handle_signal s) else None)"

fun run_schedule :: "'b sources \<Rightarrow> turn list \<Rightarrow> 'b indexer \<Rightarrow> 'b indexer option" where
  "run_schedule A [] s = Some s"
| "run_schedule A (t # ts) s = (case take_turn A t s of None \<Rightarrow> None | Some s' \<Rightarrow> run_schedule A ts s')"

lemma take_turn_step: "take_turn A t s = Some s' \<Longrightarrow> ix_step A s s'"
  by (cases t) (auto split: option.splits if_splits intro: ix_step.intros)

lemma run_schedule_steps: "run_schedule A ts s = Some s' \<Longrightarrow> (ix_step A ^^ length ts) s s'"
  by (induction ts arbitrary: s)
     (auto split: option.splits dest!: take_turn_step intro: relpowp_Suc_I2 simp del: relpowp.simps(2))

lemma run_schedule_reachable: "run_schedule A ts s = Some s' \<Longrightarrow> reachable A s \<Longrightarrow> reachable A s'"
  by (induction ts arbitrary: s) (auto split: option.splits dest!: take_turn_step intro: reachable.step)

text \<open>A block store one block ahead of the node; a block is its height.\<close>

definition one_block_store :: "nat sources" where
  "one_block_store =
     \<lparr>so_highest_block = Inr 1, so_head_height = Inr 0,
      so_blocks_by_height = (\<lambda>h n. Inr [unat h ..< min (unat h + unat n) (Suc 1)]),
      so_submit_block = (\<lambda>_ _. None), so_new_head = (\<lambda>_. Inr 1)\<rparr>"

lemma one_block_store_serves: "serves one_block_store (\<lambda>h. h) 0 1"
  by (simp add: serves_def one_block_store_def)

text \<open>The requests are all processed first; then the block is submitted and the queue found empty.\<close>

definition requests_first :: "turn list" where
  "requests_first =
     [Request_turn, Request_turn, Request_turn, Request_turn, Request_turn, Request_turn, Request_turn,
      Request_turn, Request_turn,
      Block_turn, Block_turn, Block_turn, Block_turn, Block_turn, Block_turn]"

text \<open>The block is submitted and the queue found empty before the request chain has noticed its end.\<close>

definition blocks_overtake :: "turn list" where
  "blocks_overtake =
     [Request_turn, Request_turn, Request_turn, Request_turn, Request_turn, Request_turn, Request_turn,
      Block_turn, Block_turn, Block_turn, Block_turn, Block_turn, Block_turn,
      Request_turn, Request_turn]"

lemmas schedule_eval =
  ix_defs Let_def index_def indexer_new_def one_block_store_def requests_first_def blocks_overtake_def
  at_rest_def waits_forever_def word_le_nat_alt unsigned_ucast_eq take_bit_nat_eq_self

lemma requests_first_run:
  "\<exists>s. run_schedule one_block_store requests_first (index indexer_new) = Some s \<and> ix_outcomes s = [Completed True]"
  by (simp add: schedule_eval)

lemma blocks_overtake_run:
  "\<exists>s. run_schedule one_block_store blocks_overtake (index indexer_new) = Some s
       \<and> waits_forever s \<and> at_rest one_block_store s \<and> ix_outcomes s = []"
  by (simp add: schedule_eval)

lemma signal_at_the_end_run:
  "\<exists>s. run_schedule one_block_store (butlast requests_first @ [Signal_turn, Block_turn]) (index indexer_new) = Some s
       \<and> ix_undefined s"
  by (simp add: schedule_eval)

text \<open>The unguarded \<open>_complete->set_value( true )\<close>: a signal between the test of \<open>_stopped\<close> and the end.\<close>

theorem signal_can_empty_the_promise:
  "\<exists>s. reachable one_block_store s \<and> ix_undefined s"
  using signal_at_the_end_run run_schedule_reachable reachable.start by metis


section \<open>Witnesses\<close>

theorem indexer_submits_the_chain_in_order_witness:
  "\<exists>s. reachable one_block_store s \<and> ix_outcomes s = [Completed True] \<and> ix_submitted s = [1]"
proof -
  obtain s where s: "reachable one_block_store s" "ix_outcomes s = [Completed True]"
    using requests_first_run run_schedule_reachable reachable.start by metis
  with indexer_submits_the_chain_in_order [OF one_block_store_serves s(1)] show ?thesis by auto
qed

theorem indexing_comes_to_rest_witness:
  "\<exists>s. (ix_step one_block_store ^^ length blocks_overtake) (index indexer_new) s
       \<and> length blocks_overtake \<le> 10036 \<and> waits_forever s \<and> ix_submitted s = [1]"
proof -
  obtain s where s: "(ix_step one_block_store ^^ length blocks_overtake) (index indexer_new) s"
    "waits_forever s" "at_rest one_block_store s" "ix_outcomes s = []"
    using blocks_overtake_run run_schedule_steps by metis
  with indexing_comes_to_rest [OF one_block_store_serves s(1)] show ?thesis by auto
qed

end
