(* ===== verification/Replay.thy ===== *)
theory Replay
  imports Indexer_Liveness Service
begin

text \<open>
  The indexer at work on the controller: the answers the indexer gets are those of \<open>get_head_info\<close> and
  \<open>submit_block\<close> on the state the controller is in after the blocks submitted so far.  \<open>nows\<close> is the
  clock at each submission.
\<close>

fun exn_what :: "('d, 'h, 'w) env \<Rightarrow> exn \<Rightarrow> string" where
  "exn_what E (StdExn w) = w"
| "exn_what E e = exn_message E e"

text \<open>Submitting blocks one after another, whatever comes of each.\<close>

fun replay ::
  "('d, 'h, 'w) env \<Rightarrow> ('d, 'h, 's) services \<Rightarrow> ('d, 'h, 'w) sys \<Rightarrow> (nat \<Rightarrow> int) \<Rightarrow> block list \<Rightarrow> ('d, 'w, 's) ctl
     \<Rightarrow> ('d, 'w, 's) ctl" where
  "replay E S sc nows [] k = k"
| "replay E S sc nows (b # bs) k = replay E S sc (\<lambda>i. nows (Suc i)) bs (snd (submit_block E S sc b (nows 0) k))"

text \<open>The block store's side: its highest block and its blocks by height.\<close>

record store =
  st_highest :: "string + u64"
  st_blocks_by_height :: "u64 \<Rightarrow> u32 \<Rightarrow> string + block list"

definition head_height :: "('d, 'h, 'w) env \<Rightarrow> ('d, 'h, 'w) sys \<Rightarrow> ('d, 'w, 's) ctl \<Rightarrow> string + u64" where
  "head_height E sc k =
     (case fst (get_head_info E sc k) of Inl e \<Rightarrow> Inl (exn_what E e) | Inr r \<Rightarrow> Inr (bt_height (hr_head_topology r)))"

definition node_sources ::
  "('d, 'h, 'w) env \<Rightarrow> ('d, 'h, 's) services \<Rightarrow> ('d, 'h, 'w) sys \<Rightarrow> (nat \<Rightarrow> int) \<Rightarrow> store \<Rightarrow> ('d, 'w, 's) ctl
     \<Rightarrow> block sources" where
  "node_sources E S sc nows st k =
     (let k0 = snd (get_head_info E sc k) in
      \<lparr>so_highest_block = st_highest st, so_head_height = head_height E sc k,
       so_blocks_by_height = st_blocks_by_height st,
       so_submit_block = (\<lambda>submitted b.
         case fst (submit_block E S sc b (nows (length submitted)) (replay E S sc nows submitted k0)) of
           Inl e \<Rightarrow> Some (exn_what E e) | Inr _ \<Rightarrow> None),
       so_new_head = (\<lambda>submitted. head_height E sc (replay E S sc nows submitted k0))\<rparr>)"

section \<open>Submitted blocks were accepted\<close>

definition all_accepted :: "'b sources \<Rightarrow> 'b list \<Rightarrow> bool" where
  "all_accepted A bs \<longleftrightarrow> (\<forall>i < length bs. so_submit_block A (take i bs) (bs ! i) = None)"

lemma all_accepted_snoc: "all_accepted A (bs @ [b]) \<longleftrightarrow> all_accepted A bs \<and> so_submit_block A bs b = None"
  by (auto simp: all_accepted_def nth_append less_Suc_eq)

lemma submitted_step:
  assumes "ix_step A s s'"
  shows "ix_submitted s' = ix_submitted s
       \<or> (\<exists>b. ix_submitted s' = ix_submitted s @ [b] \<and> so_submit_block A (ix_submitted s) b = None)"
  using assms
proof (cases rule: ix_step_cases)
  case (pull h n)
  then show ?thesis
    by (auto simp: pull_request_def Let_def end_request_def split: list.splits prod.splits sum.splits if_splits)
next
  case query
  then show ?thesis by (auto simp: query_highest_def Let_def end_request_def split: sum.splits)
next
  case (push bs h n)
  then show ?thesis by (auto simp: push_blocks_def end_request_def split: list.splits)
next
  case decide
  then show ?thesis by (auto simp: decide_block_def end_block_def split: sum.splits)
next
  case take
  then show ?thesis by (auto simp: pull_block_def end_block_def split: list.splits if_splits)
next
  case (submit b)
  then show ?thesis by (auto simp: submit_pulled_def end_block_def split: option.splits)
qed (auto simp: prepare_index_def send_requests_def process_requests_def process_block_def end_request_def end_block_def)

lemma reachable_accepted: "reachable A s \<Longrightarrow> all_accepted A (ix_submitted s)"
proof (induction rule: reachable.induct)
  case start
  show ?case by (simp add: all_accepted_def index_def indexer_new_def)
next
  case (step s s')
  then show ?case using submitted_step by (metis all_accepted_snoc)
qed

text \<open>
  C13.  Indexing replays the chain.  When the indexer, running on the controller, has reported success,
  it has submitted the blocks from the one after the node's head to the highest of the block store, in
  order, and the controller accepted every one of them in the state the blocks before it had left: the
  node is where submitting the chain block by block leads.
\<close>

theorem indexing_replays_the_chain:
  assumes "serves (node_sources E S sc nows st k) chain H T"
    and "reachable (node_sources E S sc nows st k) s" and "Completed True \<in> set (ix_outcomes s)"
  shows "ix_submitted s = map chain [Suc (unat H) ..< Suc (unat T)]
       \<and> (\<forall>i < unat T - unat H. \<exists>r. fst (submit_block E S sc (chain (Suc (unat H) + i)) (nows i)
             (replay E S sc nows (map chain [Suc (unat H) ..< Suc (unat H) + i]) (snd (get_head_info E sc k)))) = Inr r)"
proof -
  let ?A = "node_sources E S sc nows st k"
  have sub: "ix_submitted s = map chain [Suc (unat H) ..< Suc (unat T)]"
    using reachable_order [OF assms(2,1)] assms(3) by (simp add: order_inv_def upto_height_def)
  have "\<exists>r. fst (submit_block E S sc (chain (Suc (unat H) + i)) (nows i)
             (replay E S sc nows (map chain [Suc (unat H) ..< Suc (unat H) + i]) (snd (get_head_info E sc k)))) = Inr r"
    if i: "i < unat T - unat H" for i
  proof -
    have "so_submit_block ?A (take i (ix_submitted s)) (ix_submitted s ! i) = None"
      using reachable_accepted [OF assms(2)] i by (simp add: all_accepted_def sub del: upt_Suc)
    moreover have "take i (ix_submitted s) = map chain [Suc (unat H) ..< Suc (unat H) + i]"
      "ix_submitted s ! i = chain (Suc (unat H) + i)"
      using i by (simp_all add: sub take_map take_upt nth_append del: upt_Suc)
    ultimately show ?thesis
      by (auto simp: node_sources_def Let_def split: sum.splits simp del: upt_Suc)
  qed
  with sub show ?thesis by blast
qed

end
