(* ===== verification/Example_Controller.thy ===== *)
theory Example_Controller
  imports Request_Props Result_Types Replay
begin

text \<open>
  Controllers on concrete environments, and the witnesses of the properties of the controller and the
  service.  \<open>index_env\<close> has a state database that is its index only: the block nodes with whether
  they are finalised, and the head.  The handle of a node is its id.
\<close>

type_synonym index_db = "(multihash \<rightharpoonup> bool) \<times> multihash"
type_synonym index_env = "(index_db, multihash, example_module) env"
type_synonym index_ctl = "(index_db, example_module, unit) ctl"

definition named :: "string \<Rightarrow> multihash" where
  "named s = \<lparr>mh_code = 18, mh_digest = s\<rparr>"

definition index_env :: index_env where
  "index_env =
     \<lparr>err_code = err_code example_env, reversion = reversion example_env, failure = failure example_env,
      render = render example_env, to_int64 = to_int64 example_env, syscall_num = syscall_num example_env,
      syscall_name = syscall_name example_env, syscall_parse = syscall_parse example_env,
      space_num = space_num example_env, codec_num = codec_num example_env, as_string = as_string example_env,
      block_byte_size = block_byte_size example_env, transaction_byte_size = transaction_byte_size example_env,
      parse_args = parse_args example_env, parse_ret = parse_ret example_env,
      to_contract_metadata = to_contract_metadata example_env,
      to_system_call_target = to_system_call_target example_env, to_value = to_value example_env,
      to_block = to_block example_env, to_max_account_resources = to_max_account_resources example_env,
      to_resource_limit_data = to_resource_limit_data example_env,
      to_compute_registry = to_compute_registry example_env, to_unsigned_varint = to_unsigned_varint example_env,
      to_authorize_result = to_authorize_result example_env, parse_descriptors = parse_descriptors example_env,
      reflect = reflect example_env, pb_transaction = pb_transaction example_env, pb_block = pb_block example_env,
      utf_decode = utf_decode example_env, crypto_hash = crypto_hash example_env,
      to_multihash = to_multihash example_env, mh_is_zero = (\<lambda>m. mh_digest m = ''0''),
      sig_is_canonical = sig_is_canonical example_env, recover_key = recover_key example_env,
      key_valid = key_valid example_env, key_compressed = key_compressed example_env,
      key_uncompressed = key_uncompressed example_env, to_public_key = to_public_key example_env,
      key_address = key_address example_env, merkle_root_hash = merkle_root_hash example_env,
      verify_random_proof = verify_random_proof example_env, node_get = (\<lambda>_ _ _ _. None),
      node_put = (\<lambda>d _ _ _ _. Inr (0, d)), node_remove = (\<lambda>d _ _ _. Inr (0, d)),
      node_next = (\<lambda>_ _ _ _. None), node_prev = (\<lambda>_ _ _ _. None), node_id = (\<lambda>_ h. h),
      node_parent_id = (\<lambda>_ h. h), node_revision = (\<lambda>_ _. 0), node_parent = (\<lambda>_ _. None),
      node_delta_entries = (\<lambda>_ _. []), node_merkle_root = (\<lambda>_ _. named ''root''),
      node_is_finalized = (\<lambda>d h. fst d h = Some True), node_create_anonymous = (\<lambda>d h. (h, d)),
      node_commit = (\<lambda>d _. Inr d), db_get_node = (\<lambda>d i. map_option (\<lambda>_. i) (fst d i)),
      db_get_root = (\<lambda>_. named ''0''), db_get_head = snd, db_get_fork_heads = (\<lambda>d. [snd d]),
      db_get_node_at_revision = (\<lambda>d _ _. Inr (snd d)),
      db_create_writable_node = (\<lambda>(m, h) p i _. (Some i, (m(i \<mapsto> False), h))),
      db_finalize_node = (\<lambda>(m, h) i. Inr (m(i \<mapsto> True), i)), db_commit_node = (\<lambda>d _. Inr d),
      db_discard_node = (\<lambda>(m, h) i. (m(i := None), h)), fizzy_parse = fizzy_parse example_env,
      fizzy_instantiate = fizzy_instantiate example_env, fizzy_create_context = fizzy_create_context example_env,
      fizzy_has_start = fizzy_has_start example_env, fizzy_execute = fizzy_execute example_env\<rparr>"

lemma index_env_db [simp]:
  "db_get_node index_env d i = map_option (\<lambda>_. i) (fst d i)" "node_is_finalized index_env d h = (fst d h = Some True)"
  "db_get_head index_env d = snd d" "node_id index_env d h = h"
  "db_create_writable_node index_env d p i bh = (Some i, ((fst d)(i \<mapsto> False), snd d))"
  "db_finalize_node index_env d i = Inr ((fst d)(i \<mapsto> True), i)"
  "db_commit_node index_env d i = Inr d" "db_discard_node index_env d i = ((fst d)(i := None), snd d)"
  "node_put index_env d h sp ky v = Inr (0, d)" "node_remove index_env d h sp ky = Inr (0, d)"
  "node_create_anonymous index_env d h = (h, d)" "node_commit index_env d h = Inr d"
  by (simp_all add: index_env_def split: prod.split)

lemma index_env_libraries [simp]:
  "to_multihash index_env b = Inr (named b)" "mh_is_zero index_env m = (mh_digest m = ''0'')"
  "as_string index_env = example_string" "node_merkle_root index_env d h = named ''root''"
  "node_revision index_env d h = 0" "db_get_root index_env d = named ''0''" "db_get_fork_heads index_env d = [snd d]"
  "node_get index_env d h sp ky = None"
  by (simp_all add: index_env_def example_env_def named_def)

lemma named_simps [simp]: "mh_digest (named s) = s" "named s = named t \<longleftrightarrow> s = t"
  by (simp_all add: named_def)

lemma index_head_id [simp]: "head_id index_env d = snd d"
  by (simp add: head_id_def)

lemma index_env_laws: "db_laws index_env"
  by (auto simp: db_laws_def objects_leave_index_def db_step_def same_index_def ids_indexed_def creates_one_def discards_one_def
        finalizes_one_def commits_settled_def settled_def settled_but_def split: if_splits)

definition example_services :: "(index_db, multihash, unit) services" where
  "example_services =
     \<lparr>sv_open = (\<lambda>_ _ _ d. Inr d), sv_reset = Inr, sv_close = (\<lambda>d. d), sv_genesis_bytes = (\<lambda>_. ''genesis''),
      sv_slice = (\<lambda>e. e), sv_from_hex = (\<lambda>_. Inr []), sv_base58 = (\<lambda>b. b), sv_sort = (\<lambda>fs. fs),
      sv_add_block = (\<lambda>s _ _. (Inr Store_add_block, s)), sv_check_pending = (\<lambda>s _ _ _. (Inr (Mempool_check True), s)),
      sv_broadcast = (\<lambda>s _ _. (Inr (), s))\<rparr>"

definition block_after :: "string \<Rightarrow> string \<Rightarrow> u64 \<Rightarrow> u64 \<Rightarrow> block" where
  "block_after parent i height time =
     \<lparr>blk_id = i, blk_has_header = True,
      blk_header = \<lparr>bh_previous = parent, bh_height = height, bh_timestamp = time,
        bh_previous_state_merkle_root = ''root'', bh_transaction_merkle_root = ''trxs'', bh_signer = [], bh_other = []\<rparr>,
      blk_transactions = [], blk_signature = ''sig''\<rparr>"

text \<open>A node at its genesis block, with a client.\<close>

definition fresh_node :: index_ctl where
  "fresh_node =
     (controller_new 1000 64 ([named ''0'' \<mapsto> True], named ''0''))
       \<lparr>ct_client := Some (), ct_cached_head_block := Some (empty_block\<lparr>blk_id := ''0''\<rparr>)\<rparr>"

lemma fresh_node_consistent: "consistent index_env fresh_node"
  by (auto simp: consistent_def settled_def cached_def fresh_node_def controller_new_def empty_block_def split: if_splits)

lemma fresh_node_fields [simp]:
  "ct_db fresh_node = ([named ''0'' \<mapsto> True], named ''0'')" "ct_client fresh_node = Some ()" "ct_sent fresh_node = []"
  by (simp_all add: fresh_node_def controller_new_def)

section \<open>A block that comes too early\<close>

lemma first_block_parent_readable: "parent_readable index_env sc (block_after ''0'' i h t) k"
  by (simp add: parent_readable_def parent_info_def block_after_def returnE_def)

lemma early_block_refused:
  "fst (dispatch_request index_env example_services (ksys 5 index_env) (kvm 5 index_env) 0 0
      (Rq_submit_block (block_after ''0'' ''a'' 1 6000)) fresh_node)
   = Inl (kexn timestamp_out_of_bounds_exception ''block timestamp is too far in the future'')"
  by code_simp


section \<open>A block that is accepted\<close>

text \<open>System calls that answer as for an empty block.\<close>

fun empty_block_calls :: "(index_db, multihash, example_module) sys" where
  "empty_block_calls (A_apply_block b) c = (Inr V_void, c\<lparr>ec_receipt := Block_receipt (empty_block_receipt\<lparr>br_id := blk_id b\<rparr>)\<rparr>)"
| "empty_block_calls A_get_last_irreversible_block c = (Inr (V_u64 0), c)"
| "empty_block_calls A_get_head_info c =
     (Inr (V_head_info \<lparr>hi_head_topology = \<lparr>bt_id = ''0'', bt_previous = [], bt_height = 0\<rparr>,
        hi_last_irreversible_block = 0, hi_head_block_time = 0\<rparr>), c)"
| "empty_block_calls _ c = (Inr V_void, c)"

lemma first_block_accepted:
  "(case fst (submit_block index_env example_services empty_block_calls (block_after ''0'' ''a'' 1 4000) 0 fresh_node) of
      Inr (Some r) \<Rightarrow> br_id r = ''a'' | _ \<Rightarrow> False)"
  by code_simp

lemma first_block_run:
  obtains r k' where
    "submit_block index_env example_services empty_block_calls (block_after ''0'' ''a'' 1 4000) 0 fresh_node = (Inr (Some r), k')"
proof -
  obtain x k' where run: "submit_block index_env example_services empty_block_calls (block_after ''0'' ''a'' 1 4000) 0 fresh_node
      = (x, k')" by fastforce
  with first_block_accepted obtain r where "x = Inr (Some r)"
    by (cases x rule: sum.exhaust) (auto split: option.splits)
  with run show thesis by (intro that) simp
qed



section \<open>A block whose parent cannot be read\<close>

text \<open>A second block, on a state without a compute bandwidth registry.\<close>

definition second_node :: index_ctl where
  "second_node = fresh_node\<lparr>ct_db := ([named ''0'' \<mapsto> True, named ''a'' \<mapsto> True], named ''a'')\<rparr>"

definition second_db :: index_db where
  "second_db = ([named ''0'' \<mapsto> True, named ''a'' \<mapsto> True, named ''b'' \<mapsto> False], named ''a'')"

lemma unreadable_head:
  "fst (parent_info index_env (ksys 1 index_env) (Some (named ''b'')) (named ''a'') (named ''a'') (second_node\<lparr>ct_db := second_db\<rparr>))
   = Inl (kexn reversion_exception ''compute bandwidth registry does not exist'')"
  by code_simp

theorem unreadable_parent_strands_block_witness:
  "\<exists>e k'. submit_block index_env example_services (ksys 1 index_env) (block_after ''a'' ''b'' 2 4000) 0 second_node = (Inl e, k')
     \<and> db_get_node index_env (ct_db k') (named ''b'') = Some (named ''b'')
     \<and> submit_block index_env example_services (ksys 1 index_env) (block_after ''a'' ''b'' 2 4000) 1 k' = (Inr None, k')"
proof -
  obtain e k' where run: "parent_info index_env (ksys 1 index_env) (Some (named ''b'')) (named ''a'') (named ''a'')
      (second_node\<lparr>ct_db := second_db\<rparr>) = (Inl e, k')"
    using unreadable_head by (cases "parent_info index_env (ksys 1 index_env) (Some (named ''b'')) (named ''a'') (named ''a'')
      (second_node\<lparr>ct_db := second_db\<rparr>)") auto
  have settled: "settled index_env (ct_db second_node)"
    by (auto simp: settled_def second_node_def split: if_splits)
  have valid: "validate_block (block_after ''a'' ''b'' 2 4000) second_node = (Inr (), second_node)"
    by (simp add: validate_block_def block_after_def Let_def assertE_def run_returnE)
  show ?thesis
    using unreadable_parent_strands_block [OF index_env_laws settled valid, of "named ''b''" "named ''a''" "named ''a''" "named ''b''" second_db 1 e k'
        example_services 0 1] run
    by (auto simp: block_after_def second_node_def second_db_def)
qed

section \<open>Requests on a full node\<close>

definition plain_services :: "(example_db, nat, unit) services" where
  "plain_services =
     \<lparr>sv_open = (\<lambda>_ _ _ d. Inr d), sv_reset = Inr, sv_close = (\<lambda>d. d), sv_genesis_bytes = (\<lambda>_. ''genesis''),
      sv_slice = (\<lambda>e. e), sv_from_hex = (\<lambda>_. Inr []), sv_base58 = (\<lambda>b. b), sv_sort = (\<lambda>fs. fs),
      sv_add_block = (\<lambda>s _ _. (Inr Store_add_block, s)), sv_check_pending = (\<lambda>s _ _ _. (Inr (Mempool_check True), s)),
      sv_broadcast = (\<lambda>s _ _. (Inr (), s))\<rparr>"

definition plain_node :: "(example_db, example_module, unit) ctl" where
  "plain_node = controller_new 1000 64 [example_state]"

definition plain_wire :: wire where
  "plain_wire = \<lparr>wr_request = (\<lambda>b. if b = ''head'' then Some Rq_get_head_info else None),
     wr_response = (\<lambda>r. case r of Rp_error m _ \<Rightarrow> m | _ \<Rightarrow> ''ok''), wr_block_accepted = (\<lambda>_. None)\<rparr>"

lemma plain_services_ok: "services_ok example_env plain_services"
  by (auto simp: services_ok_def service_error_def database_error_def plain_services_def example_env_def fatal_def memory_fault_def
      elim!: is_koinos.elims)

theorem queries_change_nothing_witness:
  "is_query (Rq_get_account_rc ''alice'')
   \<and> ct_sent (snd (dispatch_request example_env plain_services (ksys 5 example_env) (kvm 5 example_env) 0 0
        (Rq_get_account_rc ''alice'') plain_node)) = []"
  using queries_change_nothing [of "Rq_get_account_rc ''alice''" example_env plain_services 5 0 0 plain_node]
  by (simp add: Let_def plain_node_def controller_new_def)

theorem every_request_is_answered_witness:
  "case fst (rpc_handler example_env plain_services plain_wire (ksys 256 example_env) (kvm 256 example_env) 0 0 ''head'' plain_node) of
     Inr answer \<Rightarrow> \<exists>rp. answer = wr_response plain_wire rp
   | Inl e \<Rightarrow> \<exists>what. e = Undefined what"
  by (rule every_request_is_answered [OF example_libraries_ok plain_services_ok]) (simp add: stack_limit_def)

section \<open>Genesis\<close>

lemma example_root_store: "root_store example_env 0 (\<lambda>d. d \<noteq> [])"
  by (auto simp: root_store_def example_env_def example_put_def)

definition example_genesis :: genesis_data where
  "example_genesis =
     [\<lparr>ge_space = space_metadata example_env, ge_key = key_genesis_key example_env, ge_value = ''key''\<rparr>]"

theorem genesis_state_exact_witness:
  "\<exists>d'. genesis_init example_env plain_services example_genesis 0 [Map.empty] = (Inr (), d')
     \<and> node_get example_env d' 0 (space_metadata example_env) (key_genesis_key example_env) = Some ''key''
     \<and> node_get example_env d' 0 (space_metadata example_env) (key_chain_id example_env)
         = Some (genesis_chain_id example_env plain_services example_genesis)"
proof -
  obtain r d' where run: "genesis_init example_env plain_services example_genesis 0 [Map.empty] = (r, d')" by fastforce
  have keys: "key_genesis_key example_env \<noteq> key_chain_id example_env"
    by code_simp
  have "node_get example_env [Map.empty] 0 sp k = None" for sp k by (simp add: example_env_def)
  from genesis_state_exact [where d = "[Map.empty]" and S = plain_services and data = example_genesis,
      OF example_root_store _ this] run keys
  show ?thesis by (auto simp: example_genesis_def entry_at_def genesis_map_def)
qed

section \<open>Typed results\<close>

fun typed_ret :: "ret_type \<Rightarrow> bytes \<Rightarrow> sc_ret" where
  "typed_ret void_ret b = V_void"
| "typed_ret bool_ret b = V_bool (b \<noteq> [])"
| "typed_ret u64_ret b = V_u64 (of_nat (length b))"
| "typed_ret bytes_ret b = V_bytes b"
| "typed_ret head_info_ret b = V_head_info (v_head_info V_void)"
| "typed_ret transaction_ret b = V_transaction example_trx"
| "typed_ret block_ret b = V_block empty_block"
| "typed_ret value_ret b = V_value (Value_string b)"
| "typed_ret operation_ret b = V_operation Op_none"
| "typed_ret limits_ret b = V_limits empty_resource_limit_data"
| "typed_ret object_ret b = V_object empty_database_object"
| "typed_ret arguments_ret b = V_arguments 0 b"
| "typed_ret caller_ret b = V_caller b user_mode"

definition typed_env :: example_env where
  "typed_env = example_env\<lparr>parse_ret := (\<lambda>s. typed_ret (declared_ret s))\<rparr>"

lemma typed_env_parse: "type_of_ret (parse_ret typed_env s b) = declared_ret s"
  by (cases "declared_ret s") (simp_all add: typed_env_def)

lemma chain_id_answered:
  "case fst (ksys 4 typed_env A_get_chain_id (example_context Read_only)) of Inr _ \<Rightarrow> True | Inl _ \<Rightarrow> False"
  by code_simp


section \<open>Replaying one block\<close>

definition one_block :: block where
  "one_block = block_after ''0'' ''a'' 1 4000"

definition one_store :: store where
  "one_store =
     \<lparr>st_highest = Inr 1,
      st_blocks_by_height = (\<lambda>h n. Inr (map (\<lambda>_. one_block) [unat h ..< min (unat h + unat n) (Suc 1)]))\<rparr>"

abbreviation one_sources :: "block sources" where
  "one_sources \<equiv> node_sources index_env example_services empty_block_calls (\<lambda>_. 0) one_store fresh_node"

lemma one_head_height: "head_height index_env empty_block_calls fresh_node = Inr 0"
  by code_simp

lemma one_sources_serve: "serves one_sources (\<lambda>_. one_block) 0 1"
  by (simp add: serves_def node_sources_def Let_def one_head_height one_store_def)

lemma one_block_indexed:
  "case run_schedule one_sources requests_first (index indexer_new) of
     Some s \<Rightarrow> ix_outcomes s = [Completed True] | None \<Rightarrow> False"
  by code_simp

theorem indexing_replays_the_chain_witness:
  "\<exists>s. reachable one_sources s \<and> ix_submitted s = [one_block]
     \<and> (\<exists>r. fst (submit_block index_env example_services empty_block_calls one_block 0
               (snd (get_head_info index_env empty_block_calls fresh_node))) = Inr r)"
proof -
  obtain s where "run_schedule one_sources requests_first (index indexer_new) = Some s" "ix_outcomes s = [Completed True]"
    using one_block_indexed by (auto split: option.splits)
  then have s: "reachable one_sources s" "Completed True \<in> set (ix_outcomes s)"
    using run_schedule_reachable reachable.start by (blast, simp)
  from indexing_replays_the_chain [OF one_sources_serve s] s(1) show ?thesis by auto
qed

end
