(* ===== verification/Transaction_Requests.thy ===== *)
theory Transaction_Requests
  imports Submission_Props
begin

text \<open>
  What the submission of a transaction tells the other services: the question to the mempool before it
  is applied, and the broadcast afterwards.
\<close>

section \<open>Broadcasts\<close>

abbreviation kept :: "(string \<times> broadcast) list \<Rightarrow> bool \<Rightarrow> 'l \<times> ('d, 'w, 's) ctl \<Rightarrow> bool" where
  "kept t has lk \<equiv> ct_sent (snd lk) = t \<and> (ct_client (snd lk) \<noteq> None \<longleftrightarrow> has)"

abbreviation unsent :: "(string \<times> broadcast) list \<Rightarrow> exn \<Rightarrow> 'l \<times> ('d, 'w, 's) ctl \<Rightarrow> bool" where
  "unsent t e lk \<equiv> ct_sent (snd lk) = t"

lemma kept_in_ctx: "triple (kept t has) (in_ctx m) (\<lambda>_. kept t has) (unsent t)"
  by (auto simp: triple_def in_ctx_def split: prod.splits sum.splits)

lemma kept_silently: "silently m \<Longrightarrow> triple (kept t has) (outerE m) (\<lambda>_. kept t has) (unsent t)"
  by (fastforce simp: triple_def outerE_def same_chain_def silent_part_def dest: specD split: prod.splits sum.splits)

text \<open>The mempool said that the payer can pay.\<close>

definition mempool_agreed :: "('d, 'h, 's) services \<Rightarrow> transaction \<Rightarrow> bool" where
  "mempool_agreed S t \<longleftrightarrow>
     (\<exists>s max_payer_rc. fst (sv_check_pending S s (th_payer (trx_header t)) max_payer_rc (th_rc_limit (trx_header t)))
        = Inr (Mempool_check True))"

lemma check_pending_silent: "silently (check_pending S p m l)"
  unfolding check_pending_def
  by (intro silently_when_client silent.ch.spec_bindE silently_ask)
     (auto intro!: silent.ch.effect_rules split: mempool_reply.split)

lemma check_pending_agreed:
  assumes "check_pending S p m l k = (Inr u, k')" and "ct_client k \<noteq> None"
  shows "\<exists>s. fst (sv_check_pending S s p m l) = Inr (Mempool_check True)"
proof -
  obtain s where s: "ct_client k = Some s" using assms(2) by auto
  with assms(1) show ?thesis
    by (cases "sv_check_pending S s p m l")
       (auto simp: check_pending_def when_client_def ask_client_def bindE_def throwE_def assertE_def
          split: sum.splits mempool_reply.splits if_splits intro!: exI [of _ s])
qed

lemma mempool_triple:
  "triple (kept t has)
     (if broadcast then outerE (check_pending S (th_payer (trx_header x)) m (th_rc_limit (trx_header x))) else returnE ())
     (\<lambda>_ lk. kept t has lk \<and> (broadcast \<and> has \<longrightarrow> mempool_agreed S x)) (unsent t)"
proof (cases broadcast)
  case True
  have "triple (kept t has) (outerE (check_pending S (th_payer (trx_header x)) m (th_rc_limit (trx_header x))))
      (\<lambda>_. kept t has) (unsent t)"
    by (rule kept_silently [OF check_pending_silent])
  with True check_pending_agreed [of S "th_payer (trx_header x)" m "th_rc_limit (trx_header x)"] show ?thesis
    by (fastforce simp: triple_def outerE_def mempool_agreed_def split: prod.splits sum.splits)
next
  case False
  then show ?thesis by (simp add: triple_def returnE_def)
qed

text \<open>What is broadcast for a transaction with the given receipt.\<close>

definition told :: "(string \<times> broadcast) list \<Rightarrow> bool \<Rightarrow> transaction \<Rightarrow> transaction_receipt \<Rightarrow> (string \<times> broadcast) list \<Rightarrow> bool" where
  "told t announced x receipt t' \<longleftrightarrow>
     (if announced then \<exists>height. t' = t @ [(''koinos.transaction.accept'', Bc_transaction_accepted x receipt height)]
      else t' = t)"

lemma announce_transaction_triple:
  "triple (kept t has) (announce_transaction E S x receipt)
     (\<lambda>_ lk. told t True x receipt (ct_sent (snd lk))) (unsent t)"
proof -
  have "triple (kept t has) (outerE (send S ''koinos.transaction.accept'' (Bc_transaction_accepted x receipt height)))
      (\<lambda>_ lk. told t True x receipt (ct_sent (snd lk))) (unsent t)" for height
    by (auto simp: triple_def told_def send_def outerE_def thenE_def bindE_def ask_client_def modifyE_def
        split: prod.splits sum.splits option.splits)
  then show ?thesis
    unfolding announce_transaction_def by (intro triple_bindE [OF kept_in_ctx])
qed

lemma apply_submitted_triple:
  "triple (kept t has) (apply_submitted E S sc x broadcast)
     (\<lambda>receipt lk. told t (broadcast \<and> has) x receipt (ct_sent (snd lk)) \<and> (broadcast \<and> has \<longrightarrow> mempool_agreed S x)) (unsent t)"
proof -
  have agreed: "triple (\<lambda>lk. kept t has lk \<and> A) (in_ctx m) (\<lambda>_ lk. kept t has lk \<and> A) (unsent t)" for m A
    using kept_in_ctx [of t has m] by (cases A) (simp_all add: triple_def)
  have last: "triple (\<lambda>lk. kept t has lk \<and> (broadcast \<and> has \<longrightarrow> mempool_agreed S x))
      (bindE (outerE (getE (\<lambda>k. broadcast \<and> ct_client k \<noteq> None))) (\<lambda>bc.
       thenE (if bc then announce_transaction E S x receipt else returnE ()) (returnE receipt)))
      (\<lambda>receipt lk. told t (broadcast \<and> has) x receipt (ct_sent (snd lk)) \<and> (broadcast \<and> has \<longrightarrow> mempool_agreed S x))
      (unsent t)" for receipt
    using announce_transaction_triple [of t has E S x receipt]
    by (fastforce simp: triple_def bindE_def thenE_def outerE_def getE_def returnE_def told_def
        split: prod.splits sum.splits if_splits)
  show ?thesis
    unfolding apply_submitted_def
    by (intro triple_thenE [OF kept_in_ctx] triple_bindE [OF kept_in_ctx] triple_thenE [OF mempool_triple]
          triple_bindE [OF agreed] last)
qed

section \<open>The request\<close>

lemma validate_transaction_pure: "snd (validate_transaction x k) = k"
  by (auto simp: validate_transaction_def missing_def Let_def thenE_def bindE_def throwE_def returnE_def assertE_def
      split: option.splits if_splits)

lemma need_head_block_pure: "snd (need_head_block k) = k"
  by (auto simp: need_head_block_def bindE_def getE_def someE_def returnE_def throwE_def split: option.splits)

lemma submitted_triple:
  "triple (kept t has) (catchE is_koinos (apply_submitted E S sc x broadcast) transaction_failed)
     (\<lambda>receipt lk. told t (broadcast \<and> has) x receipt (ct_sent (snd lk)) \<and> (broadcast \<and> has \<longrightarrow> mempool_agreed S x)) (unsent t)"
  by (rule triple_catchE [OF apply_submitted_triple])
     (auto simp: triple_def transaction_failed_def getlE_def bindE_def throwE_def split: prod.splits)

text \<open>
  C22. Submitting a transaction says nothing to the other services unless it succeeds: a refusal leaves the
  list of broadcasts as it was. A success broadcasts exactly one koinos.transaction.accept, with the transaction and the
  receipt that is returned, when the caller asked for a broadcast and a message client is attached, and nothing
  otherwise; and in the first case the mempool had said that the payer can afford the transaction's limit.
\<close>

theorem submitted_transaction_is_announced_once:
  "case submit_transaction E S sc x broadcast k of
     (Inl e, k') \<Rightarrow> ct_sent k' = ct_sent k
   | (Inr receipt, k') \<Rightarrow>
       (if broadcast \<and> ct_client k \<noteq> None
        then mempool_agreed S x
          \<and> (\<exists>height. ct_sent k' = ct_sent k @ [(''koinos.transaction.accept'', Bc_transaction_accepted x receipt height)])
        else ct_sent k' = ct_sent k)"
proof -
  let ?Q = "\<lambda>receipt lk. told (ct_sent k) (broadcast \<and> ct_client k \<noteq> None) x receipt (ct_sent (snd lk))
      \<and> (broadcast \<and> ct_client k \<noteq> None \<longrightarrow> mempool_agreed S x)"
  have "triple (kept (ct_sent k) (ct_client k \<noteq> None))
      (thenE (in_ctx m) (catchE is_koinos (apply_submitted E S sc x broadcast) transaction_failed)) ?Q (unsent (ct_sent k))" for m
    by (rule triple_thenE [OF kept_in_ctx submitted_triple])
  then show ?thesis
    using validate_transaction_pure [of x k] need_head_block_pure [of k]
    by (fastforce simp: submit_transaction_def thenE_def bindE_def local_ctx_def localE_def triple_def told_def
        split: prod.splits sum.splits if_splits)
qed

end
