(* ===== verification/Node_Isolation.thy ===== *)
theory Node_Isolation
  imports Transaction_Requests
begin

text \<open>
  What is written where: system calls write to the current node of their context and to temporary nodes made
  on it, so that no request but the submission of a block changes the objects of a block's node.
\<close>

section \<open>Temporary nodes\<close>

text \<open>What the node knows of the chain: its head, and the objects of the node of every indexed block.\<close>

definition chain_view ::
  "('d, 'h, 'w) env \<Rightarrow> 'd \<Rightarrow> multihash \<times> (multihash \<rightharpoonup> (object_space \<Rightarrow> bytes \<Rightarrow> bytes option))" where
  "chain_view E d = (head_id E d, \<lambda>i. map_option (node_get E d) (db_get_node E d i))"

text \<open>A step that leaves the chain and the kinship of the temporary nodes alone.\<close>

definition beside_chain :: "('d, 'h, 'w) env \<Rightarrow> ('d \<Rightarrow> 'h \<Rightarrow> bool) \<Rightarrow> 'd \<Rightarrow> 'd \<Rightarrow> bool" where
  "beside_chain E tmp d d' \<longleftrightarrow>
     chain_view E d' = chain_view E d \<and> (\<forall>h. tmp d h \<longrightarrow> tmp d' h \<and> node_parent E d' h = node_parent E d h)"

text \<open>
  What the code relies on: an anonymous node is a new temporary node on the given one, writing to a
  temporary node is not seen in the nodes of blocks, and neither is committing one temporary node to another.
\<close>

definition temporary_laws :: "('d, 'h, 'w) env \<Rightarrow> ('d \<Rightarrow> 'h \<Rightarrow> bool) \<Rightarrow> bool" where
  "temporary_laws E tmp \<longleftrightarrow>
     (\<forall>d h h' d'. node_create_anonymous E d h = (h', d') \<longrightarrow>
        beside_chain E tmp d d' \<and> tmp d' h' \<and> node_parent E d' h' = Some h)
     \<and> (\<forall>d h sp key obj n d'. tmp d h \<longrightarrow> node_put E d h sp key obj = Inr (n, d') \<longrightarrow> beside_chain E tmp d d')
     \<and> (\<forall>d h sp key n d'. tmp d h \<longrightarrow> node_remove E d h sp key = Inr (n, d') \<longrightarrow> beside_chain E tmp d d')
     \<and> (\<forall>d h p d'. tmp d h \<longrightarrow> node_parent E d h = Some p \<longrightarrow> tmp d p \<longrightarrow> node_commit E d h = Inr d' \<longrightarrow>
          beside_chain E tmp d d')"

lemma temporary_create:
  "temporary_laws E tmp \<Longrightarrow> node_create_anonymous E d h = (h', d') \<Longrightarrow>
     beside_chain E tmp d d' \<and> tmp d' h' \<and> node_parent E d' h' = Some h"
  by (simp add: temporary_laws_def)

definition on_temporary :: "('d, 'h, 'w) env \<Rightarrow> ('d \<Rightarrow> 'h \<Rightarrow> bool) \<Rightarrow> 'd \<Rightarrow> 'h \<Rightarrow> bool" where
  "on_temporary E tmp d h \<longleftrightarrow> tmp d h \<and> (\<exists>p. node_parent E d h = Some p \<and> tmp d p)"

lemma temporary_step:
  assumes "temporary_laws E tmp" and "write_step E tmp (on_temporary E tmp) d d'"
  shows "beside_chain E tmp d d'"
  using assms(2) unfolding write_step_def
proof (elim disjE exE conjE)
  fix h h' assume "node_create_anonymous E d h = (h', d')"
  with temporary_create [OF assms(1)] show ?thesis by blast
next
  fix h assume "on_temporary E tmp d h" "node_commit E d h = Inr d'"
  with assms(1) show ?thesis unfolding temporary_laws_def on_temporary_def by blast
qed (use assms(1) in \<open>unfold temporary_laws_def, blast\<close>)+

lemma beside_chain_refl: "beside_chain E tmp d d"
  by (simp add: beside_chain_def)

lemma beside_chain_trans: "beside_chain E tmp d d' \<Longrightarrow> beside_chain E tmp d' d'' \<Longrightarrow> beside_chain E tmp d d''"
  by (auto simp: beside_chain_def)

lemma beside_chain_tmp: "beside_chain E tmp d d' \<Longrightarrow> tmp d h \<Longrightarrow> tmp d' h"
  by (simp add: beside_chain_def)

lemma beside_chain_on: "beside_chain E tmp d d' \<Longrightarrow> on_temporary E tmp d h \<Longrightarrow> on_temporary E tmp d' h"
  by (auto simp: beside_chain_def on_temporary_def)

section \<open>System calls\<close>

text \<open>The current node, if there is one, is temporary.\<close>

definition on_scratch :: "('d \<Rightarrow> 'h \<Rightarrow> bool) \<Rightarrow> ('d, 'h, 'w) ctx \<Rightarrow> bool" where
  "on_scratch tmp c \<longleftrightarrow> (\<forall>h. ec_current_state_node c = Some h \<longrightarrow> tmp (ec_db c) h)"

definition scratch_rel :: "('d, 'h, 'w) env \<Rightarrow> ('d \<Rightarrow> 'h \<Rightarrow> bool) \<Rightarrow> ('d, 'h, 'w) ctx \<Rightarrow> ('d, 'h, 'w) ctx \<Rightarrow> bool" where
  "scratch_rel E tmp c c' \<longleftrightarrow>
     ec_intent c' = ec_intent c \<and> beside_chain E tmp (ec_db c) (ec_db c') \<and> on_scratch tmp c'"

lemma scratch_effect:
  fixes E :: "('d, 'h, 'w) env"
  assumes "temporary_laws E tmp"
  shows "flat_effect (on_scratch tmp) (scratch_rel E tmp) (\<lambda>_. True) E tmp (on_temporary E tmp)"
proof unfold_locales
  fix c :: "('d, 'h, 'w) ctx" and d assume "on_scratch tmp c" "write_step E tmp (on_temporary E tmp) (ec_db c) d"
  with temporary_step [OF assms] show "scratch_rel E tmp c (c\<lparr>ec_db := d\<rparr>)"
    by (auto simp: scratch_rel_def on_scratch_def dest: beside_chain_tmp)
next
  fix d h h' d' assume h: "tmp d h" "node_create_anonymous E d h = (h', d')"
  from temporary_create [OF assms h(2)] h(1) show "tmp d' h' \<and> on_temporary E tmp d' h'"
    by (auto simp: on_temporary_def dest: beside_chain_tmp)
qed (auto simp: scratch_rel_def on_scratch_def bookkeeping_simps ledger_step_def set_state_node_def beside_chain_refl
      intro: beside_chain_trans dest: beside_chain_tmp beside_chain_on)

section \<open>Submitting a transaction\<close>

abbreviation scratching ::
  "('d, 'h, 'w) env \<Rightarrow> ('d \<Rightarrow> 'h \<Rightarrow> bool) \<Rightarrow> 'd \<Rightarrow> ('d, 'h, 'w) ctx \<times> ('d, 'w, 's) ctl \<Rightarrow> bool" where
  "scratching E tmp d lk \<equiv> in_step (on_scratch tmp) lk \<and> beside_chain E tmp d (ct_db (snd lk))"

abbreviation keeps_scratch ::
  "('d, 'h, 'w) env \<Rightarrow> ('d \<Rightarrow> 'h \<Rightarrow> bool) \<Rightarrow> 'd \<Rightarrow> ('d, 'h, 'w, 's, 'a) xrun \<Rightarrow> bool" where
  "keeps_scratch E tmp d m \<equiv> spec (scratching E tmp d) (\<lambda>_. scratching E tmp d) (\<lambda>_. True) m"

interpretation scratch: effect "scratching E tmp d" "\<lambda>_. scratching E tmp d" "\<lambda>_. True"
  for E :: "('d, 'h, 'w) env" and tmp d
  by unfold_locales

lemma scratch_in_ctx: "spec (on_scratch tmp) (scratch_rel E tmp) (\<lambda>_. True) m \<Longrightarrow> keeps_scratch E tmp d (in_ctx m)"
  by (rule specI)
     (auto simp: in_ctx_def in_step_def scratch_rel_def on_scratch_def split: prod.splits dest!: specD intro: beside_chain_trans)

lemma scratch_outer:
  assumes "\<And>k r k'. m k = (r, k') \<Longrightarrow> ct_db k' = ct_db k"
  shows "keeps_scratch E tmp d (outerE m)"
  by (rule specI) (auto simp: outerE_def in_step_def on_scratch_def split: prod.splits dest!: assms)

lemma client_keeps_db:
  "check_pending S p m l k = (r, k') \<Longrightarrow> ct_db k' = ct_db k" "send S topic b k = (u, k') \<Longrightarrow> ct_db k' = ct_db k"
  "getE f k = (v, k') \<Longrightarrow> ct_db k' = ct_db k"
  by (auto simp: check_pending_def send_def when_client_def ask_client_def bindE_def thenE_def throwE_def returnE_def
      assertE_def modifyE_def getE_def split: option.splits prod.splits sum.splits mempool_reply.splits if_splits)

lemmas scratch_client = client_keeps_db [THEN scratch_outer]

lemma scratch_anonymous:
  fixes E :: "('d, 'h, 'w) env"
  assumes "temporary_laws E tmp"
  shows "spec (on_scratch tmp) (scratch_rel E tmp) X (set_anonymous E pick)"
proof (rule specI)
  fix c :: "('d, 'h, 'w) ctx" and r c' assume c: "on_scratch tmp c" and run: "set_anonymous E pick c = (r, c')"
  obtain h d where hd: "node_create_anonymous E (ec_db c) (pick (ec_db c)) = (h, d)" by fastforce
  have "c' = set_state_node E (Some h) None (c\<lparr>ec_db := d\<rparr>)" "r = Inr ()"
    using run hd by (auto simp: set_anonymous_def anonymous_of_def bindE_def modifyE_def)
  with temporary_create [OF assms hd] show "scratch_rel E tmp c c' \<and> (\<forall>e. r = Inl e \<longrightarrow> X e)"
    by (simp add: scratch_rel_def on_scratch_def set_state_node_def)
qed

lemma submitted_beside_chain:
  fixes E :: "('d, 'h, 'w) env"
  assumes "temporary_laws E tmp"
  shows "keeps_scratch E tmp d (apply_submitted E S (ksys n E) t broadcast)"
proof -
  note fe = scratch_effect [OF assms]
  have e: "effect (on_scratch tmp) (scratch_rel E tmp)" using fe by (simp add: flat_effect_def)
  note sys = flat_effect.flat_sys [OF fe, of n]
  have housekeeping: "spec (on_scratch tmp) (scratch_rel E tmp) (\<lambda>_. True) (modifyE reset_cache)"
      "spec (on_scratch tmp) (scratch_rel E tmp) (\<lambda>_. True) (modifyE (set_limits rl))" for rl
    by (rule effect.spec_modifyE [OF e],
        simp add: scratch_rel_def on_scratch_def reset_cache_def set_limits_def beside_chain_refl)+
  have receipt: "spec (on_scratch tmp) (scratch_rel E tmp) (\<lambda>_. True)
      (case r of Transaction_receipt tr \<Rightarrow> returnE tr | _ \<Rightarrow> throwE x)" for r x
    by (cases r) (simp_all add: effect.effect_rules [OF e])
  show ?thesis
    unfolding apply_submitted_def announce_transaction_def
    by (intro scratch.effect_rules scratch_in_ctx scratch_client effect.effect_rules [OF e]
          sys housekeeping receipt TrueI)
qed

lemma scratch_local_ctx:
  fixes E :: "('d, 'h, 'w) env"
  assumes "keeps_scratch E tmp (ct_db k) m"
  shows "beside_chain E tmp (ct_db k) (ct_db (snd (local_ctx i m k)))"
proof -
  obtain r x k' where run: "m (execution_context_new (ct_vm k) (ct_db k) i, k) = (r, (x, k'))" by (metis surj_pair)
  have "scratching E tmp (ct_db k) (execution_context_new (ct_vm k) (ct_db k) i, k)"
    by (simp add: in_step_def on_scratch_def execution_context_new_def beside_chain_refl)
  from specD [OF assms this run] run show ?thesis by (simp add: local_ctx_def localE_def)
qed

lemma submission_beside_chain:
  fixes E :: "('d, 'h, 'w) env"
  assumes "temporary_laws E tmp"
  shows "beside_chain E tmp (ct_db k) (ct_db (snd (submit_transaction E S (ksys n E) t broadcast k)))"
proof -
  note fe = scratch_effect [OF assms]
  have e: "effect (on_scratch tmp) (scratch_rel E tmp)" using fe by (simp add: flat_effect_def)
  have block: "spec (on_scratch tmp) (scratch_rel E tmp) (\<lambda>_. True) (modifyE (set_block b))" for b
    by (rule effect.spec_modifyE [OF e]) (simp add: scratch_rel_def on_scratch_def set_block_def beside_chain_refl)
  have failed: "keeps_scratch E tmp (ct_db k) (transaction_failed x)" for x
    by (auto simp: spec_def transaction_failed_def bindE_def getlE_def throwE_def split: prod.splits)
  let ?m = "\<lambda>b. thenE (in_ctx (thenE (modifyE (set_block b)) (thenE (set_anonymous E (db_get_head E))
      (push_frame (root_frame [] kernel_mode))))) (catchE is_koinos (apply_submitted E S (ksys n E) t broadcast) transaction_failed)"
  have body: "keeps_scratch E tmp (ct_db k) (?m b)" for b
    by (intro scratch.spec_thenE scratch.spec_catchE scratch_in_ctx effect.spec_thenE [OF e] block scratch_anonymous
          flat_effect.flat_push [OF fe] submitted_beside_chain failed assms)
  note scratch_local_ctx [OF body, of Transaction_application]
  moreover note validate_transaction_pure [of t k] need_head_block_pure [of k]
  ultimately show ?thesis
    by (auto simp: submit_transaction_def thenE_def bindE_def beside_chain_refl split: prod.splits sum.splits)
qed

section \<open>Requests\<close>

lemma queries_beside_chain:
  assumes "temporary_laws E tmp" and "(anonymous_step E)\<^sup>*\<^sup>* d d'"
  shows "beside_chain E tmp d d'"
  using assms(2)
  by induction (auto simp: beside_chain_refl anonymous_step_def intro: beside_chain_trans dest: temporary_create [OF assms(1)])

fun is_block_submission :: "chain_request \<Rightarrow> bool" where
  "is_block_submission (Rq_submit_block _) = True"
| "is_block_submission _ = False"

text \<open>
  C7. Only blocks change the chain.  Whatever request is served other than the submission of a block, a
  transaction that is applied and succeeds included, and whether it succeeds or fails, the head of the database, the
  indexed blocks and every object of every block's node are afterwards what they were before: contracts run on
  temporary nodes only.
\<close>

theorem only_blocks_change_the_chain:
  assumes "temporary_laws E tmp" and "\<not> is_block_submission rq"
  shows "chain_view E (ct_db (snd (dispatch_request E S (ksys n E) (kvm n E) now junk rq k))) = chain_view E (ct_db k)"
proof -
  have "beside_chain E tmp (ct_db k) (ct_db (snd (dispatch_request E S (ksys n E) (kvm n E) now junk rq k)))"
  proof (cases "is_query rq")
    case True
    from query_spec [OF this, of E S n now junk] show ?thesis
      by (intro queries_beside_chain [OF assms(1)]) (simp add: spec_def same_chain_def)
  next
    case False
    with assms(2) obtain t b where rq: "rq = Rq_submit_transaction t b" by (cases rq) auto
    have "snd (dispatch_request E S (ksys n E) (kvm n E) now junk rq k) = snd (submit_transaction E S (ksys n E) t b k)"
      by (simp add: rq yield_def bindE_def returnE_def split: prod.splits sum.splits)
    with submission_beside_chain [OF assms(1)] show ?thesis by simp
  qed
  then show ?thesis by (simp add: beside_chain_def)
qed

end
