(* ===== verification/Example_Branches.thy ===== *)
theory Example_Branches
  imports Node_Isolation
begin

text \<open>
  A small state database with temporary nodes, on which the laws of \<^theory_text>\<open>Node_Isolation\<close> hold: the node of a
  block has its objects, and a temporary node has its parent and what was changed on it.
\<close>

type_synonym object_key = "object_space \<times> bytes"

datatype branch_handle = Block_node multihash | Temporary nat

record branch_db =
  bd_blocks :: "multihash \<rightharpoonup> (object_key \<rightharpoonup> bytes)"
  bd_head :: multihash
  bd_temporaries :: "(branch_handle \<times> (object_key \<rightharpoonup> bytes option)) list"

text \<open>Reading goes down the temporary nodes to the node of a block; there are no more than that many.\<close>

fun branch_lookup :: "nat \<Rightarrow> branch_db \<Rightarrow> branch_handle \<Rightarrow> object_key \<Rightarrow> bytes option" where
  "branch_lookup n d (Block_node i) key = (case bd_blocks d i of None \<Rightarrow> None | Some objects \<Rightarrow> objects key)"
| "branch_lookup 0 d (Temporary t) key = None"
| "branch_lookup (Suc n) d (Temporary t) key =
     (if t < length (bd_temporaries d)
      then (case snd (bd_temporaries d ! t) key of
          Some changed \<Rightarrow> changed
        | None \<Rightarrow> branch_lookup n d (fst (bd_temporaries d ! t)) key)
      else None)"

definition branch_get :: "branch_db \<Rightarrow> branch_handle \<Rightarrow> object_space \<Rightarrow> bytes \<Rightarrow> bytes option" where
  "branch_get d h sp key = branch_lookup (Suc (length (bd_temporaries d))) d h (sp, key)"

fun overwrite :: "branch_handle \<Rightarrow> object_key \<Rightarrow> bytes option \<Rightarrow> branch_db \<Rightarrow> branch_db" where
  "overwrite (Block_node i) key v d =
     d\<lparr>bd_blocks := (bd_blocks d)(i := map_option (\<lambda>objects. objects(key := v)) (bd_blocks d i))\<rparr>"
| "overwrite (Temporary t) key v d =
     d\<lparr>bd_temporaries := (bd_temporaries d)[t := map_prod (\<lambda>p. p) (\<lambda>changed. changed(key \<mapsto> v)) (bd_temporaries d ! t)]\<rparr>"

fun branch_parent :: "branch_db \<Rightarrow> branch_handle \<Rightarrow> branch_handle option" where
  "branch_parent d (Block_node i) = None"
| "branch_parent d (Temporary t) = (if t < length (bd_temporaries d) then Some (fst (bd_temporaries d ! t)) else None)"

definition branch_fork :: "branch_db \<Rightarrow> branch_handle \<Rightarrow> branch_handle \<times> branch_db" where
  "branch_fork d h =
     (Temporary (length (bd_temporaries d)), d\<lparr>bd_temporaries := bd_temporaries d @ [(h, Map.empty)]\<rparr>)"

text \<open>Committing a temporary node makes its changes on its parent.\<close>

definition apply_changes :: "(object_key \<rightharpoonup> bytes option) \<Rightarrow> branch_handle \<Rightarrow> branch_db \<Rightarrow> branch_db" where
  "apply_changes changed h d =
     (case h of
        Block_node i \<Rightarrow> d\<lparr>bd_blocks := (bd_blocks d)(i := map_option
          (\<lambda>objects key. case changed key of Some v \<Rightarrow> v | None \<Rightarrow> objects key) (bd_blocks d i))\<rparr>
      | Temporary t \<Rightarrow> d\<lparr>bd_temporaries :=
          (bd_temporaries d)[t := map_prod (\<lambda>p. p) (\<lambda>before. before ++ changed) (bd_temporaries d ! t)]\<rparr>)"

definition branch_commit :: "branch_handle \<Rightarrow> branch_db \<Rightarrow> branch_db" where
  "branch_commit h d =
     (case h of
        Temporary t \<Rightarrow> if t < length (bd_temporaries d)
          then apply_changes (snd (bd_temporaries d ! t)) (fst (bd_temporaries d ! t)) d else d
      | Block_node i \<Rightarrow> d)"

definition branch_env :: "(branch_db, branch_handle, example_module) env" where
  "branch_env =
     \<lparr>err_code = err_code example_env, reversion = reversion example_env, failure = failure example_env,
      render = render example_env, to_int64 = to_int64 example_env, syscall_num = syscall_num example_env,
      syscall_name = syscall_name example_env, syscall_parse = syscall_parse example_env,
      space_num = space_num example_env, codec_num = codec_num example_env, as_string = as_string example_env,
      block_byte_size = block_byte_size example_env, transaction_byte_size = transaction_byte_size example_env,
      parse_args = parse_args example_env, parse_ret = parse_ret example_env,
      to_contract_metadata = to_contract_metadata example_env,
      to_system_call_target = to_system_call_target example_env, to_value = to_value example_env,
      to_block = to_block example_env, to_max_account_resources = to_max_account_resources example_env,
      to_resource_limit_data = to_resource_limit_data example_env,
      to_compute_registry = to_compute_registry example_env, to_unsigned_varint = to_unsigned_varint example_env,
      to_authorize_result = to_authorize_result example_env, parse_descriptors = parse_descriptors example_env,
      reflect = reflect example_env, pb_transaction = pb_transaction example_env, pb_block = pb_block example_env,
      utf_decode = utf_decode example_env, crypto_hash = crypto_hash example_env,
      to_multihash = to_multihash example_env, mh_is_zero = mh_is_zero example_env,
      sig_is_canonical = sig_is_canonical example_env, recover_key = recover_key example_env,
      key_valid = key_valid example_env, key_compressed = key_compressed example_env,
      key_uncompressed = key_uncompressed example_env, to_public_key = to_public_key example_env,
      key_address = key_address example_env, merkle_root_hash = merkle_root_hash example_env,
      verify_random_proof = verify_random_proof example_env, node_get = branch_get,
      node_put = (\<lambda>d h sp key obj. Inr (0, overwrite h (sp, key) (Some obj) d)),
      node_remove = (\<lambda>d h sp key. Inr (0, overwrite h (sp, key) None d)),
      node_next = (\<lambda>_ _ _ _. None), node_prev = (\<lambda>_ _ _ _. None),
      node_id = (\<lambda>d h. case h of Block_node i \<Rightarrow> i | Temporary n \<Rightarrow> bd_head d), node_parent_id = (\<lambda>d h. bd_head d),
      node_revision = (\<lambda>_ _. 0), node_parent = branch_parent, node_delta_entries = (\<lambda>_ _. []),
      node_merkle_root = (\<lambda>d h. bd_head d), node_is_finalized = (\<lambda>_ _. True), node_create_anonymous = branch_fork,
      node_commit = (\<lambda>d h. Inr (branch_commit h d)), db_get_node = (\<lambda>d i. map_option (\<lambda>_. Block_node i) (bd_blocks d i)),
      db_get_root = (\<lambda>d. Block_node (bd_head d)), db_get_head = (\<lambda>d. Block_node (bd_head d)),
      db_get_fork_heads = (\<lambda>d. [Block_node (bd_head d)]), db_get_node_at_revision = (\<lambda>d _ _. Inr (Block_node (bd_head d))),
      db_create_writable_node = (\<lambda>d p i _. (Some (Block_node i), d\<lparr>bd_blocks := (bd_blocks d)(i \<mapsto> Map.empty)\<rparr>)),
      db_finalize_node = (\<lambda>d i. Inr (d\<lparr>bd_head := i\<rparr>)), db_commit_node = (\<lambda>d _. Inr d),
      db_discard_node = (\<lambda>d i. d\<lparr>bd_blocks := (bd_blocks d)(i := None)\<rparr>), fizzy_parse = fizzy_parse example_env,
      fizzy_instantiate = fizzy_instantiate example_env, fizzy_create_context = fizzy_create_context example_env,
      fizzy_has_start = fizzy_has_start example_env, fizzy_execute = fizzy_execute example_env\<rparr>"

definition branch_temporary :: "branch_db \<Rightarrow> branch_handle \<Rightarrow> bool" where
  "branch_temporary d h \<longleftrightarrow> (case h of Temporary t \<Rightarrow> t < length (bd_temporaries d) | Block_node i \<Rightarrow> False)"

lemma branch_env_db:
  "node_get branch_env = branch_get" "node_put branch_env d h sp key obj = Inr (0, overwrite h (sp, key) (Some obj) d)"
  "node_remove branch_env d h sp key = Inr (0, overwrite h (sp, key) None d)"
  "node_parent branch_env = branch_parent" "node_create_anonymous branch_env = branch_fork"
  "node_commit branch_env d h = Inr (branch_commit h d)"
  "db_get_node branch_env d i = map_option (\<lambda>_. Block_node i) (bd_blocks d i)" "head_id branch_env d = bd_head d"
  by (simp_all add: branch_env_def head_id_def)

lemma branch_view:
  "chain_view branch_env d = (bd_head d, \<lambda>i. map_option (\<lambda>objects sp key. objects (sp, key)) (bd_blocks d i))"
proof -
  have "map_option (branch_get d) (map_option (\<lambda>_. Block_node i) (bd_blocks d i)) =
      map_option (\<lambda>objects sp key. objects (sp, key)) (bd_blocks d i)" for i
    by (cases "bd_blocks d i") (simp_all add: branch_get_def fun_eq_iff)
  then show ?thesis by (simp add: chain_view_def branch_env_db)
qed

lemma branch_beside:
  assumes "bd_head d' = bd_head d" "bd_blocks d' = bd_blocks d" "map fst (bd_temporaries d') = map fst (bd_temporaries d) @ new"
  shows "beside_chain branch_env branch_temporary d d'"
proof -
  from arg_cong [OF assms(3), of length] have "length (bd_temporaries d) \<le> length (bd_temporaries d')" by simp
  moreover have "fst (bd_temporaries d' ! t) = fst (bd_temporaries d ! t)" if "t < length (bd_temporaries d)" for t
    using arg_cong [OF assms(3), of "\<lambda>ps. ps ! t"] that calculation by (simp add: nth_append)
  ultimately show ?thesis
    using assms by (auto simp: beside_chain_def branch_view branch_temporary_def branch_env_db split: branch_handle.splits)
qed

lemma overwrite_beside:
  "branch_temporary d h \<Longrightarrow> beside_chain branch_env branch_temporary d (overwrite h key v d)"
  by (rule branch_beside [where new = "[]"])
     (auto simp: branch_temporary_def map_update list_update_same_conv nth_map split: branch_handle.splits)

lemma branch_laws: "temporary_laws branch_env branch_temporary"
proof -
  have "beside_chain branch_env branch_temporary d (branch_commit h d)"
    if "branch_temporary d h" "branch_parent d h = Some p" "branch_temporary d p" for d h p
    by (rule branch_beside [where new = "[]"])
       (use that in \<open>auto simp: branch_temporary_def branch_commit_def apply_changes_def map_update list_update_same_conv
          split: branch_handle.splits if_splits\<close>)
  moreover have "beside_chain branch_env branch_temporary d (snd (branch_fork d h))" for d h
    by (rule branch_beside [where new = "[h]"]) (simp_all add: branch_fork_def)
  ultimately show ?thesis
    by (auto simp: temporary_laws_def branch_env_db overwrite_beside branch_temporary_def branch_fork_def nth_append)
qed

definition branch_services :: "(branch_db, branch_handle, unit) services" where
  "branch_services =
     \<lparr>sv_open = (\<lambda>_ _ _ d. Inr d), sv_reset = Inr, sv_close = (\<lambda>d. d), sv_genesis_bytes = (\<lambda>_. ''genesis''),
      sv_slice = (\<lambda>e. e), sv_from_hex = (\<lambda>_. Inr []), sv_base58 = (\<lambda>b. b), sv_sort = (\<lambda>fs. fs),
      sv_add_block = (\<lambda>s _ _. (Inr Store_add_block, s)), sv_check_pending = (\<lambda>s _ _ _. (Inr (Mempool_check True), s)),
      sv_broadcast = (\<lambda>s _ _. (Inr (), s))\<rparr>"

definition branch_node :: "(branch_db, example_module, unit) ctl" where
  "branch_node =
     (controller_new 1000 64 \<lparr>bd_blocks = [\<lparr>mh_code = 18, mh_digest = ''0''\<rparr> \<mapsto> Map.empty], bd_head = \<lparr>mh_code = 18, mh_digest = ''0''\<rparr>, bd_temporaries = []\<rparr>)
       \<lparr>ct_client := Some (), ct_cached_head_block := Some (empty_block\<lparr>blk_id := ''0''\<rparr>)\<rparr>"

theorem only_blocks_change_the_chain_witness:
  "chain_view branch_env (ct_db (snd (dispatch_request branch_env branch_services (ksys 256 branch_env) (kvm 256 branch_env)
     0 0 (Rq_submit_transaction example_trx True) branch_node))) = chain_view branch_env (ct_db branch_node)"
  by (rule only_blocks_change_the_chain [OF branch_laws]) simp

end
