(* ===== verification/Arg_Packing.thy ===== *)
theory Arg_Packing
  imports World
begin

text \<open>
  How the arguments of a system call travel through its argument message:
  \<^verbatim>\<open>thunk_utils.hpp\<close> packs them field by field (\<open>set_message_field\<close>, one overload per C++ type),
  \<^verbatim>\<open>thunk_dispatcher.hpp\<close> takes them out again as a tuple (\<open>message_to_tuple\<close>), choosing by the
  descriptor of the field and casting to the type of the parameter.  The rest of the development
  uses typed argument messages (\<open>sc_args\<close>); what is shown here is that they are a faithful
  representation.

  Protobuf's reflection is a parameter: \<open>message_reflection\<close> has the setters, adders and getters,
  indexed by the type they are for, failing where protobuf aborts.  \<open>'m\<close> is the type of argument
  messages and \<open>'n\<close> that of the messages nested in them.
\<close>

section \<open>Values, fields and reflection\<close>

datatype cpp_type =
    CPPTYPE_INT64 | CPPTYPE_UINT64 | CPPTYPE_INT32 | CPPTYPE_UINT32 | CPPTYPE_BOOL | CPPTYPE_STRING
  | CPPTYPE_MESSAGE | CPPTYPE_ENUM | CPPTYPE_FLOAT | CPPTYPE_DOUBLE

datatype 'n scalar =
    S_int64 i64 | S_uint64 u64 | S_int32 u32 | S_uint32 u32 | S_bool bool | S_string bytes
  | S_message 'n | S_enum u32 | S_float u32 | S_double u64

fun scalar_type :: "'n scalar \<Rightarrow> cpp_type" where
  "scalar_type (S_int64 _) = CPPTYPE_INT64"
| "scalar_type (S_uint64 _) = CPPTYPE_UINT64"
| "scalar_type (S_int32 _) = CPPTYPE_INT32"
| "scalar_type (S_uint32 _) = CPPTYPE_UINT32"
| "scalar_type (S_bool _) = CPPTYPE_BOOL"
| "scalar_type (S_string _) = CPPTYPE_STRING"
| "scalar_type (S_message _) = CPPTYPE_MESSAGE"
| "scalar_type (S_enum _) = CPPTYPE_ENUM"
| "scalar_type (S_float _) = CPPTYPE_FLOAT"
| "scalar_type (S_double _) = CPPTYPE_DOUBLE"

record field_descriptor =
  fd_number :: int
  fd_cpp_type :: cpp_type
  fd_repeated :: bool

record ('m, 'n) message_reflection =
  mr_fields :: "'m \<Rightarrow> field_descriptor list"
  mr_set :: "'m \<Rightarrow> int \<Rightarrow> 'n scalar \<Rightarrow> exn + 'm"
  mr_add :: "'m \<Rightarrow> int \<Rightarrow> 'n scalar \<Rightarrow> exn + 'm"
  mr_get :: "cpp_type \<Rightarrow> 'm \<Rightarrow> int \<Rightarrow> exn + 'n scalar"
  mr_size :: "'m \<Rightarrow> int \<Rightarrow> nat"
  mr_get_repeated :: "cpp_type \<Rightarrow> 'm \<Rightarrow> int \<Rightarrow> nat \<Rightarrow> exn + 'n scalar"

definition FindFieldByNumber :: "('m, 'n) message_reflection \<Rightarrow> 'm \<Rightarrow> int \<Rightarrow> field_descriptor option" where
  "FindFieldByNumber R m i = find (\<lambda>f. fd_number f = i) (mr_fields R m)"

text \<open>The type of a parameter: \<open>T\<close> or \<open>std::vector< T >\<close>.\<close>

datatype arg_type = One_t cpp_type | Many_t cpp_type

datatype 'n arg = One "'n scalar" | Many cpp_type "'n scalar list"

fun type_of_arg :: "'n arg \<Rightarrow> arg_type" where
  "type_of_arg (One s) = One_t (scalar_type s)"
| "type_of_arg (Many t _) = Many_t t"

section \<open>Packing\<close>

text \<open>
  An enumeration is passed to the overload for \<open>int32_t\<close>.  The overloads for signed integers look
  whether the field is an enumeration.
\<close>

fun set_scalar_field ::
  "('m, 'n) message_reflection \<Rightarrow> 'm \<Rightarrow> field_descriptor \<Rightarrow> 'n scalar \<Rightarrow> exn + 'm" where
  "set_scalar_field R m f (S_int64 v) =
     mr_set R m (fd_number f) (if fd_cpp_type f = CPPTYPE_ENUM then S_enum (ucast v) else S_int64 v)"
| "set_scalar_field R m f (S_int32 v) =
     mr_set R m (fd_number f) (if fd_cpp_type f = CPPTYPE_ENUM then S_enum v else S_int32 v)"
| "set_scalar_field R m f (S_enum v) =
     mr_set R m (fd_number f) (if fd_cpp_type f = CPPTYPE_ENUM then S_enum v else S_int32 v)"
| "set_scalar_field R m f s = mr_set R m (fd_number f) s"

fun as_enum :: "'n scalar \<Rightarrow> 'n scalar" where
  "as_enum (S_int32 v) = S_enum v"
| "as_enum s = s"

fun add_all :: "('m, 'n) message_reflection \<Rightarrow> int \<Rightarrow> 'n scalar list \<Rightarrow> 'm \<Rightarrow> exn + 'm" where
  "add_all R i [] m = Inr m"
| "add_all R i (v # vs) m = (case mr_add R m i v of Inl e \<Rightarrow> Inl e | Inr m' \<Rightarrow> add_all R i vs m')"

definition set_message_field :: "('m, 'n) message_reflection \<Rightarrow> 'm \<Rightarrow> int \<Rightarrow> 'n arg \<Rightarrow> exn + 'm" where
  "set_message_field R m i a =
     (case FindFieldByNumber R m i of
        None \<Rightarrow> Inl (Undefined ''null field descriptor'')
      | Some f \<Rightarrow>
          (case a of
             One s \<Rightarrow> set_scalar_field R m f s
           | Many t vs \<Rightarrow>
               add_all R (fd_number f)
                 (if t = CPPTYPE_INT32 \<and> fd_cpp_type f = CPPTYPE_ENUM then map as_enum vs else vs) m))"

fun arg_pack :: "('m, 'n) message_reflection \<Rightarrow> int \<Rightarrow> 'n arg list \<Rightarrow> 'm \<Rightarrow> exn + 'm" where
  "arg_pack R i [] m = Inr m"
| "arg_pack R i (a # as) m =
     (case set_message_field R m i a of Inl e \<Rightarrow> Inl e | Inr m' \<Rightarrow> arg_pack R (i + 1) as m')"

section \<open>Unpacking\<close>

text \<open>What a \<open>std::any\<close> holds: a value, a vector of an element type, or nothing.\<close>

datatype 'n any_value = Any_one "'n scalar" | Any_many cpp_type "'n scalar list" | Any_empty

definition bad_any_cast :: exn where
  "bad_any_cast = StdExn ''std::bad_any_cast''"

text \<open>\<open>GetEnumValue\<close> yields an \<open>int\<close>, which is the type \<open>int32_t\<close>.\<close>

fun as_int :: "'n scalar \<Rightarrow> 'n scalar" where
  "as_int (S_enum v) = S_int32 v"
| "as_int s = s"

definition get_type_from_field_impl ::
  "('m, 'n) message_reflection \<Rightarrow> 'm \<Rightarrow> field_descriptor \<Rightarrow> exn + 'n any_value" where
  "get_type_from_field_impl R m f =
     (case mr_get R (fd_cpp_type f) m (fd_number f) of Inl e \<Rightarrow> Inl e | Inr s \<Rightarrow> Inr (Any_one (as_int s)))"

definition repeated_values ::
  "('m, 'n) message_reflection \<Rightarrow> 'm \<Rightarrow> field_descriptor \<Rightarrow> exn + 'n any_value" where
  "repeated_values R m f =
     (case collect_sum (mr_get_repeated R (fd_cpp_type f) m (fd_number f)) [0..<mr_size R m (fd_number f)] of
        Inl e \<Rightarrow> Inl e
      | Inr vs \<Rightarrow> Inr (Any_many (fd_cpp_type f) vs))"

text \<open>
  \<open>iterate_repeated_field\<close> does something only if the lambda yields the element type of the vector.
  For enumerations it yields a descriptor pointer, not an \<open>int\<close>, and the vector stays empty.  For
  messages read into another element type, nothing is copied into the elements.
\<close>

definition get_type_from_repeated_field ::
  "('m, 'n) message_reflection \<Rightarrow> 'm \<Rightarrow> field_descriptor \<Rightarrow> cpp_type \<Rightarrow> exn + 'n any_value" where
  "get_type_from_repeated_field R m f T =
     (case fd_cpp_type f of
        CPPTYPE_ENUM \<Rightarrow> Inr (Any_many CPPTYPE_INT32 [])
      | CPPTYPE_FLOAT \<Rightarrow> Inr Any_empty
      | CPPTYPE_DOUBLE \<Rightarrow> Inr Any_empty
      | CPPTYPE_MESSAGE \<Rightarrow>
          if T = CPPTYPE_MESSAGE then repeated_values R m f
          else if mr_size R m (fd_number f) = 0 then Inr (Any_many T [])
          else if T = CPPTYPE_STRING then Inr (Any_many T (replicate (mr_size R m (fd_number f)) (S_string [])))
          else Inl (Undefined ''uninitialised vector element'')
      | _ \<Rightarrow> repeated_values R m f)"

text \<open>The overloads of \<open>get_type_from_field\<close>: vectors, messages, enumerations and the rest.\<close>

fun enum_cast :: "'n scalar \<Rightarrow> exn + 'n arg" where
  "enum_cast (S_int32 v) = Inr (One (S_enum v))"
| "enum_cast _ = Inl bad_any_cast"

definition any_cast :: "arg_type \<Rightarrow> 'n any_value \<Rightarrow> exn + 'n arg" where
  "any_cast t v =
     (case t of
        Many_t T \<Rightarrow> (case v of Any_many u vs \<Rightarrow> if u = T then Inr (Many T vs) else Inl bad_any_cast | _ \<Rightarrow> Inl bad_any_cast)
      | One_t T \<Rightarrow>
          (case v of
             Any_one s \<Rightarrow>
               if T = CPPTYPE_ENUM then enum_cast s
               else if scalar_type s = T then Inr (One s) else Inl bad_any_cast
           | _ \<Rightarrow> Inl bad_any_cast))"

fun field_value ::
  "('m, 'n) message_reflection \<Rightarrow> 'm \<Rightarrow> field_descriptor \<Rightarrow> arg_type \<Rightarrow> exn + 'n any_value" where
  "field_value R m f (Many_t T) = get_type_from_repeated_field R m f T"
| "field_value R m f (One_t T) = get_type_from_field_impl R m f"

definition get_type_from_field ::
  "('m, 'n) message_reflection \<Rightarrow> 'm \<Rightarrow> field_descriptor \<Rightarrow> arg_type \<Rightarrow> exn + 'n arg" where
  "get_type_from_field R m f t = (case field_value R m f t of Inl e \<Rightarrow> Inl e | Inr v \<Rightarrow> any_cast t v)"

fun message_to_tuple ::
  "('m, 'n) message_reflection \<Rightarrow> arg_type list \<Rightarrow> 'm \<Rightarrow> exn + 'n arg list" where
  "message_to_tuple R [] m = Inr []"
| "message_to_tuple R (t # ts) m =
     (case FindFieldByNumber R m (int (length (mr_fields R m)) - int (length ts)) of
        None \<Rightarrow> Inl (Undefined ''null field descriptor'')
      | Some f \<Rightarrow>
          (case get_type_from_field R m f t of
             Inl e \<Rightarrow> Inl e
           | Inr a \<Rightarrow> (case message_to_tuple R ts m of Inl e \<Rightarrow> Inl e | Inr as \<Rightarrow> Inr (a # as))))"

section \<open>The parameters of the system calls\<close>

text \<open>
  The declarations of \<^verbatim>\<open>system_calls.hpp\<close>: the C++ types of the parameters of every thunk, and the
  arguments of a call as a tuple of such values.  The numbers of enumerations are koinos-proto's.
\<close>

datatype nested =
    N_block block | N_transaction transaction | N_upload_contract upload_contract_operation
  | N_call_contract call_contract_operation | N_set_system_call set_system_call_operation
  | N_set_system_contract set_system_contract_operation | N_block_header block_header
  | N_object_space object_space | N_result result

record enum_numbers =
  dsa_num :: "dsa \<Rightarrow> u32"
  dsa_of :: "u32 \<Rightarrow> dsa"
  authorization_num :: "authorization_type \<Rightarrow> u32"
  authorization_of :: "u32 \<Rightarrow> authorization_type"

abbreviation str_t :: arg_type where "str_t \<equiv> One_t CPPTYPE_STRING"
abbreviation msg_t :: arg_type where "msg_t \<equiv> One_t CPPTYPE_MESSAGE"
abbreviation u64_t :: arg_type where "u64_t \<equiv> One_t CPPTYPE_UINT64"
abbreviation enum_t :: arg_type where "enum_t \<equiv> One_t CPPTYPE_ENUM"
abbreviation bool_t :: arg_type where "bool_t \<equiv> One_t CPPTYPE_BOOL"

fun sc_signature :: "syscall \<Rightarrow> arg_type list" where
  "sc_signature sc_apply_block = [msg_t]"
| "sc_signature sc_apply_transaction = [msg_t]"
| "sc_signature sc_apply_upload_contract_operation = [msg_t]"
| "sc_signature sc_apply_call_contract_operation = [msg_t]"
| "sc_signature sc_apply_set_system_call_operation = [msg_t]"
| "sc_signature sc_apply_set_system_contract_operation = [msg_t]"
| "sc_signature sc_process_block_signature = [str_t, msg_t, str_t]"
| "sc_signature sc_get_transaction_field = [str_t]"
| "sc_signature sc_get_block_field = [str_t]"
| "sc_signature sc_get_account_nonce = [str_t]"
| "sc_signature sc_verify_account_nonce = [str_t, str_t]"
| "sc_signature sc_set_account_nonce = [str_t, str_t]"
| "sc_signature sc_get_account_rc = [str_t]"
| "sc_signature sc_consume_account_rc = [str_t, u64_t]"
| "sc_signature sc_consume_block_resources = [u64_t, u64_t, u64_t]"
| "sc_signature sc_put_object = [msg_t, str_t, str_t]"
| "sc_signature sc_remove_object = [msg_t, str_t]"
| "sc_signature sc_get_object = [msg_t, str_t]"
| "sc_signature sc_get_next_object = [msg_t, str_t]"
| "sc_signature sc_get_prev_object = [msg_t, str_t]"
| "sc_signature sc_log = [str_t]"
| "sc_signature sc_event = [str_t, str_t, Many_t CPPTYPE_STRING]"
| "sc_signature sc_hash = [u64_t, str_t, u64_t]"
| "sc_signature sc_recover_public_key = [enum_t, str_t, str_t, bool_t]"
| "sc_signature sc_verify_merkle_root = [str_t, Many_t CPPTYPE_STRING]"
| "sc_signature sc_verify_signature = [enum_t, str_t, str_t, str_t, bool_t]"
| "sc_signature sc_verify_vrf_proof = [enum_t, str_t, str_t, str_t, str_t]"
| "sc_signature sc_call = [str_t, One_t CPPTYPE_UINT32, str_t]"
| "sc_signature sc_exit = [One_t CPPTYPE_INT32, msg_t]"
| "sc_signature sc_check_authority = [enum_t, str_t, str_t]"
| "sc_signature _ = []"

abbreviation str :: "bytes \<Rightarrow> nested arg" where "str b \<equiv> One (S_string b)"
abbreviation msg :: "nested \<Rightarrow> nested arg" where "msg n \<equiv> One (S_message n)"
abbreviation strs :: "bytes list \<Rightarrow> nested arg" where "strs bs \<equiv> Many CPPTYPE_STRING (map S_string bs)"

fun sc_tuple :: "enum_numbers \<Rightarrow> sc_args \<Rightarrow> nested arg list" where
  "sc_tuple N (A_apply_block b) = [msg (N_block b)]"
| "sc_tuple N (A_apply_transaction t) = [msg (N_transaction t)]"
| "sc_tuple N (A_apply_upload_contract_operation op) = [msg (N_upload_contract op)]"
| "sc_tuple N (A_apply_call_contract_operation op) = [msg (N_call_contract op)]"
| "sc_tuple N (A_apply_set_system_call_operation op) = [msg (N_set_system_call op)]"
| "sc_tuple N (A_apply_set_system_contract_operation op) = [msg (N_set_system_contract op)]"
| "sc_tuple N (A_process_block_signature d h sg) = [str d, msg (N_block_header h), str sg]"
| "sc_tuple N (A_get_transaction_field f) = [str f]"
| "sc_tuple N (A_get_block_field f) = [str f]"
| "sc_tuple N (A_get_account_nonce a) = [str a]"
| "sc_tuple N (A_verify_account_nonce a n) = [str a, str n]"
| "sc_tuple N (A_set_account_nonce a n) = [str a, str n]"
| "sc_tuple N (A_get_account_rc a) = [str a]"
| "sc_tuple N (A_consume_account_rc a rc) = [str a, One (S_uint64 rc)]"
| "sc_tuple N (A_consume_block_resources d n c) = [One (S_uint64 d), One (S_uint64 n), One (S_uint64 c)]"
| "sc_tuple N (A_put_object sp k v) = [msg (N_object_space sp), str k, str v]"
| "sc_tuple N (A_remove_object sp k) = [msg (N_object_space sp), str k]"
| "sc_tuple N (A_get_object sp k) = [msg (N_object_space sp), str k]"
| "sc_tuple N (A_get_next_object sp k) = [msg (N_object_space sp), str k]"
| "sc_tuple N (A_get_prev_object sp k) = [msg (N_object_space sp), str k]"
| "sc_tuple N (A_log m) = [str m]"
| "sc_tuple N (A_event n d im) = [str n, str d, strs im]"
| "sc_tuple N (A_hash code obj sz) = [One (S_uint64 code), str obj, One (S_uint64 sz)]"
| "sc_tuple N (A_recover_public_key ty sg d c) = [One (S_enum (dsa_num N ty)), str sg, str d, One (S_bool c)]"
| "sc_tuple N (A_verify_merkle_root r hs) = [str r, strs hs]"
| "sc_tuple N (A_verify_signature ty k sg d c) =
     [One (S_enum (dsa_num N ty)), str k, str sg, str d, One (S_bool c)]"
| "sc_tuple N (A_verify_vrf_proof ty k pf h m) = [One (S_enum (dsa_num N ty)), str k, str pf, str h, str m]"
| "sc_tuple N (A_call i e a) = [str i, One (S_uint32 e), str a]"
| "sc_tuple N (A_exit code r) = [One (S_int32 (word_of_int code)), msg (N_result r)]"
| "sc_tuple N (A_check_authority ty a d) = [One (S_enum (authorization_num N ty)), str a, str d]"
| "sc_tuple N _ = []"

text \<open>
  \<open>std::apply( thunk, thunk_args )\<close>: the parameters of the thunk from the tuple.  The tuple has the
  types of the parameters, so each projection meets its own constructor only.
\<close>

primrec scalar_of :: "'n arg \<Rightarrow> 'n scalar" where "scalar_of (One s) = s"
primrec scalars_of :: "'n arg \<Rightarrow> 'n scalar list" where "scalars_of (Many t vs) = vs"
primrec string_of :: "'n scalar \<Rightarrow> bytes" where "string_of (S_string b) = b"
primrec nested_of :: "'n scalar \<Rightarrow> 'n" where "nested_of (S_message n) = n"
primrec uint64_of :: "'n scalar \<Rightarrow> u64" where "uint64_of (S_uint64 n) = n"
primrec uint32_of :: "'n scalar \<Rightarrow> u32" where "uint32_of (S_uint32 n) = n"
primrec int32_of :: "'n scalar \<Rightarrow> u32" where "int32_of (S_int32 n) = n"
primrec bool_of :: "'n scalar \<Rightarrow> bool" where "bool_of (S_bool b) = b"
primrec enum_of :: "'n scalar \<Rightarrow> u32" where "enum_of (S_enum n) = n"
primrec block_of_nested :: "nested \<Rightarrow> block" where "block_of_nested (N_block x) = x"
primrec transaction_of_nested :: "nested \<Rightarrow> transaction" where "transaction_of_nested (N_transaction x) = x"
primrec upload_contract_of_nested :: "nested \<Rightarrow> upload_contract_operation" where "upload_contract_of_nested (N_upload_contract x) = x"
primrec call_contract_of_nested :: "nested \<Rightarrow> call_contract_operation" where "call_contract_of_nested (N_call_contract x) = x"
primrec set_system_call_of_nested :: "nested \<Rightarrow> set_system_call_operation" where "set_system_call_of_nested (N_set_system_call x) = x"
primrec set_system_contract_of_nested :: "nested \<Rightarrow> set_system_contract_operation" where "set_system_contract_of_nested (N_set_system_contract x) = x"
primrec block_header_of_nested :: "nested \<Rightarrow> block_header" where "block_header_of_nested (N_block_header x) = x"
primrec object_space_of_nested :: "nested \<Rightarrow> object_space" where "object_space_of_nested (N_object_space x) = x"
primrec result_of_nested :: "nested \<Rightarrow> result" where "result_of_nested (N_result x) = x"

abbreviation as_str :: "nested arg \<Rightarrow> bytes" where "as_str a \<equiv> string_of (scalar_of a)"
abbreviation as_strs :: "nested arg \<Rightarrow> bytes list" where "as_strs a \<equiv> map string_of (scalars_of a)"
abbreviation as_u64 :: "nested arg \<Rightarrow> u64" where "as_u64 a \<equiv> uint64_of (scalar_of a)"
abbreviation as_u32 :: "nested arg \<Rightarrow> u32" where "as_u32 a \<equiv> uint32_of (scalar_of a)"
abbreviation as_i32 :: "nested arg \<Rightarrow> u32" where "as_i32 a \<equiv> int32_of (scalar_of a)"
abbreviation as_bool :: "nested arg \<Rightarrow> bool" where "as_bool a \<equiv> bool_of (scalar_of a)"
abbreviation as_enum_number :: "nested arg \<Rightarrow> u32" where "as_enum_number a \<equiv> enum_of (scalar_of a)"
abbreviation as_block :: "nested arg \<Rightarrow> block" where "as_block a \<equiv> block_of_nested (nested_of (scalar_of a))"
abbreviation as_transaction :: "nested arg \<Rightarrow> transaction" where "as_transaction a \<equiv> transaction_of_nested (nested_of (scalar_of a))"
abbreviation as_upload_contract :: "nested arg \<Rightarrow> upload_contract_operation" where "as_upload_contract a \<equiv> upload_contract_of_nested (nested_of (scalar_of a))"
abbreviation as_call_contract :: "nested arg \<Rightarrow> call_contract_operation" where "as_call_contract a \<equiv> call_contract_of_nested (nested_of (scalar_of a))"
abbreviation as_set_system_call :: "nested arg \<Rightarrow> set_system_call_operation" where "as_set_system_call a \<equiv> set_system_call_of_nested (nested_of (scalar_of a))"
abbreviation as_set_system_contract :: "nested arg \<Rightarrow> set_system_contract_operation" where "as_set_system_contract a \<equiv> set_system_contract_of_nested (nested_of (scalar_of a))"
abbreviation as_block_header :: "nested arg \<Rightarrow> block_header" where "as_block_header a \<equiv> block_header_of_nested (nested_of (scalar_of a))"
abbreviation as_object_space :: "nested arg \<Rightarrow> object_space" where "as_object_space a \<equiv> object_space_of_nested (nested_of (scalar_of a))"
abbreviation as_result :: "nested arg \<Rightarrow> result" where "as_result a \<equiv> result_of_nested (nested_of (scalar_of a))"

fun sc_apply :: "enum_numbers \<Rightarrow> syscall \<Rightarrow> nested arg list \<Rightarrow> sc_args" where
  "sc_apply N sc_apply_block as = A_apply_block (as_block (as ! 0))"
| "sc_apply N sc_apply_transaction as = A_apply_transaction (as_transaction (as ! 0))"
| "sc_apply N sc_apply_upload_contract_operation as = A_apply_upload_contract_operation (as_upload_contract (as ! 0))"
| "sc_apply N sc_apply_call_contract_operation as = A_apply_call_contract_operation (as_call_contract (as ! 0))"
| "sc_apply N sc_apply_set_system_call_operation as = A_apply_set_system_call_operation (as_set_system_call (as ! 0))"
| "sc_apply N sc_apply_set_system_contract_operation as =
     A_apply_set_system_contract_operation (as_set_system_contract (as ! 0))"
| "sc_apply N sc_process_block_signature as =
     A_process_block_signature (as_str (as ! 0)) (as_block_header (as ! 1)) (as_str (as ! 2))"
| "sc_apply N sc_get_transaction_field as = A_get_transaction_field (as_str (as ! 0))"
| "sc_apply N sc_get_block_field as = A_get_block_field (as_str (as ! 0))"
| "sc_apply N sc_get_account_nonce as = A_get_account_nonce (as_str (as ! 0))"
| "sc_apply N sc_verify_account_nonce as = A_verify_account_nonce (as_str (as ! 0)) (as_str (as ! 1))"
| "sc_apply N sc_set_account_nonce as = A_set_account_nonce (as_str (as ! 0)) (as_str (as ! 1))"
| "sc_apply N sc_get_account_rc as = A_get_account_rc (as_str (as ! 0))"
| "sc_apply N sc_consume_account_rc as = A_consume_account_rc (as_str (as ! 0)) (as_u64 (as ! 1))"
| "sc_apply N sc_consume_block_resources as = A_consume_block_resources (as_u64 (as ! 0)) (as_u64 (as ! 1)) (as_u64 (as ! 2))"
| "sc_apply N sc_put_object as = A_put_object (as_object_space (as ! 0)) (as_str (as ! 1)) (as_str (as ! 2))"
| "sc_apply N sc_remove_object as = A_remove_object (as_object_space (as ! 0)) (as_str (as ! 1))"
| "sc_apply N sc_get_object as = A_get_object (as_object_space (as ! 0)) (as_str (as ! 1))"
| "sc_apply N sc_get_next_object as = A_get_next_object (as_object_space (as ! 0)) (as_str (as ! 1))"
| "sc_apply N sc_get_prev_object as = A_get_prev_object (as_object_space (as ! 0)) (as_str (as ! 1))"
| "sc_apply N sc_log as = A_log (as_str (as ! 0))"
| "sc_apply N sc_event as = A_event (as_str (as ! 0)) (as_str (as ! 1)) (as_strs (as ! 2))"
| "sc_apply N sc_hash as = A_hash (as_u64 (as ! 0)) (as_str (as ! 1)) (as_u64 (as ! 2))"
| "sc_apply N sc_recover_public_key as =
     A_recover_public_key (dsa_of N (as_enum_number (as ! 0))) (as_str (as ! 1)) (as_str (as ! 2)) (as_bool (as ! 3))"
| "sc_apply N sc_verify_merkle_root as = A_verify_merkle_root (as_str (as ! 0)) (as_strs (as ! 1))"
| "sc_apply N sc_verify_signature as =
     A_verify_signature (dsa_of N (as_enum_number (as ! 0))) (as_str (as ! 1)) (as_str (as ! 2)) (as_str (as ! 3)) (as_bool (as ! 4))"
| "sc_apply N sc_verify_vrf_proof as =
     A_verify_vrf_proof (dsa_of N (as_enum_number (as ! 0))) (as_str (as ! 1)) (as_str (as ! 2)) (as_str (as ! 3)) (as_str (as ! 4))"
| "sc_apply N sc_call as = A_call (as_str (as ! 0)) (as_u32 (as ! 1)) (as_str (as ! 2))"
| "sc_apply N sc_exit as = A_exit (sint (as_i32 (as ! 0))) (as_result (as ! 1))"
| "sc_apply N sc_check_authority as =
     A_check_authority (authorization_of N (as_enum_number (as ! 0))) (as_str (as ! 1)) (as_str (as ! 2))"
| "sc_apply N sc_get_head_info as = A_get_head_info"
| "sc_apply N sc_pre_block_callback as = A_pre_block_callback"
| "sc_apply N sc_post_block_callback as = A_post_block_callback"
| "sc_apply N sc_pre_transaction_callback as = A_pre_transaction_callback"
| "sc_apply N sc_post_transaction_callback as = A_post_transaction_callback"
| "sc_apply N sc_get_chain_id as = A_get_chain_id"
| "sc_apply N sc_get_transaction as = A_get_transaction"
| "sc_apply N sc_get_block as = A_get_block"
| "sc_apply N sc_get_last_irreversible_block as = A_get_last_irreversible_block"
| "sc_apply N sc_check_system_authority as = A_check_system_authority"
| "sc_apply N sc_get_operation as = A_get_operation"
| "sc_apply N sc_get_resource_limits as = A_get_resource_limits"
| "sc_apply N sc_get_arguments as = A_get_arguments"
| "sc_apply N sc_get_contract_id as = A_get_contract_id"
| "sc_apply N sc_get_caller as = A_get_caller"
| "sc_apply N sc_nop as = A_nop"

text \<open>The values a C++ caller can pass: exit codes of 32 bits and enumeration values that have a number.\<close>

fun args_ok :: "enum_numbers \<Rightarrow> sc_args \<Rightarrow> bool" where
  "args_ok N (A_exit code _) \<longleftrightarrow> sint (word_of_int code :: u32) = code"
| "args_ok N (A_recover_public_key ty _ _ _) \<longleftrightarrow> dsa_of N (dsa_num N ty) = ty"
| "args_ok N (A_verify_signature ty _ _ _ _) \<longleftrightarrow> dsa_of N (dsa_num N ty) = ty"
| "args_ok N (A_verify_vrf_proof ty _ _ _ _) \<longleftrightarrow> dsa_of N (dsa_num N ty) = ty"
| "args_ok N (A_check_authority ty _ _) \<longleftrightarrow> authorization_of N (authorization_num N ty) = ty"
| "args_ok N _ \<longleftrightarrow> True"

text \<open>The argument message of a signature: its fields in order.\<close>

fun field_for :: "nat \<Rightarrow> arg_type \<Rightarrow> field_descriptor" where
  "field_for i (One_t t) = \<lparr>fd_number = 1 + int i, fd_cpp_type = t, fd_repeated = False\<rparr>"
| "field_for i (Many_t t) = \<lparr>fd_number = 1 + int i, fd_cpp_type = t, fd_repeated = True\<rparr>"

definition fields_for :: "arg_type list \<Rightarrow> field_descriptor list" where
  "fields_for ts = map2 field_for [0..<length ts] ts"

section \<open>What protobuf promises\<close>

text \<open>Nothing about the field numbered \<open>j\<close> differs.\<close>

definition same_at :: "('m, 'n) message_reflection \<Rightarrow> int \<Rightarrow> 'm \<Rightarrow> 'm \<Rightarrow> bool" where
  "same_at R j m m' \<longleftrightarrow>
     (\<forall>t. mr_get R t m' j = mr_get R t m j) \<and> mr_size R m' j = mr_size R m j
   \<and> (\<forall>t i. mr_get_repeated R t m' j i = mr_get_repeated R t m j i)"

definition set_law :: "('m, 'n) message_reflection \<Rightarrow> bool" where
  "set_law R \<longleftrightarrow>
     (\<forall>m f v. f \<in> set (mr_fields R m) \<longrightarrow> \<not> fd_repeated f \<longrightarrow> scalar_type v = fd_cpp_type f \<longrightarrow>
        (\<exists>m'. mr_set R m (fd_number f) v = Inr m' \<and> mr_fields R m' = mr_fields R m
            \<and> mr_get R (fd_cpp_type f) m' (fd_number f) = Inr v \<and> (\<forall>j. j \<noteq> fd_number f \<longrightarrow> same_at R j m m')))"

definition add_law :: "('m, 'n) message_reflection \<Rightarrow> bool" where
  "add_law R \<longleftrightarrow>
     (\<forall>m f v. f \<in> set (mr_fields R m) \<longrightarrow> fd_repeated f \<longrightarrow> scalar_type v = fd_cpp_type f \<longrightarrow>
        (\<exists>m'. mr_add R m (fd_number f) v = Inr m' \<and> mr_fields R m' = mr_fields R m
            \<and> mr_size R m' (fd_number f) = Suc (mr_size R m (fd_number f))
            \<and> (\<forall>i < mr_size R m (fd_number f).
                  mr_get_repeated R (fd_cpp_type f) m' (fd_number f) i = mr_get_repeated R (fd_cpp_type f) m (fd_number f) i)
            \<and> mr_get_repeated R (fd_cpp_type f) m' (fd_number f) (mr_size R m (fd_number f)) = Inr v
            \<and> (\<forall>j. j \<noteq> fd_number f \<longrightarrow> same_at R j m m')))"

definition reflection_laws :: "('m, 'n) message_reflection \<Rightarrow> bool" where
  "reflection_laws R \<longleftrightarrow> set_law R \<and> add_law R"

text \<open>A parameter fits a field: the types are those for which an overload exists.\<close>

fun fits :: "field_descriptor \<Rightarrow> 'n arg \<Rightarrow> bool" where
  "fits f (One s) \<longleftrightarrow> \<not> fd_repeated f \<and> scalar_type s = fd_cpp_type f"
| "fits f (Many t vs) \<longleftrightarrow>
     fd_repeated f \<and> fd_cpp_type f = t \<and> t \<notin> {CPPTYPE_ENUM, CPPTYPE_FLOAT, CPPTYPE_DOUBLE}
   \<and> list_all (\<lambda>v. scalar_type v = t) vs"

section \<open>Round trip\<close>

lemma same_at_refl [simp]: "same_at R j m m"
  by (simp add: same_at_def)

lemma same_at_trans: "same_at R j m m' \<Longrightarrow> same_at R j m' m'' \<Longrightarrow> same_at R j m m''"
  by (simp add: same_at_def)

lemma get_type_same:
  assumes "same_at R (fd_number f) m m'"
  shows "get_type_from_field R m' f t = get_type_from_field R m f t"
proof -
  have "mr_get_repeated R u m' (fd_number f) = mr_get_repeated R u m (fd_number f)" for u
    using assms by (simp add: same_at_def fun_eq_iff)
  then have "repeated_values R m' f = repeated_values R m f"
    using assms by (simp add: repeated_values_def same_at_def)
  then have "field_value R m' f t = field_value R m f t"
    using assms
    by (cases t; cases "fd_cpp_type f") (simp_all add: get_type_from_field_impl_def get_type_from_repeated_field_def same_at_def)
  then show ?thesis by (simp add: get_type_from_field_def)
qed

lemma collect_sum_all: "(\<And>x. x \<in> set xs \<Longrightarrow> f x = Inr (g x)) \<Longrightarrow> collect_sum f xs = Inr (map g xs)"
  by (induction xs) auto

lemma add_all_spec:
  assumes "add_law R" and "f \<in> set (mr_fields R m)" and "fd_repeated f"
    and "list_all (\<lambda>v. scalar_type v = fd_cpp_type f) vs"
    and "\<And>i. i < length ws \<Longrightarrow> mr_get_repeated R (fd_cpp_type f) m (fd_number f) i = Inr (ws ! i)"
    and "mr_size R m (fd_number f) = length ws"
  shows "\<exists>m'. add_all R (fd_number f) vs m = Inr m' \<and> mr_fields R m' = mr_fields R m
    \<and> (\<forall>j. j \<noteq> fd_number f \<longrightarrow> same_at R j m m') \<and> mr_size R m' (fd_number f) = length (ws @ vs)
    \<and> (\<forall>i < length (ws @ vs). mr_get_repeated R (fd_cpp_type f) m' (fd_number f) i = Inr ((ws @ vs) ! i))"
  using assms(2-)
proof (induction vs arbitrary: m ws)
  case Nil
  then show ?case by simp
next
  case (Cons v vs)
  obtain m1 where m1: "mr_add R m (fd_number f) v = Inr m1" "mr_fields R m1 = mr_fields R m"
    "mr_size R m1 (fd_number f) = Suc (length ws)"
    "\<And>i. i < length ws \<Longrightarrow> mr_get_repeated R (fd_cpp_type f) m1 (fd_number f) i = Inr (ws ! i)"
    "mr_get_repeated R (fd_cpp_type f) m1 (fd_number f) (length ws) = Inr v"
    "\<And>j. j \<noteq> fd_number f \<Longrightarrow> same_at R j m m1"
    using assms(1) [unfolded add_law_def, rule_format, OF Cons.prems(1,2), of v] Cons.prems(3-5) by auto
  have "mr_get_repeated R (fd_cpp_type f) m1 (fd_number f) i = Inr ((ws @ [v]) ! i)" if "i < length (ws @ [v])" for i
    using that m1(4,5) by (auto simp: nth_append less_Suc_eq)
  then obtain m' where m': "add_all R (fd_number f) vs m1 = Inr m'" "mr_fields R m' = mr_fields R m1"
    "\<forall>j. j \<noteq> fd_number f \<longrightarrow> same_at R j m1 m'" "mr_size R m' (fd_number f) = length ((ws @ [v]) @ vs)"
    "\<forall>i < length ((ws @ [v]) @ vs). mr_get_repeated R (fd_cpp_type f) m' (fd_number f) i = Inr (((ws @ [v]) @ vs) ! i)"
    using Cons.IH [of m1 "ws @ [v]"] Cons.prems m1(2,3) by auto
  moreover have "\<forall>j. j \<noteq> fd_number f \<longrightarrow> same_at R j m m'"
    using m1(6) m'(3) same_at_trans by metis
  ultimately show ?case using m1(1,2) by simp
qed

lemma set_field_spec:
  assumes laws: "reflection_laws R" and f: "f \<in> set (mr_fields R m)" "FindFieldByNumber R m (fd_number f) = Some f"
    and fits: "fits f a" and fresh: "mr_size R m (fd_number f) = 0"
  shows "\<exists>m'. set_message_field R m (fd_number f) a = Inr m' \<and> mr_fields R m' = mr_fields R m
    \<and> (\<forall>j. j \<noteq> fd_number f \<longrightarrow> same_at R j m m') \<and> get_type_from_field R m' f (type_of_arg a) = Inr a"
proof (cases a)
  case (One s)
  then have "set_message_field R m (fd_number f) a = mr_set R m (fd_number f) s"
    using f(2) fits by (cases s) (simp_all add: set_message_field_def)
  moreover obtain m' where m': "mr_set R m (fd_number f) s = Inr m'" "mr_fields R m' = mr_fields R m"
    "mr_get R (fd_cpp_type f) m' (fd_number f) = Inr s" "\<forall>j. j \<noteq> fd_number f \<longrightarrow> same_at R j m m'"
    using laws f(1) fits One unfolding reflection_laws_def set_law_def by fastforce
  moreover have "get_type_from_field R m' f (One_t (scalar_type s)) = Inr (One s)"
    using m'(3) by (cases s) (simp_all add: get_type_from_field_def get_type_from_field_impl_def any_cast_def)
  ultimately show ?thesis using One by simp
next
  case (Many t vs)
  then have fits': "fd_repeated f" "fd_cpp_type f = t" "t \<notin> {CPPTYPE_ENUM, CPPTYPE_FLOAT, CPPTYPE_DOUBLE}"
    "list_all (\<lambda>v. scalar_type v = fd_cpp_type f) vs"
    using fits by simp_all
  then have run: "set_message_field R m (fd_number f) a = add_all R (fd_number f) vs m"
    using f(2) Many by (simp add: set_message_field_def)
  obtain m' where m': "add_all R (fd_number f) vs m = Inr m'" "mr_fields R m' = mr_fields R m"
    "\<forall>j. j \<noteq> fd_number f \<longrightarrow> same_at R j m m'" "mr_size R m' (fd_number f) = length vs"
    "\<forall>i < length vs. mr_get_repeated R t m' (fd_number f) i = Inr (vs ! i)"
    using add_all_spec [of R f m vs "[]"] laws f(1) fits' fresh by (auto simp: reflection_laws_def)
  have "collect_sum (mr_get_repeated R t m' (fd_number f)) [0..<length vs] = Inr (map (nth vs) [0..<length vs])"
    by (rule collect_sum_all) (use m'(5) in auto)
  then have "repeated_values R m' f = Inr (Any_many t vs)"
    using m'(4) fits'(2) by (simp add: repeated_values_def map_nth)
  then have "get_type_from_field R m' f (Many_t t) = Inr (Many t vs)"
    using fits'(2,3)
    by (cases t) (simp_all add: get_type_from_field_def get_type_from_repeated_field_def any_cast_def)
  with run m' Many show ?thesis by simp
qed

text \<open>The fields of an argument message are numbered from 1 in the order of the parameters.\<close>

definition numbered :: "field_descriptor list \<Rightarrow> bool" where
  "numbered fs \<longleftrightarrow> map fd_number fs = map (\<lambda>i. 1 + int i) [0..<length fs]"

lemma numbered_nth:
  assumes "numbered fs" and "i < length fs"
  shows "fd_number (fs ! i) = 1 + int i"
proof -
  have "map fd_number fs ! i = map (\<lambda>i. 1 + int i) [0..<length fs] ! i" using assms(1) by (simp only: numbered_def)
  with assms(2) show ?thesis by simp
qed

lemma find_numbered:
  assumes "numbered (mr_fields R m)" and "i < length (mr_fields R m)"
  shows "FindFieldByNumber R m (1 + int i) = Some (mr_fields R m ! i)"
proof -
  have "find (\<lambda>f. fd_number f = 1 + int i) (mr_fields R m) = Some (mr_fields R m ! i)"
    unfolding find_Some_iff using assms numbered_nth [OF assms(1)] by auto
  then show ?thesis by (simp add: FindFieldByNumber_def)
qed

lemma arg_pack_spec:
  assumes laws: "reflection_laws R"
  shows "numbered (mr_fields R m) \<Longrightarrow> k + length as = length (mr_fields R m) \<Longrightarrow>
    (\<And>i. i < length as \<Longrightarrow> fits (mr_fields R m ! (k + i)) (as ! i)) \<Longrightarrow>
    (\<And>i. k \<le> i \<Longrightarrow> mr_size R m (1 + int i) = 0) \<Longrightarrow>
    \<exists>m'. arg_pack R (1 + int k) as m = Inr m' \<and> mr_fields R m' = mr_fields R m
      \<and> (\<forall>i < k. same_at R (1 + int i) m m')
      \<and> (\<forall>i < length as. get_type_from_field R m' (mr_fields R m ! (k + i)) (type_of_arg (as ! i)) = Inr (as ! i))"
proof (induction as arbitrary: k m)
  case Nil
  then show ?case by simp
next
  case (Cons a as)
  let ?f = "mr_fields R m ! k"
  have k: "k < length (mr_fields R m)" using Cons.prems(2) by simp
  have num: "fd_number ?f = 1 + int k" by (rule numbered_nth [OF Cons.prems(1) k])
  have "fits ?f a" using Cons.prems(3) [of 0] by simp
  moreover have "mr_size R m (fd_number ?f) = 0" using Cons.prems(4) [of k] num by simp
  ultimately obtain m1 where m1: "set_message_field R m (1 + int k) a = Inr m1" "mr_fields R m1 = mr_fields R m"
    "\<And>j. j \<noteq> 1 + int k \<Longrightarrow> same_at R j m m1" "get_type_from_field R m1 ?f (type_of_arg a) = Inr a"
    using set_field_spec [OF laws nth_mem [OF k], of a] find_numbered [OF Cons.prems(1) k] num by auto
  have fits1: "fits (mr_fields R m1 ! (Suc k + i)) (as ! i)" if "i < length as" for i
    using Cons.prems(3) [of "Suc i"] that m1(2) by simp
  have fresh1: "mr_size R m1 (1 + int i) = 0" if "Suc k \<le> i" for i
    using Cons.prems(4) [of i] m1(3) [of "1 + int i"] that by (simp add: same_at_def)
  obtain m' where m': "arg_pack R (1 + int (Suc k)) as m1 = Inr m'" "mr_fields R m' = mr_fields R m1"
    "\<And>i. i < Suc k \<Longrightarrow> same_at R (1 + int i) m1 m'"
    "\<And>i. i < length as \<Longrightarrow> get_type_from_field R m' (mr_fields R m1 ! (Suc k + i)) (type_of_arg (as ! i)) = Inr (as ! i)"
    using Cons.IH [of m1 "Suc k"] Cons.prems(1,2) m1(2) fits1 fresh1 by auto
  have "get_type_from_field R m' ?f (type_of_arg a) = Inr a"
    using get_type_same [of R ?f m1 m'] m'(3) [of k] num m1(4) by simp
  then have "get_type_from_field R m' (mr_fields R m ! (k + i)) (type_of_arg ((a # as) ! i)) = Inr ((a # as) ! i)"
    if "i < length (a # as)" for i
    using that m'(4) [of "i - 1"] m1(2) by (cases i) auto
  moreover have "same_at R (1 + int i) m m'" if "i < k" for i
    using same_at_trans [OF m1(3) m'(3)] that by simp
  moreover have "arg_pack R (1 + int k) (a # as) m = Inr m'"
    using m1(1) m'(1) by (simp add: add.commute add.left_commute)
  ultimately show ?case using m1(2) m'(2) by auto
qed

lemma message_to_tuple_spec:
  assumes "numbered (mr_fields R m)"
  shows "k + length as = length (mr_fields R m) \<Longrightarrow>
    (\<And>i. i < length as \<Longrightarrow> get_type_from_field R m (mr_fields R m ! (k + i)) (type_of_arg (as ! i)) = Inr (as ! i)) \<Longrightarrow>
    message_to_tuple R (map type_of_arg as) m = Inr as"
proof (induction as arbitrary: k)
  case Nil
  then show ?case by simp
next
  case (Cons a as)
  have k: "k < length (mr_fields R m)" using Cons.prems(1) by simp
  have "int (length (mr_fields R m)) - int (length as) = 1 + int k"
    using Cons.prems(1) by simp
  then have "FindFieldByNumber R m (int (length (mr_fields R m)) - int (length (map type_of_arg as))) = Some (mr_fields R m ! k)"
    using find_numbered [OF assms k] by simp
  moreover have "get_type_from_field R m (mr_fields R m ! k) (type_of_arg a) = Inr a" using Cons.prems(2) [of 0] by simp
  moreover have "message_to_tuple R (map type_of_arg as) m = Inr as"
    using Cons.prems(2) [of "Suc _"] by (intro Cons.IH [of "Suc k"]) (use Cons.prems(1) in auto)
  ultimately show ?case by simp
qed

text \<open>Packing arguments that fit and unpacking them again yields the arguments.\<close>

lemma arguments_round_trip:
  assumes laws: "reflection_laws R" and num: "numbered (mr_fields R m)"
    and fits: "list_all2 fits (mr_fields R m) as" and fresh: "\<And>j. mr_size R m j = 0"
  shows "\<exists>m'. arg_pack R 1 as m = Inr m' \<and> message_to_tuple R (map type_of_arg as) m' = Inr as"
proof -
  have len: "length as = length (mr_fields R m)" using fits by (simp add: list_all2_lengthD)
  obtain m' where m': "arg_pack R (1 + int 0) as m = Inr m'" "mr_fields R m' = mr_fields R m"
    "\<forall>i < length as. get_type_from_field R m' (mr_fields R m ! (0 + i)) (type_of_arg (as ! i)) = Inr (as ! i)"
    using arg_pack_spec [OF laws num, of 0 as] len fits fresh by (auto simp: list_all2_conv_all_nth)
  have "message_to_tuple R (map type_of_arg as) m' = Inr as"
    by (rule message_to_tuple_spec [of R m' 0]) (use m' num len in auto)
  with m'(1) show ?thesis by simp
qed

section \<open>System calls\<close>

lemma fd_number_for [simp]: "fd_number (field_for i t) = 1 + int i"
  by (cases t) simp_all

lemma numbered_fields_for: "numbered (fields_for ts)"
  unfolding numbered_def fields_for_def by (rule nth_equalityI) simp_all

lemma sc_tuple_types: "map type_of_arg (sc_tuple N a) = sc_signature (sc_of a)"
  by (cases a) simp_all

lemma sc_tuple_fits: "list_all2 fits (fields_for (sc_signature (sc_of a))) (sc_tuple N a)"
  by (cases a) (simp_all add: fields_for_def upt_rec list_all_iff)

lemma sc_apply_tuple: "args_ok N a \<Longrightarrow> sc_apply N (sc_of a) (sc_tuple N a) = a"
  by (cases a) (simp_all add: o_def)

text \<open>
  C17.  The arguments of every system call survive their argument message.  Packing the arguments of any
  call into an empty argument message whose fields are those of the call's parameters never fails, and
  taking them out with the types of the thunk's parameters gives a tuple with which the thunk is
  called with exactly these arguments.
\<close>

theorem arguments_survive_packing:
  assumes "reflection_laws R" and "args_ok N a"
    and "mr_fields R m = fields_for (sc_signature (sc_of a))" and "\<And>j. mr_size R m j = 0"
  shows "\<exists>m' tuple. arg_pack R 1 (sc_tuple N a) m = Inr m'
       \<and> message_to_tuple R (sc_signature (sc_of a)) m' = Inr tuple \<and> sc_apply N (sc_of a) tuple = a"
proof -
  obtain m' where "arg_pack R 1 (sc_tuple N a) m = Inr m'"
    "message_to_tuple R (map type_of_arg (sc_tuple N a)) m' = Inr (sc_tuple N a)"
    using arguments_round_trip [OF assms(1), of m "sc_tuple N a"] assms(3,4) numbered_fields_for sc_tuple_fits by metis
  then show ?thesis using sc_apply_tuple [OF assms(2)] by (auto simp: sc_tuple_types)
qed

text \<open>Arguments of a repeated enumeration would be lost: whatever was packed, an empty vector is taken out.\<close>

theorem repeated_enumerations_are_lost:
  "fd_cpp_type f = CPPTYPE_ENUM \<Longrightarrow> get_type_from_field R m f (Many_t CPPTYPE_INT32) = Inr (Many CPPTYPE_INT32 [])"
  by (simp add: get_type_from_field_def get_type_from_repeated_field_def any_cast_def)

section \<open>A concrete reflection\<close>

type_synonym table_message = "field_descriptor list \<times> (int \<rightharpoonup> nested scalar) \<times> (int \<Rightarrow> nested scalar list)"

definition usage_error :: exn where
  "usage_error = Terminated"

definition table_reflection :: "(table_message, nested) message_reflection" where
  "table_reflection =
     \<lparr>mr_fields = fst,
      mr_set = (\<lambda>(fs, one, many) i v. Inr (fs, one(i \<mapsto> v), many)),
      mr_add = (\<lambda>(fs, one, many) i v. Inr (fs, one, many(i := many i @ [v]))),
      mr_get = (\<lambda>t (fs, one, many) i. case one i of Some v \<Rightarrow> if scalar_type v = t then Inr v else Inl usage_error
                                     | None \<Rightarrow> Inl usage_error),
      mr_size = (\<lambda>(fs, one, many) i. length (many i)),
      mr_get_repeated = (\<lambda>t (fs, one, many) i k. if k < length (many i) then Inr (many i ! k) else Inl usage_error)\<rparr>"

lemma table_reflection_laws: "reflection_laws table_reflection"
  by (auto simp: reflection_laws_def set_law_def add_law_def same_at_def table_reflection_def nth_append)

definition example_numbers :: enum_numbers where
  "example_numbers =
     \<lparr>dsa_num = (\<lambda>_. 0), dsa_of = (\<lambda>_. ecdsa_secp256k1), authorization_num = (\<lambda>_. 0), authorization_of = (\<lambda>_. contract_call)\<rparr>"

theorem arguments_survive_packing_witness:
  "\<exists>m' tuple. arg_pack table_reflection 1 (sc_tuple example_numbers (A_event ''e'' ''d'' [''x'', ''y'']))
           (fields_for (sc_signature sc_event), Map.empty, \<lambda>_. []) = Inr m'
      \<and> message_to_tuple table_reflection (sc_signature sc_event) m' = Inr tuple
      \<and> sc_apply example_numbers sc_event tuple = A_event ''e'' ''d'' [''x'', ''y'']"
proof -
  let ?a = "A_event ''e'' ''d'' [''x'', ''y'']"
  let ?m = "(fields_for (sc_signature sc_event), Map.empty, \<lambda>_. []) :: table_message"
  have "args_ok example_numbers ?a" "mr_fields table_reflection ?m = fields_for (sc_signature (sc_of ?a))"
    "\<And>j. mr_size table_reflection ?m j = 0"
    by (simp_all add: table_reflection_def)
  from arguments_survive_packing [OF table_reflection_laws this] show ?thesis by (simp only: sc_of.simps)
qed

end
