(* ===== verification/Log_Texts.thy ===== *)
theory Log_Texts
  imports Machine_Words "HOL-Library.Signed_Division"
begin

text \<open>
  Texts the programs print: the version of the service and the time left until the chain is synchronised.
\<close>

section \<open>Numbers\<close>

fun digits :: "nat \<Rightarrow> string" where
  "digits n = (if n < 10 then [] else digits (n div 10)) @ [char_of (48 + n mod 10)]"

declare digits.simps [simp del]

definition to_string :: "int \<Rightarrow> string" where
  "to_string i = (if i < 0 then ''-'' @ digits (nat (- i)) else digits (nat i))"

text \<open>\<open>std::setw(2)\<close> with \<open>std::setfill('0')\<close>: at least two characters, filled up on the left.\<close>

definition two_wide :: "int \<Rightarrow> string" where
  "two_wide i = replicate (2 - length (to_string i)) (CHR ''0'') @ to_string i"

definition of_digits :: "string \<Rightarrow> nat" where
  "of_digits s = foldl (\<lambda>n c. 10 * n + (of_char c - 48)) 0 s"

lemma of_digits_snoc: "of_digits (s @ [c]) = 10 * of_digits s + (of_char c - 48)"
  by (simp add: of_digits_def)

lemma digit_char: "d < 10 \<Longrightarrow> of_char (char_of (48 + d :: nat)) = 48 + d"
  by (simp add: of_char_of)

lemma of_digits_digits: "of_digits (digits n) = n"
proof (induction n rule: digits.induct)
  case (1 n)
  show ?case
  proof (cases "n < 10")
    case True
    then show ?thesis by (subst digits.simps) (simp add: of_digits_def digit_char)
  next
    case False
    with 1 show ?thesis
      by (subst digits.simps) (simp add: of_digits_snoc digit_char del: of_char_of)
  qed
qed

lemma digits_eq_iff: "digits m = digits n \<longleftrightarrow> m = n"
  by (metis of_digits_digits)

section \<open>The version\<close>

record version =
  vn_major :: int
  vn_minor :: int
  vn_patch :: int
  vn_git_hash :: string

text \<open>
  \<open>version_string\<close> has a static variable that it extends on each call.  The state is that variable, once it is
  initialised.
\<close>

definition version_string :: "version \<Rightarrow> (string option, 'e, string) comp" where
  "version_string v =
     (\<lambda>v_str. let text = (case v_str of Some s \<Rightarrow> s | None \<Rightarrow> ''Koinos Chain v'')
          @ to_string (vn_major v) @ ''.'' @ to_string (vn_minor v) @ ''.'' @ to_string (vn_patch v)
          @ '' ('' @ vn_git_hash v @ '')''
        in (Inr text, Some text))"

section \<open>The time left\<close>

definition time_fields :: "int \<Rightarrow> int \<times> int \<times> int \<times> int \<times> int" where
  "time_fields time =
     (let seconds = time smod 60; time = time sdiv 60;
          minutes = time smod 60; time = time sdiv 60;
          hours = time smod 24; time = time sdiv 24;
          days = time smod 365; years = time sdiv 365
      in (years, days, hours, minutes, seconds))"

definition format_time :: "i64 \<Rightarrow> string" where
  "format_time time =
     (case time_fields (sint time) of (years, days, hours, minutes, seconds) \<Rightarrow>
        (if years \<noteq> 0 then to_string years @ ''y, '' @ to_string days @ ''d, ''
         else if days \<noteq> 0 then to_string days @ ''d, '' else [])
        @ two_wide hours @ ''h, '' @ two_wide minutes @ ''m, '' @ two_wide seconds @ ''s'')"

lemma time_fields_exact:
  assumes "time_fields t = (years, days, hours, minutes, seconds)"
  shows "seconds + 60 * (minutes + 60 * (hours + 24 * (days + 365 * years))) = t"
  using assms mult_sdiv_smod_eq [of 60 t] mult_sdiv_smod_eq [of 60 "t sdiv 60"] mult_sdiv_smod_eq [of 24 "t sdiv 60 sdiv 60"]
    mult_sdiv_smod_eq [of 365 "t sdiv 60 sdiv 60 sdiv 24"]
  by (auto simp: time_fields_def Let_def)

lemma sdiv_nonneg: "0 \<le> a \<Longrightarrow> 0 < b \<Longrightarrow> a sdiv b = a div b" "0 \<le> a \<Longrightarrow> 0 < b \<Longrightarrow> a smod b = a mod b" for a b :: int
  by (auto simp: signed_divide_int_def signed_modulo_int_def sgn_if)

lemma time_fields_bounds:
  assumes "0 \<le> t" and "time_fields t = (years, days, hours, minutes, seconds)"
  shows "0 \<le> years \<and> days \<in> {0..<365} \<and> hours \<in> {0..<24} \<and> minutes \<in> {0..<60} \<and> seconds \<in> {0..<60}"
proof -
  have "0 \<le> t div 60" "0 \<le> t div 60 div 60" "0 \<le> t div 60 div 60 div 24" "0 \<le> t div 60 div 60 div 24 div 365"
    using assms(1) by (simp_all add: pos_imp_zdiv_nonneg_iff)
  note nonneg = this
  have "time_fields t = (t div 60 div 60 div 24 div 365, t div 60 div 60 div 24 mod 365, t div 60 div 60 mod 24,
      t div 60 mod 60, t mod 60)"
    unfolding time_fields_def Let_def by (simp only: sdiv_nonneg assms(1) nonneg zero_less_numeral)
  then have fields: "years = t div 60 div 60 div 24 div 365" "days = t div 60 div 60 div 24 mod 365"
      "hours = t div 60 div 60 mod 24" "minutes = t div 60 mod 60" "seconds = t mod 60"
    by (simp_all only: assms(2) prod.inject)
  have "x mod 365 \<in> {0..<365}" "x mod 24 \<in> {0..<24}" "x mod 60 \<in> {0..<60}" for x :: int by simp_all
  with nonneg(4) show ?thesis unfolding fields by blast
qed

text \<open>Up to a day, and past a year.\<close>

lemma format_time_examples:
  "format_time 3725 = ''01h, 02m, 05s''" "format_time (- 3) = ''00h, 00m, -3s''"
  "format_time 31708806 = ''1y, 2d, 00h, 00m, 06s''"
  by code_simp+

text \<open>The first call of \<open>version_string\<close> is right; a second one would repeat the version.\<close>

lemma version_string_repeats:
  fixes v :: version
  defines "v1 \<equiv> fst (version_string v None)" and "v2 \<equiv> fst (version_string v (snd (version_string v None)))"
  shows "\<exists>number. v1 = (Inr (''Koinos Chain v'' @ number) :: 'e + string) \<and> v2 = Inr (''Koinos Chain v'' @ number @ number)"
  unfolding assms version_string_def by (simp add: Let_def)

end
