(* ===== verification/VM_Driver.thy ===== *)
theory VM_Driver
  imports Startup
begin

text \<open>
  Choosing a VM backend (\<^verbatim>\<open>vm_backend.cpp\<close>), and \<^verbatim>\<open>programs/koinos_vm_driver/main.cpp\<close>, the command line
  program that is meant to run a single contract.  Option parsing, reading the file and printing are
  not modelled: the options are a record, with the bytecode that was read from the contract file.
\<close>

section \<open>Backends\<close>

datatype vm_backend = Fizzy_vm_backend

fun backend_name :: "vm_backend \<Rightarrow> string" where
  "backend_name Fizzy_vm_backend = ''fizzy''"

definition get_vm_backends :: "vm_backend list" where
  "get_vm_backends = [Fizzy_vm_backend]"

definition get_default_vm_backend_name :: string where
  "get_default_vm_backend_name = ''fizzy''"

definition get_vm_backend :: "string \<Rightarrow> vm_backend option" where
  "get_vm_backend name = find (\<lambda>b. backend_name b = name) get_vm_backends"

section \<open>The driver\<close>

record driver_options =
  dr_help :: bool
  dr_list :: bool
  dr_contract :: "bytes option"
  dr_vm :: string
  dr_ticks :: i64

definition driver_defaults :: driver_options where
  "driver_defaults = \<lparr>dr_help = False, dr_list = False, dr_contract = None, dr_vm = [], dr_ticks = 10 * 1000 * 1000\<rparr>"

text \<open>The contract is run on a new execution context; the result is what the contract logged.\<close>

definition drive_contract ::
  "('d, 'h, 'w) sys \<Rightarrow> ('d, 'h, 'w) vm \<Rightarrow> bytes \<Rightarrow> i64 \<Rightarrow> ('d, 'h, 'w, bytes list) run" where
  "drive_contract sc run bytecode ticks =
     bindE (sc A_get_resource_limits) (\<lambda>r.
     thenE (modifyE (set_limits ((v_limits r)\<lparr>compute_bandwidth_limit := ticks\<rparr>))) (
     thenE (run bytecode [])
     (getE (\<lambda>c. ch_logs (ec_chronicler c)))))"

definition vm_driver ::
  "('d, 'h, 'w) sys \<Rightarrow> ('d, 'h, 'w) vm \<Rightarrow> 'd \<Rightarrow> driver_options \<Rightarrow> exn + exit_code \<times> bytes list" where
  "vm_driver sc run d op =
     (if dr_help op \<or> dr_list op then Inr (EXIT_SUCCESS, [])
      else case dr_contract op of
          None \<Rightarrow> Inr (EXIT_FAILURE, [])
        | Some bytecode \<Rightarrow>
            fst (catchE catchable
                   (bindE (someE (get_vm_backend (dr_vm op)) (kexn unknown_backend_exception ''Couldn't get VM backend''))
                      (\<lambda>_. bindE (drive_contract sc run bytecode (dr_ticks op)) (\<lambda>logs. returnE (EXIT_SUCCESS, logs))))
                   (\<lambda>_. returnE (EXIT_FAILURE, []))
                   (execution_context_new (module_cache_new module_cache_size) d Read_only)))"

section \<open>What it does\<close>

lemma get_vm_backend_name: "get_vm_backend name = (if name = ''fizzy'' then Some Fizzy_vm_backend else None)"
  by (simp add: get_vm_backend_def get_vm_backends_def)

text \<open>The default backend exists, which the controller relies on; the driver's default does not.\<close>

lemma default_backend_exists: "get_vm_backend get_default_vm_backend_name = Some Fizzy_vm_backend"
  by (simp add: get_vm_backend_name get_default_vm_backend_name_def)

lemma driver_default_backend_missing: "get_vm_backend (dr_vm driver_defaults) = None"
  by (simp add: get_vm_backend_name driver_defaults_def)

text \<open>A system call on a context without a state node fails before any thunk is looked up.\<close>

lemmas nodeless_unfolds =
  system_call_def with_stack_frame_def raii_def push_frame_def pop_frame_def system_call_exists_def cache_system_call_def
  need_parent_node_def get_parent_node_def stack_limit_def thenE_def bindE_def guardE_def getE_def modifyE_def someE_def
  throwE_def returnE_def

lemma nodeless_system_call:
  assumes "ec_stack c = []" and "ec_current_state_node c = None" and "ec_parent_state_node c = None"
  shows "fst (system_call E sc run a c)
    = Inl (kexn reversion_exception ''cannot build execution context cache without a state node'')"
  by (simp add: nodeless_unfolds assms)

text \<open>
  The driver never runs a contract.  The default of its option names no backend; and with a backend,
  the first thing it does with its new execution context is a system call, which needs a state node
  that the driver never sets.  Whatever contract, ticks and backend it is given, it exits with a
  failure, having executed nothing.
\<close>

theorem driver_never_runs_a_contract:
  assumes "\<not> dr_help op" and "\<not> dr_list op"
  shows "vm_driver (system_call E sc vm) run d op = Inr (EXIT_FAILURE, [])"
proof -
  let ?c = "execution_context_new (module_cache_new module_cache_size) d Read_only :: ('a, 'b, 'c) ctx"
  have "fst (system_call E sc vm A_get_resource_limits ?c)
      = Inl (kexn reversion_exception ''cannot build execution context cache without a state node'')"
    by (rule nodeless_system_call) (simp_all add: execution_context_new_def)
  then obtain c' where "system_call E sc vm A_get_resource_limits ?c
      = (Inl (kexn reversion_exception ''cannot build execution context cache without a state node''), c')"
    by (cases "system_call E sc vm A_get_resource_limits ?c") auto
  then have "fst (catchE catchable (bindE (drive_contract (system_call E sc vm) run b t) (\<lambda>logs. returnE (EXIT_SUCCESS, logs)))
      (\<lambda>_. returnE (EXIT_FAILURE, [])) ?c) = Inr (EXIT_FAILURE, [])" for b t
    by (simp add: drive_contract_def bindE_def catchE_def returnE_def kexn_def)
  moreover have "fst (catchE catchable (throwE (kexn unknown_backend_exception ''Couldn't get VM backend''))
      (\<lambda>_. returnE (EXIT_FAILURE, [])) ?c) = Inr (EXIT_FAILURE, [])"
    by (simp add: catchE_def throwE_def returnE_def kexn_def)
  ultimately show ?thesis
    using assms by (cases "dr_contract op"; cases "dr_vm op = ''fizzy''")
      (simp_all add: vm_driver_def get_vm_backend_name someE_def)
qed

end
