(* ===== verification/Spec2Isabelle.thy ===== *)
theory Spec2Isabelle
  imports Host_Results Example_Controller Example_Branches Indexer_Liveness Arg_Packing Startup VM_Driver
begin

text \<open>
  A verification library for koinos-chain, the block chain node of Koinos: the service that holds the
  chain state, applies blocks and transactions to it and runs contracts in a WebAssembly interpreter.

  \<^bold>\<open>The program.\<close>  The service program (\<^verbatim>\<open>programs/koinos_chain/main.cpp\<close>) opens a controller, replays the
  block store through the indexer and then serves requests from a message queue.  The controller
  (\<^verbatim>\<open>controller.cpp\<close>) owns the state database and applies submitted blocks and transactions, each in an
  execution context (\<^verbatim>\<open>execution_context.cpp\<close>): a call stack with privileges, the current state node, a
  resource meter, a chronicler of events and logs, and the intent.  All work is done by system calls.
  A system call is a native thunk (\<^verbatim>\<open>system_calls.cpp\<close>), or a contract that overrides it; a contract runs in
  the fizzy backend (\<^verbatim>\<open>fizzy_vm_backend.cpp\<close>) and calls back through the host API (\<^verbatim>\<open>host_api.cpp\<close>), with
  buffers in its linear memory.  So thunks, contracts and host calls call one another recursively, and
  the call stack is limited to 256 frames.

  \<^bold>\<open>The model.\<close>  Stateful code is a computation in the error and state monad of \<^theory_text>\<open>Chain_Prelude\<close>: a
  function from a state to a result and a new state, where \<open>Inl\<close> carries a thrown exception.
  Exceptions are values (\<^theory_text>\<open>Protocol\<close>) with the class hierarchy of \<^verbatim>\<open>exceptions.hpp\<close>; three further
  values mark runs that leave the behaviour of the program: undefined behaviour, \<open>std::terminate\<close>,
  and the end of an unfolding.  Code that is not in this repository is a parameter: the records \<open>env\<close>
  (serialisation, crypto, the state database, the interpreter), \<open>services\<close> (message queue and block store),
  \<open>wire\<close> (message codecs), \<open>platform\<close> (option and file formats), \<open>reflection\<close> and \<open>message_reflection\<close> (protobuf), \<open>sources\<close> (what the
  indexer asks).  What is relied on is a named predicate over such a record, and there is a concrete
  record that satisfies it.  Machine integers are words of their width.

  \<^item> \<^theory_text>\<open>Chain_Prelude\<close>, \<^theory_text>\<open>Machine_Words\<close>: the monad, the effect logic \<open>spec\<close> (a relation between the
    states before and after, and the exceptions allowed), and facts about words.
  \<^item> \<^theory_text>\<open>Session\<close>, \<^theory_text>\<open>Resource_Meter\<close>, \<^theory_text>\<open>Chronicler\<close>: the accounting.  A session is a budget; charges
    are exact at 64 bits; events stay numbered and complete.
  \<^item> \<^theory_text>\<open>Proto_Utils\<close>, \<^theory_text>\<open>State_Space\<close>, \<^theory_text>\<open>World\<close>: reading fields by name, spaces and keys, and the
    environment with the arguments and results of all system calls.
  \<^item> \<^theory_text>\<open>Module_Cache\<close>: the cache of parsed modules with its iterators, refining an LRU cache.
  \<^item> \<^theory_text>\<open>Thunk_Registry\<close>, \<^theory_text>\<open>Execution_Context\<close>, \<^theory_text>\<open>Thunks\<close>, \<^theory_text>\<open>Apply\<close>, \<^theory_text>\<open>Dispatch\<close>, \<^theory_text>\<open>Host_Api\<close>,
    \<^theory_text>\<open>Fizzy_Backend\<close>, \<^theory_text>\<open>Kernel\<close>: the system call layer, all 46 thunks included, tied together by
    \<open>kernel n\<close>, which unfolds the recursion \<open>n\<close> times.
  \<^item> \<^theory_text>\<open>Arg_Packing\<close>: the argument messages of system calls over protobuf reflection, and that the typed
    arguments of the model represent them faithfully.  \<^theory_text>\<open>Result_Types\<close>: that results have their
    declared types.
  \<^item> \<^theory_text>\<open>Controller\<close>, \<^theory_text>\<open>Submission\<close>, \<^theory_text>\<open>Service\<close>: the requests of the controller, the submission of
    blocks and transactions with every failure path, and the message handlers of the service program.
  \<^item> \<^theory_text>\<open>Startup\<close>, \<^theory_text>\<open>Log_Texts\<close>: the options, paths and checks of the service program, its run and exit code,
    and the texts it prints.
  \<^item> \<^theory_text>\<open>Indexer\<close>: the two chains of tasks and the signal handler, as a step relation over all
    interleavings.
  \<^item> \<^theory_text>\<open>Replay\<close>: the indexer on the controller: what indexing does to the node.
  \<^item> \<^theory_text>\<open>VM_Driver\<close>: the choice of a backend and the command line driver.
  \<^item> \<^theory_text>\<open>Example_Env\<close>, \<^theory_text>\<open>Example_Controller\<close>, \<^theory_text>\<open>Example_Branches\<close>: concrete environments and witnesses; the last
    has a small state database with temporary nodes.

  \<^bold>\<open>Interfaces and effects.\<close>  What a thunk does to its context depends on the system calls and the VM it
  is given.  The locales of \<^theory_text>\<open>Thunk_Effects\<close> and \<^theory_text>\<open>Kernel_Effects\<close> fix these with the effects they are
  allowed, and prove once that every thunk, the dispatcher, the host API and the backend then have the
  same effect, and that the thunks write only to nodes they may write to and commit only nodes they made;
  their interpretations in \<^theory_text>\<open>Kernel_Safety\<close>, \<^theory_text>\<open>Host_Props\<close> and \<^theory_text>\<open>Node_Isolation\<close> take the effects that
  make the program safe: balanced stacks, no writes in read-only contexts, intact ledgers, no access outside the
  linear memory, no writes to the nodes of blocks.  In the same way \<open>request_effect\<close> and \<open>submission_effect\<close> of \<^theory_text>\<open>Controller_Effects\<close>
  cover the requests, and are interpreted for requests that change nothing, for answers to every
  request and for the controller's invariant.

  \<^bold>\<open>What is shown.\<close>  The properties are numbered \<open>C1\<close> to \<open>C40\<close> in the theories.
  \<^item> The system call layer: termination within the stack limit, read-only contexts, memory safety of host
    calls, permissions of object writes, intact ledgers, objects that are read back, nonces that cannot be
    used twice, results that reach the contract's return buffer, argument packing and result types (\<^theory_text>\<open>Kernel_Safety\<close>, \<^theory_text>\<open>Host_Props\<close>, \<^theory_text>\<open>Thunk_Props\<close>,
    \<^theory_text>\<open>Native_Calls\<close>, \<^theory_text>\<open>Host_Results\<close>, \<^theory_text>\<open>Arg_Packing\<close>, \<^theory_text>\<open>Result_Types\<close>).
  \<^item> Transactions and blocks: what was checked and paid for when one applies, how reversions and failures
    travel, and which receipts are left (\<^theory_text>\<open>Transaction_Props\<close>).
  \<^item> The controller: reads change nothing, every request is answered, its invariant, what an accepted block
    satisfies, what is announced, that transactions leave the chain alone, genesis, the buffer of direct
    calls (\<^theory_text>\<open>Controller_Props\<close>, \<^theory_text>\<open>Submission_Props\<close>, \<^theory_text>\<open>Transaction_Requests\<close>, \<^theory_text>\<open>Node_Isolation\<close>,
    \<^theory_text>\<open>Request_Props\<close>); the configuration the service starts with (\<^theory_text>\<open>Startup\<close>).
  \<^item> The indexer: blocks are submitted in order and completely, every run comes to rest within a bound, and
    the state in which it waits forever (\<^theory_text>\<open>Indexer_Props\<close>, \<^theory_text>\<open>Indexer_Liveness\<close>).
  \<^item> The accounting, the caches and the field access (in their own theories).
  Some theorems show behaviour that cannot be meant: a block that stays behind unapplied when its
  parent's head information cannot be read; receipts filed or erased by refused calls; a stale result
  returned by a contract that does not exit; the default meter; the indexer's lost wake-up; the search
  for the head block among the fork heads that never moves; the driver that never runs a contract; a
  genesis file that is not JSON and is not noticed.

  \<^bold>\<open>Fuel.\<close>  \<open>kernel n\<close> is the only bounded unfolding.  Every turn of the recursion pushes a frame, and
  the theorems on termination show that with \<open>n\<close> at least the stack limit of 256 the mark for an exhausted
  unfolding never occurs.  Theorems about \<open>ksys n E\<close> for any \<open>n\<close> do not need that.  Executions of
  modules are finite because they are metered: the datatype \<open>wasm_run\<close> says so.

  \<^bold>\<open>Not modelled.\<close>  Console logging, and the parameter \<open>index_to\<close>, which only selects log messages.  Locks: an operation of the controller runs to its end before the next; the
  indexer is modelled with its interleavings.  Command line, YAML and JSON parsing, threads and the AMQP
  transport of the service program, which are calls of libraries.  Freeing of interpreter objects.  The
  class \<open>controller\<close> itself, which only forwards to \<open>controller_impl\<close>.  The generated messages and
  enumeration numbers of koinos-proto, which are not in the repository.
\<close>

end
